(* ===== verification/Prelude.thy ===== *)
theory Prelude
  imports Main "HOL-Library.AList" "HOL-Library.Sublist"
begin

text \<open>
  What every component shares: Go's error values, results of fallible calls, and the
  collections of rewrite rules the component proofs use.

  A Go function that returns \<open>(T, error)\<close> returns \<open>goerr + T\<close> here: \<open>Inl e\<close> for a non-nil
  error (the other result is then not used by any caller of this code base), \<open>Inr x\<close> for a
  nil one. A Go function that returns just \<open>error\<close> returns \<open>goerr option\<close>, \<open>None\<close> for nil.
\<close>

section \<open>Error values\<close>

text \<open>
  An \<open>error\<close> is a value. The constructors are the ways an error comes into being in this
  code base: \<open>ErrNew\<close> for \<open>errors.New\<close>, \<open>errors.Errorf\<close> and \<open>fmt.Errorf\<close>, \<open>ErrWrap\<close> for
  \<open>errors.Wrap\<close> around an inner error, \<open>ErrStatus\<close> for an answer of the Kubernetes API server
  with its reason, \<open>ErrReleaseNotFound\<close> for Helm's \<open>driver.ErrReleaseNotFound\<close>, \<open>ErrExt\<close> for
  any other error a library returns. \<open>ErrPanic\<close> is not an error value of Go: it stands for a
  run-time panic (a nil pointer dereference), which no \<open>errors.Wrap\<close> ever sees.
\<close>

datatype api_reason = ReasonNotFound | ReasonAlreadyExists | ReasonOther string

datatype goerr =
    ErrNew string
  | ErrWrap goerr string
  | ErrStatus api_reason string
  | ErrReleaseNotFound
  | ErrExt string
  | ErrPanic string

text \<open>\<open>errors.Wrap(err, msg)\<close> for a non-nil \<open>err\<close>; a panic goes through it untouched.\<close>

fun Wrap :: "goerr \<Rightarrow> string \<Rightarrow> goerr" where
  "Wrap (ErrPanic p) msg = ErrPanic p"
| "Wrap e msg = ErrWrap e msg"

text \<open>\<open>errors.Wrap(err, msg)\<close> where \<open>err\<close> may be nil: it returns nil for nil.\<close>

definition WrapNil :: "goerr option \<Rightarrow> string \<Rightarrow> goerr option" where
  "WrapNil e msg = map_option (\<lambda>x. Wrap x msg) e"

text \<open>\<open>errors.Cause(err)\<close>: the innermost error of the chain of wraps.\<close>

fun Cause :: "goerr \<Rightarrow> goerr" where
  "Cause (ErrWrap e msg) = Cause e"
| "Cause e = e"

text \<open>\<open>kerrors.IsNotFound\<close> and \<open>kerrors.IsAlreadyExists\<close> look for an API status along the chain.\<close>

fun ReasonForError :: "goerr \<Rightarrow> api_reason option" where
  "ReasonForError (ErrWrap e msg) = ReasonForError e"
| "ReasonForError (ErrStatus r msg) = Some r"
| "ReasonForError e = None"

definition IsNotFound :: "goerr \<Rightarrow> bool" where
  "IsNotFound e \<longleftrightarrow> ReasonForError e = Some ReasonNotFound"

definition IsAlreadyExists :: "goerr \<Rightarrow> bool" where
  "IsAlreadyExists e \<longleftrightarrow> ReasonForError e = Some ReasonAlreadyExists"

text \<open>\<open>errors.Is(err, driver.ErrReleaseNotFound)\<close>: the sentinel somewhere in the chain.\<close>

fun IsReleaseNotFound :: "goerr \<Rightarrow> bool" where
  "IsReleaseNotFound (ErrWrap e msg) = IsReleaseNotFound e"
| "IsReleaseNotFound ErrReleaseNotFound = True"
| "IsReleaseNotFound e = False"

fun IsPanic :: "goerr \<Rightarrow> bool" where
  "IsPanic (ErrPanic p) = True"
| "IsPanic e = False"

lemma IsPanic_Wrap [simp]: "IsPanic (Wrap e msg) = IsPanic e"
  by (cases e) auto

lemma Wrap_not_panic: "\<not> IsPanic e \<Longrightarrow> Wrap e msg = ErrWrap e msg"
  by (cases e) auto

lemma WrapNil_None [simp]: "WrapNil None msg = None"
  by (simp add: WrapNil_def)

lemma WrapNil_Some [simp]: "WrapNil (Some e) msg = Some (Wrap e msg)"
  by (simp add: WrapNil_def)

lemma WrapNil_eq_None [simp]: "WrapNil e msg = None \<longleftrightarrow> e = None"
  by (simp add: WrapNil_def)

lemma ReasonForError_Cause [simp]: "ReasonForError (Cause e) = ReasonForError e"
  by (induction e) auto

lemma IsNotFound_Cause [simp]: "IsNotFound (Cause e) = IsNotFound e"
  by (simp add: IsNotFound_def)

lemma ReasonForError_Wrap [simp]: "ReasonForError (Wrap e msg) = ReasonForError e"
  by (cases e) auto

lemma IsNotFound_Wrap [simp]: "IsNotFound (Wrap e msg) = IsNotFound e"
  by (simp add: IsNotFound_def)

lemma IsNotFound_simps [simp]:
  "\<not> IsNotFound (ErrNew m)"
  "IsNotFound (ErrStatus ReasonNotFound m)"
  "\<not> IsNotFound (ErrExt m)"
  "\<not> IsNotFound (ErrPanic m)"
  "\<not> IsNotFound ErrReleaseNotFound"
  by (simp_all add: IsNotFound_def)

lemma IsReleaseNotFound_Wrap [simp]: "IsReleaseNotFound (Wrap e msg) = IsReleaseNotFound e"
  by (cases e) auto

section \<open>Sequencing fallible calls\<close>

text \<open>\<open>x, err := f(); if err != nil { return ..., err }; ...\<close>\<close>

definition bindE :: "goerr + 'a \<Rightarrow> ('a \<Rightarrow> goerr + 'b) \<Rightarrow> goerr + 'b" where
  "bindE r f = (case r of Inl e \<Rightarrow> Inl e | Inr x \<Rightarrow> f x)"

text \<open>\<open>x, err := f(); if err != nil { return ..., errors.Wrap(err, msg) }; ...\<close>\<close>

definition wrapE :: "goerr + 'a \<Rightarrow> string \<Rightarrow> goerr + 'a" where
  "wrapE r msg = (case r of Inl e \<Rightarrow> Inl (Wrap e msg) | Inr x \<Rightarrow> Inr x)"

lemma bindE_simps [simp]: "bindE (Inl e) f = Inl e" "bindE (Inr x) f = f x"
  by (simp_all add: bindE_def)

lemma wrapE_simps [simp]: "wrapE (Inl e) msg = Inl (Wrap e msg)" "wrapE (Inr x) msg = Inr x"
  by (simp_all add: wrapE_def)

lemma bindE_split:
  "P (bindE r f) \<longleftrightarrow> (\<forall>e. r = Inl e \<longrightarrow> P (Inl e)) \<and> (\<forall>x. r = Inr x \<longrightarrow> P (f x))"
  by (cases r) auto

lemma bindE_eq_Inr [simp]: "bindE r f = Inr y \<longleftrightarrow> (\<exists>x. r = Inr x \<and> f x = Inr y)"
  by (cases r) auto

lemma bindE_eq_Inl: "bindE r f = Inl e \<longleftrightarrow> r = Inl e \<or> (\<exists>x. r = Inr x \<and> f x = Inl e)"
  by (cases r) auto

lemma wrapE_eq_Inr [simp]: "wrapE r msg = Inr y \<longleftrightarrow> r = Inr y"
  by (cases r) auto

lemma wrapE_eq_Inl: "wrapE r msg = Inl e \<longleftrightarrow> (\<exists>e'. r = Inl e' \<and> e = Wrap e' msg)"
  by (cases r) auto

lemma bindE_cong [fundef_cong]:
  "r = r' \<Longrightarrow> (\<And>x. r' = Inr x \<Longrightarrow> f x = f' x) \<Longrightarrow> bindE r f = bindE r' f'"
  by (cases r') auto

section \<open>Maps kept as association lists\<close>

text \<open>
  Go's \<open>m[k] = v\<close>. A Go map whose entries are iterated over is an association list with
  distinct keys (\<open>distinct (map fst m)\<close>); \<open>map_of m k\<close> is \<open>v, ok := m[k]\<close>.
\<close>

abbreviation put :: "('k \<times> 'v) list \<Rightarrow> 'k \<Rightarrow> 'v \<Rightarrow> ('k \<times> 'v) list" where
  "put m k v \<equiv> AList.update k v m"

lemma map_of_put [simp]: "map_of (put m k v) = (map_of m)(k \<mapsto> v)"
  by (rule AList.update_conv')

lemma distinct_put: "distinct (map fst m) \<Longrightarrow> distinct (map fst (put m k v))"
  by (rule AList.distinct_update)

lemma set_put: "set (put m k v) \<subseteq> insert (k, v) (set m)"
  by (induction m) auto

lemma fst_set_put: "fst ` set (put m k v) = insert k (fst ` set m)"
  by (simp add: dom_map_of_conv_image_fst [symmetric])

end
