(* ===== verification/Go_Strings.thy ===== *)
theory Go_Strings
  imports Prelude
begin

text \<open>
  The functions of Go's package \<open>strings\<close> that the program calls, on byte strings
  (\<open>string\<close> is a list of 8-bit characters, as a Go string is a sequence of bytes).
  An index is \<open>Some i\<close>; Go's \<open>-1\<close> is \<open>None\<close>.
\<close>

definition HasPrefix :: "string \<Rightarrow> string \<Rightarrow> bool" where
  "HasPrefix s p = prefix p s"

definition HasSuffix :: "string \<Rightarrow> string \<Rightarrow> bool" where
  "HasSuffix s p = prefix (rev p) (rev s)"

definition TrimPrefix :: "string \<Rightarrow> string \<Rightarrow> string" where
  "TrimPrefix s p = (if HasPrefix s p then drop (length p) s else s)"

definition TrimSuffix :: "string \<Rightarrow> string \<Rightarrow> string" where
  "TrimSuffix s p = (if HasSuffix s p then take (length s - length p) s else s)"

fun IndexByte :: "string \<Rightarrow> char \<Rightarrow> nat option" where
  "IndexByte [] c = None"
| "IndexByte (x # xs) c = (if x = c then Some 0 else map_option Suc (IndexByte xs c))"

fun LastIndexByte :: "string \<Rightarrow> char \<Rightarrow> nat option" where
  "LastIndexByte [] c = None"
| "LastIndexByte (x # xs) c =
     (case LastIndexByte xs c of
        Some i \<Rightarrow> Some (Suc i)
      | None \<Rightarrow> (if x = c then Some 0 else None))"

text \<open>\<open>strings.Cut(s, sep)\<close> for a separator of one byte: before, after, found.\<close>

definition Cut :: "string \<Rightarrow> char \<Rightarrow> string \<times> string \<times> bool" where
  "Cut s c = (case IndexByte s c of
     Some i \<Rightarrow> (take i s, drop (Suc i) s, True)
   | None \<Rightarrow> (s, [], False))"

text \<open>\<open>strings.Join(elems, sep)\<close>\<close>

fun JoinWith :: "string list \<Rightarrow> string \<Rightarrow> string" where
  "JoinWith [] sep = []"
| "JoinWith [x] sep = x"
| "JoinWith (x # y # xs) sep = x @ sep @ JoinWith (y # xs) sep"

section \<open>TrimSpace\<close>

text \<open>
  \<open>strings.TrimSpace\<close> removes leading and trailing Unicode white space. A white space code
  point is one of these byte sequences (its UTF-8 encoding).
\<close>

definition spaceEncodings :: "string list" where
  "spaceEncodings =
     map (\<lambda>n. [char_of n]) [9, 10, 11, 12, 13, 32 :: nat]
     @ map (map char_of)
       ([[0xC2, 0x85], [0xC2, 0xA0], [0xE1, 0x9A, 0x80],
         [0xE2, 0x80, 0x80], [0xE2, 0x80, 0x81], [0xE2, 0x80, 0x82], [0xE2, 0x80, 0x83],
         [0xE2, 0x80, 0x84], [0xE2, 0x80, 0x85], [0xE2, 0x80, 0x86], [0xE2, 0x80, 0x87],
         [0xE2, 0x80, 0x88], [0xE2, 0x80, 0x89], [0xE2, 0x80, 0x8A], [0xE2, 0x80, 0xA8],
         [0xE2, 0x80, 0xA9], [0xE2, 0x80, 0xAF], [0xE2, 0x81, 0x9F],
         [0xE3, 0x80, 0x80]] :: nat list list)"

text \<open>The length of the white space encoding at the start of a string, 0 when there is none.\<close>

definition leadingSpace :: "string list \<Rightarrow> string \<Rightarrow> nat" where
  "leadingSpace ws s = (case find (\<lambda>w. prefix w s) ws of Some w \<Rightarrow> length w | None \<Rightarrow> 0)"

function trimLeading :: "string list \<Rightarrow> string \<Rightarrow> string" where
  "trimLeading ws s =
     (if leadingSpace ws s = 0 \<or> s = [] then s else trimLeading ws (drop (leadingSpace ws s) s))"
  by pat_completeness auto
termination
  by (relation "measure (\<lambda>(ws, s). length s)") auto

declare trimLeading.simps [simp del]

definition TrimSpace :: "string \<Rightarrow> string" where
  "TrimSpace s =
     rev (trimLeading (map rev spaceEncodings) (rev (trimLeading spaceEncodings s)))"

section \<open>EqualFold\<close>

text \<open>
  \<open>strings.EqualFold\<close> is used only with a lower-case hexadecimal digest on one side, where
  Unicode case folding is the folding of the ASCII letters.
\<close>

definition toLowerASCII :: "char \<Rightarrow> char" where
  "toLowerASCII c =
     (let n = (of_char c :: nat) in if 65 \<le> n \<and> n \<le> 90 then char_of (n + 32) else c)"

definition EqualFold :: "string \<Rightarrow> string \<Rightarrow> bool" where
  "EqualFold s t \<longleftrightarrow> map toLowerASCII s = map toLowerASCII t"

section \<open>Facts\<close>

lemma HasPrefix_append [simp]: "HasPrefix (p @ s) p"
  by (simp add: HasPrefix_def)

lemma HasPrefix_iff: "HasPrefix s p \<longleftrightarrow> (\<exists>t. s = p @ t)"
  by (auto simp: HasPrefix_def prefix_def)

lemma HasSuffix_append [simp]: "HasSuffix (s @ p) p"
  by (simp add: HasSuffix_def)

lemma HasSuffix_iff: "HasSuffix s p \<longleftrightarrow> (\<exists>t. s = t @ p)"
proof -
  have "HasSuffix s p \<longleftrightarrow> (\<exists>t. rev s = rev p @ t)"
    by (simp add: HasSuffix_def prefix_def)
  also have "\<dots> \<longleftrightarrow> (\<exists>t. s = t @ p)"
    by (metis rev_append rev_rev_ident)
  finally show ?thesis .
qed

lemma TrimPrefix_append [simp]: "TrimPrefix (p @ s) p = s"
  by (simp add: TrimPrefix_def)

lemma TrimSuffix_append [simp]: "TrimSuffix (s @ p) p = s"
  by (simp add: TrimSuffix_def)

lemma TrimSuffix_id: "\<not> HasSuffix s p \<Longrightarrow> TrimSuffix s p = s"
  by (simp add: TrimSuffix_def)

lemma IndexByte_None: "IndexByte s c = None \<longleftrightarrow> c \<notin> set s"
  by (induction s) auto

lemma IndexByte_notin [simp]: "c \<notin> set s \<Longrightarrow> IndexByte s c = None"
  by (induction s) auto

lemma IndexByte_Some:
  "IndexByte s c = Some i \<Longrightarrow> i < length s \<and> s ! i = c \<and> c \<notin> set (take i s)"
  by (induction s arbitrary: i) (auto split: if_splits)

lemma IndexByte_append: "c \<notin> set a \<Longrightarrow> IndexByte (a @ c # b) c = Some (length a)"
  by (induction a) auto

lemma LastIndexByte_None: "LastIndexByte s c = None \<longleftrightarrow> c \<notin> set s"
  by (induction s) (auto split: option.splits if_splits)

lemma LastIndexByte_notin [simp]: "c \<notin> set s \<Longrightarrow> LastIndexByte s c = None"
  by (induction s) auto

lemma LastIndexByte_append_notin:
  "c \<notin> set b \<Longrightarrow> LastIndexByte (a @ c # b) c = Some (length a)"
proof (induction a)
  case Nil
  then show ?case by simp
next
  case (Cons x a)
  then show ?case by simp
qed

lemma LastIndexByte_Some:
  "LastIndexByte s c = Some i \<Longrightarrow> i < length s \<and> s ! i = c \<and> c \<notin> set (drop (Suc i) s)"
proof (induction s arbitrary: i)
  case Nil
  then show ?case by simp
next
  case (Cons a s)
  show ?case
  proof (cases "LastIndexByte s c")
    case None
    with Cons.prems show ?thesis by (auto simp: LastIndexByte_None split: if_splits)
  next
    case (Some j)
    with Cons.IH [OF Some] Cons.prems show ?thesis by auto
  qed
qed

lemma IndexByte_split: "IndexByte s c = Some i \<Longrightarrow> s = take i s @ c # drop (Suc i) s"
  using IndexByte_Some by (metis id_take_nth_drop)

lemma LastIndexByte_split: "LastIndexByte s c = Some i \<Longrightarrow> s = take i s @ c # drop (Suc i) s"
  using LastIndexByte_Some by (metis id_take_nth_drop)

lemma Cut_found: "c \<notin> set a \<Longrightarrow> Cut (a @ c # b) c = (a, b, True)"
  by (simp add: Cut_def IndexByte_append)

lemma Cut_notfound: "c \<notin> set s \<Longrightarrow> Cut s c = (s, [], False)"
  by (simp add: Cut_def)

lemma EqualFold_refl [simp]: "EqualFold s s"
  by (simp add: EqualFold_def)

lemma EqualFold_sym: "EqualFold s t \<longleftrightarrow> EqualFold t s"
  by (auto simp: EqualFold_def)

lemma trimLeading_id: "leadingSpace ws s = 0 \<Longrightarrow> trimLeading ws s = s"
  by (simp add: trimLeading.simps [of ws s])

lemma trimLeading_suffix: "\<exists>p. s = p @ trimLeading ws s"
proof (induction ws s rule: trimLeading.induct)
  case (1 ws s)
  show ?case
  proof (cases "leadingSpace ws s = 0 \<or> s = []")
    case True
    then show ?thesis by (auto simp: trimLeading.simps [of ws s])
  next
    case False
    with "1.IH" obtain p where
      "drop (leadingSpace ws s) s = p @ trimLeading ws (drop (leadingSpace ws s) s)" by auto
    then have "s = (take (leadingSpace ws s) s @ p) @ trimLeading ws (drop (leadingSpace ws s) s)"
      by (metis append_assoc append_take_drop_id)
    with False show ?thesis by (metis trimLeading.simps)
  qed
qed

end
