(* ===== verification/Go_Paths.thy ===== *)
theory Go_Paths
  imports Go_Strings
begin

text \<open>
  The lexical functions of Go's packages \<open>path\<close> and \<open>path/filepath\<close> (on Unix the two agree):
  \<open>Base\<close>, \<open>Clean\<close> and \<open>Join\<close>.
\<close>

abbreviation slash :: char where "slash \<equiv> CHR ''/''"

fun splitOn :: "char \<Rightarrow> string \<Rightarrow> string list" where
  "splitOn c [] = [[]]"
| "splitOn c (x # xs) =
     (if x = c then [] # splitOn c xs
      else (case splitOn c xs of [] \<Rightarrow> [[x]] | y # ys \<Rightarrow> (x # y) # ys))"

text \<open>
  \<open>Base\<close>: trailing slashes are removed, then everything up to the last slash; an empty path
  gives \<open>.\<close> and a path of slashes only gives \<open>/\<close>.
\<close>

definition Base :: "string \<Rightarrow> string" where
  "Base p =
     (if p = [] then ''.''
      else let q = dropWhile (\<lambda>c. c = slash) (rev p) in
        if q = [] then ''/'' else rev (takeWhile (\<lambda>c. c \<noteq> slash) q))"

text \<open>
  \<open>Clean\<close> reads the elements from left to right and keeps the cleaned path as a stack, its
  last element first: empty elements and \<open>.\<close> are dropped, \<open>..\<close> removes the element before it,
  is dropped at the root, and is kept at the start of a relative path.
\<close>

definition cleanStep :: "bool \<Rightarrow> string list \<Rightarrow> string \<Rightarrow> string list" where
  "cleanStep rooted st e =
     (if e = [] \<or> e = ''.'' then st
      else if e = ''..'' then
        (case st of
           [] \<Rightarrow> (if rooted then [] else [''..''])
         | x # xs \<Rightarrow> (if x = ''..'' then ''..'' # st else xs))
      else e # st)"

definition Clean :: "string \<Rightarrow> string" where
  "Clean p =
     (if p = [] then ''.''
      else let rooted = (hd p = slash);
               body = JoinWith (rev (foldl (cleanStep rooted) [] (splitOn slash p))) ''/''
           in if rooted then slash # body else if body = [] then ''.'' else body)"

text \<open>\<open>filepath.Join\<close>: leading empty elements are ignored, the rest joined and cleaned.\<close>

fun JoinPath :: "string list \<Rightarrow> string" where
  "JoinPath [] = []"
| "JoinPath (e # es) = (if e = [] then JoinPath es else Clean (JoinWith (e # es) ''/''))"

section \<open>Facts\<close>

lemma splitOn_nonempty [simp]: "splitOn c s \<noteq> []"
  by (induction s) (auto split: list.splits)

lemma splitOn_notin [simp]: "c \<notin> set s \<Longrightarrow> splitOn c s = [s]"
  by (induction s) auto

lemma splitOn_append: "splitOn c (a @ c # b) = splitOn c a @ splitOn c b"
proof (induction a)
  case Nil
  show ?case by simp
next
  case (Cons x a)
  show ?case
    by (cases "splitOn c a") (use Cons in \<open>auto split: list.splits\<close>)
qed

lemma Base_append: "c \<noteq> [] \<Longrightarrow> slash \<notin> set c \<Longrightarrow> Base (a @ slash # c) = c"
proof -
  assume c: "c \<noteq> []" "slash \<notin> set c"
  then obtain x xs where x: "rev c = x # xs" "x \<noteq> slash"
    by (metis in_set_conv_decomp list.exhaust rev_is_Nil_conv set_rev self_append_conv2)
  have "takeWhile (\<lambda>c. c \<noteq> slash) (rev c @ slash # rev a) = rev c"
    using c by (subst takeWhile_append2) auto
  with x show ?thesis by (simp add: Base_def)
qed

lemma Base_notin: "c \<noteq> [] \<Longrightarrow> slash \<notin> set c \<Longrightarrow> Base c = c"
proof -
  assume c: "c \<noteq> []" "slash \<notin> set c"
  then obtain x xs where x: "rev c = x # xs" "x \<noteq> slash"
    by (metis in_set_conv_decomp list.exhaust rev_is_Nil_conv set_rev self_append_conv2)
  have "takeWhile (\<lambda>c. c \<noteq> slash) (rev c) = rev c"
    using c by (subst takeWhile_eq_all_conv) auto
  with x c show ?thesis by (simp add: Base_def)
qed

text \<open>The result of \<open>Base\<close> is one path element, or the root.\<close>

lemma Base_element: "Base p = ''/'' \<or> (Base p \<noteq> [] \<and> slash \<notin> set (Base p))"
proof -
  define q where "q = dropWhile (\<lambda>c. c = slash) (rev p)"
  show ?thesis
  proof (cases "p = [] \<or> q = []")
    case True
    then show ?thesis by (auto simp: Base_def q_def)
  next
    case False
    then have "hd q \<noteq> slash" using hd_dropWhile [of "\<lambda>c. c = slash" "rev p"] q_def by blast
    with False have "takeWhile (\<lambda>c. c \<noteq> slash) q \<noteq> []" by (cases q) auto
    moreover have "slash \<notin> set (takeWhile (\<lambda>c. c \<noteq> slash) q)"
      by (auto dest: set_takeWhileD)
    ultimately show ?thesis using False by (simp add: Base_def q_def)
  qed
qed

lemma Base_idem: "Base (Base p) = Base p"
proof (cases "Base p = ''/''")
  case True
  then show ?thesis by (simp add: Base_def)
next
  case False
  then show ?thesis using Base_element [of p] Base_notin by blast
qed

text \<open>
  What joining one element to a directory yields: the directory itself, its parent, or a path
  one level below it. The hypothesis says that the directory is a cleaned absolute path with
  elements \<open>ds\<close>.
\<close>

definition absPath :: "string list \<Rightarrow> string" where
  "absPath ds = slash # JoinWith ds ''/''"

definition plainElem :: "string \<Rightarrow> bool" where
  "plainElem e \<longleftrightarrow> e \<noteq> [] \<and> slash \<notin> set e \<and> e \<noteq> ''.'' \<and> e \<noteq> ''..''"

lemma cleanStep_plain: "plainElem e \<Longrightarrow> cleanStep r st e = e # st"
  by (simp add: cleanStep_def plainElem_def)

lemma foldl_cleanStep_plain:
  "list_all plainElem ds \<Longrightarrow> foldl (cleanStep r) st ds = rev ds @ st"
  by (induction ds arbitrary: st) (auto simp: cleanStep_plain)

lemma splitOn_JoinWith:
  "list_all plainElem ds \<Longrightarrow> ds \<noteq> [] \<Longrightarrow> splitOn slash (JoinWith ds ''/'') = ds"
proof (induction ds rule: induct_list012)
  case (3 x y xs)
  then have "splitOn slash (x @ slash # JoinWith (y # xs) ''/'') = splitOn slash x @ (y # xs)"
    by (simp add: splitOn_append)
  with 3 show ?case by (simp add: plainElem_def)
qed (auto simp: plainElem_def)

lemma JoinWith_snoc:
  "ds \<noteq> [] \<Longrightarrow> JoinWith (ds @ [e]) sep = JoinWith ds sep @ sep @ e"
  by (induction ds sep rule: JoinWith.induct) auto

text \<open>The elements of the path after cleaning an absolute path.\<close>

lemma Clean_abs:
  "Clean (slash # s) = absPath (rev (foldl (cleanStep True) [] (splitOn slash s)))"
  by (simp add: Clean_def absPath_def cleanStep_def)

lemma Join_elem:
  assumes "list_all plainElem ds" and "ds \<noteq> []" and "slash \<notin> set e"
  shows "JoinPath [absPath ds, e] = absPath (rev (cleanStep True (rev ds) e))"
proof -
  have "splitOn slash (JoinWith ds ''/'' @ slash # e) = ds @ [e]"
    using assms by (simp add: splitOn_append splitOn_JoinWith)
  then show ?thesis
    using foldl_cleanStep_plain [OF assms(1), of True "[]"]
    by (simp add: absPath_def Clean_abs del: splitOn.simps)
qed

lemma Join_plain:
  assumes "list_all plainElem ds" and "ds \<noteq> []" and "plainElem e"
  shows "JoinPath [absPath ds, e] = absPath ds @ slash # e"
  using Join_elem [OF assms(1,2), of e] assms
  by (simp add: cleanStep_plain plainElem_def [of e] absPath_def JoinWith_snoc)

lemma Join_root:
  assumes "list_all plainElem ds" and "ds \<noteq> []"
  shows "JoinPath [absPath ds, ''/''] = absPath ds"
proof -
  have "splitOn slash (JoinWith ds ''/'' @ slash # slash # []) = ds @ [[], []]"
    using assms by (simp add: splitOn_append splitOn_JoinWith)
  moreover have "foldl (cleanStep True) [] (ds @ [[], []]) = rev ds"
    using foldl_cleanStep_plain [OF assms(1), of True "[]"] by (simp add: cleanStep_def)
  ultimately show ?thesis
    by (simp add: absPath_def Clean_abs del: splitOn.simps)
qed

lemma Join_dot:
  assumes "list_all plainElem ds" and "ds \<noteq> []"
  shows "JoinPath [absPath ds, ''.''] = absPath ds"
  using Join_elem [OF assms, of "''.''"] by (simp add: cleanStep_def)

text \<open>The value of joining \<open>Base p\<close> for any \<open>p\<close>: the one element that leaves the directory is \<open>..\<close>.\<close>

lemma Join_Base:
  assumes ds: "list_all plainElem ds" "ds \<noteq> []" and "Base p \<noteq> ''..''"
  shows "JoinPath [absPath ds, Base p] = absPath ds \<or>
    (plainElem (Base p) \<and> JoinPath [absPath ds, Base p] = absPath ds @ slash # Base p)"
proof -
  consider "Base p = ''/''" | "Base p = ''.''" | "plainElem (Base p)"
    using Base_element [of p] assms(3) by (auto simp: plainElem_def)
  then show ?thesis
  proof cases
    case 1
    then show ?thesis using Join_root [OF ds] by (simp only: simp_thms)
  next
    case 2
    then show ?thesis using Join_dot [OF ds] by (simp only: simp_thms)
  next
    case 3
    then show ?thesis using Join_plain [OF ds] by (simp only: simp_thms)
  qed
qed

end
