(* ===== verification/Go_Url.thy ===== *)
theory Go_Url
  imports Go_Paths
begin

text \<open>
  The part of Go's package \<open>net/url\<close> that the Helm client uses: \<open>Parse\<close> and \<open>URL.String\<close>, as of
  Go 1.26. What \<open>Parse\<close> makes of a host in brackets (an IP literal, checked by \<open>net/netip\<close>) is a
  parameter; everything else is written out.
\<close>

section \<open>Escaping\<close>

datatype encoding = encodePath | encodeUserPassword | encodeHost | encodeFragment

definition alnum :: "char \<Rightarrow> bool" where
  "alnum c \<longleftrightarrow>
     (let n = (of_char c :: nat) in 48 \<le> n \<and> n \<le> 57 \<or> 65 \<le> n \<and> n \<le> 90 \<or> 97 \<le> n \<and> n \<le> 122)"

definition shouldEscape :: "char \<Rightarrow> encoding \<Rightarrow> bool" where
  "shouldEscape c mode \<longleftrightarrow>
     (if alnum c then False
      else if mode = encodeHost \<and> c \<in> set (CHR 0x22 # CHR 0x27 # ''!$&()*+,;=:[]<>'') then False
      else if c \<in> set ''-_.~'' then False
      else if c \<in> set ''$&+,/:;=?@'' then
        (case mode of
           encodePath \<Rightarrow> c = CHR ''?''
         | encodeUserPassword \<Rightarrow> c \<in> set ''@/?:''
         | encodeHost \<Rightarrow> True
         | encodeFragment \<Rightarrow> False)
      else if mode = encodeFragment \<and> c \<in> set ''!()*'' then False
      else True)"

definition hexDigit :: "nat \<Rightarrow> char" where
  "hexDigit n = ''0123456789ABCDEF'' ! n"

definition unhex :: "char \<Rightarrow> nat option" where
  "unhex c =
     (let n = (of_char c :: nat) in
      if 48 \<le> n \<and> n \<le> 57 then Some (n - 48)
      else if 97 \<le> n \<and> n \<le> 102 then Some (n - 87)
      else if 65 \<le> n \<and> n \<le> 70 then Some (n - 55)
      else None)"

fun escape :: "string \<Rightarrow> encoding \<Rightarrow> string" where
  "escape [] mode = []"
| "escape (c # s) mode =
     (if shouldEscape c mode
      then CHR ''%'' # hexDigit (of_char c div 16) # hexDigit (of_char c mod 16) # escape s mode
      else c # escape s mode)"

definition errEscape :: goerr where "errEscape = ErrExt ''invalid URL escape''"
definition errInvalidHost :: goerr where "errInvalidHost = ErrExt ''invalid character in host name''"

fun unescape :: "string \<Rightarrow> encoding \<Rightarrow> goerr + string" where
  "unescape [] mode = Inr []"
| "unescape (c # s) mode =
     (if c = CHR ''%'' then
        (case s of
           h # l # t \<Rightarrow>
             (case (unhex h, unhex l) of
                (Some a, Some b) \<Rightarrow>
                  if mode = encodeHost \<and> a < 8 \<and> \<not> (h = CHR ''2'' \<and> l = CHR ''5'') then Inl errEscape
                  else bindE (unescape t mode) (\<lambda>r. Inr (char_of (16 * a + b) # r))
              | _ \<Rightarrow> Inl errEscape)
         | _ \<Rightarrow> Inl errEscape)
      else if mode = encodeHost \<and> (of_char c :: nat) < 128 \<and> shouldEscape c mode then Inl errInvalidHost
      else bindE (unescape s mode) (\<lambda>r. Inr (c # r)))"

section \<open>URLs\<close>

record URL =
  uScheme :: string
  uOpaque :: string
  uUser :: "(string \<times> string option) option"
  uHost :: string
  uPath :: string
  uRawPath :: string
  uOmitHost :: bool
  uForceQuery :: bool
  uRawQuery :: string
  uFragment :: string
  uRawFragment :: string

definition zeroURL :: URL where
  "zeroURL = \<lparr>uScheme = [], uOpaque = [], uUser = None, uHost = [], uPath = [], uRawPath = [],
     uOmitHost = False, uForceQuery = False, uRawQuery = [], uFragment = [], uRawFragment = []\<rparr>"

text \<open>\<open>getScheme\<close>; \<open>rev acc\<close> is what was read.\<close>

fun getScheme :: "string \<Rightarrow> string \<Rightarrow> string \<Rightarrow> goerr + string \<times> string" where
  "getScheme raw acc [] = Inr ([], raw)"
| "getScheme raw acc (c # s) =
     (if alnum c \<and> \<not> (48 \<le> (of_char c :: nat) \<and> (of_char c :: nat) \<le> 57) then getScheme raw (c # acc) s
      else if alnum c \<or> c \<in> set ''+-.'' then
        (if acc = [] then Inr ([], raw) else getScheme raw (c # acc) s)
      else if c = CHR '':'' then
        (if acc = [] then Inl (ErrExt ''missing protocol scheme'') else Inr (rev acc, s))
      else Inr ([], raw))"

definition lowerScheme :: "string \<Rightarrow> string" where
  "lowerScheme s =
     map (\<lambda>c. let n = (of_char c :: nat) in if 65 \<le> n \<and> n \<le> 90 then char_of (n + 32) else c) s"

definition validOptionalPort :: "string \<Rightarrow> bool" where
  "validOptionalPort p \<longleftrightarrow>
     (case p of [] \<Rightarrow> True
      | c # ds \<Rightarrow> c = CHR '':'' \<and> list_all (\<lambda>d. 48 \<le> (of_char d :: nat) \<and> (of_char d :: nat) \<le> 57) ds)"

definition parseHost :: "(string \<Rightarrow> goerr + string) \<Rightarrow> string \<Rightarrow> goerr + string" where
  "parseHost literal host =
     (if CHR ''['' \<in> set host then literal host
      else
        (case IndexByte host (CHR '':'') of
           Some i \<Rightarrow>
             if validOptionalPort (drop i host) then unescape host encodeHost
             else Inl (ErrExt ''invalid port after host'')
         | None \<Rightarrow> unescape host encodeHost))"

definition validUserinfo :: "string \<Rightarrow> bool" where
  "validUserinfo s \<longleftrightarrow>
     list_all (\<lambda>c. alnum c \<or> c \<in> set (CHR 0x27 # ''-._:~!$&()*+,;=%@'')) s"

definition parseAuthority ::
  "(string \<Rightarrow> goerr + string) \<Rightarrow> string \<Rightarrow> goerr + (string \<times> string option) option \<times> string" where
  "parseAuthority literal authority =
     (case LastIndexByte authority (CHR ''@'') of
        None \<Rightarrow> bindE (parseHost literal authority) (\<lambda>h. Inr (None, h))
      | Some i \<Rightarrow>
          bindE (parseHost literal (drop (Suc i) authority)) (\<lambda>h.
            let userinfo = take i authority in
            if \<not> validUserinfo userinfo then Inl (ErrExt ''net/url: invalid userinfo'')
            else
              (case Cut userinfo (CHR '':'') of (name, password, found) \<Rightarrow>
                bindE (unescape name encodeUserPassword) (\<lambda>nm.
                  if \<not> found then Inr (Some (nm, None), h)
                  else bindE (unescape password encodeUserPassword) (\<lambda>p. Inr (Some (nm, Some p), h))))))"

definition setPath :: "URL \<Rightarrow> string \<Rightarrow> goerr + URL" where
  "setPath u p =
     bindE (unescape p encodePath) (\<lambda>path.
       Inr (u\<lparr>uPath := path, uRawPath := (if escape path encodePath = p then [] else p)\<rparr>))"

definition setFragment :: "URL \<Rightarrow> string \<Rightarrow> goerr + URL" where
  "setFragment u f =
     bindE (unescape f encodeFragment) (\<lambda>frag.
       Inr (u\<lparr>uFragment := frag,
         uRawFragment := (if escape frag encodeFragment = f then [] else f)\<rparr>))"

definition ctlByte :: "char \<Rightarrow> bool" where
  "ctlByte c \<longleftrightarrow> (of_char c :: nat) < 32 \<or> (of_char c :: nat) = 127"

text \<open>\<open>parse(rawURL, false)\<close>: the rest after the scheme and the query.\<close>

definition parseHierarchical ::
  "(string \<Rightarrow> goerr + string) \<Rightarrow> URL \<Rightarrow> string \<Rightarrow> goerr + URL" where
  "parseHierarchical literal u rest =
     (if \<not> HasPrefix rest ''/'' \<and> uScheme u \<noteq> [] then Inr (u\<lparr>uOpaque := rest\<rparr>)
      else if \<not> HasPrefix rest ''/'' \<and> CHR '':'' \<in> set (fst (Cut rest slash))
      then Inl (ErrExt ''first path segment in URL cannot contain colon'')
      else if (uScheme u \<noteq> [] \<or> \<not> HasPrefix rest ''///'') \<and> HasPrefix rest ''//'' then
        (let authority = drop 2 rest;
             i = (case IndexByte authority slash of Some i \<Rightarrow> i | None \<Rightarrow> length authority) in
         bindE (parseAuthority literal (take i authority)) (\<lambda>(user, host).
           setPath (u\<lparr>uUser := user, uHost := host\<rparr>) (drop i authority)))
      else setPath (if uScheme u \<noteq> [] \<and> HasPrefix rest ''/'' then u\<lparr>uOmitHost := True\<rparr> else u) rest)"

definition parseRaw :: "(string \<Rightarrow> goerr + string) \<Rightarrow> string \<Rightarrow> goerr + URL" where
  "parseRaw literal raw =
     (if list_ex ctlByte raw then Inl (ErrExt ''net/url: invalid control character in URL'')
      else if raw = ''*'' then Inr (zeroURL\<lparr>uPath := ''*''\<rparr>)
      else
        bindE (getScheme raw [] raw) (\<lambda>(scheme, rest).
          let u = zeroURL\<lparr>uScheme := lowerScheme scheme\<rparr> in
          if HasSuffix rest ''?'' \<and> count_list rest (CHR ''?'') = 1
          then parseHierarchical literal (u\<lparr>uForceQuery := True\<rparr>) (take (length rest - 1) rest)
          else (case Cut rest (CHR ''?'') of (rest', query, _) \<Rightarrow>
            parseHierarchical literal (u\<lparr>uRawQuery := query\<rparr>) rest')))"

definition Parse :: "(string \<Rightarrow> goerr + string) \<Rightarrow> string \<Rightarrow> goerr + URL" where
  "Parse literal rawURL =
     (case Cut rawURL (CHR ''#'') of (u, frag, _) \<Rightarrow>
       bindE (parseRaw literal u) (\<lambda>url. if frag = [] then Inr url else setFragment url frag))"

section \<open>String\<close>

definition validEncoded :: "string \<Rightarrow> encoding \<Rightarrow> bool" where
  "validEncoded s mode \<longleftrightarrow>
     list_all (\<lambda>c. c \<in> set (CHR 0x27 # ''!$&()*+,;=:@[]%'') \<or> \<not> shouldEscape c mode) s"

definition escaped :: "string \<Rightarrow> string \<Rightarrow> encoding \<Rightarrow> string" where
  "escaped raw s mode =
     (if raw \<noteq> [] \<and> validEncoded raw mode \<and> unescape raw mode = Inr s then raw else escape s mode)"

definition EscapedPath :: "URL \<Rightarrow> string" where
  "EscapedPath u =
     (if uRawPath u \<noteq> [] \<and> validEncoded (uRawPath u) encodePath
         \<and> unescape (uRawPath u) encodePath = Inr (uPath u)
      then uRawPath u
      else if uPath u = ''*'' then ''*'' else escape (uPath u) encodePath)"

definition userString :: "string \<times> string option \<Rightarrow> string" where
  "userString ui =
     (case ui of (name, password) \<Rightarrow>
       escape name encodeUserPassword @
       (case password of None \<Rightarrow> [] | Some p \<Rightarrow> CHR '':'' # escape p encodeUserPassword))"

definition URL_String :: "URL \<Rightarrow> string" where
  "URL_String u =
     (let scheme = (if uScheme u \<noteq> [] then uScheme u @ '':'' else []);
          body =
            (if uOpaque u \<noteq> [] then scheme @ uOpaque u
             else
               (let auth =
                      (if uScheme u = [] \<and> uHost u = [] \<and> uUser u = None then []
                       else if uOmitHost u \<and> uHost u = [] \<and> uUser u = None then []
                       else (if uHost u \<noteq> [] \<or> uPath u \<noteq> [] \<or> uUser u \<noteq> None then ''//'' else [])
                         @ (case uUser u of None \<Rightarrow> [] | Some ui \<Rightarrow> userString ui @ ''@'')
                         @ escape (uHost u) encodeHost);
                    path = EscapedPath u;
                    start = scheme @ auth @
                      (if path \<noteq> [] \<and> hd path \<noteq> slash \<and> uHost u \<noteq> [] then ''/'' else []);
                    dot = (if start = [] \<and> CHR '':'' \<in> set (fst (Cut path slash)) then ''./'' else [])
                in start @ dot @ path));
          query = (if uForceQuery u \<or> uRawQuery u \<noteq> [] then CHR ''?'' # uRawQuery u else [])
      in body @ query @
         (if uFragment u \<noteq> []
          then CHR ''#'' # escaped (uRawFragment u) (uFragment u) encodeFragment else []))"

section \<open>Facts\<close>

text \<open>The characters of registry references: they mean themselves in a host and in a path.\<close>

definition refChar :: "char \<Rightarrow> bool" where
  "refChar c \<longleftrightarrow> alnum c \<or> c \<in> set ''-_.~''"

definition pathChar :: "char \<Rightarrow> bool" where
  "pathChar c \<longleftrightarrow> refChar c \<or> c \<in> set ''/:@''"

lemma alnum_consts [simp]:
  "\<not> alnum (CHR ''/'')" "\<not> alnum (CHR '':'')" "\<not> alnum (CHR ''@'')" "\<not> alnum (CHR ''?'')"
  "\<not> alnum (CHR ''#'')" "\<not> alnum (CHR ''%'')" "\<not> alnum (CHR ''['')" "\<not> alnum (CHR ''-'')"
  "\<not> alnum (CHR ''_'')" "\<not> alnum (CHR ''.'')" "\<not> alnum (CHR ''~'')" "\<not> alnum (CHR ''*'')"
  "\<not> alnum (CHR ''+'')"
  by (simp_all add: alnum_def)

lemma refChar_consts [simp]:
  "\<not> refChar (CHR ''/'')" "\<not> refChar (CHR '':'')" "\<not> refChar (CHR ''@'')" "\<not> refChar (CHR ''?'')"
  "\<not> refChar (CHR ''#'')" "\<not> refChar (CHR ''%'')" "\<not> refChar (CHR ''['')" "\<not> refChar (CHR ''*'')"
  "\<not> refChar (CHR ''+'')"
  by (simp_all add: refChar_def)

lemma notin_refChars: "list_all refChar s \<Longrightarrow> \<not> refChar c \<Longrightarrow> c \<notin> set s"
  by (auto simp: list_all_iff)

lemma alnum_escape: "alnum c \<Longrightarrow> \<not> shouldEscape c mode \<and> c \<noteq> CHR ''%'' \<and> \<not> ctlByte c"
  by (auto simp: shouldEscape_def) (auto simp: alnum_def ctlByte_def Let_def)

lemma pathChar_escape: "pathChar c \<Longrightarrow> \<not> shouldEscape c encodePath \<and> c \<noteq> CHR ''%''"
  by (cases "alnum c") (auto simp: alnum_escape pathChar_def refChar_def shouldEscape_def)

lemma pathChar_not_ctl: "pathChar c \<Longrightarrow> \<not> ctlByte c"
  by (cases "alnum c") (simp add: alnum_escape, auto simp: pathChar_def refChar_def ctlByte_def)

lemma escape_id: "list_all (\<lambda>c. \<not> shouldEscape c mode) s \<Longrightarrow> escape s mode = s"
  by (induction s) simp_all

lemma unescape_id:
  "list_all (\<lambda>c. \<not> shouldEscape c mode \<and> c \<noteq> CHR ''%'') s \<Longrightarrow> unescape s mode = Inr s"
  by (induction s) simp_all

lemma path_escape_id:
  assumes "list_all pathChar s"
  shows "escape s encodePath = s" "unescape s encodePath = Inr s"
  using assms by (auto intro!: escape_id unescape_id simp: list_all_iff pathChar_escape)

lemma hostChar_escape: "refChar c \<or> c = CHR '':'' \<Longrightarrow> \<not> shouldEscape c encodeHost \<and> c \<noteq> CHR ''%''"
  by (cases "alnum c") (auto simp: alnum_escape refChar_def shouldEscape_def)

text \<open>A host with an optional port.\<close>

definition plainHost :: "string \<Rightarrow> bool" where
  "plainHost h \<longleftrightarrow> (\<exists>n p. h = n @ p \<and> n \<noteq> [] \<and> list_all refChar n
     \<and> (p = [] \<or> (\<exists>ds. p = CHR '':'' # ds
          \<and> list_all (\<lambda>d. 48 \<le> (of_char d :: nat) \<and> (of_char d :: nat) \<le> 57) ds)))"

lemma digit_refChar: "48 \<le> (of_char d :: nat) \<and> (of_char d :: nat) \<le> 57 \<Longrightarrow> refChar d"
  by (simp add: refChar_def alnum_def)

lemma plainHost_chars: "plainHost h \<Longrightarrow> list_all (\<lambda>c. refChar c \<or> c = CHR '':'') h \<and> h \<noteq> []"
  by (auto simp: plainHost_def list_all_iff digit_refChar)

lemma plainHost_notin:
  assumes "plainHost h"
  shows "slash \<notin> set h" "CHR ''@'' \<notin> set h" "CHR ''['' \<notin> set h"
proof -
  have "refChar c \<or> c = CHR '':''" if "c \<in> set h" for c
    using plainHost_chars [OF assms] that by (simp add: list_all_iff)
  from this [of slash] this [of "CHR ''@''"] this [of "CHR ''[''"]
  show "slash \<notin> set h" "CHR ''@'' \<notin> set h" "CHR ''['' \<notin> set h" by auto
qed

lemma parseHost_plain: "plainHost h \<Longrightarrow> parseHost literal h = Inr h"
proof -
  assume h: "plainHost h"
  then have c: "list_all (\<lambda>c. refChar c \<or> c = CHR '':'') h" using plainHost_chars by blast
  then have u: "unescape h encodeHost = Inr h"
    by (intro unescape_id) (auto simp: list_all_iff hostChar_escape)
  have "CHR ''['' \<notin> set h" by (rule plainHost_notin [OF h])
  moreover have "validOptionalPort (drop i h)" if "IndexByte h (CHR '':'') = Some i" for i
  proof -
    obtain n p where np: "h = n @ p" "list_all refChar n"
      "p = [] \<or> (\<exists>ds. p = CHR '':'' # ds
         \<and> list_all (\<lambda>d. 48 \<le> (of_char d :: nat) \<and> (of_char d :: nat) \<le> 57) ds)"
      using h unfolding plainHost_def by blast
    have no: "CHR '':'' \<notin> set n" using np(2) by (rule notin_refChars) simp
    with np that have "p \<noteq> []" using IndexByte_notin by fastforce
    with np(3) obtain ds where p: "p = CHR '':'' # ds"
      "list_all (\<lambda>d. 48 \<le> (of_char d :: nat) \<and> (of_char d :: nat) \<le> 57) ds" by blast
    have "IndexByte h (CHR '':'') = Some (length n)"
      unfolding np(1) p(1) by (rule IndexByte_append [OF no])
    with that np(1) p show ?thesis by (simp add: validOptionalPort_def)
  qed
  ultimately show ?thesis using u by (simp add: parseHost_def split: option.split)
qed

lemma parseAuthority_plain:
  "plainHost h \<Longrightarrow> parseAuthority literal h = Inr (None, h)"
  by (simp add: parseAuthority_def parseHost_plain plainHost_notin)

text \<open>The parse of a plain URL with the scheme \<open>oci\<close>, and its string.\<close>

definition plainPath :: "string \<Rightarrow> bool" where
  "plainPath p \<longleftrightarrow> list_all pathChar p \<and> (p = [] \<or> hd p = slash)"

lemma pathChar_consts [simp]: "\<not> pathChar (CHR ''?'')" "\<not> pathChar (CHR ''#'')" "\<not> pathChar (CHR ''*'')"
  by (simp_all add: pathChar_def)

lemma Parse_oci:
  assumes h: "plainHost h" and p: "plainPath p"
  shows "Parse literal (''oci://'' @ h @ p) = Inr (zeroURL\<lparr>uScheme := ''oci'', uHost := h, uPath := p\<rparr>)"
proof -
  have hc: "list_all (\<lambda>c. refChar c \<or> c = CHR '':'') h" "h \<noteq> []" using plainHost_chars [OF h] by auto
  have pc: "list_all pathChar p" using p by (simp add: plainPath_def)
  have all: "list_all pathChar (h @ p)"
    using hc pc by (auto simp: list_all_iff pathChar_def)
  then have no: "CHR ''?'' \<notin> set (h @ p)" "CHR ''#'' \<notin> set (h @ p)" "\<not> list_ex ctlByte (h @ p)"
    using pathChar_consts pathChar_not_ctl unfolding list_all_iff list_ex_iff by blast+
  have hs: "slash \<notin> set h" by (rule plainHost_notin [OF h])
  have raw: "''oci://'' @ h @ p = CHR ''o'' # CHR ''c'' # CHR ''i'' # CHR '':'' # slash # slash # h @ p"
    by simp
  have i: "(case IndexByte (h @ p) slash of Some i \<Rightarrow> i | None \<Rightarrow> length (h @ p)) = length h"
  proof (cases p)
    case Nil
    with hs show ?thesis by simp
  next
    case (Cons c p')
    with p have "p = slash # p'" by (simp add: plainPath_def)
    then show ?thesis using IndexByte_append [OF hs, of p'] by simp
  qed
  have scheme: "getScheme (''oci://'' @ h @ p) [] (''oci://'' @ h @ p) = Inr (''oci'', slash # slash # h @ p)"
    by (simp add: alnum_def)
  have hier: "parseHierarchical literal (zeroURL\<lparr>uScheme := ''oci'', uRawQuery := []\<rparr>) (slash # slash # h @ p) =
      Inr (zeroURL\<lparr>uScheme := ''oci'', uHost := h, uPath := p\<rparr>)"
    using i h pc
    by (simp add: parseHierarchical_def HasPrefix_def Let_def parseAuthority_plain setPath_def
        path_escape_id zeroURL_def)
  have q: "\<not> HasSuffix (slash # slash # h @ p) ''?''"
  proof
    assume "HasSuffix (slash # slash # h @ p) ''?''"
    then obtain t where "slash # slash # h @ p = t @ ''?''" unfolding HasSuffix_iff by blast
    then have "CHR ''?'' \<in> set (slash # slash # h @ p)" by simp
    with no(1) show False by simp
  qed
  have parse: "parseRaw literal (''oci://'' @ h @ p) = Inr (zeroURL\<lparr>uScheme := ''oci'', uHost := h, uPath := p\<rparr>)"
    using no(1,3) q hier unfolding parseRaw_def scheme
    by (simp add: ctlByte_def lowerScheme_def Let_def Cut_notfound zeroURL_def)
  have "CHR ''#'' \<notin> set (''oci://'' @ h @ p)" using no(2) by simp
  then show ?thesis unfolding Parse_def Cut_notfound [OF \<open>CHR ''#'' \<notin> set (''oci://'' @ h @ p)\<close>]
    by (simp only: prod.case parse bindE_simps if_True simp_thms)
qed

lemma String_oci:
  assumes "plainHost h" and "plainPath p"
  shows "URL_String (zeroURL\<lparr>uScheme := ''oci'', uHost := h, uPath := p\<rparr>) = ''oci://'' @ h @ p"
proof -
  have "escape h encodeHost = h"
    using plainHost_chars [OF assms(1)] by (intro escape_id) (auto simp: list_all_iff hostChar_escape)
  moreover have "escape p encodePath = p" using assms(2) path_escape_id by (simp add: plainPath_def)
  moreover have "p \<noteq> ''*''" using assms(2) by (auto simp: plainPath_def)
  ultimately show ?thesis
    using assms plainHost_chars [OF assms(1)]
    by (auto simp: URL_String_def EscapedPath_def zeroURL_def Let_def plainPath_def)
qed

end
