(* ===== verification/Go_Values.thy ===== *)
theory Go_Values
  imports Complex_Main Go_Strings "HOL-Library.List_Lexorder" "HOL-Library.Char_ord"
begin

text \<open>
  The dynamic values of type \<open>interface{}\<close> that chart values are made of, and what a round
  trip through Go's package \<open>encoding/json\<close> does to them.

  A \<open>map[string]interface{}\<close> is an association list with distinct keys. \<open>VInt\<close> is an \<open>int64\<close>,
  \<open>VFloat\<close> a finite \<open>float64\<close> by its exact value, \<open>VNonFinite\<close> a NaN or an infinity
  by the text \<open>%v\<close> prints for it.
\<close>

datatype val =
    VNull
  | VBool bool
  | VInt int
  | VFloat rat
  | VNonFinite string
  | VStr string
  | VList "val list"
  | VMap "(string \<times> val) list"

type_synonym vals = "(string \<times> val) list"

text \<open>Every map inside a value has distinct keys.\<close>

fun wfVal :: "val \<Rightarrow> bool" where
  "wfVal (VList xs) = list_all wfVal xs"
| "wfVal (VMap m) = (distinct (map fst m) \<and> list_all (\<lambda>(k, v). wfVal v) m)"
| "wfVal v = True"

section \<open>UTF-8\<close>

text \<open>
  The length of the valid UTF-8 encoding at the start of a byte string, 0 when the first byte
  starts none (the table of \<open>unicode/utf8\<close>).
\<close>

definition inRange :: "nat \<Rightarrow> nat \<Rightarrow> char \<Rightarrow> bool" where
  "inRange lo hi c \<longleftrightarrow> lo \<le> of_char c \<and> of_char c \<le> hi"

definition second :: "nat \<Rightarrow> nat \<times> nat" where
  "second a = (if a = 0xE0 then (0xA0, 0xBF) else if a = 0xED then (0x80, 0x9F)
     else if a = 0xF0 then (0x90, 0xBF) else if a = 0xF4 then (0x80, 0x8F) else (0x80, 0xBF))"

definition seqLen :: "nat \<Rightarrow> nat" where
  "seqLen a = (if a < 0x80 then 1 else if a < 0xC2 then 0 else if a < 0xE0 then 2
     else if a < 0xF0 then 3 else if a < 0xF5 then 4 else 0)"

definition utf8Len :: "string \<Rightarrow> nat" where
  "utf8Len s =
     (case s of [] \<Rightarrow> 0
      | c # r \<Rightarrow>
          let n = seqLen (of_char c); (lo, hi) = second (of_char c) in
          if n = 0 \<or> length r < n - 1 then 0
          else if n = 1 then 1
          else if inRange lo hi (r ! 0) \<and> list_all (inRange 0x80 0xBF) (take (n - 2) (drop 1 r))
            then n else 0)"

text \<open>\<open>json.Marshal\<close> writes U+FFFD for every byte that starts no valid encoding.\<close>

definition replacementChar :: string where
  "replacementChar = map char_of [0xEF, 0xBF, 0xBD :: nat]"

function coerceUTF8 :: "string \<Rightarrow> string" where
  "coerceUTF8 s =
     (if s = [] then []
      else if utf8Len s = 0 then replacementChar @ coerceUTF8 (tl s)
      else take (utf8Len s) s @ coerceUTF8 (drop (utf8Len s) s))"
  by pat_completeness auto
termination
  by (relation "measure length") auto

declare coerceUTF8.simps [simp del]

section \<open>Integers as float64\<close>

text \<open>
  A JSON number is decoded into a \<open>float64\<close>: an integer is rounded to 53 significant bits,
  ties to even. \<open>excess n\<close> is the number of low bits that do not fit.
\<close>

fun excess :: "nat \<Rightarrow> nat" where
  "excess n = (if n < 2 ^ 53 then 0 else Suc (excess (n div 2)))"

declare excess.simps [simp del]

definition roundFloat64 :: "int \<Rightarrow> int" where
  "roundFloat64 n =
     (let m = nat \<bar>n\<bar>; s = excess m; q = m div 2 ^ s; r = m mod 2 ^ s;
          up = (s > 0 \<and> (2 * r > 2 ^ s \<or> (2 * r = 2 ^ s \<and> odd q)))
      in sgn n * int ((if up then Suc q else q) * 2 ^ s))"

section \<open>The JSON round trip\<close>

text \<open>A value \<open>json.Marshal\<close> can encode holds no NaN and no infinity.\<close>

fun marshalable :: "val \<Rightarrow> bool" where
  "marshalable (VNonFinite s) = False"
| "marshalable (VList xs) = list_all marshalable xs"
| "marshalable (VMap m) = list_all (\<lambda>(k, v). marshalable v) m"
| "marshalable v = True"

text \<open>The nesting depth of arrays and objects, which \<open>json.Unmarshal\<close> bounds by 10000.\<close>

fun depth :: "val \<Rightarrow> nat" where
  "depth (VList xs) = Suc (foldr max (map depth xs) 0)"
| "depth (VMap m) = Suc (foldr max (map (\<lambda>(k, v). depth v) m) 0)"
| "depth v = 0"

definition maxNestingDepth :: nat where
  "maxNestingDepth = 10000"

text \<open>
  What decoding the encoding of a value gives. The encoder writes the entries of a map in the
  order of their keys, the decoder lets a later entry overwrite an earlier one with the same
  key. The entries of the resulting map are listed in the order of their keys, so that two
  results are equal exactly when they are equal as Go values.
\<close>

definition decodeObject :: "vals \<Rightarrow> vals" where
  "decodeObject es = sort_key fst (foldl (\<lambda>m (k, v). put m (coerceUTF8 k) v) [] es)"

fun jsonNorm :: "val \<Rightarrow> val" where
  "jsonNorm (VInt n) = VFloat (of_int (roundFloat64 n))"
| "jsonNorm (VStr s) = VStr (coerceUTF8 s)"
| "jsonNorm (VList xs) = VList (map jsonNorm xs)"
| "jsonNorm (VMap m) = VMap (decodeObject (map (\<lambda>(k, v). (k, jsonNorm v)) (sort_key fst m)))"
| "jsonNorm v = v"

definition jsonRoundTrip :: "val \<Rightarrow> val option" where
  "jsonRoundTrip v =
     (if marshalable v \<and> depth v \<le> maxNestingDepth then Some (jsonNorm v) else None)"

section \<open>Facts\<close>

lemma excess_0: "n < 2 ^ 53 \<Longrightarrow> excess n = 0"
  by (simp add: excess.simps)

lemma roundFloat64_small: "\<bar>n\<bar> < 2 ^ 53 \<Longrightarrow> roundFloat64 n = n"
proof -
  assume "\<bar>n\<bar> < 2 ^ 53"
  then have "nat \<bar>n\<bar> < 2 ^ 53" by (simp add: nat_less_iff)
  then have "excess (nat \<bar>n\<bar>) = 0" by (rule excess_0)
  then show ?thesis by (simp add: roundFloat64_def sgn_if)
qed

lemma seqLen_le: "seqLen a \<le> 4"
  by (simp add: seqLen_def)

lemma utf8Len_le: "utf8Len s \<le> length s"
  by (auto simp: utf8Len_def Let_def split: list.splits prod.splits if_splits)

text \<open>Whether a prefix is a valid encoding depends on that prefix only.\<close>

lemma utf8Len_take:
  assumes "utf8Len s = n" and "0 < n"
  shows "utf8Len (take n s @ t) = n"
proof -
  obtain c r where s: "s = c # r"
    using assms by (auto simp: utf8Len_def split: list.splits)
  obtain lo hi where lh: "second (of_char c) = (lo, hi)" by fastforce
  have n: "n = seqLen (of_char c)" "n - 1 \<le> length r"
    using assms s lh by (auto simp: utf8Len_def Let_def split: if_splits)
  show ?thesis
  proof (cases "n = 1")
    case True
    with n have "seqLen (of_char c) = 1" by simp
    with True show ?thesis by (simp add: s utf8Len_def lh Let_def)
  next
    case False
    with assms(2) obtain k where k: "n = Suc (Suc k)"
      by (metis One_nat_def not0_implies_Suc not_gr_zero)
    have sl: "seqLen (of_char c) = Suc (Suc k)" using n k by simp
    have ok: "inRange lo hi (r ! 0)" "list_all (inRange 0x80 0xBF) (take k (drop 1 r))"
      using assms s lh sl by (auto simp: utf8Len_def Let_def split: if_splits)
    have "take k (drop 1 (take (Suc k) r @ t)) = take k (drop 1 r)"
      using n(2) k by (cases r) simp_all
    moreover have "(take (Suc k) r @ t) ! 0 = r ! 0"
      using n(2) k by (simp add: nth_append)
    ultimately show ?thesis
      using ok n(2) k sl by (simp add: s utf8Len_def lh Let_def)
  qed
qed

lemma utf8Len_replacement: "utf8Len (replacementChar @ t) = 3"
  by (simp add: utf8Len_def replacementChar_def seqLen_def second_def inRange_def)

lemma coerceUTF8_Nil [simp]: "coerceUTF8 [] = []"
  by (simp add: coerceUTF8.simps)

lemma coerceUTF8_idem [simp]: "coerceUTF8 (coerceUTF8 s) = coerceUTF8 s"
proof (induction s rule: coerceUTF8.induct)
  case (1 s)
  consider "s = []" | "s \<noteq> []" "utf8Len s = 0" | "s \<noteq> []" "utf8Len s > 0" by auto
  then show ?case
  proof cases
    case 1
    then show ?thesis by simp
  next
    case 2
    then have e: "coerceUTF8 s = replacementChar @ coerceUTF8 (tl s)"
      by (simp add: coerceUTF8.simps [of s])
    have "length replacementChar = 3" by (simp add: replacementChar_def)
    with e 2 "1.IH"(1) show ?thesis
      by (simp add: coerceUTF8.simps [of "replacementChar @ _"] utf8Len_replacement)
  next
    case 3
    then have e: "coerceUTF8 s = take (utf8Len s) s @ coerceUTF8 (drop (utf8Len s) s)"
      by (simp add: coerceUTF8.simps [of s])
    define a where "a = take (utf8Len s) s"
    define b where "b = coerceUTF8 (drop (utf8Len s) s)"
    have u: "utf8Len (a @ b) = utf8Len s" using 3 by (simp add: utf8Len_take a_def)
    have l: "length a = utf8Len s" using utf8Len_le [of s] by (simp add: a_def)
    with 3 have "a @ b \<noteq> []" by auto
    with u l 3 have "coerceUTF8 (a @ b) = a @ coerceUTF8 b"
      by (simp add: coerceUTF8.simps [of "a @ b"])
    with 3 "1.IH"(2) e show ?thesis by (simp add: a_def b_def)
  qed
qed


subsection \<open>Decoded objects\<close>

abbreviation putCoerced :: "vals \<Rightarrow> string \<times> val \<Rightarrow> vals" where
  "putCoerced m kv \<equiv> (case kv of (k, v) \<Rightarrow> put m (coerceUTF8 k) v)"

lemma decodeObject_fold: "decodeObject es = sort_key fst (foldl putCoerced [] es)"
  by (simp add: decodeObject_def)

lemma distinct_foldl_put:
  "distinct (map fst m) \<Longrightarrow> distinct (map fst (foldl putCoerced m es))"
  by (induction es arbitrary: m) (auto simp: distinct_put split: prod.splits)

lemma set_foldl_put:
  "set (foldl putCoerced m es) \<subseteq> set m \<union> (\<lambda>(k, v). (coerceUTF8 k, v)) ` set es"
proof (induction es arbitrary: m)
  case Nil
  show ?case by simp
next
  case (Cons e es)
  obtain k v where e: "e = (k, v)" by fastforce
  show ?case using Cons [of "put m (coerceUTF8 k) v"] set_put [of "coerceUTF8 k" v m]
    by (auto simp: e)
qed

lemma foldl_put_id:
  "distinct (map fst (m @ es)) \<Longrightarrow> list_all (\<lambda>(k, v). coerceUTF8 k = k) es \<Longrightarrow>
    foldl putCoerced m es = m @ es"
proof (induction es arbitrary: m)
  case Nil
  then show ?case by simp
next
  case (Cons e es)
  obtain k v where e: "e = (k, v)" by fastforce
  have "put m k v = m @ [(k, v)]"
    using Cons.prems e by (induction m) auto
  with Cons e show ?case by simp
qed

lemma distinct_decodeObject: "distinct (map fst (decodeObject es))"
proof -
  have "distinct (map fst (foldl putCoerced [] es))" by (rule distinct_foldl_put) simp
  then show ?thesis
    by (simp add: decodeObject_fold distinct_map)
qed

lemma sorted_decodeObject: "sorted (map fst (decodeObject es))"
  by (simp add: decodeObject_fold)

lemma set_decodeObject:
  "set (decodeObject es) \<subseteq> (\<lambda>(k, v). (coerceUTF8 k, v)) ` set es"
  using set_foldl_put [of "[]" es] by (simp add: decodeObject_fold)

lemma decodeObject_id:
  assumes "distinct (map fst es)" and "sorted (map fst es)"
    and "list_all (\<lambda>(k, v). coerceUTF8 k = k) es"
  shows "decodeObject es = es"
  using assms foldl_put_id [of "[]" es] by (simp add: decodeObject_fold sort_key_id_if_sorted)

text \<open>A second round trip changes nothing.\<close>

lemma jsonNorm_idem: "jsonNorm (jsonNorm v) = jsonNorm v"
proof (induction v rule: jsonNorm.induct)
  case (3 xs)
  then show ?case by simp
next
  case (4 m)
  define es where "es = map (\<lambda>(k, v). (k, jsonNorm v)) (sort_key fst m)"
  have keys: "list_all (\<lambda>(k, v). coerceUTF8 k = k) (decodeObject es)"
    using set_decodeObject [of es] by (force simp: list_all_iff)
  have "jsonNorm v = v" if "(k, v) \<in> set (decodeObject es)" for k v
  proof -
    from that set_decodeObject [of es] obtain k' v' where
      "(k', v') \<in> set m" and "v = jsonNorm v'"
      by (force simp: es_def)
    then show ?thesis using "4.IH" [of "(k', v')"] by auto
  qed
  then have "map (\<lambda>(k, v). (k, jsonNorm v)) (decodeObject es) = decodeObject es"
    by (intro map_idI) auto
  moreover have "decodeObject (decodeObject es) = decodeObject es"
    by (intro decodeObject_id distinct_decodeObject sorted_decodeObject keys)
  ultimately show ?case
    by (simp add: es_def [symmetric] sort_key_id_if_sorted sorted_decodeObject)
qed auto

lemma wfVal_jsonNorm: "wfVal (jsonNorm v)"
proof (induction v rule: jsonNorm.induct)
  case (3 xs)
  then show ?case by (simp add: list_all_iff)
next
  case (4 m)
  define es where "es = map (\<lambda>(k, v). (k, jsonNorm v)) (sort_key fst m)"
  have "wfVal v" if "(k, v) \<in> set (decodeObject es)" for k v
  proof -
    from that set_decodeObject [of es] obtain k' v' where
      "(k', v') \<in> set m" and "v = jsonNorm v'"
      by (force simp: es_def)
    then show ?thesis using "4.IH" [of "(k', v')"] by auto
  qed
  then show ?case by (auto simp: es_def [symmetric] distinct_decodeObject list_all_iff)
qed auto

lemma marshalable_jsonNorm: "marshalable v \<Longrightarrow> marshalable (jsonNorm v)"
proof (induction v rule: jsonNorm.induct)
  case (3 xs)
  then show ?case by (simp add: list_all_iff)
next
  case (4 m)
  define es where "es = map (\<lambda>(k, v). (k, jsonNorm v)) (sort_key fst m)"
  have "marshalable v" if "(k, v) \<in> set (decodeObject es)" for k v
  proof -
    from that set_decodeObject [of es] obtain k' v' where
      "(k', v') \<in> set m" and "v = jsonNorm v'"
      by (force simp: es_def)
    then show ?thesis using "4.IH" [of "(k', v')"] "4.prems" by (auto simp: list_all_iff)
  qed
  then show ?case by (auto simp: es_def [symmetric] list_all_iff)
qed auto

lemma foldr_max_le: "foldr max xs (0::nat) \<le> n \<longleftrightarrow> (\<forall>x \<in> set xs. x \<le> n)"
  by (induction xs) auto

lemma depth_jsonNorm: "depth (jsonNorm v) \<le> depth v"
proof (induction v rule: jsonNorm.induct)
  case (3 xs)
  have "\<forall>x \<in> set xs. depth x \<le> foldr max (map depth xs) 0"
    using foldr_max_le [of "map depth xs" "foldr max (map depth xs) 0"] by simp
  with "3.IH" show ?case by (fastforce simp: foldr_max_le intro: order_trans)
next
  case (4 m)
  define es where "es = map (\<lambda>(k, v). (k, jsonNorm v)) (sort_key fst m)"
  define d where "d = foldr max (map (\<lambda>(k, v). depth v) m) 0"
  have d: "\<forall>(k, v) \<in> set m. depth v \<le> d"
    using foldr_max_le [of "map (\<lambda>(k, v). depth v) m" d] by (auto simp: d_def)
  have "depth v \<le> d" if "(k, v) \<in> set (decodeObject es)" for k v
  proof -
    from that set_decodeObject [of es] obtain k' v' where
      kv: "(k', v') \<in> set m" "v = jsonNorm v'"
      by (force simp: es_def)
    then have "depth v \<le> depth v'" using "4.IH" [of "(k', v')"] by auto
    with d kv show ?thesis by fastforce
  qed
  then show ?case
    by (auto simp: es_def [symmetric] d_def [symmetric] foldr_max_le)
qed auto

lemma jsonRoundTrip_idem: "jsonRoundTrip v = Some w \<Longrightarrow> jsonRoundTrip w = Some w"
  by (auto simp: jsonRoundTrip_def jsonNorm_idem marshalable_jsonNorm
      intro: order_trans depth_jsonNorm split: if_splits)

end
