(* ===== verification/Api_Types.thy ===== *)
theory Api_Types
  imports Go_Values "HOL-Library.Word"
begin

text \<open>
  The API types of the provider (\<open>apis/cluster/release/v1beta1/types.go\<close> and
  \<open>apis/namespaced/release/v1beta1/types.go\<close>) and the library types their fields have.

  The two API groups differ in three places only: how a key of a secret or config map is
  selected (with or without a namespace), how the pull secret is referenced (likewise), and how
  the provider config is referenced. The record types have these three as parameters; the
  synonyms at the end are the types of the two groups. A Go pointer that may be nil is an
  \<open>option\<close>.
\<close>

section \<open>Types of the libraries\<close>

text \<open>Helm's \<open>common.Status\<close>: the constants the code compares with, and every other string.\<close>

datatype Status =
    StatusDeployed
  | StatusFailed
  | StatusPendingInstall
  | StatusPendingUpgrade
  | StatusPendingRollback
  | StatusOther string

text \<open>Crossplane's management actions; \<open>MAAll\<close> is \<open>*\<close>.\<close>

datatype ManagementAction =
  MAObserve | MACreate | MAUpdate | MADelete | MALateInitialize | MAAll

text \<open>The reason of the \<open>Ready\<close> condition that \<open>SetConditions(xpv2.Available())\<close> and
  \<open>SetConditions(xpv2.Unavailable())\<close> set.\<close>

datatype Ready = Available | Unavailable

type_synonym Duration = int \<comment> \<open>nanoseconds\<close>

record SecretReference =
  srName :: string
  srNamespace :: string

record LocalSecretReference =
  lsrName :: string

record Reference =
  refName :: string

record ProviderConfigReference =
  pcrKind :: string
  pcrName :: string

record ObjectReference =
  orKind :: string
  orNamespace :: string
  orName :: string
  orUID :: string
  orAPIVersion :: string
  orResourceVersion :: string
  orFieldPath :: string

text \<open>What the code reads of a Helm chart: its metadata; the rest of it is opaque.\<close>

record ChartMetadata =
  cmName :: string
  cmVersion :: string

record Chart =
  chMetadata :: "ChartMetadata option"
  chContent :: string

record ReleaseInfo =
  riStatus :: Status
  riDescription :: string

record HelmRelease =
  hrName :: string
  hrNamespace :: string
  hrVersion :: int
  hrInfo :: "ReleaseInfo option"
  hrChart :: "Chart option"
  hrConfig :: "vals option"

text \<open>A Kustomize patch, opaque.\<close>

datatype Patch = Patch string

text \<open>A Kubernetes object in the form of \<open>unstructured.Unstructured\<close>.\<close>

record Unstructured =
  unAPIVersion :: string
  unKind :: string
  unName :: string
  unNamespace :: string
  unAnnotations :: "(string \<times> string) list"
  unObject :: vals

section \<open>The types of the provider\<close>

record NamespacedName =
  nnNamespace :: string
  nnName :: string

record DataKeySelector = NamespacedName +
  dksKey :: string
  dksOptional :: bool

record NsDataKeySelector =
  ndksName :: string
  ndksKey :: string
  ndksOptional :: bool

record 'sel ValueFromSource =
  ConfigMapKeyRef :: "'sel option"
  SecretKeyRef :: "'sel option"

record 'sel SetVal =
  svName :: string
  svValue :: string
  svValueFrom :: "'sel ValueFromSource option"

record 'sel ValuesSpec =
  ValuesRaw :: string
  ValuesFrom :: "'sel ValueFromSource list"
  SetVals :: "'sel SetVal list"

record 'ref ChartSpec =
  csRepository :: string
  csName :: string
  csVersion :: string
  csURL :: string
  csDigest :: string
  csPullSecretRef :: 'ref

record ('sel, 'ref) ReleaseParameters =
  fpChart :: "'ref ChartSpec"
  fpNamespace :: string
  fpSkipCreateNamespace :: bool
  fpWait :: bool
  fpWaitTimeout :: "Duration option"
  fpPatchesFrom :: "'sel ValueFromSource list"
  fpValuesSpec :: "'sel ValuesSpec"
  fpSkipCRDs :: bool
  fpInsecureSkipTLSVerify :: bool
  fpPlainHTTP :: bool
  fpTakeOwnership :: bool
  fpMaxHistory :: int
  fpSSAForceConflicts :: bool

record ReleaseObservation =
  obsState :: Status
  obsReleaseDescription :: string
  obsRevision :: int
  obsDigest :: string
  obsVersion :: string
  obsOwnershipTaken :: bool

record ConnectionDetail =
  cdObjectReference :: ObjectReference
  cdToConnectionSecretKey :: string
  cdSkipPartOfReleaseCheck :: bool

record ('sel, 'ref, 'pcr) ReleaseSpec =
  spManagementPolicies :: "ManagementAction list"
  spProviderConfigReference :: "'pcr option"
  spConnectionDetails :: "ConnectionDetail list"
  spForProvider :: "('sel, 'ref) ReleaseParameters"
  spRollbackRetriesLimit :: "32 word option"

record ReleaseStatus =
  stReady :: "Ready option"
  stAtProvider :: ReleaseObservation
  stPatchesSha :: string
  stFailed :: "32 word"
  stSynced :: bool

text \<open>
  A release. Of the object's metadata the code reads the name, the namespace, the external name
  annotation (\<open>meta.GetExternalName\<close>) and whether a deletion time is set (\<open>meta.WasDeleted\<close>).
\<close>

record ('sel, 'ref, 'pcr) Release =
  mdName :: string
  mdNamespace :: string
  mdExternalName :: string
  mdDeleted :: bool
  rlSpec :: "('sel, 'ref, 'pcr) ReleaseSpec"
  rlStatus :: ReleaseStatus

type_synonym ClusterValueFromSource = "DataKeySelector ValueFromSource"
type_synonym ClusterSetVal = "DataKeySelector SetVal"
type_synonym ClusterValuesSpec = "DataKeySelector ValuesSpec"
type_synonym ClusterChartSpec = "SecretReference ChartSpec"
type_synonym ClusterReleaseParameters = "(DataKeySelector, SecretReference) ReleaseParameters"
type_synonym ClusterReleaseSpec = "(DataKeySelector, SecretReference, Reference) ReleaseSpec"
type_synonym ClusterRelease = "(DataKeySelector, SecretReference, Reference) Release"

type_synonym NsValueFromSource = "NsDataKeySelector ValueFromSource"
type_synonym NsSetVal = "NsDataKeySelector SetVal"
type_synonym NsValuesSpec = "NsDataKeySelector ValuesSpec"
type_synonym NsChartSpec = "LocalSecretReference ChartSpec"
type_synonym NsReleaseParameters = "(NsDataKeySelector, LocalSecretReference) ReleaseParameters"
type_synonym NsReleaseSpec =
  "(NsDataKeySelector, LocalSecretReference, ProviderConfigReference) ReleaseSpec"
type_synonym NsRelease =
  "(NsDataKeySelector, LocalSecretReference, ProviderConfigReference) Release"

text \<open>
  A value of the interface \<open>resource.Managed\<close>, as the type switches of the code take it apart.
\<close>

datatype Managed = MgCluster ClusterRelease | MgNamespaced NsRelease | MgOther

text \<open>Field access paths that occur everywhere.\<close>

abbreviation forProvider :: "('s, 'r, 'p) Release \<Rightarrow> ('s, 'r) ReleaseParameters" where
  "forProvider cr \<equiv> spForProvider (rlSpec cr)"

abbreviation chartOf :: "('s, 'r, 'p) Release \<Rightarrow> 'r ChartSpec" where
  "chartOf cr \<equiv> fpChart (forProvider cr)"

abbreviation atProvider :: "('s, 'r, 'p) Release \<Rightarrow> ReleaseObservation" where
  "atProvider cr \<equiv> stAtProvider (rlStatus cr)"

abbreviation mapStatus ::
  "(ReleaseStatus \<Rightarrow> ReleaseStatus) \<Rightarrow> ('s, 'r, 'p) Release \<Rightarrow> ('s, 'r, 'p) Release" where
  "mapStatus f cr \<equiv> cr\<lparr>rlStatus := f (rlStatus cr)\<rparr>"

abbreviation mapObs ::
  "(ReleaseObservation \<Rightarrow> ReleaseObservation) \<Rightarrow> ('s, 'r, 'p) Release \<Rightarrow> ('s, 'r, 'p) Release"
where
  "mapObs f cr \<equiv> mapStatus (\<lambda>s. s\<lparr>stAtProvider := f (stAtProvider s)\<rparr>) cr"

abbreviation mapChart ::
  "('r ChartSpec \<Rightarrow> 'r ChartSpec) \<Rightarrow> ('s, 'r, 'p) Release \<Rightarrow> ('s, 'r, 'p) Release" where
  "mapChart f cr \<equiv> cr\<lparr>rlSpec := (rlSpec cr)\<lparr>spForProvider :=
     (forProvider cr)\<lparr>fpChart := f (chartOf cr)\<rparr>\<rparr>\<rparr>"

text \<open>The zero value of \<open>ReleaseObservation\<close>; the zero \<open>Status\<close> is the empty string.\<close>

definition zeroObservation :: ReleaseObservation where
  "zeroObservation = \<lparr>obsState = StatusOther [], obsReleaseDescription = [], obsRevision = 0,
     obsDigest = [], obsVersion = [], obsOwnershipTaken = False\<rparr>"

section \<open>The clients the controllers are given\<close>

text \<open>
  The Kubernetes client of a controller (\<open>client.Client\<close> of controller-runtime), as the
  answers it gives within one call of a handler. Reads see one snapshot; \<open>Secret.Data\<close> and
  \<open>ConfigMap.Data\<close> may be nil. \<open>kUpdate\<close> is \<open>Update(ctx, cr)\<close>: on success the object in
  memory is overwritten with the server's answer.
\<close>

type_synonym 'v data = "(string \<rightharpoonup> 'v) option"

record 'rel kube =
  kSecret :: "NamespacedName \<Rightarrow> goerr + string data"
  kConfigMap :: "NamespacedName \<Rightarrow> goerr + string data"
  kObject :: "Unstructured \<Rightarrow> NamespacedName \<Rightarrow> goerr + Unstructured"
  kCreateNamespace :: "string \<Rightarrow> (string \<times> string) list \<Rightarrow> goerr option"
  kUpdate :: "'rel \<Rightarrow> goerr + 'rel"

text \<open>
  Functions of libraries that are not part of the repository: \<open>sigs.k8s.io/yaml\<close>,
  \<open>helm.sh/helm/v4/pkg/strvals\<close>, \<open>equality.Semantic.DeepEqual\<close>, the JSON form of Kustomize
  patches, \<open>fieldpath.Paved.GetValue\<close>, and the decimal form \<open>%v\<close> gives to a \<open>float64\<close>.
\<close>

record lib =
  yamlValues :: "string \<Rightarrow> goerr + vals"
  yamlPatches :: "string \<Rightarrow> goerr + Patch list"
  strvalsParseInto :: "string \<Rightarrow> vals \<Rightarrow> goerr + vals"
  semanticDeepEqual :: "vals option \<Rightarrow> vals option \<Rightarrow> bool"
  patchesJSON :: "Patch list \<Rightarrow> goerr + string"
  pavedGetValue :: "vals \<Rightarrow> string \<Rightarrow> goerr + val"
  formatFloat :: "rat \<Rightarrow> string"

text \<open>No library function answers with a panic.\<close>

definition libNoPanic :: "lib \<Rightarrow> bool" where
  "libNoPanic L \<longleftrightarrow>
     (\<forall>s e. yamlValues L s = Inl e \<longrightarrow> \<not> IsPanic e) \<and>
     (\<forall>s e. yamlPatches L s = Inl e \<longrightarrow> \<not> IsPanic e) \<and>
     (\<forall>s b e. strvalsParseInto L s b = Inl e \<longrightarrow> \<not> IsPanic e) \<and>
     (\<forall>p e. patchesJSON L p = Inl e \<longrightarrow> \<not> IsPanic e) \<and>
     (\<forall>o' p e. pavedGetValue L o' p = Inl e \<longrightarrow> \<not> IsPanic e)"

lemma libNoPanicD:
  assumes "libNoPanic L"
  shows "yamlValues L s = Inl e \<Longrightarrow> \<not> IsPanic e"
    and "yamlPatches L s = Inl e \<Longrightarrow> \<not> IsPanic e"
    and "strvalsParseInto L s b = Inl e \<Longrightarrow> \<not> IsPanic e"
    and "patchesJSON L p = Inl e \<Longrightarrow> \<not> IsPanic e"
    and "pavedGetValue L m f = Inl e \<Longrightarrow> \<not> IsPanic e"
  using assms by (auto simp: libNoPanic_def)

end
