(* ===== verification/Data_Source.thy ===== *)
theory Data_Source
  imports Api_Types
begin

text \<open>
  Reading one value out of a secret or a config map
  (\<open>pkg/controller/cluster/release/data.go\<close> and its namespaced twin), and the interface
  \<open>data_source\<close> through which values and patches are read.
\<close>

section \<open>Error messages\<close>

definition errFailedToGetSecret :: "string \<Rightarrow> string" where
  "errFailedToGetSecret ns = ''failed to get secret from namespace \"'' @ ns @ ''\"''"

definition errSecretDataIsNil :: string where
  "errSecretDataIsNil = ''secret data is nil''"

definition errFailedToGetConfigMap :: "string \<Rightarrow> string" where
  "errFailedToGetConfigMap ns = ''failed to get configmap from namespace \"'' @ ns @ ''\"''"

definition errConfigMapDataIsNil :: string where
  "errConfigMapDataIsNil = ''configmap data is nil''"

definition errSourceNotSetForValueFrom :: string where
  "errSourceNotSetForValueFrom = ''source not set for value from''"

definition errFailedToGetDataFromSecretRef :: string where
  "errFailedToGetDataFromSecretRef = ''failed to get data from secret ref''"

definition errFailedToGetDataFromConfigMapRef :: string where
  "errFailedToGetDataFromConfigMapRef = ''failed to get data from configmap ref''"

definition errMissingKeyForValuesFrom :: "string \<Rightarrow> string" where
  "errMissingKeyForValuesFrom k = ''missing key \"'' @ k @ ''\" in values from source''"

section \<open>The data of one object\<close>

definition getSecretData :: "'r kube \<Rightarrow> NamespacedName \<Rightarrow> goerr + (string \<rightharpoonup> string)" where
  "getSecretData kube nn =
     (case kSecret kube nn of
        Inl e \<Rightarrow> Inl (Wrap e (errFailedToGetSecret (nnNamespace nn)))
      | Inr None \<Rightarrow> Inl (ErrNew errSecretDataIsNil)
      | Inr (Some d) \<Rightarrow> Inr d)"

definition getConfigMapData :: "'r kube \<Rightarrow> NamespacedName \<Rightarrow> goerr + (string \<rightharpoonup> string)" where
  "getConfigMapData kube nn =
     (case kConfigMap kube nn of
        Inl e \<Rightarrow> Inl (Wrap e (errFailedToGetConfigMap (nnNamespace nn)))
      | Inr None \<Rightarrow> Inl (ErrNew errConfigMapDataIsNil)
      | Inr (Some d) \<Rightarrow> Inr d)"

text \<open>
  The branch for a secret and the branch for a config map run the same code on what
  \<open>getSecretData\<close> or \<open>getConfigMapData\<close> returned: two guards on the error, the choice of the
  key, the lookup. After a tolerated error the data is nil, and a nil map has no keys.
\<close>

definition valueOfData ::
  "goerr + (string \<rightharpoonup> string) \<Rightarrow> string \<Rightarrow> bool \<Rightarrow> string \<Rightarrow> string \<Rightarrow> goerr + string" where
  "valueOfData r refKey optional defaultKey msg =
     (let lookup = (\<lambda>d :: string \<rightharpoonup> string.
            let k = (if refKey \<noteq> [] then refKey else defaultKey) in
            case d k of
              None \<Rightarrow> if \<not> optional then Inl (ErrNew (errMissingKeyForValuesFrom k)) else Inr []
            | Some v \<Rightarrow> Inr v)
      in case r of
           Inl e \<Rightarrow>
             if IsNotFound (Cause e) \<and> \<not> optional then Inl (Wrap e msg)
             else if \<not> IsNotFound (Cause e) then Inl (Wrap e msg)
             else lookup Map.empty
         | Inr d \<Rightarrow> lookup d)"

text \<open>Cluster scope: the reference carries the namespace.\<close>

definition getDataValueFromSource ::
  "'r kube \<Rightarrow> ClusterValueFromSource \<Rightarrow> string \<Rightarrow> goerr + string" where
  "getDataValueFromSource kube source defaultKey =
     (case SecretKeyRef source of
        Some r \<Rightarrow>
          valueOfData
            (getSecretData kube \<lparr>nnNamespace = nnNamespace r, nnName = nnName r\<rparr>)
            (dksKey r) (dksOptional r) defaultKey errFailedToGetDataFromSecretRef
      | None \<Rightarrow>
          (case ConfigMapKeyRef source of
             Some r \<Rightarrow>
               valueOfData
                 (getConfigMapData kube \<lparr>nnNamespace = nnNamespace r, nnName = nnName r\<rparr>)
                 (dksKey r) (dksOptional r) defaultKey errFailedToGetDataFromConfigMapRef
           | None \<Rightarrow> Inl (ErrNew errSourceNotSetForValueFrom)))"

text \<open>Namespaced scope: the namespace is the one of the release.\<close>

definition nsGetDataValueFromSource ::
  "'r kube \<Rightarrow> NsValueFromSource \<Rightarrow> string \<Rightarrow> string \<Rightarrow> goerr + string" where
  "nsGetDataValueFromSource kube source defaultKey ns =
     (case SecretKeyRef source of
        Some r \<Rightarrow>
          valueOfData
            (getSecretData kube \<lparr>nnNamespace = ns, nnName = ndksName r\<rparr>)
            (ndksKey r) (ndksOptional r) defaultKey errFailedToGetDataFromSecretRef
      | None \<Rightarrow>
          (case ConfigMapKeyRef source of
             Some r \<Rightarrow>
               valueOfData
                 (getConfigMapData kube \<lparr>nnNamespace = ns, nnName = ndksName r\<rparr>)
                 (ndksKey r) (ndksOptional r) defaultKey errFailedToGetDataFromConfigMapRef
           | None \<Rightarrow> Inl (ErrNew errSourceNotSetForValueFrom)))"

section \<open>Facts\<close>

text \<open>No answer of the API server is a panic; two clients agree on a set of objects.\<close>

definition kubeNoPanic :: "'r kube \<Rightarrow> bool" where
  "kubeNoPanic kube \<longleftrightarrow>
     (\<forall>nn e. kSecret kube nn = Inl e \<or> kConfigMap kube nn = Inl e \<longrightarrow> \<not> IsPanic e)"

definition kubeAgree :: "NamespacedName set \<Rightarrow> 'r kube \<Rightarrow> 's kube \<Rightarrow> bool" where
  "kubeAgree N k k' \<longleftrightarrow>
     (\<forall>nn \<in> N. kSecret k nn = kSecret k' nn \<and> kConfigMap k nn = kConfigMap k' nn)"

lemma kubeAgree_mono: "kubeAgree N k k' \<Longrightarrow> M \<subseteq> N \<Longrightarrow> kubeAgree M k k'"
  by (auto simp: kubeAgree_def)

lemma getData_agree:
  "kubeAgree N k k' \<Longrightarrow> nn \<in> N \<Longrightarrow> getSecretData k nn = getSecretData k' nn"
  "kubeAgree N k k' \<Longrightarrow> nn \<in> N \<Longrightarrow> getConfigMapData k nn = getConfigMapData k' nn"
  by (simp_all add: kubeAgree_def getSecretData_def getConfigMapData_def)

lemma getData_agree1:
  "kubeAgree {nn} k k' \<Longrightarrow>
    getSecretData k nn = getSecretData k' nn \<and> getConfigMapData k nn = getConfigMapData k' nn"
  by (simp add: getData_agree)

lemma getData_no_panic:
  "kubeNoPanic k \<Longrightarrow> getSecretData k nn = Inl e \<Longrightarrow> \<not> IsPanic e"
  "kubeNoPanic k \<Longrightarrow> getConfigMapData k nn = Inl e \<Longrightarrow> \<not> IsPanic e"
  by (auto simp: kubeNoPanic_def getSecretData_def getConfigMapData_def
      split: sum.splits option.splits)

lemma valueOfData_no_panic:
  assumes "\<And>e. r = Inl e \<Longrightarrow> \<not> IsPanic e" and "valueOfData r rk opt dk msg = Inl e"
  shows "\<not> IsPanic e"
  using assms
  by (cases r) (auto simp: valueOfData_def Let_def split: if_splits option.splits)

text \<open>The result for an optional reference is an error only for an error other than not found.\<close>

lemma valueOfData_optional:
  "valueOfData r rk True dk msg =
     (case r of
        Inl e \<Rightarrow> if IsNotFound e then Inr [] else Inl (Wrap e msg)
      | Inr d \<Rightarrow> Inr (case d (if rk \<noteq> [] then rk else dk) of None \<Rightarrow> [] | Some v \<Rightarrow> v))"
  by (auto simp: valueOfData_def Let_def split: sum.splits option.splits)

lemma valueOfData_required:
  "valueOfData r rk False dk msg = Inr v \<longleftrightarrow>
     (\<exists>d. r = Inr d \<and> d (if rk \<noteq> [] then rk else dk) = Some v)"
  by (cases r) (auto simp: valueOfData_def Let_def split: option.splits)

text \<open>
  The namespaced lookup is the cluster lookup of the reference qualified with the namespace of
  the release.
\<close>

definition qualifySelector :: "string \<Rightarrow> NsDataKeySelector \<Rightarrow> DataKeySelector" where
  "qualifySelector ns r =
     \<lparr>nnNamespace = ns, nnName = ndksName r, dksKey = ndksKey r, dksOptional = ndksOptional r\<rparr>"

definition qualifySource :: "string \<Rightarrow> NsValueFromSource \<Rightarrow> ClusterValueFromSource" where
  "qualifySource ns s =
     \<lparr>ConfigMapKeyRef = map_option (qualifySelector ns) (ConfigMapKeyRef s),
      SecretKeyRef = map_option (qualifySelector ns) (SecretKeyRef s)\<rparr>"

lemma nsGetData_qualify:
  "nsGetDataValueFromSource kube s dk ns = getDataValueFromSource kube (qualifySource ns s) dk"
  by (simp add: nsGetDataValueFromSource_def getDataValueFromSource_def qualifySource_def
      qualifySelector_def split: option.splits)

section \<open>The interface to values and patches\<close>

text \<open>
  A data source: a lookup \<open>get\<close> that the composition of values and the loading of patches call
  for every reference, and the set of objects that a reference names. Its two laws: a lookup
  depends on the objects the reference names only, and it panics only if the client does.
\<close>

locale data_source =
  fixes get :: "'r kube \<Rightarrow> 'sel ValueFromSource \<Rightarrow> string \<Rightarrow> goerr + string"
    and reads :: "'sel ValueFromSource \<Rightarrow> NamespacedName set"
  assumes get_frame: "kubeAgree (reads s) k k' \<Longrightarrow> get k s dk = get k' s dk"
    and get_no_panic: "kubeNoPanic k \<Longrightarrow> get k s dk = Inl e \<Longrightarrow> \<not> IsPanic e"

definition sourceReads :: "ClusterValueFromSource \<Rightarrow> NamespacedName set" where
  "sourceReads s =
     (case SecretKeyRef s of
        Some r \<Rightarrow> {\<lparr>nnNamespace = nnNamespace r, nnName = nnName r\<rparr>}
      | None \<Rightarrow> (case ConfigMapKeyRef s of
          Some r \<Rightarrow> {\<lparr>nnNamespace = nnNamespace r, nnName = nnName r\<rparr>}
        | None \<Rightarrow> {}))"

definition nsSourceReads :: "string \<Rightarrow> NsValueFromSource \<Rightarrow> NamespacedName set" where
  "nsSourceReads ns s = sourceReads (qualifySource ns s)"

lemma nsSourceReads_namespace: "nn \<in> nsSourceReads ns s \<Longrightarrow> nnNamespace nn = ns"
  by (auto simp: nsSourceReads_def sourceReads_def qualifySource_def qualifySelector_def
      split: option.splits)

interpretation cluster_source:
  data_source "getDataValueFromSource :: 'r kube \<Rightarrow> _" sourceReads
proof
  fix s dk and k k' :: "'r kube"
  assume "kubeAgree (sourceReads s) k k'"
  then show "getDataValueFromSource k s dk = getDataValueFromSource k' s dk"
    by (auto simp: getDataValueFromSource_def sourceReads_def split: option.splits
        dest!: getData_agree1)
next
  fix s dk e and k :: "'r kube"
  assume "kubeNoPanic k" and "getDataValueFromSource k s dk = Inl e"
  then show "\<not> IsPanic e"
    by (auto simp: getDataValueFromSource_def split: option.splits
        elim!: valueOfData_no_panic [rotated] dest: getData_no_panic)
qed

interpretation ns_source:
  data_source "\<lambda>(kube :: 'r kube) s dk. nsGetDataValueFromSource kube s dk ns" "nsSourceReads ns"
  for ns
proof
  fix s dk and k k' :: "'r kube"
  assume "kubeAgree (nsSourceReads ns s) k k'"
  then show "nsGetDataValueFromSource k s dk ns = nsGetDataValueFromSource k' s dk ns"
    unfolding nsGetData_qualify nsSourceReads_def by (rule cluster_source.get_frame)
next
  fix s dk e and k :: "'r kube"
  assume "kubeNoPanic k" and "nsGetDataValueFromSource k s dk ns = Inl e"
  then show "\<not> IsPanic e"
    unfolding nsGetData_qualify by (rule cluster_source.get_no_panic)
qed

end
