(* ===== verification/Registry_Auth.thy ===== *)
theory Registry_Auth
  imports Data_Source
begin

text \<open>
  Credentials for the chart registry: from a pull secret or from the cloud keychains
  (\<open>pkg/clients/registryauth/auth.go\<close>), and the older lookup of
  \<open>pkg/controller/cluster/release/chart.go\<close> and its namespaced twin.
\<close>

record RepoCreds =
  rcUsername :: string
  rcPassword :: string

section \<open>Messages and keys\<close>

definition keyRepoUsername :: string where "keyRepoUsername = ''username''"
definition keyRepoPassword :: string where "keyRepoPassword = ''password''"

definition errFailedToGetRegistrySecret :: string where
  "errFailedToGetRegistrySecret = ''failed to get registry secret''"

definition errFailedToParseRef :: string where
  "errFailedToParseRef = ''failed to parse registry reference''"

definition errPullSecretNamespaceRequired :: string where
  "errPullSecretNamespaceRequired = ''namespace required in PullSecretRef for cluster-scoped Release''"

definition errSecretKeysRequired :: string where
  "errSecretKeysRequired = ''secret must contain '' @ [CHR 0x27] @ ''username'' @ [CHR 0x27] @
     '' and '' @ [CHR 0x27] @ ''password'' @ [CHR 0x27] @ '' keys''"

definition errFailedToGetRepoPullSecret :: string where
  "errFailedToGetRepoPullSecret = ''failed to get repo pull secret''"

definition errChartPullSecretMissingNamespace :: string where
  "errChartPullSecretMissingNamespace = ''namespace must be set in chart pull secret ref''"

definition errChartPullSecretMissingUsername :: string where
  "errChartPullSecretMissingUsername = ''username missing in chart pull secret''"

definition errChartPullSecretMissingPassword :: string where
  "errChartPullSecretMissingPassword = ''password missing in chart pull secret''"

section \<open>Parameters\<close>

text \<open>
  The keychains in the order the code lists them, and the functions of
  \<open>go-containerregistry\<close>: parsing a repository name (the parsed repository is kept opaque),
  resolving it against keychains, and asking the authenticator for its user and password.
\<close>

datatype keychain = AmazonKeychain | GoogleKeychain | AzureKeychain | DefaultKeychain

datatype repository = Repository string

datatype authenticator = Authenticator string

record authlib =
  alNewRepository :: "string \<Rightarrow> goerr + repository"
  alResolve :: "keychain list \<Rightarrow> repository \<Rightarrow> goerr + authenticator"
  alAuthorization :: "authenticator \<Rightarrow> goerr + RepoCreds"

section \<open>The repository of a chart\<close>

definition normalizeRegistryURL :: "string \<Rightarrow> string" where
  "normalizeRegistryURL registryURL =
     (let ref = TrimSpace registryURL;
          ref = (if HasPrefix ref ''oci://'' then TrimPrefix ref ''oci://''
                 else if HasPrefix ref ''https://'' then TrimPrefix ref ''https://''
                 else if HasPrefix ref ''http://'' then TrimPrefix ref ''http://''
                 else ref);
          ref = (case IndexByte ref (CHR ''@'') of Some i \<Rightarrow> take i ref | None \<Rightarrow> ref);
          ref = (case LastIndexByte ref (CHR '':'') of
                   Some i \<Rightarrow>
                     (case LastIndexByte ref (CHR ''/'') of
                        Some l \<Rightarrow> if l > 0 \<and> i > l then take i ref else ref
                      | None \<Rightarrow> ref)
                 | None \<Rightarrow> ref)
      in TrimSuffix ref ''/'')"

text \<open>The registry URL of a chart and the full repository path that is looked up.\<close>

definition registryURLOf :: "'ref ChartSpec \<Rightarrow> string" where
  "registryURLOf c = (if csRepository c = [] then csURL c else csRepository c)"

definition fullRepoURL :: "string \<Rightarrow> string \<Rightarrow> string" where
  "fullRepoURL registryURL chartName =
     (if chartName \<noteq> [] \<and> \<not> HasSuffix registryURL chartName
      then TrimSuffix registryURL ''/'' @ ''/'' @ chartName
      else registryURL)"

section \<open>Resolving credentials\<close>

definition dataAt :: "string data \<Rightarrow> string \<Rightarrow> string" where
  "dataAt d k = (case d of None \<Rightarrow> [] | Some m \<Rightarrow> (case m k of None \<Rightarrow> [] | Some v \<Rightarrow> v))"

definition resolveSecretCredentials ::
  "'r kube \<Rightarrow> string \<Rightarrow> string \<Rightarrow> goerr + RepoCreds" where
  "resolveSecretCredentials kube namespace nm =
     bindE (wrapE (kSecret kube \<lparr>nnNamespace = namespace, nnName = nm\<rparr>) errFailedToGetRegistrySecret)
       (\<lambda>secretData.
         let username = dataAt secretData keyRepoUsername;
             password = dataAt secretData keyRepoPassword in
         if username = [] \<or> password = [] then Inl (ErrNew errSecretKeysRequired)
         else Inr \<lparr>rcUsername = username, rcPassword = password\<rparr>)"

definition createKeychain :: "keychain list" where
  "createKeychain = [AmazonKeychain, GoogleKeychain, AzureKeychain, DefaultKeychain]"

text \<open>The reference is the repository with a tag; only the repository is used of it.\<close>

definition parseRegistryReference :: "authlib \<Rightarrow> string \<Rightarrow> goerr + repository" where
  "parseRegistryReference A registryURL =
     wrapE (alNewRepository A (normalizeRegistryURL registryURL)) errFailedToParseRef"

definition emptyCreds :: RepoCreds where
  "emptyCreds = \<lparr>rcUsername = [], rcPassword = []\<rparr>"

definition resolveCredentialsFromKeychain ::
  "authlib \<Rightarrow> keychain list \<Rightarrow> repository \<Rightarrow> goerr + RepoCreds" where
  "resolveCredentialsFromKeychain A kc repo =
     (case alResolve A kc repo of
        Inl e \<Rightarrow> Inr emptyCreds
      | Inr a \<Rightarrow>
          (case alAuthorization A a of
             Inl e \<Rightarrow> Inr emptyCreds
           | Inr c \<Rightarrow> Inr \<lparr>rcUsername = rcUsername c, rcPassword = rcPassword c\<rparr>))"

definition resolveKeychainAuth :: "authlib \<Rightarrow> string \<Rightarrow> goerr + RepoCreds" where
  "resolveKeychainAuth A registryURL =
     bindE (parseRegistryReference A registryURL) (\<lambda>repo.
       resolveCredentialsFromKeychain A createKeychain repo)"

text \<open>
  The resolver holds the client that its two methods read secrets with; they take the client of the
  resolver as their argument here.
\<close>

record 'r Resolver =
  rsKube :: "'r kube"

definition NewResolver :: "'r kube \<Rightarrow> 'r Resolver" where
  "NewResolver kube = \<lparr>rsKube = kube\<rparr>"

definition ResolveNamespaced :: "authlib \<Rightarrow> 'r kube \<Rightarrow> NsRelease \<Rightarrow> goerr + RepoCreds" where
  "ResolveNamespaced A kube release =
     (let c = chartOf release; registryURL = registryURLOf c in
      if lsrName (csPullSecretRef c) \<noteq> []
      then resolveSecretCredentials kube (mdNamespace release) (lsrName (csPullSecretRef c))
      else resolveKeychainAuth A (fullRepoURL registryURL (csName c)))"

definition ResolveCluster :: "authlib \<Rightarrow> 'r kube \<Rightarrow> ClusterRelease \<Rightarrow> goerr + RepoCreds" where
  "ResolveCluster A kube release =
     (let c = chartOf release; registryURL = registryURLOf c in
      if srName (csPullSecretRef c) \<noteq> []
      then if srNamespace (csPullSecretRef c) = []
        then Inl (ErrNew errPullSecretNamespaceRequired)
        else resolveSecretCredentials kube (srNamespace (csPullSecretRef c))
          (srName (csPullSecretRef c))
      else resolveKeychainAuth A (fullRepoURL registryURL (csName c)))"

section \<open>The older lookup\<close>

definition repoCredsFromSecret :: "'r kube \<Rightarrow> SecretReference \<Rightarrow> goerr + RepoCreds" where
  "repoCredsFromSecret kube secretRef =
     (if srName secretRef \<noteq> [] then
        if srNamespace secretRef = [] then Inl (ErrNew errChartPullSecretMissingNamespace)
        else
          bindE
            (wrapE (getSecretData kube
               \<lparr>nnNamespace = srNamespace secretRef, nnName = srName secretRef\<rparr>)
              errFailedToGetRepoPullSecret)
            (\<lambda>d.
              let repoUser = dataAt (Some d) keyRepoUsername in
              if repoUser = [] then Inl (ErrNew errChartPullSecretMissingUsername)
              else
                let repoPass = dataAt (Some d) keyRepoPassword in
                if repoPass = [] then Inl (ErrNew errChartPullSecretMissingPassword)
                else Inr \<lparr>rcUsername = repoUser, rcPassword = repoPass\<rparr>)
      else Inr \<lparr>rcUsername = [], rcPassword = []\<rparr>)"

definition nsRepoCredsFromSecret ::
  "'r kube \<Rightarrow> string \<Rightarrow> LocalSecretReference \<Rightarrow> goerr + RepoCreds" where
  "nsRepoCredsFromSecret kube namespace secretRef =
     (if lsrName secretRef \<noteq> [] then
        bindE
          (wrapE (getSecretData kube \<lparr>nnNamespace = namespace, nnName = lsrName secretRef\<rparr>)
            errFailedToGetRepoPullSecret)
          (\<lambda>d.
            let repoUser = dataAt (Some d) keyRepoUsername in
            if repoUser = [] then Inl (ErrNew errChartPullSecretMissingUsername)
            else
              let repoPass = dataAt (Some d) keyRepoPassword in
              if repoPass = [] then Inl (ErrNew errChartPullSecretMissingPassword)
              else Inr \<lparr>rcUsername = repoUser, rcPassword = repoPass\<rparr>)
      else Inr \<lparr>rcUsername = [], rcPassword = []\<rparr>)"

section \<open>Facts\<close>

lemma normalizeRegistryURL_oci:
  "TrimSpace (''oci://'' @ ref) = ''oci://'' @ ref \<Longrightarrow>
    normalizeRegistryURL (''oci://'' @ ref) =
     (let ref = (case IndexByte ref (CHR ''@'') of Some i \<Rightarrow> take i ref | None \<Rightarrow> ref);
          ref = (case LastIndexByte ref (CHR '':'') of
                   Some i \<Rightarrow>
                     (case LastIndexByte ref (CHR ''/'') of
                        Some l \<Rightarrow> if l > 0 \<and> i > l then take i ref else ref
                      | None \<Rightarrow> ref)
                 | None \<Rightarrow> ref)
      in TrimSuffix ref ''/'')"
  by (simp only: normalizeRegistryURL_def Let_def HasPrefix_append [of "''oci://''" ref]
      TrimPrefix_append [of "''oci://''" ref] if_True)

text \<open>
  An OCI reference \<open>host/path/name\<close>, with an optional tag and an optional digest. \<open>front\<close> is
  everything up to the last slash, which may hold a port.
\<close>

definition ociReference :: "string \<Rightarrow> string \<Rightarrow> string option \<Rightarrow> string option \<Rightarrow> string" where
  "ociReference front nm tag digest =
     front @ ''/'' @ nm @ (case tag of None \<Rightarrow> [] | Some t \<Rightarrow> '':'' @ t)
       @ (case digest of None \<Rightarrow> [] | Some d \<Rightarrow> ''@'' @ d)"

definition refPart :: "string \<Rightarrow> bool" where
  "refPart s \<longleftrightarrow> s \<noteq> [] \<and> CHR ''/'' \<notin> set s \<and> CHR '':'' \<notin> set s \<and> CHR ''@'' \<notin> set s"

lemma take_append_exact: "take (length a) (a @ b) = a"
  by simp

lemma TrimSuffix_slash_id: "nm \<noteq> [] \<Longrightarrow> CHR ''/'' \<notin> set nm \<Longrightarrow> TrimSuffix (f @ nm) ''/'' = f @ nm"
  by (rule TrimSuffix_id) (auto simp: HasSuffix_iff append_eq_append_conv2 append_eq_Cons_conv)

lemma normalize_ociReference:
  assumes front: "front \<noteq> []" "CHR ''@'' \<notin> set front" and nm: "refPart nm"
    and tag: "\<And>t. tag = Some t \<Longrightarrow> refPart t"
    and clean: "TrimSpace (''oci://'' @ ociReference front nm tag digest) =
      ''oci://'' @ ociReference front nm tag digest"
  shows "normalizeRegistryURL (''oci://'' @ ociReference front nm tag digest) = front @ ''/'' @ nm"
proof -
  define body where "body = front @ ''/'' @ nm @ (case tag of None \<Rightarrow> [] | Some t \<Rightarrow> '':'' @ t)"
  have at: "CHR ''@'' \<notin> set body"
    using assms by (auto simp: body_def refPart_def split: option.splits)
  have cut: "(case IndexByte (ociReference front nm tag digest) (CHR ''@'') of
      Some i \<Rightarrow> take i (ociReference front nm tag digest)
    | None \<Rightarrow> ociReference front nm tag digest) = body"
  proof (cases digest)
    case None
    then have "ociReference front nm tag digest = body" by (simp add: ociReference_def body_def)
    with at show ?thesis by simp
  next
    case (Some d)
    then have e: "ociReference front nm tag digest = body @ CHR ''@'' # d"
      by (simp add: ociReference_def body_def)
    show ?thesis unfolding e IndexByte_append [OF at] by simp
  qed
  have sl: "LastIndexByte body (CHR ''/'') = Some (length front)"
    using LastIndexByte_append_notin [of "CHR ''/''" "nm @ (case tag of None \<Rightarrow> [] | Some t \<Rightarrow> '':'' @ t)" front]
      nm tag by (auto simp: body_def refPart_def split: option.splits)
  show ?thesis
  proof (cases tag)
    case (Some t)
    have b: "body = (front @ ''/'' @ nm) @ CHR '':'' # t" by (simp add: body_def Some)
    have "LastIndexByte body (CHR '':'') = Some (length (front @ ''/'' @ nm))"
      unfolding b using tag [OF Some] by (intro LastIndexByte_append_notin) (simp add: refPart_def)
    then show ?thesis
      using sl front TrimSuffix_slash_id [of nm "front @ ''/''"] nm
      unfolding normalizeRegistryURL_oci [OF clean] cut
      by (simp add: Let_def refPart_def) (simp add: b)
  next
    case None
    then have b: "body = front @ CHR ''/'' # nm" by (simp add: body_def)
    have tr: "TrimSuffix body ''/'' = body"
      using TrimSuffix_slash_id [of nm "front @ ''/''"] nm by (simp add: b refPart_def)
    show ?thesis
    proof (cases "LastIndexByte body (CHR '':'')")
      case None
      with tr b show ?thesis unfolding normalizeRegistryURL_oci [OF clean] cut by (simp add: Let_def)
    next
      case (Some i)
      have "i \<le> length front"
      proof (rule ccontr)
        assume "\<not> i \<le> length front"
        moreover have "i < length body" "body ! i = CHR '':''" using LastIndexByte_Some [OF Some] by auto
        ultimately have "CHR '':'' \<in> set nm"
          by (auto simp: b nth_append nth_Cons' split: if_splits intro: nth_mem)
            (metis less_diff_conv2 linorder_not_le nth_mem add.commute add_Suc_right not_less_eq)
        with nm show False by (simp add: refPart_def)
      qed
      with Some sl tr b show ?thesis
        unfolding normalizeRegistryURL_oci [OF clean] cut by (simp add: Let_def)
    qed
  qed
qed

end
