(* ===== verification/Helm_Cache.thy ===== *)
theory Helm_Cache
  imports Go_Url Registry_Auth
begin

text \<open>
  Pulling a chart into the cache directory and loading it from there: the methods of \<open>client\<close> in
  \<open>pkg/clients/helm/client.go\<close> that deal with references, files and the registry.

  The file system is a finite map from absolute paths to nodes. Helm's pull and login actions,
  the chart loader, and the faults of system calls are parameters (\<open>oslib\<close>). Every call that
  leaves the process is recorded in a trace.
\<close>

section \<open>Constants\<close>

definition chartContentCache :: string where "chartContentCache = ''/tmp/content-cache''"
definition chartCache :: string where "chartCache = ''/tmp/charts''"
definition develVersion :: string where "develVersion = ''>0.0.0-0''"

definition errFailedToCheckIfLocalChartExists :: string where
  "errFailedToCheckIfLocalChartExists = ''failed to check if cached chart file exists''"

definition errFailedToPullChart :: string where "errFailedToPullChart = ''failed to pull chart''"
definition errFailedToLoadChart :: string where "errFailedToLoadChart = ''failed to load chart''"

definition errUnexpectedDirContentTmpl :: "string \<Rightarrow> string" where
  "errUnexpectedDirContentTmpl s = ''expected 1 .tgz chart file, got ['' @ s @ '']''"

definition errFailedToParseURL :: string where "errFailedToParseURL = ''failed to parse URL''"
definition errFailedToLogin :: string where "errFailedToLogin = ''failed to login to registry''"

definition errUnexpectedOCIUrlTmpl :: "string \<Rightarrow> string" where
  "errUnexpectedOCIUrlTmpl s = ''url not prefixed with oci://, got ['' @ s @ '']''"

definition errDigestNotSupportedForNonOCI :: string where
  "errDigestNotSupportedForNonOCI = ''digest is only supported for OCI registries''"

definition errDigestMismatchTmpl :: "string \<Rightarrow> string \<Rightarrow> string" where
  "errDigestMismatchTmpl u d =
     ''conflicting digest input: URL contains @'' @ u @ '' but spec.forProvider.chart.digest is '' @ d"

definition errNoChartName :: string where
  "errNoChartName = ''spec.forProvider.chart.name must be specified when URL is empty''"

definition errNoChartRepository :: string where
  "errNoChartRepository = ''spec.forProvider.chart.repository must be specified when URL is empty''"

section \<open>State and parameters\<close>

datatype node = Dir | File string

type_synonym fsys = "(string \<times> node) list"

text \<open>
  The fields of Helm's \<open>action.Pull\<close> that the methods of the client set or read. Its \<open>Settings\<close>, which
  only \<open>NewClient\<close> sets (to the content cache \<open>chartContentCache\<close>), are a field of the client.
\<close>

record PullClient =
  pcDestDir :: string
  pcInsecureSkipTLSVerify :: bool
  pcPlainHTTP :: bool
  pcVersion :: string
  pcRepoURL :: string
  pcUsername :: string
  pcPassword :: string

datatype clientEvent =
    EvLogin string string string bool
  | EvPull PullClient string
  | EvLoad string

record cstate =
  cFS :: fsys
  cPull :: PullClient
  cTrace :: "clientEvent list"

text \<open>
  \<open>osIsOCI\<close> is Helm's \<open>registry.IsOCI\<close>; \<open>osTempName\<close> picks the name of a temporary directory;
  the \<open>...Err\<close> fields are the faults of a system call on a path. A pull runs with the settings of
  \<open>NewClient\<close>: \<open>osContentRun\<close> gives the files it writes on the way, by their full paths (Helm keeps
  what it downloads in the content cache), and \<open>osPullRun\<close> the files that it leaves in its destination
  directory and its error. \<open>osLoad\<close> is Helm's chart loader.
\<close>

record oslib =
  osIsOCI :: "string \<Rightarrow> bool"
  osHostLiteral :: "string \<Rightarrow> goerr + string"
  osTempName :: "fsys \<Rightarrow> goerr + string"
  osReadDirErr :: "string \<Rightarrow> goerr option"
  osRenameErr :: "string \<Rightarrow> string \<Rightarrow> goerr option"
  osStatErr :: "string \<Rightarrow> goerr option"
  osRemoveErr :: "string \<Rightarrow> goerr option"
  osContentRun :: "PullClient \<Rightarrow> string \<Rightarrow> (string \<times> string) list"
  osPullRun :: "PullClient \<Rightarrow> string \<Rightarrow> (string \<times> string) list \<times> goerr option"
  osLoginRun :: "string \<Rightarrow> string \<Rightarrow> string \<Rightarrow> bool \<Rightarrow> goerr option"
  osLoad :: "fsys \<Rightarrow> string \<Rightarrow> goerr + Chart"

section \<open>References, digests and cache paths\<close>

text \<open>\<open>filepath.Join(dir, file)\<close> on the base name only.\<close>

definition safePath :: "string \<Rightarrow> string \<Rightarrow> string" where
  "safePath baseDir fileName = JoinPath [baseDir, Base fileName]"

definition resolveEffectiveDigest :: "string \<Rightarrow> string \<Rightarrow> goerr + string" where
  "resolveEffectiveDigest urlDigest specDigest =
     (if specDigest \<noteq> [] \<and> urlDigest \<noteq> [] \<and> urlDigest \<noteq> specDigest
      then Inl (ErrNew (errDigestMismatchTmpl urlDigest specDigest))
      else if urlDigest \<noteq> [] then Inr urlDigest
      else Inr specDigest)"

definition resolveOCIChartVersionAndDigest ::
  "oslib \<Rightarrow> string \<Rightarrow> goerr + URL \<times> string \<times> string" where
  "resolveOCIChartVersionAndDigest Os chartURL =
     (if \<not> osIsOCI Os chartURL then Inl (ErrNew (errUnexpectedOCIUrlTmpl chartURL))
      else
        bindE (wrapE (Parse (osHostLiteral Os) chartURL) errFailedToParseURL) (\<lambda>ociURL.
          let path = uPath ociURL;
              (path, digest) =
                (case LastIndexByte path (CHR ''@'') of
                   Some i \<Rightarrow> (take i path, drop (Suc i) path) | None \<Rightarrow> (path, []));
              (path, version) =
                (case LastIndexByte path (CHR '':'') of
                   Some i \<Rightarrow> (take i path, drop (Suc i) path) | None \<Rightarrow> (path, []))
          in Inr (ociURL\<lparr>uPath := path\<rparr>, version, digest)))"

definition resolveOCIChartVersion :: "oslib \<Rightarrow> string \<Rightarrow> goerr + URL \<times> string" where
  "resolveOCIChartVersion Os chartURL =
     bindE (resolveOCIChartVersionAndDigest Os chartURL) (\<lambda>(u, v, _). Inr (u, v))"

definition resolveChartFilePathWithBase :: "string \<Rightarrow> string \<Rightarrow> string \<Rightarrow> string" where
  "resolveChartFilePathWithBase base name version =
     JoinPath [base, name @ ''-'' @ version @ ''.tgz'']"

definition resolveChartFilePath :: "string \<Rightarrow> string \<Rightarrow> string" where
  "resolveChartFilePath name version = resolveChartFilePathWithBase chartCache name version"

definition resolveOCIChartRef :: "string \<Rightarrow> string \<Rightarrow> string \<Rightarrow> string" where
  "resolveOCIChartRef repository name digest =
     (let ref = JoinWith [TrimSuffix repository ''/'', name] ''/''; d = TrimSpace digest in
      if d \<noteq> [] then ref @ ''@'' @ d else ref)"

definition resolveCachedChartPathWithDigest :: "string \<Rightarrow> string \<Rightarrow> string" where
  "resolveCachedChartPathWithDigest chartName digest =
     (if chartName = [] then []
      else (case Cut digest (CHR '':'') of (algo, hashSum, found) \<Rightarrow>
        if \<not> found then []
        else JoinPath [chartCache, Base chartName @ ''@'' @ algo @ ''-'' @ hashSum @ ''.tgz'']))"

section \<open>The file system\<close>

definition isChild :: "string \<Rightarrow> string \<Rightarrow> bool" where
  "isChild dir p \<longleftrightarrow> prefix (dir @ ''/'') p \<and> slash \<notin> set (drop (length dir + 1) p)"

definition childNames :: "fsys \<Rightarrow> string \<Rightarrow> string list" where
  "childNames fs dir = sort (map (drop (length dir + 1)) (filter (isChild dir) (map fst fs)))"

definition under :: "string \<Rightarrow> string \<Rightarrow> bool" where
  "under dir p \<longleftrightarrow> p = dir \<or> prefix (dir @ ''/'') p"

definition removeAll :: "fsys \<Rightarrow> string \<Rightarrow> fsys" where
  "removeAll fs dir = filter (\<lambda>(p, _). \<not> under dir p) fs"

definition renameFile :: "oslib \<Rightarrow> fsys \<Rightarrow> string \<Rightarrow> string \<Rightarrow> goerr + fsys" where
  "renameFile Os fs old new =
     (case osRenameErr Os old new of
        Some e \<Rightarrow> Inl e
      | None \<Rightarrow>
          (case map_of fs old of
             None \<Rightarrow> Inl (ErrExt ''no such file or directory'')
           | Some n \<Rightarrow>
               if map_of fs new = Some Dir then Inl (ErrExt ''file exists'')
               else Inr (AList.update new n (AList.delete old fs))))"

definition getChartFileName :: "oslib \<Rightarrow> fsys \<Rightarrow> string \<Rightarrow> goerr + string" where
  "getChartFileName Os fs dir =
     (case osReadDirErr Os dir of
        Some e \<Rightarrow> Inl e
      | None \<Rightarrow>
          (case childNames fs dir of
             [n] \<Rightarrow> Inr n
           | ns \<Rightarrow> Inl (ErrNew (errUnexpectedDirContentTmpl (JoinWith ns '','')))))"

section \<open>Pulling\<close>

definition login ::
  "oslib \<Rightarrow> string \<Rightarrow> string \<Rightarrow> RepoCreds \<Rightarrow> bool \<Rightarrow> clientEvent list \<times> goerr option" where
  "login Os chartUrl chartRepo creds insecure =
     (let ociURL = (if chartUrl = [] then chartRepo else chartUrl) in
      if \<not> osIsOCI Os ociURL then ([], None)
      else
        (case Parse (osHostLiteral Os) ociURL of
           Inl e \<Rightarrow> ([], Some (Wrap e errFailedToParseURL))
         | Inr parsedURL \<Rightarrow>
             ([EvLogin (uHost parsedURL) (rcUsername creds) (rcPassword creds) insecure],
              WrapNil (osLoginRun Os (uHost parsedURL) (rcUsername creds) (rcPassword creds) insecure)
                errFailedToLogin)))"

text \<open>The reference that is pulled, and what is set on the pull client on the way.\<close>

definition chartReference ::
  "oslib \<Rightarrow> PullClient \<Rightarrow> string \<Rightarrow> string \<Rightarrow> string \<Rightarrow> string \<Rightarrow> string \<Rightarrow> PullClient \<times> (goerr + string)"
where
  "chartReference Os pc chartUrl chartName chartVersion chartRepo chartDigest =
     (if chartUrl = [] then
        (if osIsOCI Os chartRepo
         then (pc\<lparr>pcVersion := chartVersion\<rparr>, Inr (resolveOCIChartRef chartRepo chartName chartDigest))
         else (pc\<lparr>pcRepoURL := chartRepo, pcVersion := chartVersion\<rparr>, Inr chartName))
      else if osIsOCI Os chartUrl then
        (case resolveOCIChartVersionAndDigest Os chartUrl of
           Inl e \<Rightarrow> (pc, Inl e)
         | Inr (ociURL, version, urlDigest) \<Rightarrow>
             (pc\<lparr>pcVersion := version\<rparr>,
              bindE (resolveEffectiveDigest urlDigest chartDigest) (\<lambda>effectiveDigest.
                Inr (if effectiveDigest \<noteq> [] then URL_String ociURL @ ''@'' @ effectiveDigest
                     else URL_String ociURL))))
      else (pc, Inr chartUrl))"

text \<open>The writes of a pull: to the content cache, then to the destination directory of the pull client.\<close>

definition writeContent :: "fsys \<Rightarrow> (string \<times> string) list \<Rightarrow> fsys" where
  "writeContent fs files = foldl (\<lambda>fs (p, c). AList.update p (File c) fs) fs files"

definition writeChart :: "string \<Rightarrow> fsys \<Rightarrow> (string \<times> string) list \<Rightarrow> fsys" where
  "writeChart dir fs files = foldl (\<lambda>fs (n, c). AList.update (dir @ ''/'' @ n) (File c) fs) fs files"

definition pullChart ::
  "oslib \<Rightarrow> string \<Rightarrow> string \<Rightarrow> string \<Rightarrow> string \<Rightarrow> string \<Rightarrow> RepoCreds \<Rightarrow> string \<Rightarrow> cstate \<Rightarrow>
    cstate \<times> goerr option" where
  "pullChart Os chartUrl chartName chartVersion chartRepo chartDigest creds chartDir s =
     (case chartReference Os (cPull s) chartUrl chartName chartVersion chartRepo chartDigest of
        (pc, Inl e) \<Rightarrow> (s\<lparr>cPull := pc\<rparr>, Some e)
      | (pc, Inr chartRef) \<Rightarrow>
     (let pc' = pc\<lparr>pcUsername := rcUsername creds, pcPassword := rcPassword creds, pcDestDir := chartDir\<rparr>;
          (ev, lerr) =
            (if rcUsername creds \<noteq> [] \<and> rcPassword creds \<noteq> []
             then login Os chartUrl chartRepo creds (pcInsecureSkipTLSVerify pc') else ([], None));
          s1 = s\<lparr>cPull := pc', cTrace := cTrace s @ ev\<rparr>
      in case lerr of
           Some e \<Rightarrow> (s1, Some e)
         | None \<Rightarrow>
             (case osPullRun Os pc' chartRef of (files, err) \<Rightarrow>
               (s1\<lparr>cTrace := cTrace s1 @ [EvPull pc' chartRef],
                   cFS := writeChart (pcDestDir pc') (writeContent (cFS s1) (osContentRun Os pc' chartRef)) files\<rparr>,
                WrapNil err errFailedToPullChart))))"

text \<open>The deferred removal of the temporary directory; its failure is only logged.\<close>

definition cleanup :: "oslib \<Rightarrow> string \<Rightarrow> cstate \<Rightarrow> cstate" where
  "cleanup Os tmpDir s =
     (case osRemoveErr Os tmpDir of Some e \<Rightarrow> s | None \<Rightarrow> s\<lparr>cFS := removeAll (cFS s) tmpDir\<rparr>)"

definition pullChartToCache ::
  "oslib \<Rightarrow> string \<Rightarrow> string \<Rightarrow> string \<Rightarrow> string \<Rightarrow> string \<Rightarrow> RepoCreds \<Rightarrow> cstate \<Rightarrow>
    cstate \<times> (goerr + string)" where
  "pullChartToCache Os chartUrl chartName chartVersion chartRepo chartDigest creds s =
     (case osTempName Os (cFS s) of
        Inl e \<Rightarrow> (s, Inl e)
      | Inr nm \<Rightarrow>
     (let tmpDir = chartCache @ ''/'' @ nm; s1 = s\<lparr>cFS := AList.update tmpDir Dir (cFS s)\<rparr> in
      case pullChart Os chartUrl chartName chartVersion chartRepo chartDigest creds tmpDir s1 of
        (s2, Some e) \<Rightarrow> (cleanup Os tmpDir s2, Inl e)
      | (s2, None) \<Rightarrow>
     (case getChartFileName Os (cFS s2) tmpDir of
        Inl e \<Rightarrow> (cleanup Os tmpDir s2, Inl e)
      | Inr pulledName \<Rightarrow>
     (let chartFilePath = JoinPath [chartCache, pulledName] in
      case renameFile Os (cFS s2) (JoinPath [tmpDir, pulledName]) chartFilePath of
        Inl e \<Rightarrow> (cleanup Os tmpDir s2, Inl e)
      | Inr fs \<Rightarrow> (cleanup Os tmpDir (s2\<lparr>cFS := fs\<rparr>), Inr chartFilePath)))))"

definition ensureChartCached ::
  "oslib \<Rightarrow> string \<Rightarrow> string \<Rightarrow> string \<Rightarrow> string \<Rightarrow> string \<Rightarrow> string \<Rightarrow> RepoCreds \<Rightarrow> cstate \<Rightarrow>
    cstate \<times> (goerr + string)" where
  "ensureChartCached Os chartFilePath chartUrl chartName chartVersion chartRepo chartDigest creds s =
     (if chartFilePath = []
      then pullChartToCache Os chartUrl chartName chartVersion chartRepo chartDigest creds s
      else
        (let cachedPath = JoinPath [chartCache, Base chartFilePath] in
         case osStatErr Os cachedPath of
           Some e \<Rightarrow> (s, Inl (Wrap e errFailedToCheckIfLocalChartExists))
         | None \<Rightarrow>
             (case map_of (cFS s) cachedPath of
                None \<Rightarrow> pullChartToCache Os chartUrl chartName chartVersion chartRepo chartDigest creds s
              | Some Dir \<Rightarrow> (s, Inl (ErrNew ''expected chart file, got directory''))
              | Some (File c) \<Rightarrow> (s, Inr cachedPath))))"

section \<open>PullAndLoadChart\<close>

text \<open>
  The expected location of the chart, or a pull of the latest version: the \<open>switch\<close> of
  \<open>PullAndLoadChart\<close>.
\<close>

definition chartLocation ::
  "oslib \<Rightarrow> string \<Rightarrow> string \<Rightarrow> string \<Rightarrow> string \<Rightarrow> string \<Rightarrow> RepoCreds \<Rightarrow> cstate \<Rightarrow>
    cstate \<times> (goerr + string)" where
  "chartLocation Os chartUrl chartName chartVersion chartRepo chartDigest creds s =
     (if chartUrl = [] \<and> (chartVersion = [] \<or> chartVersion = develVersion) \<and> chartDigest = []
      then pullChartToCache Os chartUrl chartName chartVersion chartRepo chartDigest creds s
      else if osIsOCI Os chartUrl then
        (case resolveOCIChartVersionAndDigest Os chartUrl of
           Inl e \<Rightarrow> (s, Inl e)
         | Inr (u, v, urlDigest) \<Rightarrow>
             (case resolveEffectiveDigest urlDigest chartDigest of
                Inl e \<Rightarrow> (s, Inl e)
              | Inr effectiveDigest \<Rightarrow>
                  if effectiveDigest \<noteq> []
                  then (s, Inr (resolveCachedChartPathWithDigest (Base (uPath u)) effectiveDigest))
                  else if v = []
                  then pullChartToCache Os chartUrl chartName chartVersion chartRepo chartDigest creds s
                  else (s, Inr (resolveChartFilePath (Base (uPath u)) v))))
      else if chartUrl \<noteq> [] then
        (case Parse (osHostLiteral Os) chartUrl of
           Inl e \<Rightarrow> (s, Inl (Wrap e errFailedToParseURL))
         | Inr u \<Rightarrow> (s, Inr (JoinPath [chartCache, Base (uPath u)])))
      else if chartName = [] then (s, Inl (ErrNew errNoChartName))
      else if chartRepo = [] then (s, Inl (ErrNew errNoChartRepository))
      else if chartDigest \<noteq> []
      then (s, Inr (resolveCachedChartPathWithDigest chartName chartDigest))
      else (s, Inr (resolveChartFilePath chartName chartVersion)))"

definition pullAndLoad ::
  "oslib \<Rightarrow> 'ref ChartSpec \<Rightarrow> RepoCreds \<Rightarrow> cstate \<Rightarrow> cstate \<times> (goerr + Chart)" where
  "pullAndLoad Os ch creds s =
     (let chartUrl = csURL ch; chartVersion = csVersion ch; chartName = csName ch;
          chartRepo = csRepository ch; chartDigest = csDigest ch in
      if chartDigest \<noteq> [] \<and> \<not> (osIsOCI Os chartUrl \<or> osIsOCI Os chartRepo)
      then (s, Inl (ErrNew errDigestNotSupportedForNonOCI))
      else
        (case chartLocation Os chartUrl chartName chartVersion chartRepo chartDigest creds s of
           (s1, Inl e) \<Rightarrow> (s1, Inl e)
         | (s1, Inr chartFilePath) \<Rightarrow>
        (case ensureChartCached Os chartFilePath chartUrl chartName chartVersion chartRepo chartDigest
                creds s1 of
           (s2, Inl e) \<Rightarrow> (s2, Inl e)
         | (s2, Inr cached) \<Rightarrow>
             (let realPath = safePath chartCache cached in
              (s2\<lparr>cTrace := cTrace s2 @ [EvLoad realPath]\<rparr>,
               wrapE (osLoad Os (cFS s2) realPath) errFailedToLoadChart)))))"

definition PullAndLoadChart ::
  "oslib \<Rightarrow> Managed \<Rightarrow> RepoCreds \<Rightarrow> cstate \<Rightarrow> cstate \<times> (goerr + Chart)" where
  "PullAndLoadChart Os mg creds s =
     (case mg of
        MgCluster r \<Rightarrow> pullAndLoad Os (chartOf r) creds s
      | MgNamespaced r \<Rightarrow> pullAndLoad Os (chartOf r) creds s
      | MgOther \<Rightarrow> (s, Inl (ErrNew
          ''This object must be *clusterv1beta1.Release or *namespacedv1beta1.Release'')))"

end
