(* ===== verification/Helm_Cache_Facts.thy ===== *)
theory Helm_Cache_Facts
  imports Helm_Cache
begin

text \<open>
  Facts about the chart cache: what is read from a registry reference, that nothing outside the
  cache directory is written or loaded, that a chart is pulled at most once, and what a cache hit
  looks at.
\<close>

section \<open>Paths in the cache\<close>

lemma cacheDirs: "chartCache = absPath [''tmp'', ''charts'']" "list_all plainElem [''tmp'', ''charts'']"
  by (simp_all add: chartCache_def absPath_def plainElem_def)

lemma Join_cache_plain: "plainElem e \<Longrightarrow> JoinPath [chartCache, e] = chartCache @ ''/'' @ e"
  using Join_plain [OF cacheDirs(2), of e] by (simp add: cacheDirs(1))

lemma Join_sub_plain:
  assumes "plainElem d" and "plainElem e"
  shows "JoinPath [chartCache @ slash # d, e] = (chartCache @ slash # d) @ slash # e"
proof -
  have d: "chartCache @ slash # d = absPath [''tmp'', ''charts'', d]"
    by (simp add: chartCache_def absPath_def)
  have "list_all plainElem [''tmp'', ''charts'', d]" using assms(1) cacheDirs(2) by simp
  from Join_plain [OF this _ assms(2)] show ?thesis unfolding d by simp
qed

lemma Join_cache_dotdot: "JoinPath [chartCache, ''..''] = ''/tmp''"
  using Join_elem [OF cacheDirs(2), of "''..''"] by (simp add: cacheDirs(1) cleanStep_def absPath_def)

lemma plainElem_Base: "plainElem e \<Longrightarrow> Base (d @ slash # e) = e"
  by (simp add: plainElem_def Base_append)

text \<open>A base name joined to the cache: the cache itself, its parent, or a file in it.\<close>

lemma Join_cache_Base:
  obtains (cache) "JoinPath [chartCache, Base p] = chartCache"
  | (parent) "JoinPath [chartCache, Base p] = ''/tmp''"
  | (inside) "plainElem (Base p)" "JoinPath [chartCache, Base p] = chartCache @ ''/'' @ Base p"
proof (cases "Base p = ''..''")
  case True
  then show ?thesis using Join_cache_dotdot parent by simp
next
  case False
  then show ?thesis
    using Join_Base [OF cacheDirs(2) _ False] cache inside by (auto simp: cacheDirs(1))
qed

lemma safePath_inside: "plainElem e \<Longrightarrow> safePath chartCache (chartCache @ ''/'' @ e) = chartCache @ ''/'' @ e"
  using plainElem_Base [of e chartCache] Join_cache_plain by (simp add: safePath_def)

section \<open>References\<close>

text \<open>A repository path: slashes and plain characters, starting with a slash.\<close>

definition repoPath :: "string \<Rightarrow> bool" where
  "repoPath p \<longleftrightarrow> list_all (\<lambda>c. refChar c \<or> c = slash) p \<and> p \<noteq> [] \<and> hd p = slash"

definition digestString :: "string \<Rightarrow> bool" where
  "digestString d \<longleftrightarrow> list_all (\<lambda>c. refChar c \<or> c = CHR '':'') d"

definition ociURLOf :: "string \<Rightarrow> string \<Rightarrow> string option \<Rightarrow> string option \<Rightarrow> string" where
  "ociURLOf h p tag digest =
     ''oci://'' @ h @ p @ (case tag of None \<Rightarrow> [] | Some t \<Rightarrow> CHR '':'' # t)
       @ (case digest of None \<Rightarrow> [] | Some d \<Rightarrow> CHR ''@'' # d)"

lemma resolveOCI_plain:
  assumes h: "plainHost h" and p: "repoPath p"
    and tag: "\<And>t. tag = Some t \<Longrightarrow> list_all refChar t"
    and digest: "\<And>d. digest = Some d \<Longrightarrow> digestString d"
    and oci: "osIsOCI Os (ociURLOf h p tag digest)"
  shows "resolveOCIChartVersionAndDigest Os (ociURLOf h p tag digest) =
    Inr (zeroURL\<lparr>uScheme := ''oci'', uHost := h, uPath := p\<rparr>,
      (case tag of None \<Rightarrow> [] | Some t \<Rightarrow> t), (case digest of None \<Rightarrow> [] | Some d \<Rightarrow> d))"
proof -
  define tg where "tg = (case tag of None \<Rightarrow> [] | Some t \<Rightarrow> CHR '':'' # t)"
  define dg where "dg = (case digest of None \<Rightarrow> [] | Some d \<Rightarrow> CHR ''@'' # d)"
  have pp: "list_all pathChar p" using p by (auto simp: repoPath_def list_all_iff pathChar_def)
  have pt: "list_all pathChar tg"
    using tag by (auto simp: tg_def list_all_iff pathChar_def split: option.splits)
  have pd: "list_all pathChar dg"
    using digest by (auto simp: dg_def list_all_iff pathChar_def digestString_def split: option.splits)
  have "plainPath (p @ tg @ dg)"
    using p pp pt pd by (auto simp: plainPath_def repoPath_def)
  from Parse_oci [OF h this]
  have parse: "Parse (osHostLiteral Os) (ociURLOf h p tag digest) =
      Inr (zeroURL\<lparr>uScheme := ''oci'', uHost := h, uPath := p @ tg @ dg\<rparr>)"
    by (simp add: ociURLOf_def tg_def dg_def)
  have path: "uPath (zeroURL\<lparr>uScheme := ''oci'', uHost := h, uPath := x\<rparr>) = x" for x
    by simp
  have pno: "refChar c \<or> c = slash" if "c \<in> set p" for c
    using p that by (simp add: repoPath_def list_all_iff)
  have tno: "c = CHR '':'' \<or> refChar c" if "c \<in> set tg" for c
    using tag that by (auto simp: tg_def list_all_iff split: option.splits)
  have at: "CHR ''@'' \<notin> set (p @ tg)" using pno [of "CHR ''@''"] tno [of "CHR ''@''"] by auto
  have dno: "CHR ''@'' \<notin> set d" if "digest = Some d" for d
    using digest [OF that] refChar_consts(3) unfolding digestString_def list_all_iff by fastforce
  have d: "(case LastIndexByte (p @ tg @ dg) (CHR ''@'') of
      Some i \<Rightarrow> (take i (p @ tg @ dg), drop (Suc i) (p @ tg @ dg)) | None \<Rightarrow> (p @ tg @ dg, [])) =
    (p @ tg, case digest of None \<Rightarrow> [] | Some d \<Rightarrow> d)"
  proof (cases digest)
    case None
    with at show ?thesis by (simp add: dg_def)
  next
    case (Some d)
    then have "LastIndexByte ((p @ tg) @ CHR ''@'' # d) (CHR ''@'') = Some (length (p @ tg))"
      using dno by (intro LastIndexByte_append_notin) blast
    with Some show ?thesis by (simp add: dg_def)
  qed
  have colon: "CHR '':'' \<notin> set p" using pno [of "CHR '':''"] by auto
  have t: "(case LastIndexByte (p @ tg) (CHR '':'') of
      Some i \<Rightarrow> (take i (p @ tg), drop (Suc i) (p @ tg)) | None \<Rightarrow> (p @ tg, [])) =
    (p, case tag of None \<Rightarrow> [] | Some t \<Rightarrow> t)"
  proof (cases tag)
    case None
    with colon show ?thesis by (simp add: tg_def)
  next
    case (Some u)
    then have "CHR '':'' \<notin> set u" using notin_refChars [OF tag [OF Some]] by simp
    then have "LastIndexByte (p @ CHR '':'' # u) (CHR '':'') = Some (length p)"
      by (rule LastIndexByte_append_notin)
    with Some show ?thesis by (simp add: tg_def)
  qed
  show ?thesis
    using oci unfolding resolveOCIChartVersionAndDigest_def parse Let_def wrapE_simps bindE_simps path d
      prod.case t
    by simp
qed

lemma String_repo:
  "plainHost h \<Longrightarrow> repoPath p \<Longrightarrow>
    URL_String (zeroURL\<lparr>uScheme := ''oci'', uHost := h, uPath := p\<rparr>) = ''oci://'' @ h @ p"
  by (rule String_oci) (auto simp: plainPath_def repoPath_def list_all_iff pathChar_def)

section \<open>Nothing outside the cache is touched\<close>

text \<open>
  The directories exist. Temporary names are new; a pull leaves files with plain names in its
  destination directory, and what it writes besides lies in the content cache it was given.
\<close>

definition contentPath :: "string \<Rightarrow> bool" where
  "contentPath p \<longleftrightarrow> prefix (chartContentCache @ ''/'') p"

definition wfFS :: "fsys \<Rightarrow> bool" where
  "wfFS fs \<longleftrightarrow> map_of fs ''/tmp'' = Some Dir \<and> map_of fs chartCache = Some Dir"

definition wellBehaved :: "oslib \<Rightarrow> bool" where
  "wellBehaved Os \<longleftrightarrow>
     (\<forall>fs nm. osTempName Os fs = Inr nm \<longrightarrow> plainElem nm
        \<and> (\<forall>p. p \<in> fst ` set fs \<longrightarrow> \<not> under (chartCache @ ''/'' @ nm) p))
     \<and> (\<forall>pc ref n c. (n, c) \<in> set (fst (osPullRun Os pc ref)) \<longrightarrow> plainElem n)
     \<and> (\<forall>pc ref p c. (p, c) \<in> set (osContentRun Os pc ref) \<longrightarrow> contentPath p)"

text \<open>Outside both cache directories.\<close>

definition outside :: "string \<Rightarrow> bool" where
  "outside p \<longleftrightarrow> \<not> prefix (chartCache @ ''/'') p \<and> \<not> contentPath p"

definition sameOutside :: "fsys \<Rightarrow> fsys \<Rightarrow> bool" where
  "sameOutside fs fs' \<longleftrightarrow> (\<forall>p. outside p \<longrightarrow> map_of fs' p = map_of fs p)"

lemma sameOutside_refl [simp]: "sameOutside fs fs"
  by (simp add: sameOutside_def)

lemma sameOutside_trans: "sameOutside a b \<Longrightarrow> sameOutside b c \<Longrightarrow> sameOutside a c"
  by (simp add: sameOutside_def)

lemma outside_dirs [simp]: "outside ''/tmp''" "outside chartCache" "\<not> outside (chartCache @ slash # n)"
  by (simp_all add: outside_def contentPath_def chartContentCache_def chartCache_def)

lemma contentPath_chart [simp]: "\<not> contentPath (chartCache @ slash # n)"
  by (simp add: contentPath_def chartContentCache_def chartCache_def)

lemma contentPath_outside: "contentPath p \<Longrightarrow> \<not> outside p"
  by (simp add: outside_def)

lemma map_of_writeContent:
  "\<forall>(p, c) \<in> set files. contentPath p \<Longrightarrow> \<not> contentPath q \<Longrightarrow> map_of (writeContent fs files) q = map_of fs q"
  unfolding writeContent_def by (induction files arbitrary: fs) (auto simp: update_conv')

lemma sameOutside_writeContent:
  assumes "\<forall>(p, c) \<in> set files. contentPath p"
  shows "sameOutside fs (writeContent fs files)"
proof -
  have "map_of (writeContent fs files) p = map_of fs p" if "outside p" for p
    using that by (intro map_of_writeContent [OF assms]) (simp add: outside_def)
  then show ?thesis by (simp add: sameOutside_def)
qed

lemma wfFS_same: "wfFS fs \<Longrightarrow> sameOutside fs fs' \<Longrightarrow> wfFS fs'"
  by (simp add: wfFS_def sameOutside_def)

lemma sameOutside_update: "\<not> outside p \<Longrightarrow> sameOutside fs (AList.update p n fs)"
  by (auto simp: sameOutside_def update_conv')

lemma sameOutside_delete: "\<not> outside p \<Longrightarrow> sameOutside fs (AList.delete p fs)"
  by (auto simp: sameOutside_def delete_conv')

lemma map_of_removeAll: "map_of (removeAll fs d) p = (if under d p then None else map_of fs p)"
  unfolding removeAll_def by (induction fs) auto

lemma under_child: "under d (d @ slash # n)"
  by (auto simp: under_def)

lemma under_cache: "under (chartCache @ slash # n) p \<Longrightarrow> \<not> outside p"
  by (auto simp: under_def outside_def prefix_def)

lemma sameOutside_removeAll: "sameOutside fs (removeAll fs (chartCache @ slash # n))"
  by (auto simp: sameOutside_def map_of_removeAll dest: under_cache)

lemma sameOutside_files:
  "sameOutside fs (writeChart (chartCache @ slash # d) fs files)"
  unfolding writeChart_def
proof (induction files arbitrary: fs)
  case (Cons f files)
  obtain a b where f: "f = (a, b)" by (cases f)
  have "sameOutside fs (AList.update (chartCache @ slash # d @ slash # a) (File b) fs)"
    by (rule sameOutside_update) simp
  from sameOutside_trans [OF this Cons.IH] show ?case by (simp add: f)
qed simp

lemma cleanup_simps [simp]: "cTrace (cleanup Os t s) = cTrace s" "cPull (cleanup Os t s) = cPull s"
  by (simp_all add: cleanup_def split: option.split)

lemma sameOutside_cleanup: "sameOutside (cFS s) (cFS (cleanup Os (chartCache @ slash # n) s))"
  by (simp add: cleanup_def sameOutside_removeAll split: option.split)

text \<open>What a pull leaves in the trace: a login at most, then one pull.\<close>

definition isPull :: "clientEvent \<Rightarrow> bool" where
  "isPull e = (case e of EvPull pc r \<Rightarrow> True | _ \<Rightarrow> False)"

definition isLoad :: "clientEvent \<Rightarrow> bool" where
  "isLoad e = (case e of EvLoad p \<Rightarrow> True | _ \<Rightarrow> False)"

lemma login_events: "login Os u r c i = (ev, e) \<Longrightarrow> filter isPull ev = [] \<and> filter isLoad ev = []"
  by (auto simp: login_def Let_def isPull_def isLoad_def split: if_splits sum.splits)

lemma pullChart_effects:
  assumes "pullChart Os u n v r d creds dir s = (s', err)"
  obtains ev where "cTrace s' = cTrace s @ ev" "length (filter isPull ev) \<le> 1" "filter isLoad ev = []"
    "\<exists>ws files. cFS s' = writeChart dir (writeContent (cFS s) ws) files
       \<and> (ws = [] \<and> files = [] \<or> (\<exists>pc ref. ws = osContentRun Os pc ref \<and> files = fst (osPullRun Os pc ref)))"
proof -
  obtain pc res where ref: "chartReference Os (cPull s) u n v r d = (pc, res)" by fastforce
  show ?thesis
  proof (cases res)
    case (Inl e)
    then have "cTrace s' = cTrace s @ []" "cFS s' = cFS s"
      using assms ref by (auto simp: pullChart_def)
    then show ?thesis
      by (intro that [of "[]"]) (auto simp: writeChart_def writeContent_def intro!: exI [of _ "[]"])
  next
    case (Inr rf)
    define pc' where "pc' = pc\<lparr>pcUsername := rcUsername creds, pcPassword := rcPassword creds, pcDestDir := dir\<rparr>"
    define lg where "lg = (if rcUsername creds \<noteq> [] \<and> rcPassword creds \<noteq> []
      then login Os u r creds (pcInsecureSkipTLSVerify pc') else ([], None))"
    obtain ev lerr where lg_eq: "lg = (ev, lerr)" by fastforce
    have ev: "filter isPull ev = [] \<and> filter isLoad ev = []"
      using lg_eq login_events by (auto simp: lg_def split: if_splits)
    have eq: "pullChart Os u n v r d creds dir s =
      (case lerr of
         Some e \<Rightarrow> (s\<lparr>cPull := pc', cTrace := cTrace s @ ev\<rparr>, Some e)
       | None \<Rightarrow> (s\<lparr>cPull := pc', cTrace := (cTrace s @ ev) @ [EvPull pc' rf],
           cFS := writeChart dir (writeContent (cFS s) (osContentRun Os pc' rf)) (fst (osPullRun Os pc' rf))\<rparr>, WrapNil (snd (osPullRun Os pc' rf)) errFailedToPullChart))"
      unfolding pullChart_def ref Inr Let_def prod.case sum.case pc'_def [symmetric] lg_def [symmetric] lg_eq
      by (cases lerr) (simp_all add: split_beta pc'_def)
    show ?thesis
    proof (cases lerr)
      case (Some e)
      with assms eq have "cTrace s' = cTrace s @ ev" "cFS s' = cFS s" by auto
      with ev show ?thesis
        by (intro that [of ev]) (auto simp: writeChart_def writeContent_def intro!: exI [of _ "[]"])
    next
      case None
      with assms eq have "cTrace s' = cTrace s @ ev @ [EvPull pc' rf]"
        "cFS s' = writeChart dir (writeContent (cFS s) (osContentRun Os pc' rf)) (fst (osPullRun Os pc' rf))"
        by auto
      with ev show ?thesis
        by (intro that [of "ev @ [EvPull pc' rf]"]) (auto simp: isPull_def isLoad_def)
    qed
  qed
qed

section \<open>One pull\<close>

text \<open>A file directly in the cache directory.\<close>

definition cachedFile :: "fsys \<Rightarrow> string \<Rightarrow> bool" where
  "cachedFile fs f \<longleftrightarrow>
     (\<exists>e c. plainElem e \<and> f = chartCache @ slash # e \<and> map_of fs f = Some (File c))"

lemma renameFile_same:
  "renameFile Os fs a b = Inr fs' \<Longrightarrow> \<not> outside a \<Longrightarrow> \<not> outside b \<Longrightarrow> sameOutside fs fs'"
  by (auto simp: renameFile_def split: option.splits if_splits
      intro!: sameOutside_trans [OF sameOutside_delete sameOutside_update])

text \<open>The entries a pull adds to its directory are the only ones there.\<close>

lemma map_of_files:
  "map_of (writeChart dir fs files) p = Some x \<Longrightarrow>
    map_of fs p = Some x \<or> (\<exists>n c. (n, c) \<in> set files \<and> p = dir @ slash # n \<and> x = File c)"
  unfolding writeChart_def
  by (induction files arbitrary: fs)
    (fastforce simp: update_conv' split: if_splits)+

lemma map_of_files_other:
  "(\<And>n. p \<noteq> dir @ slash # n) \<Longrightarrow>
    map_of (writeChart dir fs files) p = map_of fs p"
  unfolding writeChart_def by (induction files arbitrary: fs) (auto simp: update_conv')

lemma childNames_iff:
  "n \<in> set (childNames fs dir) \<longleftrightarrow> dir @ slash # n \<in> dom (map_of fs) \<and> slash \<notin> set n"
  by (force simp: childNames_def isChild_def prefix_def dom_map_of_conv_image_fst)

text \<open>Apart from the content cache, at most one file directly in the cache directory is different.\<close>

definition oneFile :: "fsys \<Rightarrow> fsys \<Rightarrow> bool" where
  "oneFile fs fs' \<longleftrightarrow> (\<exists>e. plainElem e
     \<and> (\<forall>p. \<not> contentPath p \<longrightarrow> p \<noteq> chartCache @ slash # e \<longrightarrow> map_of fs' p = map_of fs p))"

lemma oneFile_same: "(\<And>p. \<not> contentPath p \<Longrightarrow> map_of fs' p = map_of fs p) \<Longrightarrow> oneFile fs fs'"
  unfolding oneFile_def by (intro exI [of _ "''x''"]) (simp add: plainElem_def)

lemma oneFile_refl [simp]: "oneFile fs fs"
  by (rule oneFile_same) simp

text \<open>What pulling into the cache gives: a file in the cache directory.\<close>

lemma pullChartToCache_effects:
  assumes wb: "wellBehaved Os" and pull: "pullChartToCache Os u n v r d creds s = (s', res)"
  obtains ev where "cTrace s' = cTrace s @ ev" "length (filter isPull ev) \<le> 1" "filter isLoad ev = []"
    "sameOutside (cFS s) (cFS s')"
    "\<And>f. res = Inr f \<Longrightarrow> cachedFile (cFS s') f"
    "\<forall>p. osRemoveErr Os p = None \<Longrightarrow> oneFile (cFS s) (cFS s')"
proof (cases "osTempName Os (cFS s)")
  case (Inl e)
  with pull show ?thesis by (intro that [of "[]"]) (auto simp: pullChartToCache_def)
next
  case (Inr nm)
  define tmp where "tmp = chartCache @ slash # nm"
  define s1 where "s1 = s\<lparr>cFS := AList.update tmp Dir (cFS s)\<rparr>"
  have nm: "plainElem nm" "\<And>p. p \<in> fst ` set (cFS s) \<Longrightarrow> \<not> under tmp p"
    using wb Inr unfolding wellBehaved_def tmp_def by auto
  obtain s2 err where p: "pullChart Os u n v r d creds tmp s1 = (s2, err)" by fastforce
  obtain ev ws files where ev: "cTrace s2 = cTrace s1 @ ev" "length (filter isPull ev) \<le> 1"
    "filter isLoad ev = []"
    and fs: "cFS s2 = writeChart tmp (writeContent (cFS s1) ws) files"
      "ws = [] \<and> files = [] \<or> (\<exists>pc ref. ws = osContentRun Os pc ref \<and> files = fst (osPullRun Os pc ref))"
    by (rule pullChart_effects [OF p]) blast
  have files: "plainElem a" if "(a, b) \<in> set files" for a b
    using fs(2) wb that unfolding wellBehaved_def by (metis empty_iff list.set(1))
  have ws: "\<forall>(p, c) \<in> set ws. contentPath p"
    using fs(2) wb unfolding wellBehaved_def by fastforce
  have same1: "sameOutside (cFS s) (cFS s1)"
    by (simp add: s1_def tmp_def sameOutside_update)
  have "sameOutside (writeContent (cFS s1) ws) (cFS s2)"
    unfolding fs(1) tmp_def using sameOutside_files [of _ nm files] by simp
  from sameOutside_trans [OF sameOutside_writeContent [OF ws] this] have "sameOutside (cFS s1) (cFS s2)" .
  with same1 have same: "sameOutside (cFS s) (cFS s2)" using sameOutside_trans by blast
  have clean: "sameOutside (cFS x) (cFS (cleanup Os tmp x))" for x
    by (simp add: tmp_def sameOutside_cleanup)
  have child: "plainElem a \<and> (\<exists>c. map_of (cFS s2) (tmp @ slash # a) = Some (File c))"
    if "a \<in> set (childNames (cFS s2) tmp)" for a
  proof -
    from that obtain x where x: "map_of (cFS s2) (tmp @ slash # a) = Some x"
      by (auto simp: childNames_iff)
    from map_of_files [OF this [unfolded fs(1)]] show ?thesis
    proof
      assume "map_of (writeContent (cFS s1) ws) (tmp @ slash # a) = Some x"
      then have "map_of (cFS s1) (tmp @ slash # a) = Some x"
        using map_of_writeContent [OF ws, of "tmp @ slash # a"] by (simp add: tmp_def)
      then have "tmp @ slash # a \<in> fst ` set (cFS s)"
        by (force simp: s1_def update_conv' image_iff dest: map_of_SomeD split: if_splits)
      with nm(2) show ?thesis by (fastforce simp: under_def prefix_def)
    next
      assume "\<exists>n c. (n, c) \<in> set files \<and> tmp @ slash # a = tmp @ slash # n \<and> x = File c"
      with files x show ?thesis by auto
    qed
  qed
  have dir: "map_of (cFS s2) tmp = Some Dir"
    unfolding fs(1)
    by (subst map_of_files_other) (simp_all add: map_of_writeContent [OF ws] tmp_def s1_def update_conv')
  have restored: "map_of (cFS (cleanup Os tmp x)) p = map_of (cFS s) p"
    if rm: "\<forall>p. osRemoveErr Os p = None" and p: "\<not> contentPath p"
      and x: "\<not> under tmp p \<Longrightarrow> map_of (cFS x) p = map_of (cFS s2) p" for x p
  proof (cases "under tmp p")
    case True
    then have "map_of (cFS s) p = None" using nm(2) [of p] by (auto simp: map_of_eq_None_iff)
    with True rm show ?thesis by (simp add: cleanup_def map_of_removeAll)
  next
    case False
    then have "p \<noteq> tmp" "p \<noteq> tmp @ slash # n" for n using under_child by (auto simp: under_def)
    then have "map_of (cFS s2) p = map_of (cFS s) p"
      unfolding fs(1) by (subst map_of_files_other) (simp_all add: map_of_writeContent [OF ws p] s1_def update_conv')
    with False rm x show ?thesis by (simp add: cleanup_def map_of_removeAll)
  qed
  consider (failed) "s' = cleanup Os tmp s2" "\<exists>e. res = Inl e"
    | (renamed) nme fs' where "getChartFileName Os (cFS s2) tmp = Inr nme"
      "renameFile Os (cFS s2) (JoinPath [tmp, nme]) (JoinPath [chartCache, nme]) = Inr fs'"
      "s' = cleanup Os tmp (s2\<lparr>cFS := fs'\<rparr>)" "res = Inr (JoinPath [chartCache, nme])"
  proof -
    note eq = pull [unfolded pullChartToCache_def Inr sum.case append_Cons append_Nil Let_def
      tmp_def [symmetric] s1_def [symmetric] p prod.case]
    show thesis
    proof (cases err)
      case Some
      with eq show thesis using failed by auto
    next
      case None
      show thesis
      proof (cases "getChartFileName Os (cFS s2) tmp")
        case (Inl e)
        with None eq have "s' = cleanup Os tmp s2" "res = Inl e" by simp_all
        then show thesis using failed by blast
      next
        case g: (Inr nme)
        show thesis
        proof (cases "renameFile Os (cFS s2) (JoinPath [tmp, nme]) (JoinPath [chartCache, nme])")
          case (Inl e)
          with None g eq have "s' = cleanup Os tmp s2" "res = Inl e" by simp_all
          then show thesis using failed by blast
        next
          case (Inr fs')
          with None g eq have "s' = cleanup Os tmp (s2\<lparr>cFS := fs'\<rparr>)"
            "res = Inr (JoinPath [chartCache, nme])" by simp_all
          with g Inr show thesis using renamed by blast
        qed
      qed
    qed
  qed
  then show ?thesis
  proof cases
    case failed
    with ev same clean restored show ?thesis
      by (intro that [of ev]) (auto simp: s1_def intro: sameOutside_trans oneFile_same)
  next
    case renamed
    have "nme \<in> set (childNames (cFS s2) tmp)"
      using renamed(1) by (auto simp: getChartFileName_def split: option.splits list.splits)
    from child [OF this] obtain c where plain: "plainElem nme"
      and fl: "map_of (cFS s2) (tmp @ slash # nme) = Some (File c)" by blast
    have tmpJ: "JoinPath [tmp, nme] = tmp @ slash # nme"
      using Join_sub_plain [OF nm(1) plain] by (simp add: tmp_def)
    have cJ: "JoinPath [chartCache, nme] = chartCache @ slash # nme"
      using Join_cache_plain [OF plain] by (simp only: append_Cons append_Nil)
    have "sameOutside (cFS s2) fs'"
      using renamed(2) unfolding tmpJ cJ by (rule renameFile_same) (simp_all add: tmp_def)
    then have "sameOutside (cFS s) (cFS s')"
      using same clean [of "s2\<lparr>cFS := fs'\<rparr>"] unfolding renamed(3)
      by (auto intro: sameOutside_trans)
    moreover have "cTrace s' = cTrace s @ ev" using ev(1) by (simp add: renamed(3) s1_def)
    moreover have "map_of (cFS s') (chartCache @ slash # nme) = Some (File c)"
    proof -
      have "map_of fs' (chartCache @ slash # nme) = Some (File c)"
        "map_of (cFS s2) (chartCache @ slash # nme) \<noteq> Some Dir"
        using renamed(2) fl unfolding tmpJ cJ
        by (auto simp: renameFile_def update_conv' split: option.splits if_splits)
      moreover from this(2) have "nme \<noteq> nm" using dir by (auto simp: tmp_def)
      then have "\<not> under tmp (chartCache @ slash # nme)"
        using plain by (auto simp: under_def tmp_def plainElem_def prefix_def)
      ultimately show ?thesis
        by (simp add: renamed(3) cleanup_def map_of_removeAll split: option.split)
    qed
    moreover have "oneFile (cFS s) (cFS s')" if rm: "\<forall>p. osRemoveErr Os p = None"
      unfolding oneFile_def
    proof (intro exI [of _ nme] conjI allI impI)
      fix p
      assume p: "\<not> contentPath p" "p \<noteq> chartCache @ slash # nme"
      have "map_of fs' p = map_of (cFS s2) p" if "\<not> under tmp p"
        using renamed(2) that p(2) under_child [of tmp nme] unfolding tmpJ cJ
        by (auto simp: renameFile_def update_conv' delete_conv' split: option.splits if_splits)
      with restored [OF rm p(1)] show "map_of (cFS s') p = map_of (cFS s) p" by (simp add: renamed(3))
    qed (rule plain)
    ultimately show ?thesis
      using ev(2,3) plain renamed(4) unfolding cJ by (intro that [of ev]) (auto simp: cachedFile_def)
  qed
qed

section \<open>PullAndLoadChart\<close>

text \<open>A cache hit: no pull, no login, whatever the repository and the credentials.\<close>

lemma ensureChartCached_hit:
  "p \<noteq> [] \<Longrightarrow> osStatErr Os (JoinPath [chartCache, Base p]) = None \<Longrightarrow>
    map_of (cFS s) (JoinPath [chartCache, Base p]) = Some (File c) \<Longrightarrow>
    ensureChartCached Os p u n v r d creds s = (s, Inr (JoinPath [chartCache, Base p]))"
  by (simp add: ensureChartCached_def Let_def del: JoinPath.simps)

lemma ensureChartCached_fault:
  "p \<noteq> [] \<Longrightarrow> osStatErr Os (JoinPath [chartCache, Base p]) = Some e \<Longrightarrow>
    ensureChartCached Os p u n v r d creds s = (s, Inl (Wrap e errFailedToCheckIfLocalChartExists))"
  by (simp add: ensureChartCached_def Let_def del: JoinPath.simps)

lemma ensureChartCached_effects:
  assumes wb: "wellBehaved Os" and wf: "wfFS (cFS s)"
    and "ensureChartCached Os p u n v r d creds s = (s', res)"
  obtains ev where "cTrace s' = cTrace s @ ev" "length (filter isPull ev) \<le> 1" "filter isLoad ev = []"
    "sameOutside (cFS s) (cFS s')"
    "\<And>f. res = Inr f \<Longrightarrow> cachedFile (cFS s') f"
    "\<forall>p. osRemoveErr Os p = None \<Longrightarrow> oneFile (cFS s) (cFS s')"
proof -
  let ?path = "JoinPath [chartCache, Base p]"
  consider (pull) "pullChartToCache Os u n v r d creds s = (s', res)"
    | (none) e where "s' = s" "res = Inl e"
    | (hit) c where "map_of (cFS s) ?path = Some (File c)" "s' = s" "res = Inr ?path"
  proof -
    note eq = assms(3) [unfolded ensureChartCached_def Let_def]
    show thesis
    proof (cases "p = []")
      case True
      with eq show thesis by (intro pull) (simp only: if_True simp_thms)
    next
      case False
      note eq = eq [unfolded if_not_P [OF False]]
      show thesis
      proof (cases "osStatErr Os ?path")
        case (Some e)
        from eq [unfolded this] show thesis by (intro none) (auto simp del: JoinPath.simps)
      next
        case st: None
        show thesis
        proof (cases "map_of (cFS s) ?path")
          case None
          from eq [unfolded st None] show thesis by (intro pull) (simp only: option.case)
        next
          case (Some nd)
          from eq [unfolded st Some] Some show thesis
            by (cases nd) (auto simp del: JoinPath.simps intro: none hit)
        qed
      qed
    qed
  qed
  then show ?thesis
  proof cases
    case pull
    from pullChartToCache_effects [OF wb this] that show ?thesis by blast
  next
    case none
    then show ?thesis by (intro that [of "[]"]) simp_all
  next
    case (hit c)
    have "plainElem (Base p) \<and> ?path = chartCache @ slash # Base p"
      using hit(1) wf by (cases rule: Join_cache_Base [of p]) (simp_all add: wfFS_def del: JoinPath.simps)
    then have "cachedFile (cFS s) ?path" using hit(1) unfolding cachedFile_def by blast
    with hit(2,3) show ?thesis by (intro that [of "[]"]) (auto simp del: JoinPath.simps)
  qed
qed

lemma chartLocation_cases:
  assumes "chartLocation Os u n v r d creds s = (s', res)"
  obtains (unchanged) "s' = s" | (pulled) "pullChartToCache Os u n v r d creds s = (s', res)"
  using assms unfolding chartLocation_def
  by (auto split: if_splits sum.splits prod.splits)

lemma pullAndLoad_effects:
  assumes wb: "wellBehaved Os" and wf: "wfFS (cFS s)"
    and "pullAndLoad Os ch creds s = (s', res)"
  obtains ev where "cTrace s' = cTrace s @ ev" "length (filter isPull ev) \<le> 1"
    "\<And>p. EvLoad p \<in> set ev \<Longrightarrow> cachedFile (cFS s') p"
    "sameOutside (cFS s) (cFS s')"
    "\<forall>p. osRemoveErr Os p = None \<Longrightarrow> oneFile (cFS s) (cFS s')"
proof -
  let ?loc = "chartLocation Os (csURL ch) (csName ch) (csVersion ch) (csRepository ch) (csDigest ch) creds"
  let ?ens = "\<lambda>p. ensureChartCached Os p (csURL ch) (csName ch) (csVersion ch) (csRepository ch) (csDigest ch) creds"
  have noload: "EvLoad p \<notin> set ev" if "filter isLoad ev = []" for ev p
    using that by (auto simp: filter_empty_conv isLoad_def)
  show ?thesis
  proof (cases "csDigest ch \<noteq> [] \<and> \<not> (osIsOCI Os (csURL ch) \<or> osIsOCI Os (csRepository ch))")
    case True
    with assms(3) show ?thesis by (intro that [of "[]"]) (auto simp: pullAndLoad_def)
  next
    case False
    obtain s1 r1 where loc: "?loc s = (s1, r1)" by fastforce
    have "\<exists>ev1 k. cTrace s1 = cTrace s @ ev1 \<and> length (filter isPull ev1) + k \<le> 1 \<and> filter isLoad ev1 = []
        \<and> sameOutside (cFS s) (cFS s1)
        \<and> ((\<forall>p. osRemoveErr Os p = None) \<longrightarrow> oneFile (cFS s) (cFS s1))
        \<and> (\<forall>p s2 r2. r1 = Inr p \<longrightarrow> ?ens p s1 = (s2, r2) \<longrightarrow>
          (\<exists>ev2. cTrace s2 = cTrace s1 @ ev2 \<and> length (filter isPull ev2) \<le> k \<and> filter isLoad ev2 = []
            \<and> sameOutside (cFS s1) (cFS s2)
            \<and> ((\<forall>p. osRemoveErr Os p = None) \<longrightarrow> oneFile (cFS s) (cFS s2))
            \<and> (\<forall>f. r2 = Inr f \<longrightarrow> cachedFile (cFS s2) f)))"
      using loc
    proof (cases rule: chartLocation_cases)
      case unchanged
      have "\<exists>ev2. cTrace s2 = cTrace s @ ev2 \<and> length (filter isPull ev2) \<le> 1 \<and> filter isLoad ev2 = []
            \<and> sameOutside (cFS s) (cFS s2)
            \<and> ((\<forall>p. osRemoveErr Os p = None) \<longrightarrow> oneFile (cFS s) (cFS s2))
            \<and> (\<forall>f. r2 = Inr f \<longrightarrow> cachedFile (cFS s2) f)"
        if "?ens p s = (s2, r2)" for p s2 r2
        using ensureChartCached_effects [OF wb wf that] by metis
      with unchanged show ?thesis by (intro exI [of _ "[]"] exI [of _ 1]) auto
    next
      case pulled
      obtain ev1 where ev1: "cTrace s1 = cTrace s @ ev1" "length (filter isPull ev1) \<le> 1"
        "filter isLoad ev1 = []" "sameOutside (cFS s) (cFS s1)"
        "\<And>f. r1 = Inr f \<Longrightarrow> cachedFile (cFS s1) f"
        "\<forall>p. osRemoveErr Os p = None \<Longrightarrow> oneFile (cFS s) (cFS s1)"
        using pullChartToCache_effects [OF wb pulled] by blast
      have "?ens p s1 = (s1, Inr p) \<or> (\<exists>e. ?ens p s1 = (s1, Inl e))" if r1: "r1 = Inr p" for p
      proof -
        obtain e c where p: "plainElem e" "p = chartCache @ slash # e" "map_of (cFS s1) p = Some (File c)"
          using ev1(5) [OF r1] unfolding cachedFile_def by blast
        have j: "JoinPath [chartCache, Base p] = p"
          using safePath_inside [OF p(1)] by (simp add: p(2) safePath_def del: JoinPath.simps)
        have "p \<noteq> []" using p(2) by simp
        then show ?thesis
          using ensureChartCached_hit [of p Os s1 c] ensureChartCached_fault [of p Os] p(3) unfolding j
          by (cases "osStatErr Os p") simp_all
      qed
      with ev1 show ?thesis by (intro exI [of _ ev1] exI [of _ 0]) fastforce
    qed
    then obtain ev1 k where e1: "cTrace s1 = cTrace s @ ev1" "length (filter isPull ev1) + k \<le> 1"
      "filter isLoad ev1 = []" "sameOutside (cFS s) (cFS s1)"
      "(\<forall>p. osRemoveErr Os p = None) \<longrightarrow> oneFile (cFS s) (cFS s1)"
      and e2: "\<forall>p s2 r2. r1 = Inr p \<longrightarrow> ?ens p s1 = (s2, r2) \<longrightarrow>
          (\<exists>ev2. cTrace s2 = cTrace s1 @ ev2 \<and> length (filter isPull ev2) \<le> k \<and> filter isLoad ev2 = []
            \<and> sameOutside (cFS s1) (cFS s2)
            \<and> ((\<forall>p. osRemoveErr Os p = None) \<longrightarrow> oneFile (cFS s) (cFS s2))
            \<and> (\<forall>f. r2 = Inr f \<longrightarrow> cachedFile (cFS s2) f))"
      by (elim exE conjE)
    show ?thesis
    proof (cases r1)
      case (Inl e)
      with assms(3) False loc have "s' = s1" by (auto simp: pullAndLoad_def Let_def)
      with e1 noload show ?thesis by (intro that [of ev1]) auto
    next
      case (Inr p)
      obtain s2 r2 where ens: "?ens p s1 = (s2, r2)" by fastforce
      obtain ev2 where ev2: "cTrace s2 = cTrace s1 @ ev2" "length (filter isPull ev2) \<le> k"
        "filter isLoad ev2 = []" "sameOutside (cFS s1) (cFS s2)"
        "\<And>f. r2 = Inr f \<Longrightarrow> cachedFile (cFS s2) f"
        "\<forall>p. osRemoveErr Os p = None \<Longrightarrow> oneFile (cFS s) (cFS s2)"
        using e2 [rule_format, OF Inr ens] by blast
      have same: "sameOutside (cFS s) (cFS s2)" using e1(4) ev2(4) by (rule sameOutside_trans)
      show ?thesis
      proof (cases r2)
        case (Inl e)
        with assms(3) False loc Inr ens have "s' = s2"
          by (auto simp: pullAndLoad_def Let_def)
        with e1 ev2 same noload show ?thesis by (intro that [of "ev1 @ ev2"]) auto
      next
        case f: (Inr f)
        then obtain e c where e: "plainElem e" "f = chartCache @ slash # e"
          "map_of (cFS s2) f = Some (File c)" using ev2(5) unfolding cachedFile_def by blast
        have "safePath chartCache f = f" using safePath_inside [OF e(1)] e(2) by simp
        then have s': "s' = s2\<lparr>cTrace := cTrace s2 @ [EvLoad f]\<rparr>"
          using assms(3) False loc Inr ens f by (auto simp: pullAndLoad_def Let_def)
        show ?thesis
          using e1 ev2 same noload e by (intro that [of "ev1 @ ev2 @ [EvLoad f]"])
              (auto simp: s' isPull_def cachedFile_def)
      qed
    qed
  qed
qed

lemma PullAndLoadChart_effects:
  assumes "wellBehaved Os" and "wfFS (cFS s)" and "PullAndLoadChart Os mg creds s = (s', res)"
  obtains ev where "cTrace s' = cTrace s @ ev" "length (filter isPull ev) \<le> 1"
    "\<And>p. EvLoad p \<in> set ev \<Longrightarrow> cachedFile (cFS s') p"
    "sameOutside (cFS s) (cFS s')"
    "\<forall>p. osRemoveErr Os p = None \<Longrightarrow> oneFile (cFS s) (cFS s')"
proof (cases mg)
  case (MgCluster r)
  with assms(3) have "pullAndLoad Os (chartOf r) creds s = (s', res)" by (simp add: PullAndLoadChart_def)
  from pullAndLoad_effects [OF assms(1,2) this] that show ?thesis by blast
next
  case (MgNamespaced r)
  with assms(3) have "pullAndLoad Os (chartOf r) creds s = (s', res)" by (simp add: PullAndLoadChart_def)
  from pullAndLoad_effects [OF assms(1,2) this] that show ?thesis by blast
next
  case MgOther
  with assms(3) show ?thesis by (intro that [of "[]"]) (auto simp: PullAndLoadChart_def)
qed

section \<open>The keys of the cache\<close>

text \<open>With a pinned version the chart comes from the cache, whoever asks for it.\<close>

lemma pinned_from_cache:
  assumes "csURL ch = []" and "csName ch \<noteq> []" and "csRepository ch \<noteq> []" and "csDigest ch = []"
    and "csVersion ch \<notin> {[], develVersion}" and "\<not> osIsOCI Os []"
    and path: "resolveChartFilePath (csName ch) (csVersion ch) = p" "p \<noteq> []"
    and hit: "osStatErr Os (JoinPath [chartCache, Base p]) = None"
      "map_of (cFS s) (JoinPath [chartCache, Base p]) = Some (File c)"
  shows "pullAndLoad Os ch creds s =
    (s\<lparr>cTrace := cTrace s @ [EvLoad (safePath chartCache (JoinPath [chartCache, Base p]))]\<rparr>,
     wrapE (osLoad Os (cFS s) (safePath chartCache (JoinPath [chartCache, Base p]))) errFailedToLoadChart)"
proof -
  have "chartLocation Os (csURL ch) (csName ch) (csVersion ch) (csRepository ch) (csDigest ch) creds s = (s, Inr p)"
    using assms(1-7) by (simp add: chartLocation_def)
  then show ?thesis
    using assms(4) ensureChartCached_hit [OF path(2) hit]
    unfolding pullAndLoad_def Let_def by (simp del: JoinPath.simps)
qed

text \<open>The file name for a digest tells the name of the chart and the digest apart.\<close>

definition digestFile :: "string \<Rightarrow> string \<Rightarrow> string \<Rightarrow> string" where
  "digestFile nm algo hash = nm @ CHR ''@'' # algo @ CHR ''-'' # hash @ ''.tgz''"

definition splitDigest :: "string \<Rightarrow> string \<Rightarrow> bool" where
  "splitDigest algo hash \<longleftrightarrow> list_all refChar algo \<and> CHR ''-'' \<notin> set algo \<and> list_all refChar hash"

definition imageName :: "string \<Rightarrow> bool" where
  "imageName nm \<longleftrightarrow> nm \<noteq> [] \<and> list_all refChar nm"

lemma split_unique:
  fixes c :: char
  shows "c \<notin> set a \<Longrightarrow> c \<notin> set a' \<Longrightarrow> a @ c # b = a' @ c # b' \<Longrightarrow> a = a' \<and> b = b'"
  using IndexByte_append [of c a b] IndexByte_append [of c a' b'] by (auto simp: append_eq_append_conv)

lemma digestFile_inj:
  assumes "imageName n" "imageName n'" "splitDigest a h" "splitDigest a' h'"
    and "digestFile n a h = digestFile n' a' h'"
  shows "n = n' \<and> a = a' \<and> h = h'"
proof -
  have "CHR ''@'' \<notin> set n" "CHR ''@'' \<notin> set n'"
    using assms(1,2) notin_refChars refChar_consts(3) unfolding imageName_def by blast+
  from split_unique [OF this assms(5) [unfolded digestFile_def]]
  have n: "n = n'" and r: "a @ CHR ''-'' # h @ ''.tgz'' = a' @ CHR ''-'' # h' @ ''.tgz''" by auto
  from split_unique [OF _ _ r] assms(3,4) have "a = a'" "h @ ''.tgz'' = h' @ ''.tgz''"
    unfolding splitDigest_def by auto
  with n show ?thesis by simp
qed

lemma digestFile_plain: "imageName n \<Longrightarrow> splitDigest a h \<Longrightarrow> plainElem (digestFile n a h)"
proof -
  assume n: "imageName n" and d: "splitDigest a h"
  have "slash \<notin> set n" "slash \<notin> set a" "slash \<notin> set h"
    using n d notin_refChars refChar_consts(1) unfolding imageName_def splitDigest_def by blast+
  moreover have "length (digestFile n a h) > 2" by (simp add: digestFile_def)
  then have "digestFile n a h \<noteq> ''.'' \<and> digestFile n a h \<noteq> ''..''" by auto
  ultimately show ?thesis by (simp add: plainElem_def digestFile_def)
qed

lemma digestPath:
  assumes "imageName n" and "splitDigest a h"
  shows "resolveCachedChartPathWithDigest n (a @ CHR '':'' # h) = chartCache @ slash # digestFile n a h"
proof -
  have a: "CHR '':'' \<notin> set a"
    using assms(2) notin_refChars refChar_consts(2) unfolding splitDigest_def by blast
  have "slash \<notin> set n" using assms(1) notin_refChars refChar_consts(1) unfolding imageName_def by blast
  with assms(1) have "Base n = n" by (simp add: imageName_def Base_notin)
  with assms(1) have "resolveCachedChartPathWithDigest n (a @ CHR '':'' # h) = JoinPath [chartCache, digestFile n a h]"
    unfolding resolveCachedChartPathWithDigest_def Cut_found [OF a]
    by (simp add: imageName_def digestFile_def del: JoinPath.simps)
  also have "\<dots> = chartCache @ slash # digestFile n a h"
    using Join_cache_plain [OF digestFile_plain [OF assms]] by (simp only: append_Cons append_Nil)
  finally show ?thesis .
qed

end
