(* ===== verification/Chart_Values.thy ===== *)
theory Chart_Values
  imports Data_Source "HOL-Library.Multiset"
begin

text \<open>
  The values a release is deployed with (\<open>pkg/controller/cluster/release/values.go\<close> and its
  namespaced twin): the documents of \<open>valuesFrom\<close> in order, then the inline values, merged
  key by key, then the \<open>set\<close> overrides in order.
\<close>

definition keyDefaultValuesFrom :: string where "keyDefaultValuesFrom = ''values.yaml''"
definition keyDefaultSet :: string where "keyDefaultSet = ''value''"

definition errFailedToUnmarshalDesiredValues :: string where
  "errFailedToUnmarshalDesiredValues = ''failed to unmarshal desired values''"

definition errFailedParsingSetData :: string where
  "errFailedParsingSetData = ''failed parsing --set data''"

definition errFailedToGetValueFromSource :: string where
  "errFailedToGetValueFromSource = ''failed to get value from source''"

definition errMissingValueForSet :: string where
  "errMissingValueForSet = ''missing value for --set''"

section \<open>Merging maps\<close>

text \<open>
  The first argument plays the role of \<open>out\<close>, which starts as a copy of \<open>a\<close>; the recursion
  over the entries of \<open>b\<close> is the second loop.
\<close>

fun mergeMaps :: "vals \<Rightarrow> vals \<Rightarrow> vals" where
  "mergeMaps out [] = out"
| "mergeMaps out ((k, v) # b) =
     mergeMaps
       (put out k
          (case v of
             VMap vb \<Rightarrow> (case map_of out k of Some (VMap va) \<Rightarrow> VMap (mergeMaps va vb) | _ \<Rightarrow> v)
           | _ \<Rightarrow> v))
       b"

section \<open>Composing the values\<close>

text \<open>The loop over \<open>spec.ValuesFrom\<close>; \<open>get\<close> is the lookup of the scope.\<close>

fun mergeValuesFrom ::
  "lib \<Rightarrow> ('src \<Rightarrow> string \<Rightarrow> goerr + string) \<Rightarrow> vals \<Rightarrow> 'src list \<Rightarrow> goerr + vals" where
  "mergeValuesFrom L get base [] = Inr base"
| "mergeValuesFrom L get base (vf # vfs) =
     bindE (wrapE (get vf keyDefaultValuesFrom) errFailedToGetValueFromSource) (\<lambda>s.
     bindE (wrapE (yamlValues L s) errFailedToUnmarshalDesiredValues) (\<lambda>currVals.
       mergeValuesFrom L get (mergeMaps base currVals) vfs))"

text \<open>The loop over \<open>spec.Set\<close>.\<close>

definition setValueOf ::
  "('sel ValueFromSource \<Rightarrow> string \<Rightarrow> goerr + string) \<Rightarrow> 'sel SetVal \<Rightarrow> goerr + string" where
  "setValueOf get s =
     (let v = (if svValue s \<noteq> [] then svValue s else []) in
      case svValueFrom s of
        None \<Rightarrow> Inr v
      | Some src \<Rightarrow> wrapE (get src keyDefaultSet) errFailedToGetValueFromSource)"

fun applySets ::
  "lib \<Rightarrow> ('sel ValueFromSource \<Rightarrow> string \<Rightarrow> goerr + string) \<Rightarrow> vals \<Rightarrow> 'sel SetVal list \<Rightarrow>
    goerr + vals" where
  "applySets L get base [] = Inr base"
| "applySets L get base (s # ss) =
     bindE (setValueOf get s) (\<lambda>v.
       if v = [] then Inl (ErrNew errMissingValueForSet)
       else
         bindE (wrapE (strvalsParseInto L (svName s @ ''='' @ v) base) errFailedParsingSetData)
           (\<lambda>base'. applySets L get base' ss))"

definition composeValues ::
  "lib \<Rightarrow> ('sel ValueFromSource \<Rightarrow> string \<Rightarrow> goerr + string) \<Rightarrow> 'sel ValuesSpec \<Rightarrow> goerr + vals"
where
  "composeValues L get spec =
     bindE (mergeValuesFrom L get [] (ValuesFrom spec)) (\<lambda>base.
     bindE (wrapE (yamlValues L (ValuesRaw spec)) errFailedToUnmarshalDesiredValues) (\<lambda>inlineVals.
       applySets L get (mergeMaps base inlineVals) (SetVals spec)))"

definition composeValuesFromSpec ::
  "lib \<Rightarrow> 'r kube \<Rightarrow> ClusterValuesSpec \<Rightarrow> goerr + vals" where
  "composeValuesFromSpec L kube spec = composeValues L (getDataValueFromSource kube) spec"

definition nsComposeValuesFromSpec ::
  "lib \<Rightarrow> 'r kube \<Rightarrow> NsValuesSpec \<Rightarrow> string \<Rightarrow> goerr + vals" where
  "nsComposeValuesFromSpec L kube spec ns =
     composeValues L (\<lambda>src key. nsGetDataValueFromSource kube src key ns) spec"

section \<open>Facts about merging\<close>

text \<open>What the loop body stores under a key whose old value is \<open>old\<close>.\<close>

definition mergeEntry :: "val option \<Rightarrow> val \<Rightarrow> val" where
  "mergeEntry old v =
     (case v of
        VMap vb \<Rightarrow> (case old of Some (VMap va) \<Rightarrow> VMap (mergeMaps va vb) | _ \<Rightarrow> v)
      | _ \<Rightarrow> v)"

lemma mergeMaps_Cons: "mergeMaps out ((k, v) # b) = mergeMaps (put out k (mergeEntry (map_of out k) v)) b"
  by (simp add: mergeEntry_def)

declare mergeMaps.simps(2) [simp del]

lemma mergeEntry_leaf [simp]: "(\<And>m. v \<noteq> VMap m) \<Longrightarrow> mergeEntry old v = v"
  by (cases v) (auto simp: mergeEntry_def)

lemma mergeEntry_map [simp]:
  "mergeEntry (Some (VMap va)) (VMap vb) = VMap (mergeMaps va vb)"
  "mergeEntry None v = v"
  "(\<And>m. w \<noteq> VMap m) \<Longrightarrow> mergeEntry (Some w) v = v"
  by (auto simp: mergeEntry_def split: val.splits)

lemma mergeMaps_lookup:
  "distinct (map fst b) \<Longrightarrow>
    map_of (mergeMaps a b) k =
      (case map_of b k of None \<Rightarrow> map_of a k | Some v \<Rightarrow> Some (mergeEntry (map_of a k) v))"
proof (induction b arbitrary: a)
  case Nil
  show ?case by simp
next
  case (Cons e b)
  obtain k' v' where e: "e = (k', v')" by fastforce
  with Cons.prems have "map_of b k' = None" by (simp add: map_of_eq_None_iff)
  with Cons e show ?case by (cases "map_of b k") (auto simp: mergeMaps_Cons)
qed

lemma mergeMaps_Nil_left: "distinct (map fst b) \<Longrightarrow> map_of (mergeMaps [] b) = map_of b"
  by (rule ext) (simp add: mergeMaps_lookup split: option.splits)

lemma list_all_put:
  "list_all P m \<Longrightarrow> P (k, v) \<Longrightarrow> list_all P (put m k v)"
  using set_put [of k v m] by (auto simp: list_all_iff)

lemma wfVal_mergeMaps:
  "wfVal (VMap a) \<Longrightarrow> wfVal (VMap b) \<Longrightarrow> wfVal (VMap (mergeMaps a b))"
proof (induction a b rule: mergeMaps.induct)
  case (1 out)
  then show ?case by simp
next
  case (2 out k v b)
  have "wfVal (mergeEntry (map_of out k) v)"
  proof (cases "\<exists>va vb. v = VMap vb \<and> map_of out k = Some (VMap va)")
    case True
    then obtain va vb where v: "v = VMap vb" "map_of out k = Some (VMap va)" by blast
    then have "wfVal (VMap va)"
      using "2.prems"(1) map_of_SomeD by (fastforce simp: list_all_iff)
    with v "2.IH"(1) [OF v refl] "2.prems" show ?thesis by simp
  next
    case False
    then have "mergeEntry (map_of out k) v = v"
      by (auto simp: mergeEntry_def split: val.splits option.splits)
    with "2.prems" show ?thesis by simp
  qed
  then have "wfVal (VMap (put out k (mergeEntry (map_of out k) v)))"
    using "2.prems"(1) by (simp add: distinct_put list_all_put)
  then show ?case
    using "2.IH"(2) "2.prems"(2) by (simp add: mergeMaps_Cons) (simp add: mergeEntry_def)
qed

text \<open>The value at a path of keys, and whether a value that is no map cuts a path short.\<close>

fun valAt :: "string list \<Rightarrow> val \<Rightarrow> val option" where
  "valAt [] v = Some v"
| "valAt (k # ks) v =
     (case v of
        VMap m \<Rightarrow> (case map_of m k of None \<Rightarrow> None | Some w \<Rightarrow> valAt ks w)
      | _ \<Rightarrow> None)"

fun cutShort :: "string list \<Rightarrow> val \<Rightarrow> bool" where
  "cutShort [] v = False"
| "cutShort (k # ks) v =
     (case v of
        VMap m \<Rightarrow> (case map_of m k of None \<Rightarrow> False | Some w \<Rightarrow> cutShort ks w)
      | _ \<Rightarrow> True)"

lemma valAt_no_map: "(\<And>m. v \<noteq> VMap m) \<Longrightarrow> valAt (k # ks) v = None"
  by (cases v) auto

lemma cutShort_no_map: "(\<And>m. v \<noteq> VMap m) \<Longrightarrow> cutShort (k # ks) v"
  by (cases v) auto

lemma mergeEntry_not_map:
  "(\<And>m. old \<noteq> Some (VMap m)) \<Longrightarrow> mergeEntry old v = v"
  by (cases old) (auto simp: mergeEntry_def split: val.splits)

lemma wfVal_entry: "wfVal (VMap m) \<Longrightarrow> map_of m k = Some v \<Longrightarrow> wfVal v"
  using map_of_SomeD by (fastforce simp: list_all_iff)

text \<open>
  The value of the merged map at every path: the second map decides wherever it has a value
  (two maps are merged), the first one wherever the second is silent.
\<close>

lemma mergeMaps_valAt:
  "wfVal (VMap b) \<Longrightarrow>
    valAt p (VMap (mergeMaps a b)) =
      (case valAt p (VMap b) of
         Some v \<Rightarrow> Some (mergeEntry (valAt p (VMap a)) v)
       | None \<Rightarrow> if cutShort p (VMap b) then None else valAt p (VMap a))"
proof (induction p arbitrary: a b)
  case Nil
  show ?case by simp
next
  case (Cons k ks)
  have look: "map_of (mergeMaps a b) k =
      (case map_of b k of None \<Rightarrow> map_of a k | Some v \<Rightarrow> Some (mergeEntry (map_of a k) v))"
    using Cons.prems by (simp add: mergeMaps_lookup)
  show ?case
  proof (cases "map_of b k")
    case None
    with look show ?thesis by simp
  next
    case (Some v)
    show ?thesis
    proof (cases "\<exists>va vb. v = VMap vb \<and> map_of a k = Some (VMap va)")
      case True
      then obtain va vb where v: "v = VMap vb" "map_of a k = Some (VMap va)" by blast
      then have "wfVal (VMap vb)" using Some Cons.prems wfVal_entry by blast
      with Cons.IH v Some look show ?thesis by (auto split: option.split)
    next
      case False
      then have e: "mergeEntry (map_of a k) v = v"
        by (auto simp: mergeEntry_def split: val.splits option.splits)
      show ?thesis
      proof (cases "valAt ks v")
        case None
        have "cutShort ks v \<or> valAt (k # ks) (VMap a) = None"
        proof (cases ks)
          case Nil
          with None show ?thesis by simp
        next
          case (Cons k' ks')
          with False show ?thesis
            by (cases "map_of a k") (auto split: val.splits)
        qed
        with None Some look e show ?thesis by auto
      next
        case (Some w)
        have "mergeEntry (valAt (k # ks) (VMap a)) w = w"
        proof (cases ks)
          case Nil
          with Some e show ?thesis by (cases "map_of a k") auto
        next
          case (Cons k' ks')
          with Some False have "valAt (k # ks) (VMap a) = None"
            by (cases "map_of a k") (auto simp: valAt_no_map split: val.splits)
          then show ?thesis by simp
        qed
        with Some \<open>map_of b k = Some v\<close> look e show ?thesis by auto
      qed
    qed
  qed
qed

text \<open>The result of merging does not depend on the order in which the entries are visited.\<close>

lemma mergeMaps_order:
  assumes "mset a = mset a'" and "mset b = mset b'"
    and "distinct (map fst a)" and "distinct (map fst b)"
  shows "map_of (mergeMaps a b) = map_of (mergeMaps a' b')"
proof -
  have d: "distinct (map fst a')" "distinct (map fst b')"
    using assms by (metis mset_eq_imp_distinct_iff mset_map)+
  have "map_of a = map_of a'" "map_of b = map_of b'"
    using assms d by (metis map_of_inject_set set_mset_mset)+
  then show ?thesis
    using assms(4) d(2) by (auto simp: mergeMaps_lookup split: option.splits)
qed

section \<open>Facts about the composition\<close>

text \<open>The documents read for \<open>valuesFrom\<close>, in order.\<close>

fun loadDocs ::
  "lib \<Rightarrow> ('src \<Rightarrow> string \<Rightarrow> goerr + string) \<Rightarrow> 'src list \<Rightarrow> goerr + vals list" where
  "loadDocs L get [] = Inr []"
| "loadDocs L get (vf # vfs) =
     bindE (wrapE (get vf keyDefaultValuesFrom) errFailedToGetValueFromSource) (\<lambda>s.
     bindE (wrapE (yamlValues L s) errFailedToUnmarshalDesiredValues) (\<lambda>d.
     bindE (loadDocs L get vfs) (\<lambda>ds. Inr (d # ds))))"

lemma bindE_assoc: "bindE (bindE r f) g = bindE r (\<lambda>x. bindE (f x) g)"
  by (cases r) auto

lemma mergeValuesFrom_loadDocs:
  "mergeValuesFrom L get base vfs = bindE (loadDocs L get vfs) (\<lambda>ds. Inr (foldl mergeMaps base ds))"
  by (induction vfs arbitrary: base) (simp_all add: bindE_assoc)

text \<open>The composition is: load every document, merge them from left to right, override.\<close>

lemma composeValues_spec:
  "composeValues L get spec =
     bindE (loadDocs L get (ValuesFrom spec)) (\<lambda>docs.
     bindE (wrapE (yamlValues L (ValuesRaw spec)) errFailedToUnmarshalDesiredValues) (\<lambda>inl.
       applySets L get (foldl mergeMaps [] (docs @ [inl])) (SetVals spec)))"
  by (simp add: composeValues_def mergeValuesFrom_loadDocs bindE_assoc)

text \<open>The objects a values spec refers to.\<close>

definition specReads ::
  "('sel ValueFromSource \<Rightarrow> NamespacedName set) \<Rightarrow> 'sel ValuesSpec \<Rightarrow> NamespacedName set" where
  "specReads reads spec =
     \<Union> (reads ` set (ValuesFrom spec)) \<union>
     \<Union> (reads ` \<Union> (set_option ` svValueFrom ` set (SetVals spec)))"

context data_source
begin

lemma loadDocs_frame:
  "kubeAgree (\<Union> (reads ` set vfs)) k k' \<Longrightarrow> loadDocs L (get k) vfs = loadDocs L (get k') vfs"
proof (induction vfs)
  case Nil
  show ?case by simp
next
  case (Cons vf vfs)
  have "kubeAgree (reads vf) k k'" and "kubeAgree (\<Union> (reads ` set vfs)) k k'"
    using Cons.prems by (auto intro: kubeAgree_mono)
  with Cons.IH get_frame [of vf k k' keyDefaultValuesFrom] show ?case by simp
qed

lemma applySets_frame:
  "kubeAgree (\<Union> (reads ` \<Union> (set_option ` svValueFrom ` set ss))) k k' \<Longrightarrow>
    applySets L (get k) base ss = applySets L (get k') base ss"
proof (induction ss arbitrary: base)
  case Nil
  show ?case by simp
next
  case (Cons s ss)
  have "setValueOf (get k) s = setValueOf (get k') s"
  proof (cases "svValueFrom s")
    case None
    then show ?thesis by (simp add: setValueOf_def)
  next
    case (Some src)
    with Cons.prems have "kubeAgree (reads src) k k'" by (auto intro: kubeAgree_mono)
    with Some get_frame [of src k k' keyDefaultSet] show ?thesis by (simp add: setValueOf_def)
  qed
  moreover have "kubeAgree (\<Union> (reads ` \<Union> (set_option ` svValueFrom ` set ss))) k k'"
    using Cons.prems by (auto intro: kubeAgree_mono)
  ultimately show ?case using Cons.IH by (simp cong: if_cong)
qed

lemma compose_frame:
  assumes "kubeAgree (specReads reads spec) k k'"
  shows "composeValues L (get k) spec = composeValues L (get k') spec"
proof -
  have "loadDocs L (get k) (ValuesFrom spec) = loadDocs L (get k') (ValuesFrom spec)"
    using assms by (intro loadDocs_frame) (auto simp: specReads_def intro: kubeAgree_mono)
  moreover have "applySets L (get k) b (SetVals spec) = applySets L (get k') b (SetVals spec)" for b
    using assms by (intro applySets_frame) (auto simp: specReads_def intro: kubeAgree_mono)
  ultimately show ?thesis by (simp add: composeValues_spec)
qed

lemma loadDocs_no_panic:
  assumes "kubeNoPanic k" and "libNoPanic L"
  shows "loadDocs L (get k) vfs = Inl e \<Longrightarrow> \<not> IsPanic e"
  by (induction vfs)
    (auto simp: bindE_eq_Inl wrapE_eq_Inl dest: get_no_panic [OF assms(1)] libNoPanicD [OF assms(2)])

lemma applySets_no_panic:
  assumes "kubeNoPanic k" and "libNoPanic L"
  shows "applySets L (get k) base ss = Inl e \<Longrightarrow> \<not> IsPanic e"
  by (induction ss arbitrary: base)
    (auto simp: bindE_eq_Inl wrapE_eq_Inl setValueOf_def split: if_splits option.splits
      dest: get_no_panic [OF assms(1)] libNoPanicD [OF assms(2)])

lemma compose_no_panic:
  assumes "kubeNoPanic k" and "libNoPanic L" and "composeValues L (get k) spec = Inl e"
  shows "\<not> IsPanic e"
  using assms(3) loadDocs_no_panic [OF assms(1,2)] applySets_no_panic [OF assms(1,2)]
  by (auto simp: composeValues_spec bindE_eq_Inl wrapE_eq_Inl dest: libNoPanicD [OF assms(2)])

end

text \<open>Qualifying every reference of a namespaced spec gives the cluster spec of the same meaning.\<close>

definition qualifySet :: "string \<Rightarrow> NsSetVal \<Rightarrow> ClusterSetVal" where
  "qualifySet ns s = \<lparr>svName = svName s, svValue = svValue s,
     svValueFrom = map_option (qualifySource ns) (svValueFrom s)\<rparr>"

definition qualifyValues :: "string \<Rightarrow> NsValuesSpec \<Rightarrow> ClusterValuesSpec" where
  "qualifyValues ns spec = \<lparr>ValuesRaw = ValuesRaw spec,
     ValuesFrom = map (qualifySource ns) (ValuesFrom spec),
     SetVals = map (qualifySet ns) (SetVals spec)\<rparr>"

lemma mergeValuesFrom_map:
  "mergeValuesFrom L get base (map f vfs) = mergeValuesFrom L (\<lambda>s. get (f s)) base vfs"
  by (induction vfs arbitrary: base) simp_all

lemma applySets_map:
  "applySets L (getDataValueFromSource kube) base (map (qualifySet ns) ss) =
     applySets L (\<lambda>s. getDataValueFromSource kube (qualifySource ns s)) base ss"
  by (induction ss arbitrary: base)
    (auto simp: setValueOf_def qualifySet_def cong: if_cong split: option.splits)

lemma nsCompose_qualify:
  "nsComposeValuesFromSpec L kube spec ns = composeValuesFromSpec L kube (qualifyValues ns spec)"
  by (simp add: nsComposeValuesFromSpec_def composeValuesFromSpec_def composeValues_def
      nsGetData_qualify qualifyValues_def mergeValuesFrom_map applySets_map)

end
