(* ===== verification/Go_Sha256.thy ===== *)
theory Go_Sha256
  imports Main "HOL-Library.Word" "HOL-Library.Char_ord"
begin

text \<open>
  \<open>fmt.Sprintf("%x", sha256.Sum256(b))\<close>: the function of FIPS 180-4 on byte strings, and its
  lower-case hexadecimal form.
\<close>

unbundle bit_operations_syntax

type_synonym w32 = "32 word"

datatype sha = Sha w32 w32 w32 w32 w32 w32 w32 w32

text \<open>
  The constants are the first 32 bits of the fractional parts of the cube roots of the first 64
  primes, and of the square roots of the first 8: \<open>rootBits k n b 0\<close> is the largest number below
  \<open>2 ^ b\<close> whose \<open>k\<close>-th power is at most \<open>n\<close>.
\<close>

definition primesBelow :: "nat \<Rightarrow> nat list" where
  "primesBelow n = filter (\<lambda>p. list_all (\<lambda>d. p mod d \<noteq> 0) [2..<p]) [2..<n]"

fun rootBits :: "nat \<Rightarrow> nat \<Rightarrow> nat \<Rightarrow> nat \<Rightarrow> nat" where
  "rootBits k n 0 acc = acc"
| "rootBits k n (Suc b) acc = rootBits k n b (if (acc + 2 ^ b) ^ k \<le> n then acc + 2 ^ b else acc)"

definition shaK :: "w32 list" where
  "shaK = map (\<lambda>p. word_of_nat (rootBits 3 (p * 2 ^ 96) 35 0)) (primesBelow 312)"

definition shaInit :: sha where
  "shaInit =
     (let h = (\<lambda>i. word_of_nat (rootBits 2 (primesBelow 20 ! i * 2 ^ 64) 35 0)) in
      Sha (h 0) (h 1) (h 2) (h 3) (h 4) (h 5) (h 6) (h 7))"

text \<open>Padding: a one bit, zeros, and the length in bits as 64 bits, up to a multiple of 64 bytes.\<close>

definition bigEndian64 :: "nat \<Rightarrow> nat list" where
  "bigEndian64 n = map (\<lambda>i. n div 256 ^ i mod 256) [7, 6, 5, 4, 3, 2, 1, 0]"

definition shaPad :: "nat list \<Rightarrow> nat list" where
  "shaPad bs = bs @ [0x80] @ replicate ((119 - length bs mod 64) mod 64) 0
     @ bigEndian64 (8 * length bs)"

fun toWords :: "nat list \<Rightarrow> w32 list" where
  "toWords (a # b # c # d # r) = word_of_nat (((a * 256 + b) * 256 + c) * 256 + d) # toWords r"
| "toWords r = []"

fun blocksOf :: "nat \<Rightarrow> w32 list \<Rightarrow> w32 list list" where
  "blocksOf 0 ws = []"
| "blocksOf (Suc n) ws = take 16 ws # blocksOf n (drop 16 ws)"

definition sig0 :: "w32 \<Rightarrow> w32" where
  "sig0 x = word_rotr 7 x XOR word_rotr 18 x XOR drop_bit 3 x"

definition sig1 :: "w32 \<Rightarrow> w32" where
  "sig1 x = word_rotr 17 x XOR word_rotr 19 x XOR drop_bit 10 x"

definition Sig0 :: "w32 \<Rightarrow> w32" where
  "Sig0 x = word_rotr 2 x XOR word_rotr 13 x XOR word_rotr 22 x"

definition Sig1 :: "w32 \<Rightarrow> w32" where
  "Sig1 x = word_rotr 6 x XOR word_rotr 11 x XOR word_rotr 25 x"

text \<open>The message schedule, its last word first.\<close>

fun schedule :: "nat \<Rightarrow> w32 list \<Rightarrow> w32 list" where
  "schedule 0 r = r"
| "schedule (Suc n) r = schedule n ((sig1 (r ! 1) + r ! 6 + sig0 (r ! 14) + r ! 15) # r)"

fun shaRound :: "sha \<Rightarrow> w32 \<times> w32 \<Rightarrow> sha" where
  "shaRound (Sha a b c d e f g h) (k, w) =
     (let t1 = h + Sig1 e + ((e AND f) XOR (NOT e AND g)) + k + w;
          t2 = Sig0 a + ((a AND b) XOR (a AND c) XOR (b AND c))
      in Sha (t1 + t2) a b c (d + t1) e f g)"

fun shaAdd :: "sha \<Rightarrow> sha \<Rightarrow> sha" where
  "shaAdd (Sha a b c d e f g h) (Sha a' b' c' d' e' f' g' h') =
     Sha (a + a') (b + b') (c + c') (d + d') (e + e') (f + f') (g + g') (h + h')"

definition shaBlock :: "sha \<Rightarrow> w32 list \<Rightarrow> sha" where
  "shaBlock st block = shaAdd st (foldl shaRound st (zip shaK (rev (schedule 48 (rev block)))))"

definition hexDigit :: "nat \<Rightarrow> char" where
  "hexDigit n = char_of (if n < 10 then 48 + n else 87 + n)"

definition hexWord :: "w32 \<Rightarrow> string" where
  "hexWord w = map (\<lambda>i. hexDigit (unat (drop_bit i w AND 15))) [28, 24, 20, 16, 12, 8, 4, 0]"

fun hexSha :: "sha \<Rightarrow> string" where
  "hexSha (Sha a b c d e f g h) = concat (map hexWord [a, b, c, d, e, f, g, h])"

definition sha256Hex :: "string \<Rightarrow> string" where
  "sha256Hex s =
     (let bs = shaPad (map of_char s) in
      hexSha (foldl shaBlock shaInit (blocksOf (length bs div 64) (toWords bs))))"

section \<open>Facts\<close>

definition isLowerHex :: "char \<Rightarrow> bool" where
  "isLowerHex c \<longleftrightarrow> (let n = (of_char c :: nat) in (48 \<le> n \<and> n \<le> 57) \<or> (97 \<le> n \<and> n \<le> 102))"

lemma isLowerHex_hexDigit: "n < 16 \<Longrightarrow> isLowerHex (hexDigit n)"
  by (auto simp: isLowerHex_def hexDigit_def Let_def)

lemma unat_nibble: "unat ((w :: w32) AND 15) < 16"
proof -
  have "unat (w AND 15) \<le> unat (15 :: w32)"
    by (rule word_and_le1 [THEN word_le_nat_alt [THEN iffD1]])
  then show ?thesis by simp
qed

lemma hexWord_shape: "length (hexWord w) = 8" "list_all isLowerHex (hexWord w)"
  by (simp_all add: hexWord_def isLowerHex_hexDigit unat_nibble)

lemma hexSha_shape: "length (hexSha s) = 64 \<and> list_all isLowerHex (hexSha s)"
  by (cases s) (simp add: hexWord_shape)

lemma sha256Hex_length: "length (sha256Hex s) = 64"
  by (simp add: sha256Hex_def Let_def hexSha_shape)

lemma sha256Hex_lowerHex: "list_all isLowerHex (sha256Hex s)"
  by (simp add: sha256Hex_def Let_def hexSha_shape)

end
