(* ===== verification/Patches.thy ===== *)
theory Patches
  imports Data_Source Go_Sha256
begin

text \<open>
  Kustomize patches (\<open>pkg/controller/cluster/release/patch.go\<close> and its namespaced twin): loading
  them from their sources, their digest, and whether they changed since the digest was recorded
  in the status.
\<close>

definition keyDefaultPatchFrom :: string where "keyDefaultPatchFrom = ''patch.yaml''"

definition errFailedToUnmarshallPatch :: string where
  "errFailedToUnmarshallPatch = ''failed to unmarshal patch''"

definition errPatchValueFromSource :: string where
  "errPatchValueFromSource = ''failed to get value from source''"

section \<open>Loading and hashing\<close>

text \<open>The loop of \<open>getFromSpec\<close>: an empty document is skipped, patches keep their order.\<close>

fun loadPatches ::
  "lib \<Rightarrow> ('src \<Rightarrow> string \<Rightarrow> goerr + string) \<Rightarrow> Patch list \<Rightarrow> 'src list \<Rightarrow> goerr + Patch list" where
  "loadPatches L get base [] = Inr base"
| "loadPatches L get base (vf # vfs) =
     bindE (wrapE (get vf keyDefaultPatchFrom) errPatchValueFromSource) (\<lambda>s.
       if s = [] then loadPatches L get base vfs
       else
         bindE (wrapE (yamlPatches L s) errFailedToUnmarshallPatch) (\<lambda>p.
           loadPatches L get (base @ p) vfs))"

definition getFromSpec ::
  "lib \<Rightarrow> 'r kube \<Rightarrow> ClusterValueFromSource list \<Rightarrow> goerr + Patch list" where
  "getFromSpec L kube vals = loadPatches L (getDataValueFromSource kube) [] vals"

definition nsGetFromSpec ::
  "lib \<Rightarrow> 'r kube \<Rightarrow> NsValueFromSource list \<Rightarrow> string \<Rightarrow> goerr + Patch list" where
  "nsGetFromSpec L kube vals ns =
     loadPatches L (\<lambda>src key. nsGetDataValueFromSource kube src key ns) [] vals"

definition shaOf :: "lib \<Rightarrow> Patch list \<Rightarrow> goerr + string" where
  "shaOf L patches =
     (if patches = [] then Inr []
      else bindE (patchesJSON L patches) (\<lambda>jb. Inr (sha256Hex jb)))"

text \<open>The two-part interface \<open>Patcher\<close> (a getter and a hasher) and the code's only instance.\<close>

record ('k, 'src) Patcher =
  paGetFromSpec :: "'k \<Rightarrow> 'src list \<Rightarrow> goerr + Patch list"
  paShaOf :: "Patch list \<Rightarrow> goerr + string"

definition newPatcher :: "lib \<Rightarrow> ('r kube, ClusterValueFromSource) Patcher" where
  "newPatcher L = \<lparr>paGetFromSpec = getFromSpec L, paShaOf = shaOf L\<rparr>"

text \<open>The namespaced getter takes the namespace beside the client.\<close>

definition nsNewPatcher :: "lib \<Rightarrow> ('r kube \<times> string, NsValueFromSource) Patcher" where
  "nsNewPatcher L =
     \<lparr>paGetFromSpec = (\<lambda>(kube, ns) vals. nsGetFromSpec L kube vals ns), paShaOf = shaOf L\<rparr>"

definition hasUpdates ::
  "('k, 'src) Patcher \<Rightarrow> 'k \<Rightarrow> 'src list \<Rightarrow> ReleaseStatus \<Rightarrow> goerr + bool" where
  "hasUpdates p kube vals s =
     bindE (paGetFromSpec p kube vals) (\<lambda>patches.
     bindE (paShaOf p patches) (\<lambda>sum.
       Inr (\<not> EqualFold sum (stPatchesSha s))))"

definition nsHasUpdates ::
  "('r kube \<times> string, NsValueFromSource) Patcher \<Rightarrow> 'r kube \<Rightarrow> NsValueFromSource list \<Rightarrow>
    ReleaseStatus \<Rightarrow> string \<Rightarrow> goerr + bool" where
  "nsHasUpdates p kube vals s ns =
     bindE (paGetFromSpec p (kube, ns) vals) (\<lambda>patches.
     bindE (paShaOf p patches) (\<lambda>sum.
       Inr (\<not> EqualFold sum (stPatchesSha s))))"

lemma newPatcher_simps [simp]:
  "paGetFromSpec (newPatcher L) = getFromSpec L" "paShaOf (newPatcher L) = shaOf L"
  "paGetFromSpec (nsNewPatcher L) (kube, ns) vals = nsGetFromSpec L kube vals ns"
  "paShaOf (nsNewPatcher L) = shaOf L"
  by (simp_all add: newPatcher_def nsNewPatcher_def)

section \<open>The contract of the hasher\<close>

text \<open>
  What the detection of changes relies on: no patches have the empty digest, any patches have a
  non-empty one in lower-case hexadecimal.
\<close>

lemma toLowerASCII_lowerHex: "isLowerHex c \<Longrightarrow> toLowerASCII c = c"
  by (auto simp: isLowerHex_def toLowerASCII_def Let_def)

locale patch_hasher =
  fixes sha :: "Patch list \<Rightarrow> goerr + string"
  assumes sha_empty: "sha [] = Inr []"
    and sha_shape: "sha ps = Inr s \<Longrightarrow> ps \<noteq> [] \<Longrightarrow> s \<noteq> []"
    and sha_hex: "sha ps = Inr s \<Longrightarrow> list_all isLowerHex s"
begin

text \<open>Folding of case does not identify two digests.\<close>

lemma sha_fold_eq:
  assumes "sha ps = Inr s" and "sha qs = Inr t"
  shows "EqualFold s t \<longleftrightarrow> s = t"
proof -
  have "map toLowerASCII s = s" "map toLowerASCII t = t"
    using sha_hex [OF assms(1)] sha_hex [OF assms(2)]
    by (simp_all add: list_all_iff toLowerASCII_lowerHex map_idI)
  then show ?thesis by (simp add: EqualFold_def)
qed

lemma sha_empty_iff: "sha ps = Inr s \<Longrightarrow> EqualFold s [] \<longleftrightarrow> ps = []"
  using sha_fold_eq [OF _ sha_empty] sha_shape sha_empty by fastforce

end

interpretation patch_sha: patch_hasher "shaOf L" for L
proof
  show "shaOf L [] = Inr []" by (simp add: shaOf_def)
next
  fix ps s
  assume "shaOf L ps = Inr s" and "ps \<noteq> []"
  then obtain jb where "s = sha256Hex jb" by (auto simp: shaOf_def)
  then have "length s = 64" by (simp add: sha256Hex_length)
  then show "s \<noteq> []" by auto
next
  fix ps s
  assume "shaOf L ps = Inr s"
  then show "list_all isLowerHex s"
    by (auto simp: shaOf_def sha256Hex_lowerHex split: if_splits)
qed

section \<open>Facts\<close>

lemma loadPatches_map: "loadPatches L get base (map f vfs) = loadPatches L (\<lambda>s. get (f s)) base vfs"
  by (induction vfs arbitrary: base) (simp_all cong: if_cong)

lemma nsGetFromSpec_qualify:
  "nsGetFromSpec L kube vals ns = getFromSpec L kube (map (qualifySource ns) vals)"
  by (simp add: nsGetFromSpec_def getFromSpec_def loadPatches_map nsGetData_qualify)

lemma nsHasUpdates_qualify:
  "nsHasUpdates (nsNewPatcher L) kube vals s ns =
     hasUpdates (newPatcher L) kube (map (qualifySource ns) vals) s"
  by (simp add: nsHasUpdates_def hasUpdates_def nsGetFromSpec_qualify)

lemma loadPatches_append:
  "loadPatches L get base (xs @ ys) =
     bindE (loadPatches L get base xs) (\<lambda>b. loadPatches L get b ys)"
proof (induction xs arbitrary: base)
  case Nil
  show ?case by simp
next
  case (Cons x xs)
  then show ?case
    by (cases "get x keyDefaultPatchFrom") (auto simp: bindE_def split: sum.splits)
qed

context data_source
begin

lemma loadPatches_frame:
  "kubeAgree (\<Union> (reads ` set vfs)) k k' \<Longrightarrow>
    loadPatches L (get k) base vfs = loadPatches L (get k') base vfs"
proof (induction vfs arbitrary: base)
  case Nil
  show ?case by simp
next
  case (Cons vf vfs)
  have "kubeAgree (reads vf) k k'" and "kubeAgree (\<Union> (reads ` set vfs)) k k'"
    using Cons.prems by (auto intro: kubeAgree_mono)
  with Cons.IH get_frame [of vf k k' keyDefaultPatchFrom] show ?case by (simp cong: if_cong)
qed

lemma loadPatches_no_panic:
  assumes "kubeNoPanic k" and "libNoPanic L"
  shows "loadPatches L (get k) base vfs = Inl e \<Longrightarrow> \<not> IsPanic e"
  by (induction vfs arbitrary: base)
    (auto simp: bindE_eq_Inl wrapE_eq_Inl split: if_splits
      dest: get_no_panic [OF assms(1)] libNoPanicD [OF assms(2)])

end

lemma shaOf_no_panic: "libNoPanic L \<Longrightarrow> shaOf L ps = Inl e \<Longrightarrow> \<not> IsPanic e"
  by (auto simp: shaOf_def bindE_eq_Inl dest: libNoPanicD split: if_splits)

lemma hasUpdates_no_panic:
  assumes "kubeNoPanic k" and "libNoPanic L" and "hasUpdates (newPatcher L) k vals s = Inl e"
  shows "\<not> IsPanic e"
  using assms(3) cluster_source.loadPatches_no_panic [OF assms(1,2)] shaOf_no_panic [OF assms(2)]
  by (auto simp: hasUpdates_def getFromSpec_def bindE_eq_Inl)

end
