(* ===== verification/Go_Encoding.thy ===== *)
theory Go_Encoding
  imports Api_Types
begin

text \<open>
  \<open>base64.StdEncoding.DecodeString\<close> and \<open>fmt.Sprintf("%v", v)\<close> on the dynamic values of a
  Kubernetes object.
\<close>

section \<open>Base64\<close>

definition b64Alphabet :: string where
  "b64Alphabet =
     ''ABCDEFGHIJKLMNOPQRSTUVWXYZabcdefghijklmnopqrstuvwxyz0123456789+/''"

definition b64Val :: "char \<Rightarrow> nat option" where
  "b64Val c = IndexByte b64Alphabet c"

text \<open>Go's \<open>CorruptInputError\<close>, without the offset it carries.\<close>

definition corruptInput :: goerr where
  "corruptInput = ErrExt ''illegal base64 data''"

definition byteOf :: "nat \<Rightarrow> char" where
  "byteOf n = char_of (n mod 256)"

text \<open>
  Four characters give three bytes; padding is allowed in the last group only and is required
  there. Bits left over in a padded group are ignored, as the non-strict decoder does.
\<close>

fun b64Groups :: "string \<Rightarrow> goerr + string" where
  "b64Groups [] = Inr []"
| "b64Groups (a # b # c # d # r) =
     (case (b64Val a, b64Val b) of
        (Some x, Some y) \<Rightarrow>
          (case b64Val c of
             None \<Rightarrow>
               if c = CHR ''='' \<and> d = CHR ''='' \<and> r = []
               then Inr [byteOf ((x * 64 + y) div 16)] else Inl corruptInput
           | Some z \<Rightarrow>
               (case b64Val d of
                  None \<Rightarrow>
                    if d = CHR ''='' \<and> r = []
                    then let v = (x * 64 + y) * 64 + z in Inr [byteOf (v div 1024), byteOf (v div 4)]
                    else Inl corruptInput
                | Some w \<Rightarrow>
                    let v = ((x * 64 + y) * 64 + z) * 64 + w in
                    bindE (b64Groups r) (\<lambda>t.
                      Inr (byteOf (v div 65536) # byteOf (v div 256) # byteOf v # t))))
      | _ \<Rightarrow> Inl corruptInput)"
| "b64Groups s = Inl corruptInput"

text \<open>New lines and carriage returns are skipped wherever they occur.\<close>

definition base64Decode :: "string \<Rightarrow> goerr + string" where
  "base64Decode s = b64Groups (filter (\<lambda>c. c \<noteq> CHR 0x0A \<and> c \<noteq> CHR 0x0D) s)"

text \<open>
  The encoding the API server uses for the data of a secret (RFC 4648); it states what the
  decoder inverts and is not part of the program.
\<close>

definition b64Char :: "nat \<Rightarrow> char" where
  "b64Char n = b64Alphabet ! (n mod 64)"

fun base64Encode :: "string \<Rightarrow> string" where
  "base64Encode [] = []"
| "base64Encode [a] =
     (let v = of_char a * 16 in [b64Char (v div 64), b64Char v, CHR ''='', CHR ''=''])"
| "base64Encode [a, b] =
     (let v = (of_char a * 256 + of_char b) * 4 in
      [b64Char (v div 4096), b64Char (v div 64), b64Char v, CHR ''=''])"
| "base64Encode (a # b # c # r) =
     (let v = (of_char a * 256 + of_char b) * 256 + of_char c in
      b64Char (v div 262144) # b64Char (v div 4096) # b64Char (v div 64) # b64Char v #
      base64Encode r)"

section \<open>The verb %v\<close>

fun showNat :: "nat \<Rightarrow> string" where
  "showNat n =
     (if n < 10 then [char_of (48 + n)] else showNat (n div 10) @ [char_of (48 + n mod 10)])"

declare showNat.simps [simp del]

definition showInt :: "int \<Rightarrow> string" where
  "showInt n = (if n < 0 then CHR ''-'' # showNat (nat (- n)) else showNat (nat n))"

text \<open>Maps are printed in the order of their keys.\<close>

fun sprintV :: "lib \<Rightarrow> val \<Rightarrow> string" where
  "sprintV L VNull = ''<nil>''"
| "sprintV L (VBool b) = (if b then ''true'' else ''false'')"
| "sprintV L (VInt n) = showInt n"
| "sprintV L (VFloat r) = formatFloat L r"
| "sprintV L (VNonFinite s) = s"
| "sprintV L (VStr s) = s"
| "sprintV L (VList xs) = ''['' @ JoinWith (map (sprintV L) xs) '' '' @ '']''"
| "sprintV L (VMap m) =
     ''map['' @ JoinWith (map (\<lambda>(k, v). k @ '':'' @ sprintV L v) (sort_key fst m)) '' '' @ '']''"

section \<open>Facts\<close>

lemma IndexByte_nth: "distinct s \<Longrightarrow> n < length s \<Longrightarrow> IndexByte s (s ! n) = Some n"
  by (induction s arbitrary: n) (auto simp: nth_Cons split: nat.splits)

lemma b64Alphabet_facts:
  "distinct b64Alphabet" "length b64Alphabet = 64"
  "CHR ''='' \<notin> set b64Alphabet" "CHR 0x0A \<notin> set b64Alphabet" "CHR 0x0D \<notin> set b64Alphabet"
  by (simp_all add: b64Alphabet_def)

lemma b64Char_in: "b64Char n \<in> set b64Alphabet"
  by (simp add: b64Char_def b64Alphabet_facts)

lemma b64Val_Char [simp]: "b64Val (b64Char n) = Some (n mod 64)"
  by (simp add: b64Val_def b64Char_def IndexByte_nth b64Alphabet_facts)

lemma b64Val_pad [simp]: "b64Val (CHR ''='') = None"
  by (simp add: b64Val_def b64Alphabet_facts)

lemma byteOf_of_char: "m mod 256 = of_char c \<Longrightarrow> byteOf m = c"
  by (simp add: byteOf_def)

lemma of_char_less: "(of_char c :: nat) < 256"
  by (rule nat_of_char_less_256)

lemma sixbits1: "v < 4096 \<Longrightarrow> (v div 64 mod 64) * 64 + v mod 64 = (v::nat)"
  using mod_mult2_eq [of v 64 64] by simp

lemma div64s: "v div 64 div 64 = v div (4096::nat)" "v div 64 div 4096 = v div (262144::nat)"
  by (simp_all add: div_mult2_eq [symmetric])

lemma sixbits2:
  assumes "v < (262144::nat)"
  shows "((v div 4096 mod 64) * 64 + v div 64 mod 64) * 64 + v mod 64 = v"
proof -
  have "v div 64 < 4096" using assms by (simp add: less_mult_imp_div_less)
  from sixbits1 [OF this] have "(v div 4096 mod 64) * 64 + v div 64 mod 64 = v div 64"
    by (simp only: div64s)
  then show ?thesis by (simp only: div_mult_mod_eq)
qed

lemma sixbits3:
  assumes "v < (16777216::nat)"
  shows "(((v div 262144 mod 64) * 64 + v div 4096 mod 64) * 64 + v div 64 mod 64) * 64
    + v mod 64 = v"
proof -
  have "v div 64 < 262144" using assms by (simp add: less_mult_imp_div_less)
  from sixbits2 [OF this]
  have "((v div 262144 mod 64) * 64 + v div 4096 mod 64) * 64 + v div 64 mod 64 = v div 64"
    by (simp only: div64s)
  then show ?thesis by (simp only: div_mult_mod_eq)
qed

lemma b64Groups_encode: "b64Groups (base64Encode s) = Inr s"
proof (induction s rule: base64Encode.induct)
  case 1
  show ?case by simp
next
  case (2 a)
  define v where "v = of_char a * (16::nat)"
  have "v < 4096" using of_char_less [of a] by (simp add: v_def)
  then have "((v div 64 mod 64) * 64 + v mod 64) div 16 = v div 16" by (simp only: sixbits1)
  moreover have "byteOf (v div 16) = a"
    by (intro byteOf_of_char) (use of_char_less [of a] in \<open>simp add: v_def\<close>)
  moreover have "base64Encode [a] = [b64Char (v div 64), b64Char v, CHR ''='', CHR ''='']"
    by (simp add: v_def Let_def)
  ultimately show ?case by simp
next
  case (3 a b)
  define v where "v = (of_char a * 256 + of_char b) * (4::nat)"
  have ab: "(of_char a :: nat) < 256" "(of_char b :: nat) < 256" by (rule of_char_less)+
  then have "(of_char a * 256 + of_char b :: nat) < 65536" by linarith
  then have v: "v < 262144" by (simp add: v_def)
  have "byteOf (v div 1024) = a" "byteOf (v div 4) = b"
    by (intro byteOf_of_char, use ab in \<open>simp add: v_def\<close>)+
  moreover have "base64Encode [a, b] =
      [b64Char (v div 4096), b64Char (v div 64), b64Char v, CHR ''='']"
    by (simp add: v_def Let_def)
  ultimately show ?case
    by (simp only: b64Groups.simps b64Val_Char b64Val_pad sixbits2 [OF v] Let_def
        prod.case option.case simp_thms if_True)
next
  case (4 a b c r)
  define v where "v = (of_char a * 256 + of_char b) * 256 + (of_char c :: nat)"
  have abc: "(of_char a :: nat) < 256" "(of_char b :: nat) < 256" "(of_char c :: nat) < 256"
    by (rule of_char_less)+
  then have "(of_char a * 256 + of_char b :: nat) < 65536" by linarith
  with abc have "(of_char a * 256 + of_char b :: nat) \<le> 65535" "(of_char c :: nat) \<le> 255"
    by linarith+
  then have "(of_char a * 256 + of_char b) * 256 \<le> (65535 * 256 :: nat)"
    by (intro mult_le_mono1)
  with \<open>of_char c \<le> (255 :: nat)\<close> have v: "v < 16777216" unfolding v_def by simp
  define x where "x = of_char a * 256 + (of_char b :: nat)"
  have "v = x * 256 + of_char c" by (simp only: v_def x_def)
  then have "v div 256 = x" "v mod 256 = of_char c"
    using abc by simp_all
  then have d: "v div 256 = of_char a * 256 + of_char b" "v mod 256 = of_char c"
    by (simp_all only: x_def)
  then have "v div 256 div 256 = of_char a" "v div 256 mod 256 = of_char b"
    using abc by simp_all
  moreover have "v div 65536 = v div 256 div 256" by (simp add: div_mult2_eq [symmetric])
  ultimately have "byteOf (v div 65536) = a" "byteOf (v div 256) = b" "byteOf v = c"
    using d abc by (auto intro!: byteOf_of_char)
  moreover have "base64Encode (a # b # c # r) =
      b64Char (v div 262144) # b64Char (v div 4096) # b64Char (v div 64) # b64Char v #
      base64Encode r"
    by (simp add: v_def Let_def)
  ultimately show ?case
    by (simp only: b64Groups.simps b64Val_Char sixbits3 [OF v] "4.IH" Let_def
        prod.case option.case bindE_simps)
qed

lemma set_base64Encode: "set (base64Encode s) \<subseteq> insert (CHR ''='') (set b64Alphabet)"
  by (induction s rule: base64Encode.induct) (auto simp: Let_def b64Char_in)

lemma base64_roundtrip: "base64Decode (base64Encode s) = Inr s"
proof -
  have "\<forall>c \<in> set (base64Encode s). c \<noteq> CHR 0x0A \<and> c \<noteq> CHR 0x0D"
    using set_base64Encode [of s] b64Alphabet_facts by auto
  then have "filter (\<lambda>c. c \<noteq> CHR 0x0A \<and> c \<noteq> CHR 0x0D) (base64Encode s) = base64Encode s"
    by (simp add: filter_id_conv)
  then show ?thesis by (simp add: base64Decode_def b64Groups_encode)
qed

lemma base64Decode_no_panic: "base64Decode s = Inl e \<Longrightarrow> \<not> IsPanic e"
proof -
  have "b64Groups t = Inl e \<Longrightarrow> \<not> IsPanic e" for t
    by (induction t rule: b64Groups.induct)
      (auto simp: corruptInput_def Let_def bindE_eq_Inl split: option.splits if_splits)
  then show "base64Decode s = Inl e \<Longrightarrow> \<not> IsPanic e" by (simp add: base64Decode_def)
qed

end
