(* ===== verification/Release_Observe.thy ===== *)
theory Release_Observe
  imports Chart_Values Patches Go_Encoding
begin

text \<open>
  What the controller observes of a deployed release
  (\<open>pkg/controller/cluster/release/observe.go\<close> and its namespaced twin): the observation kept in
  the status, whether the release is up to date, and the connection details.
\<close>

section \<open>Constants\<close>

definition errReleaseInfoNilInObservedRelease :: string where
  "errReleaseInfoNilInObservedRelease = ''release info is nil in observed helm release''"

definition errChartNilInObservedRelease :: string where
  "errChartNilInObservedRelease = ''chart field is nil in observed helm release''"

definition errChartMetaNilInObservedRelease :: string where
  "errChartMetaNilInObservedRelease = ''chart metadata field is nil in observed helm release''"

definition errObjectNotPartOfRelease :: string where
  "errObjectNotPartOfRelease = ''object is not part of release: ''"

definition devel :: string where "devel = ''>0.0.0-0''"

definition errFailedToComposeValues :: string where
  "errFailedToComposeValues = ''failed to compose values''"

definition errFailedToLoadPatches :: string where
  "errFailedToLoadPatches = ''failed to load patches''"

definition errCannotGetObject :: string where "errCannotGetObject = ''cannot get object''"

definition errFieldPath :: "string \<Rightarrow> string" where
  "errFieldPath fp = ''failed to get value at fieldPath: '' @ fp"

definition errDecodeSecretData :: string where
  "errDecodeSecretData = ''failed to decode secret data''"

definition helmReleaseNameAnnotation :: string where
  "helmReleaseNameAnnotation = ''meta.helm.sh/release-name''"

definition helmReleaseNamespaceAnnotation :: string where
  "helmReleaseNamespaceAnnotation = ''meta.helm.sh/release-namespace''"

section \<open>The observation\<close>

definition generateObservation :: "HelmRelease \<Rightarrow> ReleaseObservation" where
  "generateObservation inr =
     (let o1 = zeroObservation;
          o2 = (case hrInfo inr of
                  Some relInfo \<Rightarrow> o1\<lparr>obsState := riStatus relInfo,
                    obsReleaseDescription := riDescription relInfo, obsRevision := hrVersion inr\<rparr>
                | None \<Rightarrow> o1)
      in case hrChart inr of
           None \<Rightarrow> o2
         | Some c \<Rightarrow>
             (case chMetadata c of None \<Rightarrow> o2 | Some m \<Rightarrow> o2\<lparr>obsVersion := cmVersion m\<rparr>))"

text \<open>
  The JSON round trip of a config map; a config that cannot be encoded or decoded is compared
  as it is. Nil stays nil.
\<close>

definition normalizeConfig :: "vals option \<Rightarrow> vals option" where
  "normalizeConfig cfg =
     (case cfg of
        None \<Rightarrow> None
      | Some m \<Rightarrow> (case jsonRoundTrip (VMap m) of Some (VMap m') \<Rightarrow> Some m' | _ \<Rightarrow> Some m))"

definition isPending :: "Status \<Rightarrow> bool" where
  "isPending s \<longleftrightarrow>
     s = StatusPendingInstall \<or> s = StatusPendingUpgrade \<or> s = StatusPendingRollback"

section \<open>Up to date\<close>

text \<open>\<open>mp.HasAny(a, b)\<close> for the set of the management policies.\<close>

definition hasAny :: "ManagementAction list \<Rightarrow> ManagementAction list \<Rightarrow> bool" where
  "hasAny mp as \<longleftrightarrow> list_ex (\<lambda>a. a \<in> set mp) as"

text \<open>
  The two scopes run the same code on two lookups: \<open>compose\<close> composes the desired values,
  \<open>updates\<close> tells whether the patches changed.
\<close>

definition upToDate ::
  "lib \<Rightarrow> ('sel ValuesSpec \<Rightarrow> goerr + vals) \<Rightarrow>
    ('sel ValueFromSource list \<Rightarrow> ReleaseStatus \<Rightarrow> goerr + bool) \<Rightarrow>
    ('sel, 'ref, 'pcr) ReleaseSpec \<Rightarrow> HelmRelease \<Rightarrow> ReleaseStatus \<Rightarrow> goerr + bool" where
  "upToDate L compose updates spec observed s =
     (case hrInfo observed of
        None \<Rightarrow> Inl (ErrNew errReleaseInfoNilInObservedRelease)
      | Some info \<Rightarrow>
     (if isPending (riStatus info) then Inr False
     else (case hrChart observed of
        None \<Rightarrow> Inl (ErrNew errChartNilInObservedRelease)
      | Some oc \<Rightarrow>
     (case chMetadata oc of
        None \<Rightarrow> Inl (ErrNew errChartMetaNilInObservedRelease)
      | Some ocm \<Rightarrow>
     let inp = spForProvider spec; c = fpChart inp; mp = spManagementPolicies spec in
     if csName c \<noteq> cmName ocm then Inr False
     else if mp \<noteq> [] \<and> \<not> hasAny mp [MAUpdate, MAAll] then Inr True
     else if csVersion c \<noteq> [] \<and> csVersion c \<noteq> cmVersion ocm \<and> csVersion c \<noteq> devel then Inr False
     else if csDigest c \<noteq> [] \<and> obsDigest (stAtProvider s) \<noteq> []
       \<and> csDigest c \<noteq> obsDigest (stAtProvider s) then Inr False
     else bindE (wrapE (compose (fpValuesSpec inp)) errFailedToComposeValues) (\<lambda>desiredConfig.
       let observedConfig = (case hrConfig observed of None \<Rightarrow> [] | Some m \<Rightarrow> m);
           desiredNorm = normalizeConfig (Some desiredConfig);
           observedNorm = normalizeConfig (Some observedConfig) in
       if \<not> semanticDeepEqual L desiredNorm observedNorm then Inr False
       else bindE (wrapE (updates (fpPatchesFrom inp) s) errFailedToLoadPatches) (\<lambda>changed.
         if changed then Inr False else Inr True))))))"

definition isUpToDate ::
  "lib \<Rightarrow> 'r kube \<Rightarrow> ClusterReleaseSpec \<Rightarrow> HelmRelease \<Rightarrow> ReleaseStatus \<Rightarrow> goerr + bool" where
  "isUpToDate L kube spec observed s =
     upToDate L (composeValuesFromSpec L kube) (hasUpdates (newPatcher L) kube) spec observed s"

definition nsIsUpToDate ::
  "lib \<Rightarrow> 'r kube \<Rightarrow> NsReleaseSpec \<Rightarrow> HelmRelease \<Rightarrow> ReleaseStatus \<Rightarrow> string \<Rightarrow> goerr + bool" where
  "nsIsUpToDate L kube spec observed s ns =
     upToDate L (\<lambda>v. nsComposeValuesFromSpec L kube v ns)
       (\<lambda>vals st. nsHasUpdates (nsNewPatcher L) kube vals st ns) spec observed s"

section \<open>Connection details\<close>

text \<open>The object that is asked for: nothing but its identity is set.\<close>

definition unstructuredFromObjectRef :: "ObjectReference \<Rightarrow> Unstructured" where
  "unstructuredFromObjectRef r =
     \<lparr>unAPIVersion = orAPIVersion r, unKind = orKind r, unName = orName r,
      unNamespace = orNamespace r, unAnnotations = [], unObject = []\<rparr>"

definition annotation :: "Unstructured \<Rightarrow> string \<Rightarrow> string" where
  "annotation u k = (case map_of (unAnnotations u) k of None \<Rightarrow> [] | Some v \<Rightarrow> v)"

definition partOfRelease :: "Unstructured \<Rightarrow> string \<Rightarrow> string \<Rightarrow> bool" where
  "partOfRelease u relName relNamespace \<longleftrightarrow>
     annotation u helmReleaseNameAnnotation = relName
     \<and> annotation u helmReleaseNamespaceAnnotation = relNamespace"

text \<open>\<open>%v\<close> of an \<open>ObjectReference\<close>: its fields in braces.\<close>

definition sprintObjectReference :: "ObjectReference \<Rightarrow> string" where
  "sprintObjectReference r =
     ''{'' @ JoinWith [orKind r, orNamespace r, orName r, orUID r, orAPIVersion r,
       orResourceVersion r, orFieldPath r] '' '' @ ''}''"

text \<open>One turn of the loop: the value stored for a connection detail.\<close>

definition connectionValue ::
  "lib \<Rightarrow> 'r kube \<Rightarrow> (Unstructured \<Rightarrow> NamespacedName) \<Rightarrow> ConnectionDetail \<Rightarrow> string \<Rightarrow> string \<Rightarrow>
    goerr + string" where
  "connectionValue L kube keyOf cd relName relNamespace =
     (let r = cdObjectReference cd; ro = unstructuredFromObjectRef r in
      bindE (wrapE (kObject kube ro (keyOf ro)) errCannotGetObject) (\<lambda>ro.
      if \<not> cdSkipPartOfReleaseCheck cd \<and> \<not> partOfRelease ro relName relNamespace
      then Inl (ErrNew (errObjectNotPartOfRelease @ sprintObjectReference r))
      else
        bindE (wrapE (pavedGetValue L (unObject ro) (orFieldPath r)) (errFieldPath (orFieldPath r)))
          (\<lambda>v.
          let s = sprintV L v in
          if orKind r = ''Secret'' \<and> orAPIVersion r = ''v1'' \<and> HasPrefix (orFieldPath r) ''data''
          then wrapE (base64Decode s) errDecodeSecretData
          else Inr s)))"

fun connectionLoop ::
  "(ConnectionDetail \<Rightarrow> goerr + string) \<Rightarrow> (string \<times> string) list \<Rightarrow> ConnectionDetail list \<Rightarrow>
    goerr + (string \<times> string) list" where
  "connectionLoop f mcd [] = Inr mcd"
| "connectionLoop f mcd (cd # cds) =
     bindE (f cd) (\<lambda>fv. connectionLoop f (put mcd (cdToConnectionSecretKey cd) fv) cds)"

text \<open>Cluster scope: every object is looked up in the namespace its reference names.\<close>

definition connectionDetails ::
  "lib \<Rightarrow> 'r kube \<Rightarrow> ConnectionDetail list \<Rightarrow> string \<Rightarrow> string \<Rightarrow> goerr + (string \<times> string) list"
where
  "connectionDetails L kube connDetails relName relNamespace =
     connectionLoop
       (\<lambda>cd. connectionValue L kube
          (\<lambda>ro. \<lparr>nnNamespace = unNamespace ro, nnName = unName ro\<rparr>) cd relName relNamespace)
       [] connDetails"

text \<open>Namespaced scope: every object is looked up in the namespace of the Helm release.\<close>

definition nsConnectionDetails ::
  "lib \<Rightarrow> 'r kube \<Rightarrow> ConnectionDetail list \<Rightarrow> string \<Rightarrow> string \<Rightarrow> goerr + (string \<times> string) list"
where
  "nsConnectionDetails L kube connDetails relName relNamespace =
     connectionLoop
       (\<lambda>cd. connectionValue L kube
          (\<lambda>ro. \<lparr>nnNamespace = relNamespace, nnName = unName ro\<rparr>) cd relName relNamespace)
       [] connDetails"

section \<open>Facts\<close>

lemma generateObservation_fields [simp]:
  "obsDigest (generateObservation r) = []"
  "\<not> obsOwnershipTaken (generateObservation r)"
  by (simp_all add: generateObservation_def zeroObservation_def Let_def split: option.splits)

lemma generateObservation_info [simp]:
  "hrInfo r = Some i \<Longrightarrow> obsState (generateObservation r) = riStatus i"
  "hrInfo r = Some i \<Longrightarrow> obsRevision (generateObservation r) = hrVersion r"
  by (simp_all add: generateObservation_def Let_def split: option.splits)

lemma jsonRoundTrip_map: "jsonRoundTrip (VMap m) = Some w \<Longrightarrow> \<exists>m'. w = VMap m'"
  by (auto simp: jsonRoundTrip_def split: if_splits)

lemma normalizeConfig_cases:
  "normalizeConfig (Some m) =
     Some (if marshalable (VMap m) \<and> depth (VMap m) \<le> maxNestingDepth
           then decodeObject (map (\<lambda>(k, v). (k, jsonNorm v)) (sort_key fst m)) else m)"
  by (simp add: normalizeConfig_def jsonRoundTrip_def del: marshalable.simps depth.simps)

lemma normalizeConfig_Some: "\<exists>m'. normalizeConfig (Some m) = Some m'"
  by (simp add: normalizeConfig_cases del: marshalable.simps depth.simps)

lemma normalizeConfig_idem: "normalizeConfig (normalizeConfig cfg) = normalizeConfig cfg"
proof (cases cfg)
  case None
  then show ?thesis by (simp add: normalizeConfig_def)
next
  case (Some m)
  show ?thesis
  proof (cases "jsonRoundTrip (VMap m)")
    case None
    then have "normalizeConfig cfg = cfg" by (simp add: Some normalizeConfig_def)
    then show ?thesis by simp
  next
    case S: (Some w)
    then obtain m' where w: "w = VMap m'" using jsonRoundTrip_map by blast
    from S w have "jsonRoundTrip (VMap m') = Some (VMap m')" using jsonRoundTrip_idem by blast
    with S w show ?thesis by (simp add: Some normalizeConfig_def)
  qed
qed

lemma isPending_simps [simp]:
  "\<not> isPending StatusDeployed" "\<not> isPending StatusFailed"
  "isPending StatusPendingInstall" "isPending StatusPendingUpgrade" "isPending StatusPendingRollback"
  by (simp_all add: isPending_def)

text \<open>When a check says that the release is up to date, and what it has compared by then.\<close>

lemma upToDate_True:
  "upToDate L compose updates spec observed s = Inr True \<longleftrightarrow>
    (\<exists>info oc ocm. hrInfo observed = Some info \<and> \<not> isPending (riStatus info)
      \<and> hrChart observed = Some oc \<and> chMetadata oc = Some ocm
      \<and> csName (fpChart (spForProvider spec)) = cmName ocm
      \<and> ((spManagementPolicies spec \<noteq> [] \<and> \<not> hasAny (spManagementPolicies spec) [MAUpdate, MAAll])
         \<or> (csVersion (fpChart (spForProvider spec)) \<in> {[], cmVersion ocm, devel}
            \<and> (csDigest (fpChart (spForProvider spec)) = [] \<or> obsDigest (stAtProvider s) = []
               \<or> csDigest (fpChart (spForProvider spec)) = obsDigest (stAtProvider s))
            \<and> (\<exists>desired. compose (fpValuesSpec (spForProvider spec)) = Inr desired
                \<and> semanticDeepEqual L (normalizeConfig (Some desired))
                    (normalizeConfig (Some (case hrConfig observed of None \<Rightarrow> [] | Some m \<Rightarrow> m))))
            \<and> updates (fpPatchesFrom (spForProvider spec)) s = Inr False)))"
  unfolding upToDate_def Let_def by (auto split: option.splits if_splits)

lemma connectionLoop_no_panic:
  "(\<And>cd e. f cd = Inl e \<Longrightarrow> \<not> IsPanic e) \<Longrightarrow> connectionLoop f mcd cds = Inl e \<Longrightarrow> \<not> IsPanic e"
  by (induction cds arbitrary: mcd) (auto simp: bindE_eq_Inl)

end
