(* ===== verification/Release_Handlers.thy ===== *)
theory Release_Handlers
  imports Release_Observe Registry_Auth
begin

text \<open>
  The external client of a release (\<open>pkg/controller/cluster/release/release.go\<close> and its
  namespaced twin): \<open>Observe\<close>, \<open>Create\<close>, \<open>Update\<close> and \<open>Delete\<close>.

  The release is mutated through a pointer in Go; here each handler returns it, also with an
  error. The calls that change something outside the process are returned as a list of
  effects, in their order, the failed ones included. The two scopes run the same code on
  different lookups; the lookups are the fields of \<open>scope\<close>, and the handlers of the two scopes
  are its two instances.
\<close>

section \<open>Constants\<close>

definition defaultWaitTimeout :: Duration where
  "defaultWaitTimeout = 5 * 60 * 1000000000"

definition helmNamespaceLabel :: string where
  "helmNamespaceLabel = ''app.kubernetes.io/managed-by''"

definition helmProviderName :: string where "helmProviderName = ''provider-helm''"

definition errNotRelease :: string where
  "errNotRelease = ''managed resource is not a Release custom resource''"

definition errNewHelmClient :: string where
  "errNewHelmClient = ''cannot create new Helm client''"

definition errFailedToGetLastRelease :: string where
  "errFailedToGetLastRelease = ''failed to get last helm release''"

definition errLastReleaseIsNil :: string where
  "errLastReleaseIsNil = ''last helm release is nil''"

definition errFailedToCheckIfUpToDate :: string where
  "errFailedToCheckIfUpToDate = ''failed to check if release is up to date''"

definition errFailedToInstall :: string where "errFailedToInstall = ''failed to install release''"
definition errFailedToUpgrade :: string where "errFailedToUpgrade = ''failed to upgrade release''"

definition errFailedToUninstall :: string where
  "errFailedToUninstall = ''failed to uninstall release''"

definition errFailedToGetRepoCreds :: string where
  "errFailedToGetRepoCreds = ''failed to get user name and password from secret reference''"

definition errBuildKubeForProviderConfig :: string where
  "errBuildKubeForProviderConfig = ''cannot build kube client for provider config''"

definition errFailedToUpdatePatchSha :: string where
  "errFailedToUpdatePatchSha = ''failed to update patch sha''"

definition errFailedToLateInitialize :: string where
  "errFailedToLateInitialize = ''failed to update chart spec with late-initialized values''"

definition errFailedToCreateNamespace :: string where
  "errFailedToCreateNamespace = ''failed to create namespace for release''"

definition errCannotGetConnectionDetails :: string where
  "errCannotGetConnectionDetails = ''cannot get connection details''"

text \<open>The run-time panic of a nil pointer dereference.\<close>

definition nilDereference :: goerr where
  "nilDereference = ErrPanic ''invalid memory address or nil pointer dereference''"

section \<open>The Helm client\<close>

text \<open>The options a Helm client is created with (\<open>pkg/clients/helm/args.go\<close>).\<close>

record Args =
  agNamespace :: string
  agWait :: bool
  agTimeout :: Duration
  agSkipCRDs :: bool
  agInsecureSkipTLSVerify :: bool
  agPlainHTTP :: bool
  agTakeOwnership :: bool
  agMaxHistory :: int
  agSSAForceConflicts :: bool

text \<open>The interface \<open>helm.Client\<close> (\<open>pkg/clients/helm/client.go\<close>), by the answers it gives.\<close>

record HelmClient =
  hcGetLastRelease :: "string \<Rightarrow> goerr + HelmRelease option"
  hcInstall :: "string \<Rightarrow> Chart \<Rightarrow> vals \<Rightarrow> Patch list \<Rightarrow> goerr + HelmRelease option"
  hcUpgrade :: "string \<Rightarrow> Chart \<Rightarrow> vals \<Rightarrow> Patch list \<Rightarrow> goerr + HelmRelease option"
  hcRollback :: "string \<Rightarrow> goerr option"
  hcUninstall :: "string \<Rightarrow> goerr option"
  hcPullAndLoadChart :: "Managed \<Rightarrow> RepoCreds \<Rightarrow> goerr + Chart"

definition waitTimeout :: "('s, 'r, 'p) Release \<Rightarrow> Duration" where
  "waitTimeout cr =
     (case fpWaitTimeout (forProvider cr) of Some d \<Rightarrow> d | None \<Rightarrow> defaultWaitTimeout)"

definition withRelease :: "ClusterRelease \<Rightarrow> Args \<Rightarrow> Args" where
  "withRelease cr config =
     config\<lparr>agNamespace := fpNamespace (forProvider cr),
       agWait := fpWait (forProvider cr),
       agTimeout := waitTimeout cr,
       agSkipCRDs := fpSkipCRDs (forProvider cr),
       agInsecureSkipTLSVerify := fpInsecureSkipTLSVerify (forProvider cr),
       agPlainHTTP := fpPlainHTTP (forProvider cr),
       agTakeOwnership := (fpTakeOwnership (forProvider cr) \<and> \<not> obsOwnershipTaken (atProvider cr)),
       agMaxHistory := fpMaxHistory (forProvider cr),
       agSSAForceConflicts := fpSSAForceConflicts (forProvider cr)\<rparr>"

definition nsWithRelease :: "NsRelease \<Rightarrow> Args \<Rightarrow> Args" where
  "nsWithRelease cr config =
     config\<lparr>agNamespace := (if fpNamespace (forProvider cr) \<noteq> [] then fpNamespace (forProvider cr)
                           else mdNamespace cr),
       agWait := fpWait (forProvider cr),
       agTimeout := waitTimeout cr,
       agSkipCRDs := fpSkipCRDs (forProvider cr),
       agInsecureSkipTLSVerify := fpInsecureSkipTLSVerify (forProvider cr),
       agPlainHTTP := fpPlainHTTP (forProvider cr),
       agTakeOwnership := (fpTakeOwnership (forProvider cr) \<and> \<not> obsOwnershipTaken (atProvider cr)),
       agMaxHistory := fpMaxHistory (forProvider cr),
       agSSAForceConflicts := fpSSAForceConflicts (forProvider cr)\<rparr>"

section \<open>Rollback decisions\<close>

definition rollBackEnabled :: "('s, 'r, 'p) Release \<Rightarrow> bool" where
  "rollBackEnabled cr \<longleftrightarrow> spRollbackRetriesLimit (rlSpec cr) \<noteq> None"

definition shouldRollBack :: "('s, 'r, 'p) Release \<Rightarrow> bool" where
  "shouldRollBack cr \<longleftrightarrow>
     rollBackEnabled cr \<and>
     ((stSynced (rlStatus cr) \<and> obsState (atProvider cr) = StatusFailed)
      \<or> obsState (atProvider cr) = StatusPendingInstall
      \<or> obsState (atProvider cr) = StatusPendingUpgrade)"

text \<open>The comparison is of signed 32-bit integers; a nil limit is dereferenced.\<close>

definition rollBackLimitReached :: "('s, 'r, 'p) Release \<Rightarrow> goerr + bool" where
  "rollBackLimitReached cr =
     (case spRollbackRetriesLimit (rlSpec cr) of
        None \<Rightarrow> Inl nilDereference
      | Some limit \<Rightarrow> Inr (sint (stFailed (rlStatus cr)) \<ge> sint limit))"

section \<open>Effects and scopes\<close>

datatype 'rel effect =
    EPull RepoCreds
  | EUpdateCR 'rel
  | EInstall string Chart vals "Patch list"
  | EUpgrade string Chart vals "Patch list"
  | ERollback string
  | EUninstall string
  | ECreateNamespace string "(string \<times> string) list"

datatype deployAction = InstallAction | UpgradeAction

record ('s, 'r, 'p) scope =
  scHelm :: HelmClient
  scCompose :: "('s, 'r, 'p) Release \<Rightarrow> goerr + vals"
  scCreds :: "('s, 'r, 'p) Release \<Rightarrow> goerr + RepoCreds"
  scPatches :: "('s, 'r, 'p) Release \<Rightarrow> goerr + Patch list"
  scShaOf :: "Patch list \<Rightarrow> goerr + string"
  scPull :: "('s, 'r, 'p) Release \<Rightarrow> RepoCreds \<Rightarrow> goerr + Chart"
  scUpdateCR :: "('s, 'r, 'p) Release \<Rightarrow> goerr + ('s, 'r, 'p) Release"
  scUpToDate :: "('s, 'r, 'p) Release \<Rightarrow> HelmRelease \<Rightarrow> goerr + bool"
  scConnection :: "('s, 'r, 'p) Release \<Rightarrow> HelmRelease \<Rightarrow> goerr + (string \<times> string) list"

record ExternalObservation =
  eoResourceExists :: bool
  eoResourceUpToDate :: bool
  eoConnectionDetails :: "(string \<times> string) list"

section \<open>Observe\<close>

text \<open>\<open>cr.Status.Synced && !(shouldRollBack(cr) && !rollBackLimitReached(cr))\<close>\<close>

definition resourceUpToDate :: "('s, 'r, 'p) Release \<Rightarrow> goerr + bool" where
  "resourceUpToDate cr =
     (if \<not> stSynced (rlStatus cr) then Inr False
      else if \<not> shouldRollBack cr then Inr True
      else bindE (rollBackLimitReached cr) (\<lambda>reached. Inr reached))"

definition finishObserve ::
  "('s, 'r, 'p) Release \<Rightarrow> (string \<times> string) list \<Rightarrow>
    ('s, 'r, 'p) Release \<times> (goerr + ExternalObservation)" where
  "finishObserve cr cd =
     (cr, bindE (resourceUpToDate cr) (\<lambda>u.
        Inr \<lparr>eoResourceExists = True, eoResourceUpToDate = u, eoConnectionDetails = cd\<rparr>))"

definition observeWith ::
  "('s, 'r, 'p) scope \<Rightarrow> ('s, 'r, 'p) Release \<Rightarrow>
    ('s, 'r, 'p) Release \<times> (goerr + ExternalObservation)" where
  "observeWith H cr =
     (case hcGetLastRelease (scHelm H) (mdExternalName cr) of
        Inl e \<Rightarrow>
          (if IsReleaseNotFound e
           then (cr, Inr \<lparr>eoResourceExists = False, eoResourceUpToDate = False,
                       eoConnectionDetails = []\<rparr>)
           else (cr, Inl (Wrap e errFailedToGetLastRelease)))
      | Inr None \<Rightarrow> (cr, Inl (ErrNew errLastReleaseIsNil))
      | Inr (Some rel) \<Rightarrow>
          (let lastDigest = obsDigest (atProvider cr);
               cr1 = mapObs (\<lambda>_. (generateObservation rel)\<lparr>obsDigest := lastDigest\<rparr>) cr
           in if mdDeleted cr1
              then (cr1, Inr \<lparr>eoResourceExists = True, eoResourceUpToDate = False,
                           eoConnectionDetails = []\<rparr>)
              else
                (case scUpToDate H cr1 rel of
                   Inl e \<Rightarrow> (cr1, Inl (Wrap e errFailedToCheckIfUpToDate))
                 | Inr s \<Rightarrow>
                     (let cr2 = mapStatus (\<lambda>st. st\<lparr>stSynced := s\<rparr>) cr1 in
                      if obsState (atProvider cr2) = StatusDeployed \<and> s
                      then
                        (let cr3 = mapStatus (\<lambda>st. st\<lparr>stFailed := 0\<rparr>) cr2 in
                         case scConnection H cr3 rel of
                           Inl e \<Rightarrow> (cr3, Inl (Wrap e errCannotGetConnectionDetails))
                         | Inr cd \<Rightarrow>
                             (let cr4 = (if obsDigest (atProvider cr3) = []
                                         then mapObs (\<lambda>o'. o'\<lparr>obsDigest := csDigest (chartOf cr3)\<rparr>) cr3
                                         else cr3);
                                  cr5 = mapStatus (\<lambda>st. st\<lparr>stReady := Some Available\<rparr>) cr4
                              in finishObserve cr5 cd))
                      else
                        finishObserve (mapStatus (\<lambda>st. st\<lparr>stReady := Some Unavailable\<rparr>) cr2) []))))"

section \<open>Deploy\<close>

text \<open>
  Late initialization of the chart name and version from the metadata of the pulled chart, and
  whether the object has to be written back.
\<close>

definition shouldLateInit :: "('s, 'r, 'p) Release \<Rightarrow> bool" where
  "shouldLateInit cr \<longleftrightarrow>
     (let mp = spManagementPolicies (rlSpec cr) in mp = [] \<or> hasAny mp [MALateInitialize, MAAll])"

definition lateInitialize ::
  "('s, 'r, 'p) Release \<Rightarrow> Chart \<Rightarrow> goerr + (('s, 'r, 'p) Release \<times> bool)" where
  "lateInitialize cr chart =
     (if \<not> shouldLateInit cr then Inr (cr, False)
      else
        bindE
          (if csName (chartOf cr) = []
           then (case chMetadata chart of
                   None \<Rightarrow> Inl nilDereference
                 | Some m \<Rightarrow> Inr (mapChart (\<lambda>c. c\<lparr>csName := cmName m\<rparr>) cr, True))
           else Inr (cr, False))
          (\<lambda>(cr1, needsUpdate).
            if csVersion (chartOf cr1) = [] \<and> csDigest (chartOf cr1) = []
            then (case chMetadata chart of
                    None \<Rightarrow> Inl nilDereference
                  | Some m \<Rightarrow> Inr (mapChart (\<lambda>c. c\<lparr>csVersion := cmVersion m\<rparr>) cr1, True))
            else Inr (cr1, needsUpdate)))"

fun runAction ::
  "HelmClient \<Rightarrow> deployAction \<Rightarrow> string \<Rightarrow> Chart \<Rightarrow> vals \<Rightarrow> Patch list \<Rightarrow> goerr + HelmRelease option"
where
  "runAction h InstallAction = hcInstall h"
| "runAction h UpgradeAction = hcUpgrade h"

fun actionEffect ::
  "deployAction \<Rightarrow> string \<Rightarrow> Chart \<Rightarrow> vals \<Rightarrow> Patch list \<Rightarrow> 'rel effect" where
  "actionEffect InstallAction = EInstall"
| "actionEffect UpgradeAction = EUpgrade"

text \<open>What a successful deployment records in the status.\<close>

definition recordDeployment ::
  "('s, 'r, 'p) Release \<Rightarrow> HelmRelease \<Rightarrow> string \<Rightarrow> ('s, 'r, 'p) Release" where
  "recordDeployment cr rel sha =
     (let cr1 = mapStatus (\<lambda>st. st\<lparr>stPatchesSha := sha\<rparr>) cr;
          cr2 = mapObs (\<lambda>_. generateObservation rel) cr1;
          cr3 = mapObs (\<lambda>o'. o'\<lparr>obsDigest := csDigest (chartOf cr2)\<rparr>) cr2
      in if fpTakeOwnership (forProvider cr3)
         then mapObs (\<lambda>o'. o'\<lparr>obsOwnershipTaken := True\<rparr>) cr3 else cr3)"

definition deployWith ::
  "('s, 'r, 'p) scope \<Rightarrow> ('s, 'r, 'p) Release \<Rightarrow> deployAction \<Rightarrow>
    ('s, 'r, 'p) Release effect list \<times> ('s, 'r, 'p) Release \<times> goerr option" where
  "deployWith H cr action =
     (case scCompose H cr of
        Inl e \<Rightarrow> ([], cr, Some (Wrap e errFailedToComposeValues))
      | Inr cv \<Rightarrow>
     (case scCreds H cr of
        Inl e \<Rightarrow> ([], cr, Some (Wrap e errFailedToGetRepoCreds))
      | Inr creds \<Rightarrow>
     (case scPatches H cr of
        Inl e \<Rightarrow> ([], cr, Some (Wrap e errFailedToLoadPatches))
      | Inr p \<Rightarrow>
     (case scPull H cr creds of
        Inl e \<Rightarrow> ([EPull creds], cr, Some e)
      | Inr chart \<Rightarrow>
     (case lateInitialize cr chart of
        Inl e \<Rightarrow> ([EPull creds], cr, Some e)
      | Inr (cr1, needsUpdate) \<Rightarrow>
     (let es = EPull creds # (if needsUpdate then [EUpdateCR cr1] else []) in
      case (if needsUpdate then scUpdateCR H cr1 else Inr cr1) of
        Inl e \<Rightarrow> (es, cr1, Some (Wrap e errFailedToLateInitialize))
      | Inr cr2 \<Rightarrow>
     (let es' = es @ [actionEffect action (mdExternalName cr2) chart cv p] in
      case runAction (scHelm H) action (mdExternalName cr2) chart cv p of
        Inl e \<Rightarrow> (es', cr2, Some e)
      | Inr None \<Rightarrow> (es', cr2, Some (ErrNew errLastReleaseIsNil))
      | Inr (Some rel) \<Rightarrow>
     (case scShaOf H p of
        Inl e \<Rightarrow> (es', cr2, Some (Wrap e errFailedToUpdatePatchSha))
      | Inr sha \<Rightarrow> (es', recordDeployment cr2 rel sha, None)))))))))"

section \<open>Update and Delete\<close>

definition updateWith ::
  "('s, 'r, 'p) scope \<Rightarrow> ('s, 'r, 'p) Release \<Rightarrow>
    ('s, 'r, 'p) Release effect list \<times> ('s, 'r, 'p) Release \<times> goerr option" where
  "updateWith H cr =
     (if shouldRollBack cr then
        (case rollBackLimitReached cr of
           Inl e \<Rightarrow> ([], cr, Some e)
         | Inr False \<Rightarrow>
             (let cr1 = mapStatus (\<lambda>st. st\<lparr>stFailed := stFailed st + 1\<rparr>) cr in
              if obsRevision (atProvider cr1) = 1
              then ([EUninstall (mdExternalName cr1)], cr1, hcUninstall (scHelm H) (mdExternalName cr1))
              else ([ERollback (mdExternalName cr1)], cr1, hcRollback (scHelm H) (mdExternalName cr1)))
         | Inr True \<Rightarrow> ([], cr, None))
      else
        (case deployWith H cr UpgradeAction of
           (es, cr', err) \<Rightarrow> (es, cr', WrapNil err errFailedToUpgrade)))"

definition deleteWith ::
  "HelmClient \<Rightarrow> ('s, 'r, 'p) Release \<Rightarrow>
    ('s, 'r, 'p) Release effect list \<times> ('s, 'r, 'p) Release \<times> goerr option" where
  "deleteWith h cr =
     ([EUninstall (mdExternalName cr)], cr,
      WrapNil (hcUninstall h (mdExternalName cr)) errFailedToUninstall)"

end
