(* ===== verification/Provider_Config.thy ===== *)
theory Provider_Config
  imports Api_Types
begin

text \<open>
  Resolving the provider config of a managed resource (\<open>pkg/clients/helm/helm.go\<close>): the config
  object is fetched, its usage is recorded, its spec is returned.
\<close>

definition errProviderConfigNotSet :: string where
  "errProviderConfigNotSet = ''provider config is not set''"

definition errGetProviderConfig :: string where
  "errGetProviderConfig = ''cannot get provider config''"

definition errFailedToTrackUsage :: string where
  "errFailedToTrackUsage = ''cannot track provider config usage''"

definition errNotManaged :: string where "errNotManaged = ''resource is not a managed''"

definition errUnknownProviderConfig :: string where "errUnknownProviderConfig = ''unknown''"

definition errInvalidKind :: "string \<Rightarrow> string \<Rightarrow> string \<Rightarrow> string" where
  "errInvalidKind kind ns nm =
     ''referenced provider config kind \"'' @ kind @ ''\" is invalid for '' @ ns @ ''/'' @ nm"

definition errNotProviderConfigKind :: "string \<Rightarrow> string \<Rightarrow> string \<Rightarrow> string" where
  "errNotProviderConfigKind kind ns nm =
     ''referenced provider config kind \"'' @ kind @ ''\" is not a provider config type ''
       @ ns @ ''/'' @ nm"

section \<open>Data\<close>

text \<open>
  The spec of a provider config is \<open>kconfig.ProviderConfigSpec\<close> of provider-kubernetes, in both scopes.
  Of its fields the code reads and writes the namespace of \<open>Credentials.SecretRef\<close>; the record has
  the fields that the schemas under \<open>package/crds\<close> document. How the library's type is written as
  JSON and read back is a parameter (\<open>pkMarshal\<close>, \<open>pkUnmarshal\<close>).
\<close>

record SecretKeySelector =
  sksName :: string
  sksNamespace :: string
  sksKey :: string

record ProviderCredentials =
  crSource :: string
  crFs :: "string option"
  crEnv :: "string option"
  crSecretRef :: "SecretKeySelector option"

definition IdentityTypeGoogleApplicationCredentials :: string where
  "IdentityTypeGoogleApplicationCredentials = ''GoogleApplicationCredentials''"

record Identity =
  idType :: string
  idCredentials :: ProviderCredentials

record ProviderConfigSpec =
  pcsCredentials :: ProviderCredentials
  pcsIdentity :: "Identity option"

abbreviation pcsSecretRef :: "ProviderConfigSpec \<Rightarrow> SecretKeySelector option" where
  "pcsSecretRef spec \<equiv> crSecretRef (pcsCredentials spec)"

definition zeroCredentials :: ProviderCredentials where
  "zeroCredentials = \<lparr>crSource = [], crFs = None, crEnv = None, crSecretRef = None\<rparr>"

section \<open>Resolving\<close>

text \<open>What the scheme makes of the referenced kind, and the client's answers.\<close>

datatype pcKind = KindProviderConfig | KindClusterProviderConfig | KindOtherProviderConfig
  | KindNoProviderConfig

datatype usage = LegacyUsage string | ModernUsage string string

text \<open>
  \<open>pkLegacy\<close> gets a cluster-scoped config by name, \<open>pkScheme\<close> makes an empty object of a kind,
  \<open>pkGet\<close> fills it, \<open>pkTrack\<close> is the usage tracker of the controller. \<open>pkMarshal\<close> is \<open>json.Marshal\<close> of a
  spec, and \<open>pkUnmarshal\<close> what \<open>json.Unmarshal\<close> leaves in a zero spec, with its error.
\<close>

record pcClient =
  pkLegacy :: "NamespacedName \<Rightarrow> goerr + ProviderConfigSpec"
  pkScheme :: "string \<Rightarrow> goerr + pcKind"
  pkGet :: "pcKind \<Rightarrow> NamespacedName \<Rightarrow> goerr + ProviderConfigSpec"
  pkTrack :: "usage \<Rightarrow> goerr option"
  pkMarshal :: "ProviderConfigSpec \<Rightarrow> goerr + string"
  pkUnmarshal :: "string \<Rightarrow> ProviderConfigSpec \<times> goerr option"

text \<open>
  A spec is converted by writing it as JSON and reading that into the other type. The result is a
  pointer, here \<open>None\<close> for nil, and an error: nil without an error for a nil config.
\<close>

definition legacyToModernProviderConfigSpec ::
  "pcClient \<Rightarrow> ProviderConfigSpec option \<Rightarrow> ProviderConfigSpec option \<times> goerr option" where
  "legacyToModernProviderConfigSpec K pc =
     (case pc of
        None \<Rightarrow> (None, None)
      | Some spec \<Rightarrow>
     (case pkMarshal K spec of
        Inl e \<Rightarrow> (None, Some e)
      | Inr js \<Rightarrow> (case pkUnmarshal K js of (mSpec, err) \<Rightarrow> (Some mSpec, err))))"

definition enrichLocalSecretRefs :: "ProviderConfigSpec \<Rightarrow> string \<Rightarrow> ProviderConfigSpec" where
  "enrichLocalSecretRefs spec ns =
     (case pcsSecretRef spec of
        None \<Rightarrow> spec
      | Some r \<Rightarrow>
          spec\<lparr>pcsCredentials := (pcsCredentials spec)\<lparr>crSecretRef := Some (r\<lparr>sksNamespace := ns\<rparr>)\<rparr>\<rparr>)"

text \<open>
  The result is paired with the usages that were recorded or tried. The config of the legacy
  resolution is an object and never nil; the callers dereference the spec they get without an error.
\<close>

definition resolveProviderConfigLegacy ::
  "pcClient \<Rightarrow> ClusterRelease \<Rightarrow> usage list \<times> (goerr + ProviderConfigSpec)" where
  "resolveProviderConfigLegacy K mg =
     (case spProviderConfigReference (rlSpec mg) of
        None \<Rightarrow> ([], Inl (ErrNew errProviderConfigNotSet))
      | Some ref \<Rightarrow>
     (case pkLegacy K \<lparr>nnNamespace = [], nnName = refName ref\<rparr> of
        Inl e \<Rightarrow> ([], Inl (Wrap e errGetProviderConfig))
      | Inr spec \<Rightarrow>
     (let u = LegacyUsage (mdName mg) in
      case pkTrack K u of
        Some e \<Rightarrow> ([u], Inl (Wrap e errFailedToTrackUsage))
      | None \<Rightarrow>
          ([u], (case legacyToModernProviderConfigSpec K (Some spec) of
                   (_, Some e) \<Rightarrow> Inl e
                 | (Some mSpec, None) \<Rightarrow> Inr mSpec
                 | (None, None) \<Rightarrow> Inl (ErrPanic ''invalid memory address or nil pointer dereference''))))))"

definition resolveProviderConfigModern ::
  "pcClient \<Rightarrow> NsRelease \<Rightarrow> usage list \<times> (goerr + ProviderConfigSpec)" where
  "resolveProviderConfigModern K mg =
     (case spProviderConfigReference (rlSpec mg) of
        None \<Rightarrow> ([], Inl (ErrNew errProviderConfigNotSet))
      | Some ref \<Rightarrow>
     (case pkScheme K (pcrKind ref) of
        Inl e \<Rightarrow> ([], Inl (Wrap e (errInvalidKind (pcrKind ref) (mdNamespace mg) (mdName mg))))
      | Inr kind \<Rightarrow>
     (if kind = KindNoProviderConfig
      then ([], Inl (ErrNew (errNotProviderConfigKind (pcrKind ref) (mdNamespace mg) (mdName mg))))
      else
     (case pkGet K kind \<lparr>nnNamespace = mdNamespace mg, nnName = pcrName ref\<rparr> of
        Inl e \<Rightarrow> ([], Inl (Wrap e errGetProviderConfig))
      | Inr spec \<Rightarrow>
     (case (case kind of
              KindProviderConfig \<Rightarrow> Inr (enrichLocalSecretRefs spec (mdNamespace mg))
            | KindClusterProviderConfig \<Rightarrow> Inr spec
            | _ \<Rightarrow> Inl (ErrNew errUnknownProviderConfig)) of
        Inl e \<Rightarrow> ([], Inl e)
      | Inr pcSpec \<Rightarrow>
     (let u = ModernUsage (mdNamespace mg) (mdName mg) in
      case pkTrack K u of
        Some e \<Rightarrow> ([u], Inl (Wrap e errFailedToTrackUsage))
      | None \<Rightarrow> ([u], Inr pcSpec)))))))"

definition ResolveProviderConfig ::
  "pcClient \<Rightarrow> Managed \<Rightarrow> usage list \<times> (goerr + ProviderConfigSpec)" where
  "ResolveProviderConfig K mg =
     (case mg of
        MgCluster m \<Rightarrow> resolveProviderConfigLegacy K m
      | MgNamespaced m \<Rightarrow> resolveProviderConfigModern K m
      | MgOther \<Rightarrow> ([], Inl (ErrNew errNotManaged)))"

section \<open>Facts\<close>

lemma enrichLocalSecretRefs_simps [simp]:
  "pcsSecretRef (enrichLocalSecretRefs spec ns) =
     map_option (\<lambda>r. r\<lparr>sksNamespace := ns\<rparr>) (pcsSecretRef spec)"
  "pcsIdentity (enrichLocalSecretRefs spec ns) = pcsIdentity spec"
  by (simp_all add: enrichLocalSecretRefs_def split: option.splits)

end
