(* ===== verification/Release_Controllers.thy ===== *)
theory Release_Controllers
  imports Release_Handlers Provider_Config
begin

text \<open>
  The two controllers: the external clients of the cluster scope
  (\<open>pkg/controller/cluster/release/release.go\<close>) and of the namespaced scope
  (\<open>pkg/controller/namespaced/release/release.go\<close>) as instances of the handlers, and \<open>Connect\<close>.
\<close>

text \<open>
  The struct \<open>helmExternal\<close>; \<open>heLib\<close> and \<open>heAuth\<close> are the libraries its methods call.
\<close>

record ('rel, 'k, 'src) helmExternal =
  heLib :: lib
  heAuth :: authlib
  heLocalKube :: "'rel kube"
  heKube :: "'rel kube"
  heHelm :: HelmClient
  hePatch :: "('k, 'src) Patcher"

type_synonym ClusterExternal =
  "(ClusterRelease, ClusterRelease kube, ClusterValueFromSource) helmExternal"

type_synonym NsExternal =
  "(NsRelease, NsRelease kube \<times> string, NsValueFromSource) helmExternal"

section \<open>Cluster scope\<close>

definition clusterScope ::
  "ClusterExternal \<Rightarrow> (DataKeySelector, SecretReference, Reference) scope" where
  "clusterScope E =
     \<lparr>scHelm = heHelm E,
      scCompose = (\<lambda>cr. composeValuesFromSpec (heLib E) (heLocalKube E) (fpValuesSpec (forProvider cr))),
      scCreds = ResolveCluster (heAuth E) (heLocalKube E),
      scPatches = (\<lambda>cr. paGetFromSpec (hePatch E) (heLocalKube E) (fpPatchesFrom (forProvider cr))),
      scShaOf = paShaOf (hePatch E),
      scPull = (\<lambda>cr. hcPullAndLoadChart (heHelm E) (MgCluster cr)),
      scUpdateCR = kUpdate (heLocalKube E),
      scUpToDate = (\<lambda>cr rel. isUpToDate (heLib E) (heLocalKube E) (rlSpec cr) rel (rlStatus cr)),
      scConnection = (\<lambda>cr rel. connectionDetails (heLib E) (heKube E)
        (spConnectionDetails (rlSpec cr)) (hrName rel) (hrNamespace rel))\<rparr>"

definition createNamespace :: "'r kube \<Rightarrow> string \<Rightarrow> goerr option" where
  "createNamespace kube nm = kCreateNamespace kube nm [(helmNamespaceLabel, helmProviderName)]"

definition Observe ::
  "ClusterExternal \<Rightarrow> Managed \<Rightarrow> Managed \<times> (goerr + ExternalObservation)" where
  "Observe E mg =
     (case mg of
        MgCluster cr \<Rightarrow> (case observeWith (clusterScope E) cr of (cr', r) \<Rightarrow> (MgCluster cr', r))
      | _ \<Rightarrow> (mg, Inl (ErrNew errNotRelease)))"

definition deploy ::
  "ClusterExternal \<Rightarrow> ClusterRelease \<Rightarrow> deployAction \<Rightarrow>
    ClusterRelease effect list \<times> ClusterRelease \<times> goerr option" where
  "deploy E cr action = deployWith (clusterScope E) cr action"

definition Create ::
  "ClusterExternal \<Rightarrow> Managed \<Rightarrow> ClusterRelease effect list \<times> Managed \<times> goerr option" where
  "Create E mg =
     (case mg of
        MgCluster cr \<Rightarrow>
          (let ns = fpNamespace (forProvider cr);
               es0 = (if fpSkipCreateNamespace (forProvider cr) then []
                      else [ECreateNamespace ns [(helmNamespaceLabel, helmProviderName)]]);
               nsErr = (if fpSkipCreateNamespace (forProvider cr) then None
                        else case createNamespace (heKube E) ns of
                               None \<Rightarrow> None
                             | Some e \<Rightarrow> if IsAlreadyExists e then None else Some e)
           in case nsErr of
                Some e \<Rightarrow> (es0, mg, Some (Wrap e errFailedToCreateNamespace))
              | None \<Rightarrow>
                  (case deploy E cr InstallAction of
                     (es, cr', err) \<Rightarrow> (es0 @ es, MgCluster cr', WrapNil err errFailedToInstall)))
      | _ \<Rightarrow> ([], mg, Some (ErrNew errNotRelease)))"

definition UpdateRelease ::
  "ClusterExternal \<Rightarrow> Managed \<Rightarrow> ClusterRelease effect list \<times> Managed \<times> goerr option" where
  "UpdateRelease E mg =
     (case mg of
        MgCluster cr \<Rightarrow>
          (case updateWith (clusterScope E) cr of (es, cr', err) \<Rightarrow> (es, MgCluster cr', err))
      | _ \<Rightarrow> ([], mg, Some (ErrNew errNotRelease)))"

definition Delete ::
  "ClusterExternal \<Rightarrow> Managed \<Rightarrow> ClusterRelease effect list \<times> Managed \<times> goerr option" where
  "Delete E mg =
     (case mg of
        MgCluster cr \<Rightarrow> (case deleteWith (heHelm E) cr of (es, cr', err) \<Rightarrow> (es, MgCluster cr', err))
      | _ \<Rightarrow> ([], mg, Some (ErrNew errNotRelease)))"

section \<open>Namespaced scope\<close>

definition nsScope ::
  "NsExternal \<Rightarrow> (NsDataKeySelector, LocalSecretReference, ProviderConfigReference) scope" where
  "nsScope E =
     \<lparr>scHelm = heHelm E,
      scCompose = (\<lambda>cr. nsComposeValuesFromSpec (heLib E) (heLocalKube E)
        (fpValuesSpec (forProvider cr)) (mdNamespace cr)),
      scCreds = ResolveNamespaced (heAuth E) (heLocalKube E),
      scPatches = (\<lambda>cr. paGetFromSpec (hePatch E) (heLocalKube E, mdNamespace cr)
        (fpPatchesFrom (forProvider cr))),
      scShaOf = paShaOf (hePatch E),
      scPull = (\<lambda>cr. hcPullAndLoadChart (heHelm E) (MgNamespaced cr)),
      scUpdateCR = kUpdate (heLocalKube E),
      scUpToDate = (\<lambda>cr rel. nsIsUpToDate (heLib E) (heLocalKube E) (rlSpec cr) rel (rlStatus cr)
        (mdNamespace cr)),
      scConnection = (\<lambda>cr rel. nsConnectionDetails (heLib E) (heKube E)
        (spConnectionDetails (rlSpec cr)) (hrName rel) (hrNamespace rel))\<rparr>"

definition nsCreateNamespace :: "'r kube \<Rightarrow> string \<Rightarrow> goerr option" where
  "nsCreateNamespace kube nm =
     (case kCreateNamespace kube nm [(helmNamespaceLabel, helmProviderName)] of
        None \<Rightarrow> None
      | Some e \<Rightarrow> if IsAlreadyExists e then None else Some e)"

definition nsObserve ::
  "NsExternal \<Rightarrow> Managed \<Rightarrow> Managed \<times> (goerr + ExternalObservation)" where
  "nsObserve E mg =
     (case mg of
        MgNamespaced cr \<Rightarrow> (case observeWith (nsScope E) cr of (cr', r) \<Rightarrow> (MgNamespaced cr', r))
      | _ \<Rightarrow> (mg, Inl (ErrNew errNotRelease)))"

definition nsDeploy ::
  "NsExternal \<Rightarrow> NsRelease \<Rightarrow> deployAction \<Rightarrow>
    NsRelease effect list \<times> NsRelease \<times> goerr option" where
  "nsDeploy E cr action = deployWith (nsScope E) cr action"

definition nsCreate ::
  "NsExternal \<Rightarrow> Managed \<Rightarrow> NsRelease effect list \<times> Managed \<times> goerr option" where
  "nsCreate E mg =
     (case mg of
        MgNamespaced cr \<Rightarrow>
          (let ns = fpNamespace (forProvider cr);
               es0 = (if fpSkipCreateNamespace (forProvider cr) then []
                      else [ECreateNamespace ns [(helmNamespaceLabel, helmProviderName)]]);
               nsErr = (if fpSkipCreateNamespace (forProvider cr) then None
                        else nsCreateNamespace (heKube E) ns)
           in case nsErr of
                Some e \<Rightarrow> (es0, mg, Some (Wrap e errFailedToCreateNamespace))
              | None \<Rightarrow>
                  (case nsDeploy E cr InstallAction of
                     (es, cr', err) \<Rightarrow> (es0 @ es, MgNamespaced cr', WrapNil err errFailedToInstall)))
      | _ \<Rightarrow> ([], mg, Some (ErrNew errNotRelease)))"

definition nsUpdateRelease ::
  "NsExternal \<Rightarrow> Managed \<Rightarrow> NsRelease effect list \<times> Managed \<times> goerr option" where
  "nsUpdateRelease E mg =
     (case mg of
        MgNamespaced cr \<Rightarrow>
          (case updateWith (nsScope E) cr of (es, cr', err) \<Rightarrow> (es, MgNamespaced cr', err))
      | _ \<Rightarrow> ([], mg, Some (ErrNew errNotRelease)))"

definition nsDelete ::
  "NsExternal \<Rightarrow> Managed \<Rightarrow> NsRelease effect list \<times> Managed \<times> goerr option" where
  "nsDelete E mg =
     (case mg of
        MgNamespaced cr \<Rightarrow>
          (case deleteWith (heHelm E) cr of (es, cr', err) \<Rightarrow> (es, MgNamespaced cr', err))
      | _ \<Rightarrow> ([], mg, Some (ErrNew errNotRelease)))"

section \<open>Connect\<close>

text \<open>
  What a connector is made of: the client and tracker behind \<open>ResolveProviderConfig\<close>, the
  builder of the target cluster's client, and \<open>newHelmClientFn\<close>. \<open>zeroArgs\<close> is the \<open>Args\<close> the
  constructor of the Helm client starts from.
\<close>

definition zeroArgs :: Args where
  "zeroArgs = \<lparr>agNamespace = [], agWait = False, agTimeout = 0, agSkipCRDs = False,
     agInsecureSkipTLSVerify = False, agPlainHTTP = False, agTakeOwnership = False,
     agMaxHistory = 0, agSSAForceConflicts = False\<rparr>"

record ('rel, 'cfg) connector =
  coLib :: lib
  coAuth :: authlib
  coClient :: "'rel kube"
  coConfig :: pcClient
  coBuilder :: "ProviderConfigSpec \<Rightarrow> goerr + ('rel kube \<times> 'cfg)"
  coNewHelm :: "'cfg \<Rightarrow> (Args \<Rightarrow> Args) \<Rightarrow> goerr + HelmClient"

definition errResolveProviderConfig :: string where
  "errResolveProviderConfig = ''failed to resolve provider config''"

definition Connect ::
  "(ClusterRelease, 'cfg) connector \<Rightarrow> Managed \<Rightarrow> usage list \<times> (goerr + ClusterExternal)" where
  "Connect c mg =
     (case mg of
        MgCluster cr \<Rightarrow>
          (case ResolveProviderConfig (coConfig c) mg of
             (us, r) \<Rightarrow>
               (us,
                bindE (wrapE r errResolveProviderConfig) (\<lambda>pcSpec.
                bindE (wrapE (coBuilder c pcSpec) errBuildKubeForProviderConfig) (\<lambda>(k, rc).
                bindE (wrapE (coNewHelm c rc (withRelease cr)) errNewHelmClient) (\<lambda>h.
                  Inr \<lparr>heLib = coLib c, heAuth = coAuth c, heLocalKube = coClient c, heKube = k,
                       heHelm = h, hePatch = newPatcher (coLib c)\<rparr>)))))
      | _ \<Rightarrow> ([], Inl (ErrNew errNotRelease)))"

definition nsConnect ::
  "(NsRelease, 'cfg) connector \<Rightarrow> Managed \<Rightarrow> usage list \<times> (goerr + NsExternal)" where
  "nsConnect c mg =
     (case mg of
        MgNamespaced cr \<Rightarrow>
          (case ResolveProviderConfig (coConfig c) mg of
             (us, r) \<Rightarrow>
               (us,
                bindE (wrapE r errResolveProviderConfig) (\<lambda>pcSpec.
                bindE (wrapE (coBuilder c pcSpec) errBuildKubeForProviderConfig) (\<lambda>(k, rc).
                bindE (wrapE (coNewHelm c rc (nsWithRelease cr)) errNewHelmClient) (\<lambda>h.
                  Inr \<lparr>heLib = coLib c, heAuth = coAuth c, heLocalKube = coClient c, heKube = k,
                       heHelm = h, hePatch = nsNewPatcher (coLib c)\<rparr>)))))
      | _ \<Rightarrow> ([], Inl (ErrNew errNotRelease)))"

end
