(* ===== verification/Helm_Client.thy ===== *)
theory Helm_Client
  imports Helm_Cache_Facts Release_Controllers
begin

text \<open>
  The Helm client itself (\<open>pkg/clients/helm/client.go\<close>): \<open>NewClient\<close>, which turns the options of
  a release into the options of Helm's actions, and the methods that run these actions.

  The actions of Helm are parameters (\<open>helmlib\<close>); what the code sets on them is written out.
\<close>

section \<open>Helm's actions\<close>

definition helmDriverSecret :: string where "helmDriverSecret = ''secret''"

definition errFailedToInitActionConfig :: string where
  "errFailedToInitActionConfig = ''failed to initialize helm action configuration''"

definition errFailedToCreateRegistryClient :: string where
  "errFailedToCreateRegistryClient = ''failed to create registry client''"

definition errFailedToCreateChartCacheDir :: string where
  "errFailedToCreateChartCacheDir = ''failed to create chart cache directory''"

definition errFailedToCreateContentCacheDir :: string where
  "errFailedToCreateContentCacheDir = ''failed to create chart content cache directory''"

datatype WaitStrategy = HookOnlyStrategy | StatusWatcherStrategy

record InstallClient =
  icReleaseName :: string
  icNamespace :: string
  icWaitStrategy :: WaitStrategy
  icTimeout :: Duration
  icSkipCRDs :: bool
  icInsecureSkipTLSVerify :: bool
  icPlainHTTP :: bool
  icTakeOwnership :: bool
  icForceConflicts :: bool
  icPostRenderer :: "Patch list option"

record UpgradeClient =
  ucWaitStrategy :: WaitStrategy
  ucTimeout :: Duration
  ucSkipCRDs :: bool
  ucInsecureSkipTLSVerify :: bool
  ucPlainHTTP :: bool
  ucTakeOwnership :: bool
  ucMaxHistory :: int
  ucForceConflicts :: bool
  ucResetValues :: bool
  ucPostRenderer :: "Patch list option"

record UninstallClient =
  uicWaitStrategy :: WaitStrategy
  uicTimeout :: Duration

record RollbackClient =
  rbWaitStrategy :: WaitStrategy
  rbTimeout :: Duration
  rbForceConflicts :: bool

text \<open>A run of an action answers with a releaser: a release of the version 1 API, or another one.\<close>

datatype releaser = V1Release "HelmRelease option" | OtherReleaser string

text \<open>
  \<open>hlInit\<close> is \<open>Configuration.Init\<close> for a namespace and a storage driver; the actions run on the
  configuration it prepared.
\<close>

record 'cfg helmlib =
  hlInit :: "'cfg \<Rightarrow> string \<Rightarrow> string \<Rightarrow> goerr option"
  hlNewRegistryClient :: "goerr option"
  hlMkdirErr :: "string \<Rightarrow> goerr option"
  hlGet :: "string \<Rightarrow> goerr + releaser"
  hlInstall :: "InstallClient \<Rightarrow> Chart \<Rightarrow> vals \<Rightarrow> goerr + releaser"
  hlUpgrade :: "UpgradeClient \<Rightarrow> string \<Rightarrow> Chart \<Rightarrow> vals \<Rightarrow> goerr + releaser"
  hlUninstall :: "UninstallClient \<Rightarrow> string \<Rightarrow> goerr option"
  hlRollback :: "RollbackClient \<Rightarrow> string \<Rightarrow> goerr option"

record client =
  clPullClient :: PullClient
  clContentCache :: string
  clInstallClient :: InstallClient
  clUpgradeClient :: UpgradeClient
  clRollbackClient :: RollbackClient
  clUninstallClient :: UninstallClient

section \<open>NewClient\<close>

text \<open>\<open>if os.IsNotExist(os.Stat(dir)) { os.Mkdir(dir) }\<close>\<close>

definition ensureDir ::
  "'cfg helmlib \<Rightarrow> oslib \<Rightarrow> string \<Rightarrow> string \<Rightarrow> fsys \<Rightarrow> goerr + fsys" where
  "ensureDir HL Os dir msg fs =
     (if osStatErr Os dir = None \<and> map_of fs dir = None then
        (case hlMkdirErr HL dir of
           Some e \<Rightarrow> Inl (Wrap e msg)
         | None \<Rightarrow> Inr (AList.update dir Dir fs))
      else Inr fs)"

definition clientOf :: "Args \<Rightarrow> client" where
  "clientOf args =
     (let waitStrategy = (if agWait args then StatusWatcherStrategy else HookOnlyStrategy) in
      \<lparr>clPullClient =
         \<lparr>pcDestDir = chartCache, pcInsecureSkipTLSVerify = agInsecureSkipTLSVerify args, pcPlainHTTP = agPlainHTTP args,
          pcVersion = [], pcRepoURL = [], pcUsername = [], pcPassword = []\<rparr>,
       clContentCache = chartContentCache,
       clInstallClient =
         \<lparr>icReleaseName = [], icNamespace = agNamespace args, icWaitStrategy = waitStrategy,
          icTimeout = agTimeout args, icSkipCRDs = agSkipCRDs args,
          icInsecureSkipTLSVerify = agInsecureSkipTLSVerify args, icPlainHTTP = agPlainHTTP args,
          icTakeOwnership = agTakeOwnership args, icForceConflicts = agSSAForceConflicts args,
          icPostRenderer = None\<rparr>,
       clUpgradeClient =
         \<lparr>ucWaitStrategy = waitStrategy, ucTimeout = agTimeout args, ucSkipCRDs = agSkipCRDs args,
          ucInsecureSkipTLSVerify = agInsecureSkipTLSVerify args, ucPlainHTTP = agPlainHTTP args,
          ucTakeOwnership = agTakeOwnership args, ucMaxHistory = agMaxHistory args,
          ucForceConflicts = agSSAForceConflicts args, ucResetValues = False, ucPostRenderer = None\<rparr>,
       clRollbackClient =
         \<lparr>rbWaitStrategy = waitStrategy, rbTimeout = agTimeout args,
          rbForceConflicts = agSSAForceConflicts args\<rparr>,
       clUninstallClient = \<lparr>uicWaitStrategy = waitStrategy, uicTimeout = agTimeout args\<rparr>\<rparr>)"

definition NewClient ::
  "'cfg helmlib \<Rightarrow> oslib \<Rightarrow> 'cfg \<Rightarrow> (Args \<Rightarrow> Args) list \<Rightarrow> fsys \<Rightarrow> fsys \<times> (goerr + client)" where
  "NewClient HL Os restConfig argAppliers fs =
     (let args = foldl (\<lambda>a apply. apply a) zeroArgs argAppliers in
      case hlInit HL restConfig (agNamespace args) helmDriverSecret of
        Some e \<Rightarrow> (fs, Inl (Wrap e errFailedToInitActionConfig))
      | None \<Rightarrow>
     (case hlNewRegistryClient HL of
        Some e \<Rightarrow> (fs, Inl (Wrap e errFailedToCreateRegistryClient))
      | None \<Rightarrow>
     (case ensureDir HL Os chartCache errFailedToCreateChartCacheDir fs of
        Inl e \<Rightarrow> (fs, Inl e)
      | Inr fs1 \<Rightarrow>
     (case ensureDir HL Os chartContentCache errFailedToCreateContentCacheDir fs1 of
        Inl e \<Rightarrow> (fs1, Inl e)
      | Inr fs2 \<Rightarrow> (fs2, Inr (clientOf args))))))"

section \<open>The methods\<close>

definition asRelease :: "releaser \<Rightarrow> goerr + HelmRelease option" where
  "asRelease r =
     (case r of
        V1Release rel \<Rightarrow> Inr rel
      | OtherReleaser ty \<Rightarrow> Inl (ErrNew (''unexpected release type '' @ ty)))"

definition GetLastRelease :: "'cfg helmlib \<Rightarrow> string \<Rightarrow> goerr + HelmRelease option" where
  "GetLastRelease HL name = bindE (hlGet HL name) asRelease"

definition Install ::
  "'cfg helmlib \<Rightarrow> client \<Rightarrow> string \<Rightarrow> Chart \<Rightarrow> vals \<Rightarrow> Patch list \<Rightarrow>
    client \<times> (goerr + HelmRelease option)" where
  "Install HL hc name chrt vals patches =
     (let ic = (clInstallClient hc)\<lparr>icReleaseName := name\<rparr>;
          ic' = (if patches \<noteq> [] then ic\<lparr>icPostRenderer := Some patches\<rparr> else ic)
      in (hc\<lparr>clInstallClient := ic'\<rparr>, bindE (hlInstall HL ic' chrt vals) asRelease))"

definition Upgrade ::
  "'cfg helmlib \<Rightarrow> client \<Rightarrow> string \<Rightarrow> Chart \<Rightarrow> vals \<Rightarrow> Patch list \<Rightarrow>
    client \<times> (goerr + HelmRelease option)" where
  "Upgrade HL hc name chrt vals patches =
     (let uc = (clUpgradeClient hc)\<lparr>ucResetValues := True\<rparr>;
          uc' = (if patches \<noteq> [] then uc\<lparr>ucPostRenderer := Some patches\<rparr> else uc)
      in (hc\<lparr>clUpgradeClient := uc'\<rparr>, bindE (hlUpgrade HL uc' name chrt vals) asRelease))"

definition Rollback :: "'cfg helmlib \<Rightarrow> client \<Rightarrow> string \<Rightarrow> goerr option" where
  "Rollback HL hc name = hlRollback HL (clRollbackClient hc) name"

definition Uninstall :: "'cfg helmlib \<Rightarrow> client \<Rightarrow> string \<Rightarrow> goerr option" where
  "Uninstall HL hc name = hlUninstall HL (clUninstallClient hc) name"

text \<open>The client as an implementation of the interface the controllers use.\<close>

definition helmClient :: "'cfg helmlib \<Rightarrow> oslib \<Rightarrow> fsys \<Rightarrow> client \<Rightarrow> HelmClient" where
  "helmClient HL Os fs hc =
     \<lparr>hcGetLastRelease = GetLastRelease HL,
      hcInstall = (\<lambda>n c v p. snd (Install HL hc n c v p)),
      hcUpgrade = (\<lambda>n c v p. snd (Upgrade HL hc n c v p)),
      hcRollback = Rollback HL hc,
      hcUninstall = Uninstall HL hc,
      hcPullAndLoadChart = (\<lambda>mg creds.
        snd (PullAndLoadChart Os mg creds \<lparr>cFS = fs, cPull = clPullClient hc, cTrace = []\<rparr>))\<rparr>"

section \<open>Facts\<close>

lemma NewClient_Inr:
  assumes "NewClient HL Os cfg appliers fs = (fs', Inr hc)"
  shows "hc = clientOf (foldl (\<lambda>a apply. apply a) zeroArgs appliers)"
    and "hlInit HL cfg (agNamespace (foldl (\<lambda>a apply. apply a) zeroArgs appliers)) helmDriverSecret = None"
  using assms by (auto simp: NewClient_def Let_def split: option.splits sum.splits)

lemma ensureDir_Inr:
  "ensureDir HL Os d msg fs = Inr fs' \<Longrightarrow> osStatErr Os d = None \<Longrightarrow>
    (map_of fs' d \<noteq> None) \<and> (\<forall>p. p \<noteq> d \<longrightarrow> map_of fs' p = map_of fs p)
    \<and> (map_of fs d \<noteq> None \<longrightarrow> fs' = fs)"
  by (auto simp: ensureDir_def update_conv' split: if_splits option.splits)

lemma cacheDirs_differ: "chartCache \<noteq> chartContentCache"
  by (simp add: chartCache_def chartContentCache_def)

lemma NewClient_dirs:
  assumes "NewClient HL Os cfg appliers fs = (fs', Inr hc)" and "\<And>p. osStatErr Os p = None"
  shows "map_of fs' chartCache \<noteq> None \<and> map_of fs' chartContentCache \<noteq> None
    \<and> (\<forall>p. p \<notin> {chartCache, chartContentCache} \<longrightarrow> map_of fs' p = map_of fs p)"
proof -
  obtain fs1 where "ensureDir HL Os chartCache errFailedToCreateChartCacheDir fs = Inr fs1"
    "ensureDir HL Os chartContentCache errFailedToCreateContentCacheDir fs1 = Inr fs'"
    using assms(1) by (auto simp: NewClient_def Let_def split: option.splits sum.splits)
  from ensureDir_Inr [OF this(1) assms(2)] ensureDir_Inr [OF this(2) assms(2)] cacheDirs_differ
  show ?thesis by auto
qed

end
