(* ===== verification/Release_Facts.thy ===== *)
theory Release_Facts
  imports Release_Controllers
begin

text \<open>
  Facts about the handlers that both scopes share: what Observe can return and change, the shape
  of a deployment, the bound on retries; and the contract between the check of Observe and the
  deployment (\<open>release_scope\<close>), from which it follows that a deployment settles.
\<close>

section \<open>Rollback decisions\<close>

lemma shouldRollBack_limit: "shouldRollBack cr \<Longrightarrow> \<exists>l. spRollbackRetriesLimit (rlSpec cr) = Some l"
  by (auto simp: shouldRollBack_def rollBackEnabled_def)

lemma rollBackLimitReached_Some [simp]:
  "spRollbackRetriesLimit (rlSpec cr) = Some l \<Longrightarrow>
    rollBackLimitReached cr = Inr (sint l \<le> sint (stFailed (rlStatus cr)))"
  by (simp add: rollBackLimitReached_def)

lemma resourceUpToDate_total: "\<exists>b. resourceUpToDate cr = Inr b"
  using shouldRollBack_limit [of cr] by (auto simp: resourceUpToDate_def)

lemma resourceUpToDate_True:
  "resourceUpToDate cr = Inr True \<longleftrightarrow>
    stSynced (rlStatus cr) \<and> (shouldRollBack cr \<longrightarrow>
      (\<exists>l. spRollbackRetriesLimit (rlSpec cr) = Some l \<and> sint l \<le> sint (stFailed (rlStatus cr))))"
  using shouldRollBack_limit [of cr] by (auto simp: resourceUpToDate_def)

section \<open>Observe\<close>

text \<open>The four ways Observe ends, by what the Helm client answers.\<close>

lemma observe_not_found:
  "hcGetLastRelease (scHelm H) (mdExternalName cr) = Inl e \<Longrightarrow> IsReleaseNotFound e \<Longrightarrow>
    observeWith H cr = (cr, Inr \<lparr>eoResourceExists = False, eoResourceUpToDate = False,
      eoConnectionDetails = []\<rparr>)"
  by (simp add: observeWith_def)

lemma observe_get_error:
  "hcGetLastRelease (scHelm H) (mdExternalName cr) = Inl e \<Longrightarrow> \<not> IsReleaseNotFound e \<Longrightarrow>
    observeWith H cr = (cr, Inl (Wrap e errFailedToGetLastRelease))"
  by (simp add: observeWith_def)

lemma observe_nil:
  "hcGetLastRelease (scHelm H) (mdExternalName cr) = Inr None \<Longrightarrow>
    observeWith H cr = (cr, Inl (ErrNew errLastReleaseIsNil))"
  by (simp add: observeWith_def)

text \<open>The release after the observation was stored and before anything is checked.\<close>

definition observed :: "('s, 'r, 'p) Release \<Rightarrow> HelmRelease \<Rightarrow> ('s, 'r, 'p) Release" where
  "observed cr rel =
     mapObs (\<lambda>_. (generateObservation rel)\<lparr>obsDigest := obsDigest (atProvider cr)\<rparr>) cr"

lemma observed_simps [simp]:
  "rlSpec (observed cr rel) = rlSpec cr" "mdDeleted (observed cr rel) = mdDeleted cr"
  "mdExternalName (observed cr rel) = mdExternalName cr"
  "mdNamespace (observed cr rel) = mdNamespace cr" "mdName (observed cr rel) = mdName cr"
  "stFailed (rlStatus (observed cr rel)) = stFailed (rlStatus cr)"
  "stPatchesSha (rlStatus (observed cr rel)) = stPatchesSha (rlStatus cr)"
  "obsDigest (atProvider (observed cr rel)) = obsDigest (atProvider cr)"
  "obsState (atProvider (observed cr rel)) = obsState (generateObservation rel)"
  "\<not> obsOwnershipTaken (atProvider (observed cr rel))"
  by (simp_all add: observed_def)

lemma observe_deleted:
  "hcGetLastRelease (scHelm H) (mdExternalName cr) = Inr (Some rel) \<Longrightarrow> mdDeleted cr \<Longrightarrow>
    observeWith H cr = (observed cr rel,
      Inr \<lparr>eoResourceExists = True, eoResourceUpToDate = False, eoConnectionDetails = []\<rparr>)"
  by (simp add: observeWith_def observed_def Let_def)

lemma observe_check_error:
  "hcGetLastRelease (scHelm H) (mdExternalName cr) = Inr (Some rel) \<Longrightarrow> \<not> mdDeleted cr \<Longrightarrow>
    scUpToDate H (observed cr rel) rel = Inl e \<Longrightarrow>
    observeWith H cr = (observed cr rel, Inl (Wrap e errFailedToCheckIfUpToDate))"
  by (simp add: observeWith_def observed_def Let_def)

text \<open>A release that is not deployed, or not up to date.\<close>

definition unavailable :: "('s, 'r, 'p) Release \<Rightarrow> HelmRelease \<Rightarrow> bool \<Rightarrow> ('s, 'r, 'p) Release" where
  "unavailable cr rel s =
     mapStatus (\<lambda>st. st\<lparr>stReady := Some Unavailable\<rparr>)
       (mapStatus (\<lambda>st. st\<lparr>stSynced := s\<rparr>) (observed cr rel))"

lemma observe_unavailable:
  "hcGetLastRelease (scHelm H) (mdExternalName cr) = Inr (Some rel) \<Longrightarrow> \<not> mdDeleted cr \<Longrightarrow>
    scUpToDate H (observed cr rel) rel = Inr s \<Longrightarrow>
    \<not> (obsState (generateObservation rel) = StatusDeployed \<and> s) \<Longrightarrow>
    observeWith H cr = finishObserve (unavailable cr rel s) []"
  by (cases s) (simp_all add: observeWith_def observed_def unavailable_def Let_def)

text \<open>A deployed and synced release: the retry counter is reset, then the details are read.\<close>

definition synced :: "('s, 'r, 'p) Release \<Rightarrow> HelmRelease \<Rightarrow> ('s, 'r, 'p) Release" where
  "synced cr rel =
     mapStatus (\<lambda>st. st\<lparr>stFailed := 0\<rparr>) (mapStatus (\<lambda>st. st\<lparr>stSynced := True\<rparr>) (observed cr rel))"

definition available :: "('s, 'r, 'p) Release \<Rightarrow> HelmRelease \<Rightarrow> ('s, 'r, 'p) Release" where
  "available cr rel =
     mapStatus (\<lambda>st. st\<lparr>stReady := Some Available\<rparr>)
       (if obsDigest (atProvider cr) = []
        then mapObs (\<lambda>o'. o'\<lparr>obsDigest := csDigest (chartOf cr)\<rparr>) (synced cr rel)
        else synced cr rel)"

lemma observe_available:
  "hcGetLastRelease (scHelm H) (mdExternalName cr) = Inr (Some rel) \<Longrightarrow> \<not> mdDeleted cr \<Longrightarrow>
    scUpToDate H (observed cr rel) rel = Inr True \<Longrightarrow>
    obsState (generateObservation rel) = StatusDeployed \<Longrightarrow>
    observeWith H cr =
      (case scConnection H (synced cr rel) rel of
         Inl e \<Rightarrow> (synced cr rel, Inl (Wrap e errCannotGetConnectionDetails))
       | Inr cd \<Rightarrow> finishObserve (available cr rel) cd)"
  by (simp add: observeWith_def observed_def synced_def available_def Let_def split: sum.split)

lemma synced_simps [simp]:
  "rlSpec (synced cr rel) = rlSpec cr" "mdNamespace (synced cr rel) = mdNamespace cr"
  "mdExternalName (synced cr rel) = mdExternalName cr" "mdDeleted (synced cr rel) = mdDeleted cr"
  "stFailed (rlStatus (synced cr rel)) = 0"
  "\<not> obsOwnershipTaken (atProvider (synced cr rel))"
  by (simp_all add: synced_def)

lemma unavailable_simps [simp]:
  "rlSpec (unavailable cr rel s) = rlSpec cr" "mdNamespace (unavailable cr rel s) = mdNamespace cr"
  "mdExternalName (unavailable cr rel s) = mdExternalName cr"
  "mdDeleted (unavailable cr rel s) = mdDeleted cr"
  "stFailed (rlStatus (unavailable cr rel s)) = stFailed (rlStatus cr)"
  "stSynced (rlStatus (unavailable cr rel s)) = s"
  "stReady (rlStatus (unavailable cr rel s)) = Some Unavailable"
  "obsState (atProvider (unavailable cr rel s)) = obsState (generateObservation rel)"
  "\<not> obsOwnershipTaken (atProvider (unavailable cr rel s))"
  by (simp_all add: unavailable_def)

lemma available_simps [simp]:
  "rlSpec (available cr rel) = rlSpec cr" "mdNamespace (available cr rel) = mdNamespace cr"
  "mdExternalName (available cr rel) = mdExternalName cr"
  "mdDeleted (available cr rel) = mdDeleted cr"
  "stFailed (rlStatus (available cr rel)) = 0"
  "stSynced (rlStatus (available cr rel))"
  "stReady (rlStatus (available cr rel)) = Some Available"
  "obsState (atProvider (available cr rel)) = obsState (generateObservation rel)"
  "\<not> obsOwnershipTaken (atProvider (available cr rel))"
  "obsDigest (atProvider (available cr rel)) =
     (if obsDigest (atProvider cr) = [] then csDigest (chartOf cr) else obsDigest (atProvider cr))"
  by (auto simp: available_def synced_def)

lemma observe_cases:
  obtains (not_found) e where "hcGetLastRelease (scHelm H) (mdExternalName cr) = Inl e"
      "observeWith H cr = (cr, Inr \<lparr>eoResourceExists = False, eoResourceUpToDate = False,
        eoConnectionDetails = []\<rparr>)"
  | (get_error) e where "hcGetLastRelease (scHelm H) (mdExternalName cr) = Inl e"
      "observeWith H cr = (cr, Inl (Wrap e errFailedToGetLastRelease))"
  | (nil) "hcGetLastRelease (scHelm H) (mdExternalName cr) = Inr None"
      "observeWith H cr = (cr, Inl (ErrNew errLastReleaseIsNil))"
  | (deleted) rel where "hcGetLastRelease (scHelm H) (mdExternalName cr) = Inr (Some rel)"
      "observeWith H cr = (observed cr rel,
        Inr \<lparr>eoResourceExists = True, eoResourceUpToDate = False, eoConnectionDetails = []\<rparr>)"
  | (check_error) rel e where "hcGetLastRelease (scHelm H) (mdExternalName cr) = Inr (Some rel)"
      "scUpToDate H (observed cr rel) rel = Inl e"
      "observeWith H cr = (observed cr rel, Inl (Wrap e errFailedToCheckIfUpToDate))"
  | (unavailable) rel s where "hcGetLastRelease (scHelm H) (mdExternalName cr) = Inr (Some rel)"
      "scUpToDate H (observed cr rel) rel = Inr s"
      "\<not> (obsState (generateObservation rel) = StatusDeployed \<and> s)"
      "observeWith H cr = finishObserve (unavailable cr rel s) []"
  | (details_error) rel e where "hcGetLastRelease (scHelm H) (mdExternalName cr) = Inr (Some rel)"
      "scUpToDate H (observed cr rel) rel = Inr True"
      "obsState (generateObservation rel) = StatusDeployed"
      "scConnection H (synced cr rel) rel = Inl e"
      "observeWith H cr = (synced cr rel, Inl (Wrap e errCannotGetConnectionDetails))"
  | (available) rel cd where "hcGetLastRelease (scHelm H) (mdExternalName cr) = Inr (Some rel)"
      "scUpToDate H (observed cr rel) rel = Inr True"
      "obsState (generateObservation rel) = StatusDeployed"
      "scConnection H (synced cr rel) rel = Inr cd"
      "observeWith H cr = finishObserve (available cr rel) cd"
proof (cases "hcGetLastRelease (scHelm H) (mdExternalName cr)")
  case (Inl e)
  then show ?thesis
    using not_found get_error observe_not_found observe_get_error by (cases "IsReleaseNotFound e") blast+
next
  case (Inr r)
  show ?thesis
  proof (cases r)
    case None
    with Inr show ?thesis using nil observe_nil by blast
  next
    case (Some rel)
    with Inr have get: "hcGetLastRelease (scHelm H) (mdExternalName cr) = Inr (Some rel)" by simp
    show ?thesis
    proof (cases "mdDeleted cr")
      case True
      with get show ?thesis using deleted observe_deleted by blast
    next
      case False
      show ?thesis
      proof (cases "scUpToDate H (observed cr rel) rel")
        case (Inl e)
        with get False show ?thesis using check_error observe_check_error by blast
      next
        case (Inr s)
        show ?thesis
        proof (cases "obsState (generateObservation rel) = StatusDeployed \<and> s")
          case False
          with get \<open>\<not> mdDeleted cr\<close> Inr show ?thesis using unavailable observe_unavailable by blast
        next
          case True
          with Inr have checked: "scUpToDate H (observed cr rel) rel = Inr True"
            and deployed: "obsState (generateObservation rel) = StatusDeployed" by simp_all
          with get \<open>\<not> mdDeleted cr\<close>
          have "observeWith H cr =
              (case scConnection H (synced cr rel) rel of
                 Inl e \<Rightarrow> (synced cr rel, Inl (Wrap e errCannotGetConnectionDetails))
               | Inr cd \<Rightarrow> finishObserve (available cr rel) cd)"
            using observe_available by blast
          with get checked deployed show ?thesis
            using details_error available by (cases "scConnection H (synced cr rel) rel") auto
        qed
      qed
    qed
  qed
qed

lemma fst_finishObserve [simp]: "fst (finishObserve cr cd) = cr"
  by (simp add: finishObserve_def)

lemma finishObserve_ok:
  "\<exists>u. resourceUpToDate cr = Inr u \<and> finishObserve cr cd =
    (cr, Inr \<lparr>eoResourceExists = True, eoResourceUpToDate = u, eoConnectionDetails = cd\<rparr>)"
  using resourceUpToDate_total [of cr] by (auto simp: finishObserve_def)

lemma observe_frame:
  "rlSpec (fst (observeWith H cr)) = rlSpec cr"
  "mdExternalName (fst (observeWith H cr)) = mdExternalName cr"
  "mdNamespace (fst (observeWith H cr)) = mdNamespace cr"
  by (cases rule: observe_cases [of H cr]; simp)+

lemma observe_failed:
  "stFailed (rlStatus (fst (observeWith H cr))) \<in> {0, stFailed (rlStatus cr)}"
  by (cases rule: observe_cases [of H cr]) simp_all


section \<open>Late initialization\<close>

lemma lateInitialize_off: "\<not> shouldLateInit cr \<Longrightarrow> lateInitialize cr chart = Inr (cr, False)"
  by (simp add: lateInitialize_def)

text \<open>What a late initialization leaves: only empty fields are filled, from the chart.\<close>

lemma lateInitialize_on:
  assumes "shouldLateInit cr" and "chMetadata chart = Some m"
  shows "lateInitialize cr chart =
    Inr (mapChart (\<lambda>c. c\<lparr>csName := (if csName c = [] then cmName m else csName c),
           csVersion := (if csVersion c = [] \<and> csDigest c = [] then cmVersion m else csVersion c)\<rparr>) cr,
         csName (chartOf cr) = [] \<or> csVersion (chartOf cr) = [] \<and> csDigest (chartOf cr) = [])"
  using assms
  by (cases "csName (chartOf cr) = []"; cases "csVersion (chartOf cr) = []";
      cases "csDigest (chartOf cr) = []"; simp add: lateInitialize_def)

lemma lateInitialize_Inl:
  "lateInitialize cr chart = Inl e \<Longrightarrow> e = nilDereference \<and> chMetadata chart = None"
  by (cases "shouldLateInit cr"; cases "chMetadata chart")
    (auto simp: lateInitialize_on lateInitialize_off lateInitialize_def split: if_splits)

lemma lateInitialize_none:
  assumes "lateInitialize cr chart = Inr (cr', upd)" and "chMetadata chart = None"
  shows "cr' = cr \<and> \<not> upd"
  using assms by (auto simp: lateInitialize_def split: if_splits)

lemma lateInitialize_Inr:
  assumes "lateInitialize cr chart = Inr (cr', upd)"
  obtains (same) "cr' = cr" "\<not> upd"
  | (filled) m where "shouldLateInit cr" "chMetadata chart = Some m"
      "cr' = mapChart (\<lambda>c. c\<lparr>csName := (if csName c = [] then cmName m else csName c),
         csVersion := (if csVersion c = [] \<and> csDigest c = [] then cmVersion m else csVersion c)\<rparr>) cr"
      "upd \<longleftrightarrow> csName (chartOf cr) = [] \<or> csVersion (chartOf cr) = [] \<and> csDigest (chartOf cr) = []"
proof (cases "shouldLateInit cr")
  case False
  with assms same show ?thesis by (simp add: lateInitialize_off)
next
  case on: True
  show ?thesis
  proof (cases "chMetadata chart")
    case None
    from lateInitialize_none [OF assms this] same show ?thesis by blast
  next
    case (Some m)
    from assms [unfolded lateInitialize_on [OF on Some]] show ?thesis
      by (intro filled [OF on Some]) (drule sum.inject(2) [THEN iffD1], drule prod.inject [THEN iffD1], blast)+
  qed
qed

lemma lateInitialize_frame:
  assumes "lateInitialize cr chart = Inr (cr', upd)"
  shows "rlStatus cr' = rlStatus cr" "mdExternalName cr' = mdExternalName cr"
    "mdNamespace cr' = mdNamespace cr" "mdDeleted cr' = mdDeleted cr" "mdName cr' = mdName cr"
    "fpValuesSpec (forProvider cr') = fpValuesSpec (forProvider cr)"
    "fpPatchesFrom (forProvider cr') = fpPatchesFrom (forProvider cr)"
    "fpTakeOwnership (forProvider cr') = fpTakeOwnership (forProvider cr)"
    "csDigest (chartOf cr') = csDigest (chartOf cr)"
    "csURL (chartOf cr') = csURL (chartOf cr)"
    "spRollbackRetriesLimit (rlSpec cr') = spRollbackRetriesLimit (rlSpec cr)"
    "spManagementPolicies (rlSpec cr') = spManagementPolicies (rlSpec cr)"
proof -
  obtain n v where "cr' = mapChart (\<lambda>c. c\<lparr>csName := n, csVersion := v\<rparr>) cr"
  proof (rule lateInitialize_Inr [OF assms])
    assume "cr' = cr"
    then show thesis using that [of "csVersion (chartOf cr)" "csName (chartOf cr)"] by simp
  qed (erule that)
  then show "rlStatus cr' = rlStatus cr" "mdExternalName cr' = mdExternalName cr"
    "mdNamespace cr' = mdNamespace cr" "mdDeleted cr' = mdDeleted cr" "mdName cr' = mdName cr"
    "fpValuesSpec (forProvider cr') = fpValuesSpec (forProvider cr)"
    "fpPatchesFrom (forProvider cr') = fpPatchesFrom (forProvider cr)"
    "fpTakeOwnership (forProvider cr') = fpTakeOwnership (forProvider cr)"
    "csDigest (chartOf cr') = csDigest (chartOf cr)"
    "csURL (chartOf cr') = csURL (chartOf cr)"
    "spRollbackRetriesLimit (rlSpec cr') = spRollbackRetriesLimit (rlSpec cr)"
    "spManagementPolicies (rlSpec cr') = spManagementPolicies (rlSpec cr)"
    by simp_all
qed

lemma lateInitialize_filled:
  assumes "lateInitialize cr chart = Inr (cr', upd)" and "shouldLateInit cr"
    and "chMetadata chart = Some m"
  shows "csName (chartOf cr') = (if csName (chartOf cr) = [] then cmName m else csName (chartOf cr))"
    and "csVersion (chartOf cr') =
      (if csVersion (chartOf cr) = [] \<and> csDigest (chartOf cr) = [] then cmVersion m
       else csVersion (chartOf cr))"
  using assms(1) by (auto simp: lateInitialize_on [OF assms(2,3)])

section \<open>Deploy\<close>

text \<open>The calls that change the Helm release.\<close>

fun isHelmAction :: "'rel effect \<Rightarrow> bool" where
  "isHelmAction (EInstall n c v p) = True"
| "isHelmAction (EUpgrade n c v p) = True"
| "isHelmAction (ERollback n) = True"
| "isHelmAction (EUninstall n) = True"
| "isHelmAction e = False"

text \<open>A deployment that succeeded went through every step.\<close>

lemma deploy_success:
  assumes "deployWith H cr a = (es, cr', None)"
  obtains cv creds p chart cr1 upd cr2 rel sha where
    "scCompose H cr = Inr cv" "scCreds H cr = Inr creds" "scPatches H cr = Inr p"
    "scPull H cr creds = Inr chart" "lateInitialize cr chart = Inr (cr1, upd)"
    "(if upd then scUpdateCR H cr1 else Inr cr1) = Inr cr2"
    "runAction (scHelm H) a (mdExternalName cr2) chart cv p = Inr (Some rel)"
    "scShaOf H p = Inr sha" "cr' = recordDeployment cr2 rel sha"
    "es = EPull creds # (if upd then [EUpdateCR cr1] else [])
       @ [actionEffect a (mdExternalName cr2) chart cv p]"
  using assms unfolding deployWith_def Let_def
  by (auto split: sum.splits option.splits prod.splits if_splits)

text \<open>
  Whatever the outcome: before the Helm action come only the pull and the write of the object,
  and the action is taken only when all that precedes it succeeded.
\<close>

lemma deploy_effects:
  assumes "deployWith H cr a = (es, cr', err)"
  obtains (early) creds where "es = [] \<or> es = [EPull creds]" "cr' = cr" "err \<noteq> None"
  | (update_failed) creds chart cr1 where "es = [EPull creds, EUpdateCR cr1]" "err \<noteq> None"
      "scPull H cr creds = Inr chart" "lateInitialize cr chart = Inr (cr1, True)" "cr' = cr1"
  | (acted) cv creds p chart cr1 upd cr2 where
      "scCompose H cr = Inr cv" "scCreds H cr = Inr creds" "scPatches H cr = Inr p"
      "scPull H cr creds = Inr chart" "lateInitialize cr chart = Inr (cr1, upd)"
      "(if upd then scUpdateCR H cr1 else Inr cr1) = Inr cr2"
      "es = EPull creds # (if upd then [EUpdateCR cr1] else [])
         @ [actionEffect a (mdExternalName cr2) chart cv p]"
      "(err \<noteq> None \<and> cr' = cr2) \<or> (\<exists>rel sha. err = None \<and> scShaOf H p = Inr sha
         \<and> runAction (scHelm H) a (mdExternalName cr2) chart cv p = Inr (Some rel)
         \<and> cr' = recordDeployment cr2 rel sha)"
  using assms unfolding deployWith_def Let_def
  by (auto split: sum.splits option.splits prod.splits if_splits)

lemma recordDeployment_simps [simp]:
  "rlSpec (recordDeployment cr rel sha) = rlSpec cr"
  "mdName (recordDeployment cr rel sha) = mdName cr"
  "mdNamespace (recordDeployment cr rel sha) = mdNamespace cr"
  "mdExternalName (recordDeployment cr rel sha) = mdExternalName cr"
  "mdDeleted (recordDeployment cr rel sha) = mdDeleted cr"
  "stPatchesSha (rlStatus (recordDeployment cr rel sha)) = sha"
  "stFailed (rlStatus (recordDeployment cr rel sha)) = stFailed (rlStatus cr)"
  "stSynced (rlStatus (recordDeployment cr rel sha)) = stSynced (rlStatus cr)"
  "stReady (rlStatus (recordDeployment cr rel sha)) = stReady (rlStatus cr)"
  "obsDigest (atProvider (recordDeployment cr rel sha)) = csDigest (chartOf cr)"
  "obsState (atProvider (recordDeployment cr rel sha)) = obsState (generateObservation rel)"
  "obsRevision (atProvider (recordDeployment cr rel sha)) = obsRevision (generateObservation rel)"
  "obsOwnershipTaken (atProvider (recordDeployment cr rel sha)) = fpTakeOwnership (forProvider cr)"
  by (simp_all add: recordDeployment_def Let_def)

text \<open>
  What the API server stores of the object that \<open>Update\<close> sends, and answers: the metadata and the
  specification. The custom resource has a status subresource, so the status that is sent is
  ignored, and the status of the answer is the one stored on the server, whatever it is.
\<close>

definition keepsObject :: "('s, 'r, 'p) scope \<Rightarrow> bool" where
  "keepsObject H \<longleftrightarrow> (\<forall>c c'. scUpdateCR H c = Inr c' \<longrightarrow>
     rlSpec c' = rlSpec c \<and> mdName c' = mdName c \<and> mdNamespace c' = mdNamespace c
     \<and> mdExternalName c' = mdExternalName c \<and> mdDeleted c' = mdDeleted c)"

text \<open>The answer carries the status \<open>st\<close>, the one stored on the server.\<close>

definition answersStored :: "('s, 'r, 'p) scope \<Rightarrow> ReleaseStatus \<Rightarrow> bool" where
  "answersStored H st \<longleftrightarrow> (\<forall>c c'. scUpdateCR H c = Inr c' \<longrightarrow> rlStatus c' = st)"

lemma keepsObjectD:
  assumes "keepsObject H" and "(if upd then scUpdateCR H c else Inr c) = Inr c'"
  shows "rlSpec c' = rlSpec c" "mdNamespace c' = mdNamespace c"
    "mdExternalName c' = mdExternalName c" "mdDeleted c' = mdDeleted c"
  using assms by (auto simp: keepsObject_def split: if_splits)

lemma deploy_keeps:
  assumes "deployWith H cr a = (es, cr', err)" and "keepsObject H"
  shows "spRollbackRetriesLimit (rlSpec cr') = spRollbackRetriesLimit (rlSpec cr)
    \<and> mdExternalName cr' = mdExternalName cr"
  using assms(1)
proof (cases rule: deploy_effects)
  case early
  then show ?thesis by simp
next
  case (update_failed creds chart cr1)
  then show ?thesis by (simp add: lateInitialize_frame [OF update_failed(4)])
next
  case (acted cv creds p chart cr1 upd cr2)
  note keepsObjectD [OF assms(2) acted(6)] lateInitialize_frame [OF acted(5)]
  with acted(8) show ?thesis by auto
qed

text \<open>A deployment never changes the counter itself: it keeps it, or reads back the stored one.\<close>

lemma deploy_counter:
  assumes "deployWith H cr a = (es, cr', err)" and "answersStored H st"
  shows "stFailed (rlStatus cr') \<in> {stFailed (rlStatus cr), stFailed st}"
  using assms(1)
proof (cases rule: deploy_effects)
  case early
  then show ?thesis by simp
next
  case (update_failed creds chart cr1)
  then show ?thesis by (simp add: lateInitialize_frame [OF update_failed(4)])
next
  case (acted cv creds p chart cr1 upd cr2)
  have "rlStatus cr2 \<in> {rlStatus cr1, st}"
    using acted(6) assms(2) by (auto simp: answersStored_def split: if_splits)
  with acted(8) lateInitialize_frame [OF acted(5)] show ?thesis by auto
qed

end
