(* ===== verification/Release_Scope.thy ===== *)
theory Release_Scope
  imports Release_Facts
begin

text \<open>
  The contract between the check of Observe and a deployment: both read the values and the
  patches of the same specification and hash the patches alike. Both scopes keep it, and it is
  what makes a deployment settle.
\<close>

section \<open>What Helm is relied on for\<close>

text \<open>An installed or upgraded release has the chart and the values it was given and is deployed.\<close>

definition helmEchoes :: "HelmClient \<Rightarrow> bool" where
  "helmEchoes h \<longleftrightarrow> (\<forall>a n c v p r. runAction h a n c v p = Inr (Some r) \<longrightarrow>
     hrChart r = Some c \<and> hrConfig r = Some v
     \<and> (\<exists>i. hrInfo r = Some i \<and> riStatus i = StatusDeployed))"

lemma helmEchoesD:
  assumes "helmEchoes h" and "runAction h a n c v p = Inr (Some r)"
  obtains i where "hrChart r = Some c" "hrConfig r = Some v" "hrInfo r = Some i"
    "riStatus i = StatusDeployed"
  using assms unfolding helmEchoes_def by blast

text \<open>
  A pulled chart has metadata, and the name and version that were asked for. A name that is not
  given has to be filled in by late initialization.
\<close>

definition pullsAsked :: "('s, 'r, 'p) scope \<Rightarrow> ('s, 'r, 'p) Release \<Rightarrow> bool" where
  "pullsAsked H cr \<longleftrightarrow> (\<forall>creds chart. scPull H cr creds = Inr chart \<longrightarrow>
     (\<exists>m. chMetadata chart = Some m
       \<and> (shouldLateInit cr \<and> csName (chartOf cr) = [] \<or> csName (chartOf cr) = cmName m)
       \<and> csVersion (chartOf cr) \<in> {[], cmVersion m, devel}))"

section \<open>The contract\<close>

locale release_scope = patch_hasher "scShaOf H" for H :: "('s, 'r, 'p) scope" +
  fixes L :: lib
  assumes check: "scUpToDate H cr rel =
      upToDate L (\<lambda>_. scCompose H cr)
        (\<lambda>_ st. bindE (scPatches H cr) (\<lambda>p. bindE (scShaOf H p) (\<lambda>sum.
           Inr (\<not> EqualFold sum (stPatchesSha st)))))
        (rlSpec cr) rel (rlStatus cr)"
    and compose_reads: "fpValuesSpec (forProvider cr) = fpValuesSpec (forProvider cr') \<Longrightarrow>
      mdNamespace cr = mdNamespace cr' \<Longrightarrow> scCompose H cr = scCompose H cr'"
    and patches_read: "fpPatchesFrom (forProvider cr) = fpPatchesFrom (forProvider cr') \<Longrightarrow>
      mdNamespace cr = mdNamespace cr' \<Longrightarrow> scPatches H cr = scPatches H cr'"
begin

text \<open>
  A recorded deployment passes the check as long as Helm returns what was deployed and the
  version that is asked for is the one the chart has.
\<close>

lemma check_recorded:
  assumes compose: "scCompose H cr = Inr cv" and patches: "scPatches H cr = Inr p"
    and sha: "scShaOf H p = Inr sha"
    and spec: "fpValuesSpec (forProvider cr2) = fpValuesSpec (forProvider cr)"
      "fpPatchesFrom (forProvider cr2) = fpPatchesFrom (forProvider cr)"
      "mdNamespace cr2 = mdNamespace cr"
    and chart: "hrChart rel = Some chart" "chMetadata chart = Some m"
      "csName (chartOf cr2) = cmName m" "csVersion (chartOf cr2) \<in> {[], cmVersion m, devel}"
    and rel: "hrConfig rel = Some cv" "hrInfo rel = Some i" "riStatus i = StatusDeployed"
    and refl: "\<And>v. semanticDeepEqual L v v"
  shows "scUpToDate H (observed (recordDeployment cr2 r sha) rel) rel = Inr True"
proof -
  let ?cr = "observed (recordDeployment cr2 r sha) rel"
  have "scCompose H ?cr = Inr cv"
    using compose compose_reads [of ?cr cr] spec by simp
  moreover have "scPatches H ?cr = Inr p"
    using patches patches_read [of ?cr cr] spec by simp
  ultimately show ?thesis
    using chart rel refl sha by (simp add: check upToDate_True EqualFold_def)
qed

text \<open>
  A deployment settles: what Helm's documentation promises of the release it returns
  (\<open>helmEchoes\<close>) and of the chart it pulls (\<open>pullsAsked\<close>) is enough for the next observation to
  report the release as up to date.
\<close>

lemma deploy_settles:
  assumes deploy: "deployWith H cr a = (es, cr', None)"
    and keeps: "keepsObject H" and echoes: "helmEchoes (scHelm H)" and pulls: "pullsAsked H cr"
    and live: "\<not> mdDeleted cr" and refl: "\<And>v. semanticDeepEqual L v v"
  obtains c v p rel where
    "filter isHelmAction es = [actionEffect a (mdExternalName cr) c v p]"
    "runAction (scHelm H) a (mdExternalName cr) c v p = Inr (Some rel)"
    "mdExternalName cr' = mdExternalName cr" "\<not> mdDeleted cr'"
    "scUpToDate H (observed cr' rel) rel = Inr True"
    "obsState (generateObservation rel) = StatusDeployed"
proof -
  obtain cv creds p chart cr1 upd cr2 rel sha where
    d: "scCompose H cr = Inr cv" "scPatches H cr = Inr p" "scPull H cr creds = Inr chart"
      "lateInitialize cr chart = Inr (cr1, upd)"
      "(if upd then scUpdateCR H cr1 else Inr cr1) = Inr cr2"
      "runAction (scHelm H) a (mdExternalName cr2) chart cv p = Inr (Some rel)"
      "scShaOf H p = Inr sha" "cr' = recordDeployment cr2 rel sha"
      "es = EPull creds # (if upd then [EUpdateCR cr1] else [])
         @ [actionEffect a (mdExternalName cr2) chart cv p]"
    using deploy_success [OF deploy] by metis
  note k = keepsObjectD [OF keeps d(5)] and l = lateInitialize_frame [OF d(4)]
  obtain m where m: "chMetadata chart = Some m"
    "shouldLateInit cr \<and> csName (chartOf cr) = [] \<or> csName (chartOf cr) = cmName m"
    "csVersion (chartOf cr) \<in> {[], cmVersion m, devel}"
    using pulls d(3) by (auto simp: pullsAsked_def)
  have chart: "csName (chartOf cr2) = cmName m" "csVersion (chartOf cr2) \<in> {[], cmVersion m, devel}"
    using m k(1) d(4) by (cases "shouldLateInit cr"; auto simp: lateInitialize_on lateInitialize_off)+
  obtain i where rel: "hrChart rel = Some chart" "hrConfig rel = Some cv" "hrInfo rel = Some i"
    "riStatus i = StatusDeployed"
    using helmEchoesD [OF echoes d(6)] by metis
  have "scUpToDate H (observed cr' rel) rel = Inr True"
    unfolding d(8) using check_recorded [OF d(1,2,7) _ _ _ rel(1) m(1) chart rel(2-4) refl] k l by simp
  moreover have "filter isHelmAction es = [actionEffect a (mdExternalName cr) chart cv p]"
    unfolding d(9) using k(3) l(2) by (cases a) simp_all
  moreover have "obsState (generateObservation rel) = StatusDeployed"
    using rel(3,4) by simp
  ultimately show ?thesis using that d(6,8) k l live by simp
qed

text \<open>A release whose patches were changed since, or removed, does not pass.\<close>

lemma check_patches_changed:
  assumes "scUpToDate H cr rel = Inr True"
    and "spManagementPolicies (rlSpec cr) = [] \<or> hasAny (spManagementPolicies (rlSpec cr)) [MAUpdate, MAAll]"
    and "scShaOf H ps = Inr (stPatchesSha (rlStatus cr))"
  obtains ps' where "scPatches H cr = Inr ps'" "scShaOf H ps' = scShaOf H ps"
proof -
  from assms(1,2) obtain ps' sum where "scPatches H cr = Inr ps'" "scShaOf H ps' = Inr sum"
    "EqualFold sum (stPatchesSha (rlStatus cr))"
    by (auto simp: check upToDate_True)
  with assms(3) that show ?thesis using sha_fold_eq by metis
qed

lemma check_pending:
  "hrInfo rel = Some i \<Longrightarrow> isPending (riStatus i) \<Longrightarrow> scUpToDate H cr rel = Inr False"
  by (simp add: check upToDate_def)

end

lemma upToDate_lookups:
  assumes "compose (fpValuesSpec (spForProvider spec)) = compose' (fpValuesSpec (spForProvider spec))"
    and "updates (fpPatchesFrom (spForProvider spec)) s = updates' (fpPatchesFrom (spForProvider spec)) s"
  shows "upToDate L compose updates spec rel s = upToDate L compose' updates' spec rel s"
  unfolding upToDate_def Let_def assms by (rule refl)

lemma clusterScope_simps [simp]:
  "scHelm (clusterScope E) = heHelm E"
  "scCompose (clusterScope E) cr =
     composeValuesFromSpec (heLib E) (heLocalKube E) (fpValuesSpec (forProvider cr))"
  "scPatches (clusterScope E) cr =
     paGetFromSpec (hePatch E) (heLocalKube E) (fpPatchesFrom (forProvider cr))"
  "scShaOf (clusterScope E) = paShaOf (hePatch E)"
  "scUpToDate (clusterScope E) cr rel =
     isUpToDate (heLib E) (heLocalKube E) (rlSpec cr) rel (rlStatus cr)"
  "scUpdateCR (clusterScope E) = kUpdate (heLocalKube E)"
  "scCreds (clusterScope E) = ResolveCluster (heAuth E) (heLocalKube E)"
  "scPull (clusterScope E) cr = hcPullAndLoadChart (heHelm E) (MgCluster cr)"
  "scConnection (clusterScope E) cr rel = connectionDetails (heLib E) (heKube E)
     (spConnectionDetails (rlSpec cr)) (hrName rel) (hrNamespace rel)"
  by (simp_all add: clusterScope_def)

lemma nsScope_simps [simp]:
  "scHelm (nsScope E) = heHelm E"
  "scCompose (nsScope E) cr =
     nsComposeValuesFromSpec (heLib E) (heLocalKube E) (fpValuesSpec (forProvider cr)) (mdNamespace cr)"
  "scPatches (nsScope E) cr =
     paGetFromSpec (hePatch E) (heLocalKube E, mdNamespace cr) (fpPatchesFrom (forProvider cr))"
  "scShaOf (nsScope E) = paShaOf (hePatch E)"
  "scUpToDate (nsScope E) cr rel =
     nsIsUpToDate (heLib E) (heLocalKube E) (rlSpec cr) rel (rlStatus cr) (mdNamespace cr)"
  "scUpdateCR (nsScope E) = kUpdate (heLocalKube E)"
  "scCreds (nsScope E) = ResolveNamespaced (heAuth E) (heLocalKube E)"
  "scPull (nsScope E) cr = hcPullAndLoadChart (heHelm E) (MgNamespaced cr)"
  "scConnection (nsScope E) cr rel = nsConnectionDetails (heLib E) (heKube E)
     (spConnectionDetails (rlSpec cr)) (hrName rel) (hrNamespace rel)"
  by (simp_all add: nsScope_def)

text \<open>The scopes of the clients that \<open>Connect\<close> makes keep the contract.\<close>

interpretation cluster_scope: release_scope "clusterScope (E\<lparr>hePatch := newPatcher (heLib E)\<rparr>)" "heLib E"
  for E
proof unfold_locales
  fix cr rel
  show "scUpToDate (clusterScope (E\<lparr>hePatch := newPatcher (heLib E)\<rparr>)) cr rel =
    upToDate (heLib E) (\<lambda>_. scCompose (clusterScope (E\<lparr>hePatch := newPatcher (heLib E)\<rparr>)) cr)
      (\<lambda>_ st. bindE (scPatches (clusterScope (E\<lparr>hePatch := newPatcher (heLib E)\<rparr>)) cr) (\<lambda>p.
         bindE (scShaOf (clusterScope (E\<lparr>hePatch := newPatcher (heLib E)\<rparr>)) p) (\<lambda>sum.
           Inr (\<not> EqualFold sum (stPatchesSha st)))))
      (rlSpec cr) rel (rlStatus cr)"
    by (simp add: isUpToDate_def) (rule upToDate_lookups; simp add: hasUpdates_def)
qed (simp_all add: patch_sha.sha_empty patch_sha.sha_shape patch_sha.sha_hex)

interpretation ns_scope: release_scope "nsScope (E\<lparr>hePatch := nsNewPatcher (heLib E)\<rparr>)" "heLib E"
  for E
proof unfold_locales
  fix cr rel
  show "scUpToDate (nsScope (E\<lparr>hePatch := nsNewPatcher (heLib E)\<rparr>)) cr rel =
    upToDate (heLib E) (\<lambda>_. scCompose (nsScope (E\<lparr>hePatch := nsNewPatcher (heLib E)\<rparr>)) cr)
      (\<lambda>_ st. bindE (scPatches (nsScope (E\<lparr>hePatch := nsNewPatcher (heLib E)\<rparr>)) cr) (\<lambda>p.
         bindE (scShaOf (nsScope (E\<lparr>hePatch := nsNewPatcher (heLib E)\<rparr>)) p) (\<lambda>sum.
           Inr (\<not> EqualFold sum (stPatchesSha st)))))
      (rlSpec cr) rel (rlStatus cr)"
    by (simp add: nsIsUpToDate_def) (rule upToDate_lookups; simp add: nsHasUpdates_def)
qed (simp_all add: patch_sha.sha_empty patch_sha.sha_shape patch_sha.sha_hex)

section \<open>The observation after a deployment\<close>

lemma observe_up_to_date:
  assumes "hcGetLastRelease (scHelm H) (mdExternalName cr) = Inr (Some rel)" and "\<not> mdDeleted cr"
    and "scUpToDate H (observed cr rel) rel = Inr True"
    and "obsState (generateObservation rel) = StatusDeployed"
    and "scConnection H (synced cr rel) rel = Inr cd"
  shows "observeWith H cr = (available cr rel, Inr \<lparr>eoResourceExists = True,
    eoResourceUpToDate = True, eoConnectionDetails = cd\<rparr>)"
  using assms observe_available [OF assms(1-4)]
  by (simp add: finishObserve_def resourceUpToDate_def shouldRollBack_def)

section \<open>Panics\<close>

lemma upToDate_no_panic:
  assumes "upToDate L compose updates spec rel s = Inl e"
    and "\<And>v e. compose v = Inl e \<Longrightarrow> \<not> IsPanic e"
    and "\<And>v st e. updates v st = Inl e \<Longrightarrow> \<not> IsPanic e"
  shows "\<not> IsPanic e"
  using assms unfolding upToDate_def Let_def
  by (auto simp: bindE_eq_Inl wrapE_eq_Inl split: option.splits if_splits)

lemma observe_no_panic:
  assumes "\<And>n e. hcGetLastRelease (scHelm H) n = Inl e \<Longrightarrow> \<not> IsPanic e"
    and "\<And>c r e. scUpToDate H c r = Inl e \<Longrightarrow> \<not> IsPanic e"
    and "\<And>c r e. scConnection H c r = Inl e \<Longrightarrow> \<not> IsPanic e"
    and "snd (observeWith H cr) = Inl e"
  shows "\<not> IsPanic e"
  using assms(4)
proof (cases rule: observe_cases [of H cr])
  case (unavailable rel s)
  with assms(4) finishObserve_ok [of "unavailable cr rel s" "[]"] show ?thesis by auto
next
  case (available rel cd)
  with assms(4) finishObserve_ok [of "available cr rel" cd] show ?thesis by auto
qed (use assms in auto)

text \<open>Update dereferences a missing limit in no case, and a missing chart metadata only.\<close>

lemma deploy_panic:
  assumes "deployWith H cr a = (es, cr', Some e)" and "IsPanic e"
  obtains e' where "IsPanic e'"
    "scCompose H cr = Inl e' \<or> scCreds H cr = Inl e' \<or> scPatches H cr = Inl e'
     \<or> (\<exists>c. scPull H cr c = Inl e') \<or> (\<exists>c chart. scPull H cr c = Inr chart \<and> lateInitialize cr chart = Inl e')
     \<or> (\<exists>c. scUpdateCR H c = Inl e') \<or> (\<exists>n c v p. runAction (scHelm H) a n c v p = Inl e')
     \<or> (\<exists>p. scShaOf H p = Inl e')"
  using assms unfolding deployWith_def Let_def
  by (simp split: sum.splits option.splits prod.splits if_splits; metis IsPanic_Wrap IsPanic.simps)

lemma deploy_no_panic:
  assumes "deployWith H cr a = (es, cr', Some e)"
    and "\<And>c e. scCompose H c = Inl e \<Longrightarrow> \<not> IsPanic e" and "\<And>c e. scCreds H c = Inl e \<Longrightarrow> \<not> IsPanic e"
    and "\<And>c e. scPatches H c = Inl e \<Longrightarrow> \<not> IsPanic e"
    and "\<And>c k e. scPull H c k = Inl e \<Longrightarrow> \<not> IsPanic e"
    and "\<And>c e. scUpdateCR H c = Inl e \<Longrightarrow> \<not> IsPanic e"
    and "\<And>n c v p e. runAction (scHelm H) a n c v p = Inl e \<Longrightarrow> \<not> IsPanic e"
    and "\<And>p e. scShaOf H p = Inl e \<Longrightarrow> \<not> IsPanic e"
    and "\<And>c k chart. scPull H c k = Inr chart \<Longrightarrow> chMetadata chart \<noteq> None"
  shows "\<not> IsPanic e"
proof
  assume "IsPanic e"
  with assms(1) show False
  proof (rule deploy_panic)
    fix e' assume p: "IsPanic e'"
    assume "scCompose H cr = Inl e' \<or> scCreds H cr = Inl e' \<or> scPatches H cr = Inl e'
     \<or> (\<exists>c. scPull H cr c = Inl e') \<or> (\<exists>c chart. scPull H cr c = Inr chart \<and> lateInitialize cr chart = Inl e')
     \<or> (\<exists>c. scUpdateCR H c = Inl e') \<or> (\<exists>n c v p. runAction (scHelm H) a n c v p = Inl e')
     \<or> (\<exists>p. scShaOf H p = Inl e')"
    then have "\<not> IsPanic e'"
      by (elim disjE exE conjE) (erule assms(2-8) | drule lateInitialize_Inl, drule assms(9), simp)+
    with p show False by simp
  qed
qed

lemma resolveSecretCredentials_no_panic:
  "kubeNoPanic k \<Longrightarrow> resolveSecretCredentials k ns n = Inl e \<Longrightarrow> \<not> IsPanic e"
  by (auto simp: resolveSecretCredentials_def bindE_eq_Inl wrapE_eq_Inl Let_def kubeNoPanic_def
      split: if_splits)

lemma connectionValue_no_panic:
  assumes k: "\<And>u nn e. kObject k u nn = Inl e \<Longrightarrow> \<not> IsPanic e" and L: "libNoPanic L"
    and "connectionValue L k f cd n ns = Inl e"
  shows "\<not> IsPanic e"
  using assms(3) unfolding connectionValue_def Let_def bindE_eq_Inl wrapE_eq_Inl
  by (auto simp: bindE_eq_Inl wrapE_eq_Inl dest: k libNoPanicD(5) [OF L] base64Decode_no_panic
      split: if_splits)

lemma connectionDetails_no_panic:
  assumes "\<And>u nn e. kObject k u nn = Inl e \<Longrightarrow> \<not> IsPanic e" and "libNoPanic L"
  shows "connectionDetails L k cds n ns = Inl e \<Longrightarrow> \<not> IsPanic e"
    and "nsConnectionDetails L k cds n ns = Inl e \<Longrightarrow> \<not> IsPanic e"
proof -
  have no: "connectionValue L k f cd n ns = Inl e \<Longrightarrow> \<not> IsPanic e" for f cd e
    using connectionValue_no_panic assms by blast
  show "connectionDetails L k cds n ns = Inl e \<Longrightarrow> \<not> IsPanic e"
    unfolding connectionDetails_def by (erule connectionLoop_no_panic [rotated]) (rule no)
  show "nsConnectionDetails L k cds n ns = Inl e \<Longrightarrow> \<not> IsPanic e"
    unfolding nsConnectionDetails_def by (erule connectionLoop_no_panic [rotated]) (rule no)
qed

end
