(* ===== verification/Sample_World.thy ===== *)
theory Sample_World
  imports Helm_Client Release_Scope
begin

text \<open>
  A small concrete world: libraries, a Kubernetes client, a Helm client and releases of both
  scopes. The witnesses of the properties instantiate their hypotheses with it.
\<close>

definition sampleLib :: lib where
  "sampleLib =
     \<lparr>yamlValues = (\<lambda>s. if s = [] then Inr [] else Inr [(''raw'', VStr s)]),
      yamlPatches = (\<lambda>s. Inr [Patch s]),
      strvalsParseInto = (\<lambda>s b. Inr b),
      semanticDeepEqual = (\<lambda>a b. a = b),
      patchesJSON = (\<lambda>ps. Inr ''[]''),
      pavedGetValue = (\<lambda>m p. case map_of m p of None \<Rightarrow> Inl (ErrExt ''no such field'') | Some v \<Rightarrow> Inr v),
      formatFloat = (\<lambda>r. ''0'')\<rparr>"

definition sampleAuth :: authlib where
  "sampleAuth =
     \<lparr>alNewRepository = (\<lambda>s. Inr (Repository s)),
      alResolve = (\<lambda>kc r. Inl (ErrExt ''no credentials'')),
      alAuthorization = (\<lambda>a. Inr emptyCreds)\<rparr>"

text \<open>One secret, in the namespace \<open>team-a\<close>.\<close>

definition sampleSecret :: NamespacedName where
  "sampleSecret = \<lparr>nnNamespace = ''team-a'', nnName = ''creds''\<rparr>"

definition sampleSecretObject :: Unstructured where
  "sampleSecretObject =
     \<lparr>unAPIVersion = ''v1'', unKind = ''Secret'', unName = ''creds'', unNamespace = ''team-a'',
      unAnnotations = [(helmReleaseNameAnnotation, ''app''), (helmReleaseNamespaceAnnotation, ''team-a'')],
      unObject = [(''data.password'', VStr (base64Encode ''pp''))]\<rparr>"

definition sampleKube :: "'r kube" where
  "sampleKube =
     \<lparr>kSecret = (\<lambda>nn. if nn = sampleSecret
        then Inr (Some [''username'' \<mapsto> ''me'', ''password'' \<mapsto> ''pw'', ''values.yaml'' \<mapsto> ''x''])
        else Inl (ErrStatus ReasonNotFound ''secret'')),
      kConfigMap = (\<lambda>nn. Inl (ErrStatus ReasonNotFound ''configmap'')),
      kObject = (\<lambda>u nn. if nn = sampleSecret then Inr sampleSecretObject
        else Inl (ErrStatus ReasonNotFound ''object'')),
      kCreateNamespace = (\<lambda>n ls. None),
      kUpdate = Inr\<rparr>"

definition sampleChart :: Chart where
  "sampleChart = \<lparr>chMetadata = Some \<lparr>cmName = ''app'', cmVersion = ''1.0.0''\<rparr>, chContent = ''chart''\<rparr>"

definition sampleHelmRelease :: "Status \<Rightarrow> Chart \<Rightarrow> vals \<Rightarrow> HelmRelease" where
  "sampleHelmRelease st c v =
     \<lparr>hrName = ''app'', hrNamespace = ''team-a'', hrVersion = 1,
      hrInfo = Some \<lparr>riStatus = st, riDescription = ''done''\<rparr>, hrChart = Some c, hrConfig = Some v\<rparr>"

definition sampleHelm :: "(goerr + HelmRelease option) \<Rightarrow> HelmClient" where
  "sampleHelm answer =
     \<lparr>hcGetLastRelease = (\<lambda>n. answer),
      hcInstall = (\<lambda>n c v p. Inr (Some (sampleHelmRelease StatusDeployed c v))),
      hcUpgrade = (\<lambda>n c v p. Inr (Some (sampleHelmRelease StatusDeployed c v))),
      hcRollback = (\<lambda>n. None),
      hcUninstall = (\<lambda>n. None),
      hcPullAndLoadChart = (\<lambda>mg creds. Inr sampleChart)\<rparr>"

definition sampleSpec ::
  "'ref \<Rightarrow> 'pcr option \<Rightarrow> 32 word option \<Rightarrow> ('sel, 'ref, 'pcr) ReleaseSpec" where
  "sampleSpec ref pcr limit =
     \<lparr>spManagementPolicies = [MAAll], spProviderConfigReference = pcr, spConnectionDetails = [],
      spForProvider =
        \<lparr>fpChart = \<lparr>csRepository = ''https://charts.example.org'', csName = ''app'', csVersion = [],
           csURL = [], csDigest = [], csPullSecretRef = ref\<rparr>,
         fpNamespace = ''team-a'', fpSkipCreateNamespace = True, fpWait = False, fpWaitTimeout = None,
         fpPatchesFrom = [],
         fpValuesSpec = \<lparr>ValuesRaw = ''x'', ValuesFrom = [], SetVals = []\<rparr>,
         fpSkipCRDs = False, fpInsecureSkipTLSVerify = False, fpPlainHTTP = False,
         fpTakeOwnership = True, fpMaxHistory = 20, fpSSAForceConflicts = False\<rparr>,
      spRollbackRetriesLimit = limit\<rparr>"

definition sampleStatus :: "Status \<Rightarrow> int \<Rightarrow> bool \<Rightarrow> ReleaseStatus" where
  "sampleStatus st revision s =
     \<lparr>stReady = None, stAtProvider = zeroObservation\<lparr>obsState := st, obsRevision := revision\<rparr>,
      stPatchesSha = [], stFailed = 0, stSynced = s\<rparr>"

definition sampleRelease :: "32 word option \<Rightarrow> ReleaseStatus \<Rightarrow> ClusterRelease" where
  "sampleRelease limit st =
     \<lparr>mdName = ''app'', mdNamespace = [], mdExternalName = ''app'', mdDeleted = False,
      rlSpec = sampleSpec \<lparr>srName = [], srNamespace = []\<rparr> (Some \<lparr>refName = ''default''\<rparr>) limit,
      rlStatus = st\<rparr>"

definition sampleNsRelease :: "32 word option \<Rightarrow> ReleaseStatus \<Rightarrow> NsRelease" where
  "sampleNsRelease limit st =
     \<lparr>mdName = ''app'', mdNamespace = ''team-a'', mdExternalName = ''app'', mdDeleted = False,
      rlSpec = sampleSpec \<lparr>lsrName = ''creds''\<rparr>
        (Some \<lparr>pcrKind = ''ClusterProviderConfig'', pcrName = ''default''\<rparr>) limit,
      rlStatus = st\<rparr>"

definition sampleExternal :: "(goerr + HelmRelease option) \<Rightarrow> ClusterExternal" where
  "sampleExternal answer =
     \<lparr>heLib = sampleLib, heAuth = sampleAuth, heLocalKube = sampleKube, heKube = sampleKube,
      heHelm = sampleHelm answer, hePatch = newPatcher sampleLib\<rparr>"

definition sampleNsExternal :: "(goerr + HelmRelease option) \<Rightarrow> NsExternal" where
  "sampleNsExternal answer =
     \<lparr>heLib = sampleLib, heAuth = sampleAuth, heLocalKube = sampleKube, heKube = sampleKube,
      heHelm = sampleHelm answer, hePatch = nsNewPatcher sampleLib\<rparr>"

lemmas sample_defs = sampleLib_def sampleAuth_def sampleKube_def sampleChart_def
  sampleHelmRelease_def sampleHelm_def sampleSpec_def sampleStatus_def sampleRelease_def
  sampleNsRelease_def sampleExternal_def sampleNsExternal_def

section \<open>Facts\<close>

lemma sampleExternal_simps [simp]:
  "heLib (sampleExternal a) = sampleLib" "heKube (sampleExternal a) = sampleKube"
  "heLocalKube (sampleExternal a) = sampleKube" "heHelm (sampleExternal a) = sampleHelm a"
  "heAuth (sampleExternal a) = sampleAuth" "hePatch (sampleExternal a) = newPatcher sampleLib"
  "heLib (sampleNsExternal a) = sampleLib" "heKube (sampleNsExternal a) = sampleKube"
  "heLocalKube (sampleNsExternal a) = sampleKube" "heHelm (sampleNsExternal a) = sampleHelm a"
  "heAuth (sampleNsExternal a) = sampleAuth" "hePatch (sampleNsExternal a) = nsNewPatcher sampleLib"
  by (simp_all add: sampleExternal_def sampleNsExternal_def)

lemma sampleLib_simps [simp]:
  "semanticDeepEqual sampleLib v w \<longleftrightarrow> v = w" "libNoPanic sampleLib" "kubeNoPanic sampleKube"
  "kUpdate sampleKube = Inr"
  by (auto simp: sampleLib_def libNoPanic_def kubeNoPanic_def sampleKube_def split: option.splits)

lemma sample_keepsObject [simp]:
  "keepsObject (clusterScope (sampleExternal a))" "keepsObject (nsScope (sampleNsExternal a))"
  by (simp_all add: keepsObject_def)

lemma sample_helmEchoes [simp]: "helmEchoes (sampleHelm a)"
  unfolding helmEchoes_def
proof (intro allI impI)
  fix act n c v p r
  assume "runAction (sampleHelm a) act n c v p = Inr (Some r)"
  then have "r = sampleHelmRelease StatusDeployed c v" by (cases act) (auto simp: sampleHelm_def)
  then show "hrChart r = Some c \<and> hrConfig r = Some v \<and> (\<exists>i. hrInfo r = Some i \<and> riStatus i = StatusDeployed)"
    by (simp add: sampleHelmRelease_def)
qed

lemma sample_pullsAsked [simp]:
  "pullsAsked (clusterScope (sampleExternal a)) (sampleRelease l st)"
  "pullsAsked (nsScope (sampleNsExternal a)) (sampleNsRelease l st)"
  by (auto simp: pullsAsked_def sample_defs)

lemma sample_deploy:
  "\<exists>es cr'. deploy (sampleExternal a) (sampleRelease l st) InstallAction = (es, cr', None)"
  by (simp add: deploy_def deployWith_def sample_defs clusterScope_def composeValuesFromSpec_def
      composeValues_def ResolveCluster_def Let_def registryURLOf_def resolveKeychainAuth_def
      parseRegistryReference_def resolveCredentialsFromKeychain_def newPatcher_def getFromSpec_def
      shaOf_def lateInitialize_def shouldLateInit_def hasAny_def split: prod.split)

lemma sample_nsDeploy:
  "\<exists>es cr'. nsDeploy (sampleNsExternal a) (sampleNsRelease l st) InstallAction = (es, cr', None)"
  by (simp add: nsDeploy_def deployWith_def sample_defs nsScope_def nsComposeValuesFromSpec_def
      composeValues_def ResolveNamespaced_def Let_def resolveSecretCredentials_def sampleSecret_def
      dataAt_def keyRepoUsername_def keyRepoPassword_def nsNewPatcher_def nsGetFromSpec_def
      shaOf_def lateInitialize_def shouldLateInit_def hasAny_def split: prod.split)

text \<open>A connection detail, and what it is read as.\<close>

definition sampleDetail :: ConnectionDetail where
  "sampleDetail =
     \<lparr>cdObjectReference = \<lparr>orKind = ''Secret'', orNamespace = ''team-a'', orName = ''creds'', orUID = [],
        orAPIVersion = ''v1'', orResourceVersion = [], orFieldPath = ''data.password''\<rparr>,
      cdToConnectionSecretKey = ''pw'', cdSkipPartOfReleaseCheck = False\<rparr>"

lemma sampleDetail_value:
  "connectionDetails sampleLib sampleKube [sampleDetail] ''app'' ''team-a'' = Inr [(''pw'', ''pp'')]"
proof -
  note d = base64_roundtrip [of "''pp''"]
  show ?thesis
    by (simp add: connectionDetails_def connectionValue_def sampleDetail_def sampleKube_def Let_def
        unstructuredFromObjectRef_def sampleSecret_def sampleSecretObject_def partOfRelease_def
        annotation_def sampleLib_def helmReleaseNameAnnotation_def helmReleaseNamespaceAnnotation_def
        HasPrefix_def d del: base64Encode.simps)
qed

text \<open>A release whose chart has no name and no version yet.\<close>

definition sampleBlank :: ClusterRelease where
  "sampleBlank = mapChart (\<lambda>c. c\<lparr>csName := []\<rparr>) (sampleRelease None (sampleStatus StatusFailed 1 True))"

lemma sample_blank_deploy:
  "\<exists>es cr'. deploy (sampleExternal a) sampleBlank InstallAction = (es, cr', None)
     \<and> csName (chartOf cr') = ''app'' \<and> csVersion (chartOf cr') = ''1.0.0''"
  by (simp add: deploy_def deployWith_def sample_defs sampleBlank_def clusterScope_def composeValuesFromSpec_def
      composeValues_def ResolveCluster_def Let_def registryURLOf_def resolveKeychainAuth_def
      parseRegistryReference_def resolveCredentialsFromKeychain_def newPatcher_def getFromSpec_def
      shaOf_def lateInitialize_def shouldLateInit_def hasAny_def split: prod.split)

end
