(* ===== verification/Data_Properties.thy ===== *)
theory Data_Properties
  imports Sample_World
begin

text \<open>
  Properties of the data a release is deployed with and compared against: values, patches, data
  sources, the comparison of Observe, connection details, credentials.
\<close>

section \<open>Values\<close>

text \<open>C13: Deep merge. The merged map has, at every path of keys, the value of the second map where it
  has one (two maps are merged in turn), nothing where a value of the second map that is no map
  cuts the path short, and the value of the first map otherwise.\<close>

theorem mergeMaps_path:
  assumes "wfVal (VMap b)"
  shows "valAt p (VMap (mergeMaps a b)) =
    (case valAt p (VMap b) of
       Some v \<Rightarrow> Some (mergeEntry (valAt p (VMap a)) v)
     | None \<Rightarrow> if cutShort p (VMap b) then None else valAt p (VMap a))"
  using assms by (rule mergeMaps_valAt)

theorem mergeMaps_path_witness:
  "valAt [''a'', ''x''] (VMap (mergeMaps [(''a'', VMap [(''x'', VInt 1), (''y'', VInt 2)])]
     [(''a'', VMap [(''y'', VInt 3)])])) = Some (VInt 1)"
  using mergeMaps_path [of "[(''a'', VMap [(''y'', VInt 3)])]" "[''a'', ''x'']"] by simp

text \<open>C14: The inline values of a specification have the last word over every document of
  \<open>valuesFrom\<close>: without \<open>set\<close>, a leaf they have at some path is what the release is deployed with there.\<close>

theorem inline_values_win:
  assumes "composeValuesFromSpec L kube spec = Inr cv" and "SetVals spec = []"
    and "yamlValues L (ValuesRaw spec) = Inr inl" and "wfVal (VMap inl)"
    and "valAt p (VMap inl) = Some v" and "\<forall>m. v \<noteq> VMap m"
  shows "valAt p (VMap cv) = Some v"
proof -
  obtain docs where "cv = foldl mergeMaps [] (docs @ [inl])"
    using assms(1-3) by (auto simp: composeValuesFromSpec_def composeValues_spec)
  then have "cv = mergeMaps (foldl mergeMaps [] docs) inl" by simp
  with assms(4-6) show ?thesis by (simp add: mergeMaps_valAt)
qed

text \<open>A secret has a document with the key \<open>raw\<close>, the inline values another: the inline one stays.\<close>

definition sampleBoth :: ClusterValuesSpec where
  "sampleBoth =
     \<lparr>ValuesRaw = ''inline'',
      ValuesFrom = [\<lparr>ConfigMapKeyRef = None, SecretKeyRef = Some \<lparr>nnNamespace = ''team-a'', nnName = ''creds'',
        dksKey = ''values.yaml'', dksOptional = False\<rparr>\<rparr>],
      SetVals = []\<rparr>"

theorem inline_values_win_witness:
  "\<exists>cv. composeValuesFromSpec sampleLib (sampleKube :: ClusterRelease kube) sampleBoth = Inr cv
     \<and> valAt [''raw''] (VMap cv) = Some (VStr ''inline'')"
proof -
  obtain cv where cv: "composeValuesFromSpec sampleLib (sampleKube :: ClusterRelease kube) sampleBoth = Inr cv"
    by (simp add: composeValuesFromSpec_def composeValues_def sampleBoth_def sampleLib_def sampleKube_def
        sampleSecret_def getDataValueFromSource_def getSecretData_def valueOfData_def Let_def)
  moreover have "valAt [''raw''] (VMap cv) = Some (VStr ''inline'')"
    by (rule inline_values_win [OF cv, of "[(''raw'', VStr ''inline'')]"]) (simp_all add: sampleBoth_def sampleLib_def)
  ultimately show ?thesis by blast
qed

section \<open>Data sources\<close>

text \<open>An optional reference is satisfied by nothing: when the object is missing or has no such key
  the value is empty; only another failure of the API server, or an object without data, is an
  error. A reference that is not optional gives a value only if the object has the key.\<close>

lemma optional_data_source:
  assumes "SecretKeyRef src = Some r"
  shows "getDataValueFromSource kube src dk =
    (let key = (if dksKey r \<noteq> [] then dksKey r else dk);
         answer = getSecretData kube \<lparr>nnNamespace = nnNamespace r, nnName = nnName r\<rparr> in
     case answer of
       Inl e \<Rightarrow> if dksOptional r \<and> IsNotFound e then Inr []
                else Inl (Wrap e errFailedToGetDataFromSecretRef)
     | Inr d \<Rightarrow>
         (case d key of
            Some v \<Rightarrow> Inr v
          | None \<Rightarrow> if dksOptional r then Inr [] else Inl (ErrNew (errMissingKeyForValuesFrom key))))"
  using assms
  by (auto simp: getDataValueFromSource_def valueOfData_def Let_def split: sum.split option.split)

section \<open>Patches\<close>

text \<open>The patches of a list of sources are those of its first part followed by those of the rest, in
  this order; the first failure is the result.\<close>

lemma patches_in_order:
  "getFromSpec L kube (xs @ ys) =
     bindE (getFromSpec L kube xs) (\<lambda>p. bindE (getFromSpec L kube ys) (\<lambda>q. Inr (p @ q)))"
proof -
  have base: "loadPatches L get b vfs = bindE (loadPatches L get [] vfs) (\<lambda>p. Inr (b @ p))" for get b
    and vfs :: "ClusterValueFromSource list"
  proof (induction vfs arbitrary: b)
    case (Cons v vfs)
    have "loadPatches L get (b @ p) vfs = bindE (loadPatches L get p vfs) (\<lambda>q. Inr (b @ q))" for p
      using Cons [of "b @ p"] Cons [of p] by (simp add: bindE_assoc)
    then have step: "loadPatches L get (b @ p) vfs = bindE (loadPatches L get ([] @ p) vfs) (\<lambda>q. Inr (b @ q))"
      for p by simp
    show ?case
    proof (cases "get v keyDefaultPatchFrom")
      case (Inr x)
      show ?thesis
      proof (cases "x = []")
        case True
        with Inr Cons [of b] show ?thesis by simp
      next
        case False
        with Inr step show ?thesis by (cases "yamlPatches L x") simp_all
      qed
    qed simp
  qed simp
  show ?thesis
    unfolding getFromSpec_def loadPatches_append by (rule bindE_cong [OF refl]) (rule base)
qed

text \<open>Changes of the patches are noticed. With the digest of some patches recorded in the status,
  unchanged sources are no update, and when there are no patches any more although there were
  some, there is an update.\<close>

lemma patch_changes_noticed:
  assumes "getFromSpec L kube vals = Inr ps" and "shaOf L ps = Inr (stPatchesSha s)"
    and "getFromSpec L kube' vals' = Inr ps'" and "shaOf L ps' = Inr sha'"
  shows "hasUpdates (newPatcher L) kube vals s = Inr False
    \<and> hasUpdates (newPatcher L) kube' vals' s = Inr (sha' \<noteq> stPatchesSha s)
    \<and> (ps' = [] \<and> ps \<noteq> [] \<longrightarrow> hasUpdates (newPatcher L) kube' vals' s = Inr True)"
  using assms patch_sha.sha_fold_eq [OF assms(4,2)] patch_sha.sha_empty patch_sha.sha_shape [OF assms(2)]
  by (auto simp: hasUpdates_def)

section \<open>Isolation of namespaces\<close>

text \<open>The values, the patches, the check and the pull credentials of a namespaced release are the same in
  any two clusters that agree on the secrets and config maps of its namespace.\<close>

lemma namespace_reads:
  fixes k k' :: "'x kube"
  assumes "\<forall>nn. nnNamespace nn = mdNamespace r \<longrightarrow> kSecret k nn = kSecret k' nn \<and> kConfigMap k nn = kConfigMap k' nn"
  shows "nsComposeValuesFromSpec L k v (mdNamespace r) = nsComposeValuesFromSpec L k' v (mdNamespace r)
    \<and> nsGetFromSpec L k vals (mdNamespace r) = nsGetFromSpec L k' vals (mdNamespace r)
    \<and> nsIsUpToDate L k spec rel st (mdNamespace r) = nsIsUpToDate L k' spec rel st (mdNamespace r)
    \<and> ResolveNamespaced A k r = ResolveNamespaced A k' r"
proof -
  have agree: "kubeAgree N k k'" if "\<And>nn. nn \<in> N \<Longrightarrow> nnNamespace nn = mdNamespace r" for N
    using assms that by (simp add: kubeAgree_def)
  have c: "nsComposeValuesFromSpec L k v (mdNamespace r) = nsComposeValuesFromSpec L k' v (mdNamespace r)" for v
    unfolding nsComposeValuesFromSpec_def
    by (rule ns_source.compose_frame [where ns = "mdNamespace r" and k = k and k' = k'])
      (auto intro!: agree simp: specReads_def dest: nsSourceReads_namespace)
  have p: "nsGetFromSpec L k vals (mdNamespace r) = nsGetFromSpec L k' vals (mdNamespace r)" for vals
    unfolding nsGetFromSpec_def
    by (rule ns_source.loadPatches_frame [where ns = "mdNamespace r" and k = k and k' = k'])
      (auto intro!: agree dest: nsSourceReads_namespace)
  have u: "nsIsUpToDate L k spec rel st (mdNamespace r) = nsIsUpToDate L k' spec rel st (mdNamespace r)"
    unfolding nsIsUpToDate_def by (rule upToDate_lookups) (simp_all add: c p nsHasUpdates_def)
  have "ResolveNamespaced A k r = ResolveNamespaced A k' r"
    using assms unfolding ResolveNamespaced_def resolveSecretCredentials_def Let_def by simp
  with c p u show ?thesis by simp
qed

section \<open>The check of Observe\<close>

text \<open>C22: Helm stores the values of a release as JSON. Whether a release is up to date does not depend
  on the values having gone through this encoding or not.\<close>

theorem storage_round_trip:
  "isUpToDate L kube spec (rel\<lparr>hrConfig := normalizeConfig (hrConfig rel)\<rparr>) s =
   isUpToDate L kube spec rel s"
proof (cases "hrConfig rel")
  case None
  then have "rel\<lparr>hrConfig := normalizeConfig (hrConfig rel)\<rparr> = rel"
    by (simp add: normalizeConfig_def)
  then show ?thesis by simp
next
  case (Some m)
  obtain m' where m': "normalizeConfig (Some m) = Some m'" using normalizeConfig_Some by blast
  then have idem: "normalizeConfig (Some m') = Some m'" by (metis normalizeConfig_idem)
  have sel: "hrInfo (rel\<lparr>hrConfig := x\<rparr>) = hrInfo rel" "hrChart (rel\<lparr>hrConfig := x\<rparr>) = hrChart rel"
    "hrConfig (rel\<lparr>hrConfig := x\<rparr>) = x" for x
    by simp_all
  show ?thesis
    unfolding isUpToDate_def upToDate_def Let_def sel Some m' option.case idem by (rule refl)
qed

section \<open>Connection details\<close>

lemma connectionLoop_Inr:
  "connectionLoop f mcd cds = Inr mcd' \<Longrightarrow>
    fst ` set mcd' = fst ` set mcd \<union> cdToConnectionSecretKey ` set cds \<and> (\<forall>cd \<in> set cds. \<exists>v. f cd = Inr v)"
proof (induction cds arbitrary: mcd)
  case (Cons cd cds)
  then obtain v where "f cd = Inr v"
    "connectionLoop f (put mcd (cdToConnectionSecretKey cd) v) cds = Inr mcd'" by auto
  with Cons.IH [OF this(2)] show ?case by (auto simp: fst_set_put)
qed simp

text \<open>C23: The published connection details have exactly the keys that were asked for, and every object a
  value comes from is part of the release (Helm's two annotations name it), unless the check was
  switched off for that detail.\<close>

theorem connection_details_guarded:
  assumes "connectionDetails L kube cds relName relNamespace = Inr mcd"
  shows "fst ` set mcd = cdToConnectionSecretKey ` set cds
    \<and> (\<forall>cd \<in> set cds. \<exists>u. kObject kube (unstructuredFromObjectRef (cdObjectReference cd))
          \<lparr>nnNamespace = orNamespace (cdObjectReference cd), nnName = orName (cdObjectReference cd)\<rparr> = Inr u
        \<and> (cdSkipPartOfReleaseCheck cd \<or> partOfRelease u relName relNamespace))"
proof -
  have "\<exists>u. kObject kube (unstructuredFromObjectRef (cdObjectReference cd))
        \<lparr>nnNamespace = orNamespace (cdObjectReference cd), nnName = orName (cdObjectReference cd)\<rparr> = Inr u
      \<and> (cdSkipPartOfReleaseCheck cd \<or> partOfRelease u relName relNamespace)"
    if "connectionValue L kube (\<lambda>ro. \<lparr>nnNamespace = unNamespace ro, nnName = unName ro\<rparr>) cd
      relName relNamespace = Inr v" for cd v
    using that by (auto simp: connectionValue_def Let_def unstructuredFromObjectRef_def split: if_splits)
  with connectionLoop_Inr [OF assms [unfolded connectionDetails_def]] show ?thesis by simp blast
qed

theorem connection_details_guarded_witness:
  "fst ` set [(''pw'', ''pp'')] = cdToConnectionSecretKey ` set [sampleDetail]"
  using connection_details_guarded [OF sampleDetail_value] by blast

text \<open>The namespaced controller publishes data of objects in the namespace of the Helm release only,
  whatever namespace a reference names.\<close>

lemma connection_details_tenancy:
  assumes "\<forall>u nn. nnNamespace nn = relNamespace \<longrightarrow> kObject k u nn = kObject k' u nn"
  shows "nsConnectionDetails L k cds relName relNamespace = nsConnectionDetails L k' cds relName relNamespace"
  using assms unfolding nsConnectionDetails_def connectionValue_def Let_def by simp

text \<open>The bytes that were put into a secret come out as the connection detail: the base64 encoding of
  the API server is undone for the data of a secret.\<close>

lemma secret_detail_decoded:
  assumes "orKind (cdObjectReference cd) = ''Secret''" and "orAPIVersion (cdObjectReference cd) = ''v1''"
    and "HasPrefix (orFieldPath (cdObjectReference cd)) ''data''"
    and "kObject kube (unstructuredFromObjectRef (cdObjectReference cd))
      \<lparr>nnNamespace = orNamespace (cdObjectReference cd), nnName = orName (cdObjectReference cd)\<rparr> = Inr u"
    and "cdSkipPartOfReleaseCheck cd \<or> partOfRelease u n ns"
    and "pavedGetValue L (unObject u) (orFieldPath (cdObjectReference cd)) = Inr (VStr (base64Encode secret))"
  shows "connectionDetails L kube [cd] n ns = Inr [(cdToConnectionSecretKey cd, secret)]"
  using assms base64_roundtrip [of secret]
  by (auto simp: connectionDetails_def connectionValue_def Let_def unstructuredFromObjectRef_def)

section \<open>Credentials\<close>

lemma dataAt_nonempty: "dataAt d k = v \<and> v \<noteq> [] \<longleftrightarrow> (\<exists>m. d = Some m \<and> m k = Some v \<and> v \<noteq> [])"
  by (cases d) (auto simp: dataAt_def split: option.splits)

lemma resolveSecretCredentials_Inr:
  "resolveSecretCredentials kube ns nm = Inr c \<longleftrightarrow>
    (\<exists>m. kSecret kube \<lparr>nnNamespace = ns, nnName = nm\<rparr> = Inr (Some m)
      \<and> m ''username'' = Some (rcUsername c) \<and> rcUsername c \<noteq> []
      \<and> m ''password'' = Some (rcPassword c) \<and> rcPassword c \<noteq> [])"
proof -
  have c: "\<lparr>rcUsername = u, rcPassword = p\<rparr> = c \<longleftrightarrow> u = rcUsername c \<and> p = rcPassword c" for u p
    by (cases c) auto
  show ?thesis
  proof (cases "kSecret kube \<lparr>nnNamespace = ns, nnName = nm\<rparr>")
    case (Inl e)
    then show ?thesis by (simp add: resolveSecretCredentials_def)
  next
    case (Inr d)
    then have "resolveSecretCredentials kube ns nm = Inr c \<longleftrightarrow>
        (dataAt d ''username'' = rcUsername c \<and> rcUsername c \<noteq> [])
        \<and> (dataAt d ''password'' = rcPassword c \<and> rcPassword c \<noteq> [])"
      by (auto simp: resolveSecretCredentials_def Let_def keyRepoUsername_def keyRepoPassword_def c)
    also have "\<dots> \<longleftrightarrow> (\<exists>m. d = Some m \<and> m ''username'' = Some (rcUsername c) \<and> rcUsername c \<noteq> []
        \<and> m ''password'' = Some (rcPassword c) \<and> rcPassword c \<noteq> [])"
      unfolding dataAt_nonempty by blast
    finally show ?thesis using Inr by simp
  qed
qed

text \<open>C24: With a pull secret the credentials of a cluster-scoped release are the user name and the password of that secret, both
  present; a cluster-scoped release has to name the namespace of the secret; a secret that lacks one
  of them is an error and never a fall back to the keychains.\<close>

theorem pull_secret_credentials:
  assumes "srName (csPullSecretRef (chartOf r)) \<noteq> []"
  shows "ResolveCluster A kube r = Inr c \<longleftrightarrow>
    srNamespace (csPullSecretRef (chartOf r)) \<noteq> [] \<and> rcUsername c \<noteq> [] \<and> rcPassword c \<noteq> []
    \<and> (\<exists>m. kSecret kube \<lparr>nnNamespace = srNamespace (csPullSecretRef (chartOf r)),
            nnName = srName (csPullSecretRef (chartOf r))\<rparr> = Inr (Some m)
        \<and> m ''username'' = Some (rcUsername c) \<and> m ''password'' = Some (rcPassword c))"
proof (cases "srNamespace (csPullSecretRef (chartOf r)) = []")
  case True
  with assms show ?thesis by (simp add: ResolveCluster_def Let_def)
next
  case ns: False
  let ?nn = "\<lparr>nnNamespace = srNamespace (csPullSecretRef (chartOf r)), nnName = srName (csPullSecretRef (chartOf r))\<rparr>"
  have eq: "ResolveCluster A kube r = resolveSecretCredentials kube (srNamespace (csPullSecretRef (chartOf r))) (srName (csPullSecretRef (chartOf r)))"
    using assms ns by (simp add: ResolveCluster_def Let_def)
  have "resolveSecretCredentials kube (srNamespace (csPullSecretRef (chartOf r))) (srName (csPullSecretRef (chartOf r))) = Inr c \<longleftrightarrow>
      (\<exists>m. kSecret kube ?nn = Inr (Some m) \<and> m ''username'' = Some (rcUsername c) \<and> rcUsername c \<noteq> []
        \<and> m ''password'' = Some (rcPassword c) \<and> rcPassword c \<noteq> [])"
    by (rule resolveSecretCredentials_Inr)
  with ns show ?thesis unfolding eq by auto
qed

definition samplePullSecret :: "string \<Rightarrow> ClusterRelease" where
  "samplePullSecret ns = mapChart (\<lambda>c. c\<lparr>csPullSecretRef := \<lparr>srName = ''creds'', srNamespace = ns\<rparr>\<rparr>)
     (sampleRelease None (sampleStatus StatusDeployed 1 True))"

theorem pull_secret_credentials_witness:
  "ResolveCluster sampleAuth (sampleKube :: ClusterRelease kube) (samplePullSecret ''team-a'') =
      Inr \<lparr>rcUsername = ''me'', rcPassword = ''pw''\<rparr>
   \<and> (\<nexists>c. ResolveCluster sampleAuth (sampleKube :: ClusterRelease kube) (samplePullSecret ''team-b'') = Inr c)"
  using pull_secret_credentials [of "samplePullSecret ''team-a''" sampleAuth "sampleKube :: ClusterRelease kube"
      "\<lparr>rcUsername = ''me'', rcPassword = ''pw''\<rparr>"]
    pull_secret_credentials [of "samplePullSecret ''team-b''" sampleAuth "sampleKube :: ClusterRelease kube"]
  by (simp add: samplePullSecret_def sampleRelease_def sampleSpec_def sampleKube_def sampleSecret_def)

text \<open>Without a pull secret the keychains are asked for the repository of the chart, and a keychain
  that fails means anonymous access: apart from a repository that cannot be parsed there is no
  error.\<close>

lemma keychain_credentials:
  assumes "srName (csPullSecretRef (chartOf r)) = []"
  shows "ResolveCluster A kube r =
    (case alNewRepository A (normalizeRegistryURL (fullRepoURL (registryURLOf (chartOf r)) (csName (chartOf r)))) of
       Inl e \<Rightarrow> Inl (Wrap e errFailedToParseRef)
     | Inr repo \<Rightarrow>
         Inr (case alResolve A [AmazonKeychain, GoogleKeychain, AzureKeychain, DefaultKeychain] repo of
                Inl e \<Rightarrow> \<lparr>rcUsername = [], rcPassword = []\<rparr>
              | Inr a \<Rightarrow> (case alAuthorization A a of
                    Inl e \<Rightarrow> \<lparr>rcUsername = [], rcPassword = []\<rparr> | Inr c \<Rightarrow> c)))"
  using assms
  by (simp add: ResolveCluster_def Let_def resolveKeychainAuth_def parseRegistryReference_def
      resolveCredentialsFromKeychain_def createKeychain_def emptyCreds_def split: sum.split)

lemma spaceEncodings_ends:
  "\<forall>w \<in> set spaceEncodings. w \<noteq> [] \<and> \<not> (32 < (of_char (hd w) :: nat) \<and> (of_char (hd w) :: nat) < 128)
     \<and> \<not> (32 < (of_char (last w) :: nat) \<and> (of_char (last w) :: nat) < 128)"
  by (simp add: spaceEncodings_def)

lemma leadingSpace_plain:
  assumes "\<forall>w \<in> set ws. w \<noteq> [] \<and> \<not> (32 < (of_char (hd w) :: nat) \<and> (of_char (hd w) :: nat) < 128)"
    and "32 < (of_char (hd s) :: nat)" and "(of_char (hd s) :: nat) < 128"
  shows "leadingSpace ws s = 0"
proof -
  have "\<not> prefix w s" if "w \<in> set ws" for w
    using assms that by (cases w) (auto simp: prefix_def)
  then have "find (\<lambda>w. prefix w s) ws = None" by (simp add: find_None_iff)
  then show ?thesis by (simp add: leadingSpace_def)
qed

lemma TrimSpace_plain:
  assumes "s \<noteq> []" and "32 < (of_char (hd s) :: nat) \<and> (of_char (hd s) :: nat) < 128"
    and "32 < (of_char (last s) :: nat) \<and> (of_char (last s) :: nat) < 128"
  shows "TrimSpace s = s"
proof -
  have "trimLeading spaceEncodings s = s"
    using assms spaceEncodings_ends by (intro trimLeading_id leadingSpace_plain) auto
  moreover have "trimLeading (map rev spaceEncodings) (rev s) = rev s"
    using assms spaceEncodings_ends by (intro trimLeading_id leadingSpace_plain) (auto simp: hd_rev)
  ultimately show ?thesis by (simp add: TrimSpace_def)
qed

text \<open>The registry is asked about the repository and not about a tag or a digest: normalizing an OCI
  reference (that does not end in a space) leaves host (with its port), path and name.\<close>

lemma normalized_oci_reference:
  assumes "front \<noteq> []" "CHR ''@'' \<notin> set front" and "refPart nm"
    and "\<forall>t. tag = Some t \<longrightarrow> refPart t"
    and "(of_char (last (ociReference front nm tag digest)) :: nat) \<in> {33..126}"
  shows "normalizeRegistryURL (''oci://'' @ ociReference front nm tag digest) = front @ ''/'' @ nm"
proof -
  have "TrimSpace (''oci://'' @ ociReference front nm tag digest) = ''oci://'' @ ociReference front nm tag digest"
    using assms(1,5) by (intro TrimSpace_plain) (auto simp: ociReference_def)
  with assms(1-4) show ?thesis by (intro normalize_ociReference) auto
qed

section \<open>Provider configs\<close>

text \<open>C25: A namespaced release resolves a provider config only when its use has been recorded, and with a
  \<open>ProviderConfig\<close> the credentials come from a secret in the namespace of the release, whatever
  namespace the config names; the secret of a \<open>ClusterProviderConfig\<close> is left as it is. The secret of
  the identity is not confined: a \<open>ProviderConfig\<close> hands it on in the namespace that it names.\<close>

theorem provider_config_tenancy:
  assumes "ResolveProviderConfig K (MgNamespaced m) = (us, Inr spec)"
  shows "\<exists>ref kind stored. spProviderConfigReference (rlSpec m) = Some ref
    \<and> pkScheme K (pcrKind ref) = Inr kind \<and> kind \<in> {KindProviderConfig, KindClusterProviderConfig}
    \<and> pkGet K kind \<lparr>nnNamespace = mdNamespace m, nnName = pcrName ref\<rparr> = Inr stored
    \<and> us = [ModernUsage (mdNamespace m) (mdName m)] \<and> pkTrack K (ModernUsage (mdNamespace m) (mdName m)) = None
    \<and> (kind = KindClusterProviderConfig \<longrightarrow> spec = stored)
    \<and> (kind = KindProviderConfig \<longrightarrow>
         (\<forall>r. pcsSecretRef spec = Some r \<longrightarrow> sksNamespace r = mdNamespace m)
         \<and> pcsIdentity spec = pcsIdentity stored)"
proof -
  note r = assms [unfolded ResolveProviderConfig_def resolveProviderConfigModern_def Let_def, simplified]
  from r obtain ref where ref: "spProviderConfigReference (rlSpec m) = Some ref"
    by (cases "spProviderConfigReference (rlSpec m)") simp_all
  from r ref obtain kind where kind: "pkScheme K (pcrKind ref) = Inr kind"
    by (cases "pkScheme K (pcrKind ref)") simp_all
  from r ref kind obtain stored
    where stored: "pkGet K kind \<lparr>nnNamespace = mdNamespace m, nnName = pcrName ref\<rparr> = Inr stored"
    by (cases "pkGet K kind \<lparr>nnNamespace = mdNamespace m, nnName = pcrName ref\<rparr>") (simp_all split: if_splits)
  have "kind \<in> {KindProviderConfig, KindClusterProviderConfig}"
    using r ref kind stored by (cases kind) simp_all
  moreover have "us = [ModernUsage (mdNamespace m) (mdName m)]"
    "pkTrack K (ModernUsage (mdNamespace m) (mdName m)) = None"
    "spec = (if kind = KindProviderConfig then enrichLocalSecretRefs stored (mdNamespace m) else stored)"
    using r ref kind stored calculation by (auto split: option.splits)
  ultimately show ?thesis
    using ref kind stored by auto
qed

definition foreignSecret :: SecretKeySelector where
  "foreignSecret = \<lparr>sksName = ''kc'', sksNamespace = ''other'', sksKey = ''k''\<rparr>"

definition samplePcSpec :: ProviderConfigSpec where
  "samplePcSpec =
     \<lparr>pcsCredentials = zeroCredentials\<lparr>crSource := ''Secret'', crSecretRef := Some foreignSecret\<rparr>,
      pcsIdentity = Some \<lparr>idType = IdentityTypeGoogleApplicationCredentials,
        idCredentials = zeroCredentials\<lparr>crSource := ''Secret'', crSecretRef := Some foreignSecret\<rparr>\<rparr>\<rparr>"

definition samplePcClient :: pcClient where
  "samplePcClient =
     \<lparr>pkLegacy = (\<lambda>nn. Inr samplePcSpec), pkScheme = (\<lambda>k. Inr KindProviderConfig),
      pkGet = (\<lambda>k nn. Inr samplePcSpec), pkTrack = (\<lambda>u. None),
      pkMarshal = (\<lambda>spec. Inr []), pkUnmarshal = (\<lambda>js. (samplePcSpec, None))\<rparr>"

theorem provider_config_tenancy_witness:
  "\<exists>us spec i. ResolveProviderConfig samplePcClient
      (MgNamespaced (sampleNsRelease None (sampleStatus StatusDeployed 1 True))) = (us, Inr spec)
    \<and> map_option sksNamespace (pcsSecretRef spec) = Some ''team-a''
    \<and> pcsIdentity spec = Some i \<and> map_option sksNamespace (crSecretRef (idCredentials i)) = Some ''other''"
proof -
  let ?m = "sampleNsRelease None (sampleStatus StatusDeployed 1 True)"
  obtain us spec where r: "ResolveProviderConfig samplePcClient (MgNamespaced ?m) = (us, Inr spec)"
    and x: "pcsSecretRef spec \<noteq> None"
    by (simp add: ResolveProviderConfig_def resolveProviderConfigModern_def samplePcClient_def samplePcSpec_def
        sampleNsRelease_def sampleSpec_def enrichLocalSecretRefs_def Let_def)
  have "mdNamespace ?m = ''team-a''" by (simp add: sampleNsRelease_def)
  with provider_config_tenancy [OF r] r x show ?thesis
    by (auto simp: samplePcClient_def samplePcSpec_def foreignSecret_def)
qed

end
