(* ===== verification/Release_Retries.thy ===== *)
theory Release_Retries
  imports Release_Facts
begin

text \<open>
  Rollback retries over time: a step relation in which the handlers of the external client are
  called in any order, each in a surrounding of its own, and the user edits the release between
  them; and the bound on the retry counter over everything reachable.
\<close>

section \<open>The counter\<close>

lemma sint_Suc: "sint x < sint y \<Longrightarrow> sint (x + 1) = sint x + 1" for x y :: "32 word"
proof -
  assume "sint x < sint y"
  moreover have "sint y < 2 ^ 31" and "- (2 ^ 31) \<le> sint x"
    using sint_lt [of y] sint_ge [of x] by simp_all
  ultimately have "- (2 ^ 31) \<le> sint x + 1" and "sint x + 1 < 2 ^ 31" by simp_all
  then have "signed_take_bit 31 (sint x + 1) = sint x + 1"
    by (intro signed_take_bit_int_eq_self) simp_all
  then show ?thesis by (simp add: sint_word_ariths)
qed

text \<open>A retry is a rollback, or the removal of a release that never had a good revision.\<close>

fun isRetry :: "'rel effect \<Rightarrow> bool" where
  "isRetry (ERollback n) = True"
| "isRetry (EUninstall n) = True"
| "isRetry e = False"

lemma isRetry_actionEffect [simp]: "\<not> isRetry (actionEffect a n c v p)"
  by (cases a) simp_all

lemma deploy_no_retry:
  assumes "deployWith H cr a = (es, cr', err)"
  shows "filter isRetry es = []"
  using assms by (cases rule: deploy_effects) auto

text \<open>The three ways Update goes.\<close>

lemma update_cases:
  assumes "updateWith H cr = (es, cr', err)"
  obtains (retry) l where "shouldRollBack cr" "spRollbackRetriesLimit (rlSpec cr) = Some l"
      "sint (stFailed (rlStatus cr)) < sint l"
      "cr' = mapStatus (\<lambda>st. st\<lparr>stFailed := stFailed st + 1\<rparr>) cr"
      "es = (if obsRevision (atProvider cr) = 1 then [EUninstall (mdExternalName cr)]
             else [ERollback (mdExternalName cr)])"
      "err = (if obsRevision (atProvider cr) = 1 then hcUninstall (scHelm H) (mdExternalName cr)
              else hcRollback (scHelm H) (mdExternalName cr))"
  | (exhausted) l where "shouldRollBack cr" "spRollbackRetriesLimit (rlSpec cr) = Some l"
      "sint l \<le> sint (stFailed (rlStatus cr))" "cr' = cr" "es = []" "err = None"
  | (upgrade) err0 where "\<not> shouldRollBack cr" "deployWith H cr UpgradeAction = (es, cr', err0)"
      "err = WrapNil err0 errFailedToUpgrade"
proof (cases "shouldRollBack cr")
  case False
  obtain es0 cr0 err0 where "deployWith H cr UpgradeAction = (es0, cr0, err0)"
    by (cases "deployWith H cr UpgradeAction")
  with False assms upgrade show ?thesis by (simp add: updateWith_def)
next
  case True
  then obtain l where l: "spRollbackRetriesLimit (rlSpec cr) = Some l"
    using shouldRollBack_limit by blast
  show ?thesis
  proof (cases "sint l \<le> sint (stFailed (rlStatus cr))")
    case reached: True
    with assms True l have "es = []" "cr' = cr" "err = None" by (simp_all add: updateWith_def)
    with True l reached show ?thesis using exhausted by blast
  next
    case below: False
    with assms True l show ?thesis
      using retry [OF True l] by (simp add: updateWith_def Let_def split: if_splits)
  qed
qed

section \<open>Steps\<close>

datatype handler = HFetch | HObserve | HCreate | HUpdate | HDelete | HStore

text \<open>
  The state is the release in memory and the status stored on the API server: the status is a
  subresource, so that the reconciler stores it apart from the object, and every answer of the
  server to a read or to an \<open>Update\<close> of the object carries the stored one.

  One step is the start of a reconcile, which reads the release (the user may have edited it, except
  for the limit), one call of a handler, with the effects it has, or the storing of the status,
  with conditions the reconciler has set. The surrounding \<open>H\<close> is that call's: every answer of
  the cluster and of Helm may differ between two calls. A status update that fails is no step.
\<close>

inductive handler_step ::
  "('s, 'r, 'p) Release \<times> ReleaseStatus \<Rightarrow> handler \<times> ('s, 'r, 'p) Release effect list \<Rightarrow>
    ('s, 'r, 'p) Release \<times> ReleaseStatus \<Rightarrow> bool"
where
  hs_fetch: "rlStatus cr' = st \<Longrightarrow>
    spRollbackRetriesLimit (rlSpec cr') = spRollbackRetriesLimit (rlSpec cr) \<Longrightarrow>
    handler_step (cr, st) (HFetch, []) (cr', st)"
| hs_observe: "observeWith H cr = (cr', r) \<Longrightarrow> handler_step (cr, st) (HObserve, []) (cr', st)"
| hs_create: "deployWith H cr InstallAction = (es, cr', err) \<Longrightarrow> keepsObject H \<Longrightarrow>
    answersStored H st \<Longrightarrow> handler_step (cr, st) (HCreate, es) (cr', st)"
| hs_update: "updateWith H cr = (es, cr', err) \<Longrightarrow> keepsObject H \<Longrightarrow>
    answersStored H st \<Longrightarrow> handler_step (cr, st) (HUpdate, es) (cr', st)"
| hs_delete: "deleteWith h cr = (es, cr', err) \<Longrightarrow> handler_step (cr, st) (HDelete, es) (cr', st)"
| hs_store: "st' = (rlStatus cr)\<lparr>stReady := c\<rparr> \<Longrightarrow>
    handler_step (cr, st) (HStore, []) (cr\<lparr>rlStatus := st'\<rparr>, st')"

inductive_cases handler_stepE: "handler_step s (h, es) s'"
inductive_simps handler_step_delete: "handler_step (cr, st) (HDelete, es) s'"

inductive handler_steps ::
  "('s, 'r, 'p) Release \<times> ReleaseStatus \<Rightarrow> (handler \<times> ('s, 'r, 'p) Release effect list) list \<Rightarrow>
    ('s, 'r, 'p) Release \<times> ReleaseStatus \<Rightarrow> bool" where
  steps_nil: "handler_steps s [] s"
| steps_snoc: "handler_steps s tr s' \<Longrightarrow> handler_step s' x s'' \<Longrightarrow> handler_steps s (tr @ [x]) s''"

lemma handler_step_limit:
  assumes "handler_step s x s'"
  shows "spRollbackRetriesLimit (rlSpec (fst s')) = spRollbackRetriesLimit (rlSpec (fst s))"
  using assms
proof cases
  case (hs_observe H cr cr' r)
  then show ?thesis using observe_frame(1) [of H cr] by simp
next
  case (hs_create H cr es cr' err)
  then show ?thesis using deploy_keeps [of H cr InstallAction es cr' err] by simp
next
  case (hs_update H cr es cr' err)
  from hs_update(4) show ?thesis
  proof (cases rule: update_cases)
    case (upgrade err0)
    then show ?thesis using deploy_keeps [of H cr UpgradeAction es cr' err0] hs_update by simp
  qed (simp_all add: hs_update)
qed (simp_all add: deleteWith_def)

abbreviation counter :: "('s, 'r, 'p) Release \<Rightarrow> 32 word" where
  "counter cr \<equiv> stFailed (rlStatus cr)"

text \<open>
  A step keeps the counter in memory or reads the stored one, resets it (only an observation does),
  or counts one retry; the stored counter changes only to the one in memory.
\<close>

lemma handler_step_counter:
  assumes "handler_step (cr, st) (h, es) (cr', st')"
  obtains (reads) "counter cr' \<in> {counter cr, stFailed st}" "stFailed st' \<in> {stFailed st, counter cr}"
      "h = HUpdate \<Longrightarrow> filter isRetry es = []"
  | (resets) "h = HObserve" "counter cr' = 0" "st' = st"
  | (counts) l where "h = HUpdate" "spRollbackRetriesLimit (rlSpec cr) = Some l"
      "sint (counter cr) < sint l" "counter cr' = counter cr + 1" "st' = st"
      "length (filter isRetry es) = 1"
  using assms
proof cases
  case hs_fetch
  then show ?thesis using reads by simp
next
  case (hs_observe H r)
  then show ?thesis using observe_failed [of H cr] reads resets by auto
next
  case (hs_create H err)
  then show ?thesis using deploy_counter [OF hs_create(3,5)] reads by simp
next
  case (hs_update H err)
  from hs_update(3) show ?thesis
  proof (cases rule: update_cases)
    case (retry l)
    with hs_update(1,2) show ?thesis using counts [of l] by simp
  next
    case (exhausted l)
    then show ?thesis using reads hs_update(2) by simp
  next
    case (upgrade err0)
    then show ?thesis
      using deploy_counter [OF upgrade(2) hs_update(5)] deploy_no_retry [OF upgrade(2)] hs_update(2)
      by (intro reads) simp_all
  qed
next
  case (hs_delete h' err)
  then show ?thesis using reads by (simp add: deleteWith_def)
next
  case (hs_store c)
  then show ?thesis using reads by simp
qed

section \<open>The bound\<close>

definition retryBound :: "('s, 'r, 'p) Release \<Rightarrow> int" where
  "retryBound cr =
     (case spRollbackRetriesLimit (rlSpec cr) of None \<Rightarrow> 0 | Some l \<Rightarrow> max 0 (sint l))"

text \<open>Both counters, the one in memory and the stored one, are in bounds.\<close>

definition counterOk :: "('s, 'r, 'p) Release \<times> ReleaseStatus \<Rightarrow> bool" where
  "counterOk s \<longleftrightarrow>
     (\<forall>n \<in> {counter (fst s), stFailed (snd s)}. 0 \<le> sint n \<and> sint n \<le> retryBound (fst s))"

lemma retryBound_step: "handler_step s x s' \<Longrightarrow> retryBound (fst s') = retryBound (fst s)"
  by (simp add: retryBound_def handler_step_limit)

lemma retryBound_nonneg [simp]: "0 \<le> retryBound cr"
  by (simp add: retryBound_def split: option.splits)

lemma counterOk_step:
  assumes "handler_step s x s'" and "counterOk s"
  shows "counterOk s'"
proof -
  obtain cr st where s: "s = (cr, st)" by (cases s)
  obtain h es where x: "x = (h, es)" by (cases x)
  obtain cr' st' where s': "s' = (cr', st')" by (cases s')
  note st = s x s'
  have bound: "retryBound cr' = retryBound cr" using retryBound_step [OF assms(1)] st by simp
  from assms(1) [unfolded st] show ?thesis
  proof (cases rule: handler_step_counter)
    case reads
    with assms(2) show ?thesis by (auto simp: counterOk_def st bound)
  next
    case resets
    with assms(2) show ?thesis by (simp add: counterOk_def st bound)
  next
    case (counts l)
    then have "sint (counter cr') = sint (counter cr) + 1" using sint_Suc by simp
    moreover have "sint (counter cr) + 1 \<le> retryBound cr" using counts(2,3) by (simp add: retryBound_def)
    ultimately show ?thesis using assms(2) counts(5) by (simp add: counterOk_def st bound)
  qed
qed

lemma counterOk_steps:
  "handler_steps s tr s' \<Longrightarrow> counterOk s \<Longrightarrow> counterOk s' \<and> retryBound (fst s') = retryBound (fst s)"
  by (induction rule: handler_steps.induct) (auto simp: counterOk_step retryBound_step)

text \<open>The retries of a run: those of its updates.\<close>

fun retriesOf :: "(handler \<times> 'rel effect list) list \<Rightarrow> nat" where
  "retriesOf [] = 0"
| "retriesOf ((HUpdate, es) # tr) = length (filter isRetry es) + retriesOf tr"
| "retriesOf ((h, es) # tr) = retriesOf tr"

lemma retriesOf_append: "retriesOf (tr @ tr') = retriesOf tr + retriesOf tr'"
  by (induction tr rule: retriesOf.induct) auto

text \<open>
  A run in which the count is never lost: no step lowers the counter in memory. It is lowered by the
  observation of a deployed release, which resets it, and by reading back a status from before
  a retry, when that retry could not be stored.
\<close>

inductive counted_steps ::
  "('s, 'r, 'p) Release \<times> ReleaseStatus \<Rightarrow> (handler \<times> ('s, 'r, 'p) Release effect list) list \<Rightarrow>
    ('s, 'r, 'p) Release \<times> ReleaseStatus \<Rightarrow> bool" where
  counted_nil: "counted_steps s [] s"
| counted_snoc: "counted_steps s tr s' \<Longrightarrow> handler_step s' x s'' \<Longrightarrow>
    sint (counter (fst s')) \<le> sint (counter (fst s'')) \<Longrightarrow> counted_steps s (tr @ [x]) s''"

lemma counted_retries:
  assumes "counted_steps s tr s'" and "counterOk s" and "stFailed (snd s) = counter (fst s)"
  shows "counterOk s' \<and> retryBound (fst s') = retryBound (fst s)
    \<and> sint (stFailed (snd s')) \<le> sint (counter (fst s'))
    \<and> sint (counter (fst s')) = sint (counter (fst s)) + int (retriesOf tr)"
  using assms
proof (induction rule: counted_steps.induct)
  case (counted_nil s)
  then show ?case by simp
next
  case (counted_snoc s tr s' x s'')
  note before = counted_snoc.IH [OF counted_snoc.prems]
  have ok: "counterOk s''" using counterOk_step [OF counted_snoc.hyps(2)] before by simp
  have bound: "retryBound (fst s'') = retryBound (fst s)"
    using retryBound_step [OF counted_snoc.hyps(2)] before by simp
  obtain cr st where s': "s' = (cr, st)" by (cases s')
  obtain h es where x: "x = (h, es)" by (cases x)
  obtain cr' st' where s'': "s'' = (cr', st')" by (cases s'')
  note st = s' x s''
  have IH: "sint (stFailed st) \<le> sint (counter cr)" "0 \<le> sint (counter cr)"
    using before by (simp_all add: st counterOk_def)
  have up: "sint (counter cr) \<le> sint (counter cr')" using counted_snoc.hyps(3) by (simp add: st)
  have "sint (stFailed st') \<le> sint (counter cr')
      \<and> sint (counter cr') = sint (counter cr) + int (retriesOf [(h, es)])"
    using counted_snoc.hyps(2) [unfolded st]
  proof (cases rule: handler_step_counter)
    case reads
    then have "sint (counter cr') = sint (counter cr)" using IH(1) up by auto
    moreover have "retriesOf [(h, es)] = 0" using reads(3) by (cases h) simp_all
    ultimately show ?thesis using reads(2) IH(1) by auto
  next
    case resets
    with up IH show ?thesis by simp
  next
    case (counts l)
    then show ?thesis using sint_Suc IH(1) by simp
  qed
  with before ok bound show ?case by (simp add: st retriesOf_append)
qed

end
