(* ===== verification/Release_Refinement.thy ===== *)
theory Release_Refinement
  imports Release_Scope
begin

text \<open>
  The namespaced controller refines the cluster controller: on a release it does what the cluster
  controller does on the release in which every reference is qualified with the namespace of
  the managed resource. The namespaced code has been written as a copy of the cluster code; the
  simulation says that the copy is one. What Observe and Update need of the two scopes are two
  contracts over a common one.
\<close>

section \<open>Simulation of scopes\<close>

text \<open>The part of a deployment that follows the late initialization.\<close>

definition deployTail ::
  "('s, 'r, 'p) scope \<Rightarrow> ('s, 'r, 'p) Release \<Rightarrow> bool \<Rightarrow> RepoCreds \<Rightarrow> Chart \<Rightarrow> vals \<Rightarrow> Patch list \<Rightarrow>
    deployAction \<Rightarrow> ('s, 'r, 'p) Release effect list \<times> ('s, 'r, 'p) Release \<times> goerr option" where
  "deployTail H cr1 needsUpdate creds chart cv p action =
     (let es = EPull creds # (if needsUpdate then [EUpdateCR cr1] else []) in
      case (if needsUpdate then scUpdateCR H cr1 else Inr cr1) of
        Inl e \<Rightarrow> (es, cr1, Some (Wrap e errFailedToLateInitialize))
      | Inr cr2 \<Rightarrow>
     (let es' = es @ [actionEffect action (mdExternalName cr2) chart cv p] in
      case runAction (scHelm H) action (mdExternalName cr2) chart cv p of
        Inl e \<Rightarrow> (es', cr2, Some e)
      | Inr None \<Rightarrow> (es', cr2, Some (ErrNew errLastReleaseIsNil))
      | Inr (Some rel) \<Rightarrow>
     (case scShaOf H p of
        Inl e \<Rightarrow> (es', cr2, Some (Wrap e errFailedToUpdatePatchSha))
      | Inr sha \<Rightarrow> (es', recordDeployment cr2 rel sha, None))))"

text \<open>
  \<open>q\<close> maps the releases of one scope to those of the other. It leaves alone what the handlers
  read and write themselves, and Helm answers alike.
\<close>

locale scope_view =
  fixes H :: "('s, 'r, 'p) scope" and H' :: "('s', 'r', 'p') scope"
    and q :: "('s, 'r, 'p) Release \<Rightarrow> ('s', 'r', 'p') Release"
    and good :: "('s, 'r, 'p) Release \<Rightarrow> bool"
  assumes helm: "hcGetLastRelease (scHelm H') n = hcGetLastRelease (scHelm H) n"
      "runAction (scHelm H') a n chart v p = runAction (scHelm H) a n chart v p"
      "hcRollback (scHelm H') n = hcRollback (scHelm H) n"
      "hcUninstall (scHelm H') n = hcUninstall (scHelm H) n"
    and q_status: "q (c\<lparr>rlStatus := st\<rparr>) = (q c)\<lparr>rlStatus := st\<rparr>"
    and q_chart: "q (mapChart (\<lambda>ch. ch\<lparr>csName := x, csVersion := y\<rparr>) c) =
      mapChart (\<lambda>ch. ch\<lparr>csName := x, csVersion := y\<rparr>) (q c)"
    and q_reads: "rlStatus (q c) = rlStatus c" "mdExternalName (q c) = mdExternalName c"
      "mdDeleted (q c) = mdDeleted c" "csName (chartOf (q c)) = csName (chartOf c)"
      "csVersion (chartOf (q c)) = csVersion (chartOf c)"
      "csDigest (chartOf (q c)) = csDigest (chartOf c)"
      "fpTakeOwnership (forProvider (q c)) = fpTakeOwnership (forProvider c)"
      "spManagementPolicies (rlSpec (q c)) = spManagementPolicies (rlSpec c)"
      "spRollbackRetriesLimit (rlSpec (q c)) = spRollbackRetriesLimit (rlSpec c)"
    and good_status: "good (c\<lparr>rlStatus := st\<rparr>) = good c"
    and good_chart: "good (mapChart (\<lambda>ch. ch\<lparr>csName := x, csVersion := y\<rparr>) c) = good c"
begin

lemma shouldRollBack_q [simp]: "shouldRollBack (q c) = shouldRollBack c"
  by (simp add: shouldRollBack_def rollBackEnabled_def q_reads)

lemma rollBackLimitReached_q [simp]: "rollBackLimitReached (q c) = rollBackLimitReached c"
  by (simp add: rollBackLimitReached_def q_reads split: option.split)

lemma finishObserve_q: "finishObserve (q c) cd = map_prod q id (finishObserve c cd)"
  by (simp add: finishObserve_def resourceUpToDate_def q_reads)

lemma observed_q: "observed (q c) rel = q (observed c rel)"
  by (simp add: observed_def q_status q_reads)

lemma synced_q: "synced (q c) rel = q (synced c rel)"
  by (simp add: synced_def q_status q_reads observed_q)

lemma unavailable_q: "unavailable (q c) rel s = q (unavailable c rel s)"
  by (simp add: unavailable_def q_status q_reads observed_q)

lemma available_q: "available (q c) rel = q (available c rel)"
  by (simp add: available_def q_status q_reads synced_q)

lemma good_observed: "good (observed c rel) = good c" "good (synced c rel) = good c"
  by (simp_all add: synced_def observed_def good_status)

lemma lateInitialize_q:
  "lateInitialize (q c) chart = map_sum id (map_prod q id) (lateInitialize c chart)"
proof (cases "shouldLateInit c")
  case False
  then have "\<not> shouldLateInit (q c)" by (simp add: shouldLateInit_def q_reads)
  with False show ?thesis by (simp add: lateInitialize_off)
next
  case True
  then have on: "shouldLateInit (q c)" by (simp add: shouldLateInit_def q_reads)
  show ?thesis
  proof (cases "chMetadata chart")
    case None
    with True on show ?thesis by (simp add: lateInitialize_def q_reads)
  next
    case (Some m)
    show ?thesis
      unfolding lateInitialize_on [OF True Some] lateInitialize_on [OF on Some]
      by (simp add: q_reads q_chart)
  qed
qed

lemma recordDeployment_q: "recordDeployment (q c) rel s = q (recordDeployment c rel s)"
  by (simp add: recordDeployment_def Let_def q_status q_reads)

lemma map_actionEffect [simp]: "map_effect q (actionEffect a n c v p) = actionEffect a n c v p"
  by (cases a) simp_all

lemma good_lateInitialize: "lateInitialize c chart = Inr (c', u) \<Longrightarrow> good c' = good c"
  by (erule lateInitialize_Inr) (simp_all add: good_chart)

end

text \<open>
  For Observe the scopes have to agree on the up-to-date check, and on the connection details of
  the Helm releases \<open>known\<close>; an error there may have another text.
\<close>

definition sameDetails :: "goerr + 'a \<Rightarrow> goerr + 'a \<Rightarrow> bool" where
  "sameDetails r' r \<longleftrightarrow> r' = r \<or> (\<exists>e e'. r = Inl e \<and> r' = Inl e')"

text \<open>The same answer of Observe, but for the text of an error in the connection details.\<close>

definition sameAnswer :: "goerr + ExternalObservation \<Rightarrow> goerr + ExternalObservation \<Rightarrow> bool" where
  "sameAnswer r' r \<longleftrightarrow> r' = r
     \<or> (\<exists>e e'. r = Inl (Wrap e errCannotGetConnectionDetails) \<and> r' = Inl (Wrap e' errCannotGetConnectionDetails))"

lemma sameAnswer_refl [simp]: "sameAnswer r r"
  by (simp add: sameAnswer_def)

locale observe_view = scope_view +
  fixes known :: "HelmRelease \<Rightarrow> bool"
  assumes check: "good c \<Longrightarrow> scUpToDate H' (q c) rel = scUpToDate H c rel"
    and connection: "good c \<Longrightarrow> known rel \<Longrightarrow>
      sameDetails (scConnection H' (q c) rel) (scConnection H c rel)"
begin

theorem observe_simulation:
  assumes "good c"
    and known: "\<And>rel. hcGetLastRelease (scHelm H) (mdExternalName c) = Inr (Some rel) \<Longrightarrow> known rel"
  shows "fst (observeWith H' (q c)) = q (fst (observeWith H c))
    \<and> sameAnswer (snd (observeWith H' (q c))) (snd (observeWith H c))"
proof -
  let ?get = "hcGetLastRelease (scHelm H) (mdExternalName c)"
  have get: "hcGetLastRelease (scHelm H') (mdExternalName (q c)) = ?get"
    by (simp add: helm q_reads)
  consider (err) e where "?get = Inl e" | (nil) "?get = Inr None" | (rel) rel where "?get = Inr (Some rel)"
    by (metis sumE not_None_eq)
  then show ?thesis
  proof cases
    case err
    then show ?thesis by (cases "IsReleaseNotFound e")
      (simp_all add: get observe_not_found [of H] observe_not_found [of H'] observe_get_error [of H]
        observe_get_error [of H'])
  next
    case nil
    then show ?thesis by (simp add: get observe_nil)
  next
    case rel
    note r = rel helm q_reads
    show ?thesis
    proof (cases "mdDeleted c")
      case True
      then show ?thesis by (simp add: observe_deleted r observed_q)
    next
      case False
      show ?thesis
      proof (cases "scUpToDate H (observed c rel) rel")
        case (Inl e)
        with False show ?thesis by (simp add: observe_check_error r check good_observed assms observed_q)
      next
        case (Inr s)
        show ?thesis
        proof (cases "obsState (generateObservation rel) = StatusDeployed \<and> s")
          case False
          have "observeWith H c = finishObserve (unavailable c rel s) []"
            using rel \<open>\<not> mdDeleted c\<close> Inr False by (rule observe_unavailable)
          moreover have "observeWith H' (q c) = finishObserve (unavailable (q c) rel s) []"
            using False \<open>\<not> mdDeleted c\<close> Inr rel
            by (intro observe_unavailable) (simp_all add: observed_q check good_observed assms helm q_reads)
          ultimately show ?thesis by (simp add: unavailable_q finishObserve_q)
        next
          case True
          with Inr have "scUpToDate H (observed c rel) rel = Inr True"
            and dep: "obsState (generateObservation rel) = StatusDeployed" by simp_all
          moreover have "sameDetails (scConnection H' (q (synced c rel)) rel) (scConnection H (synced c rel) rel)"
            using assms(1) known [OF rel] by (intro connection) (simp_all add: good_observed)
          ultimately show ?thesis using \<open>\<not> mdDeleted c\<close>
            by (auto simp: observe_available r check good_observed assms observed_q sameDetails_def
                sameAnswer_def available_q synced_q finishObserve_q split: sum.split)
        qed
      qed
    qed
  qed
qed

end

text \<open>For a deployment they have to agree on everything it is made of.\<close>

locale deploy_view = scope_view +
  assumes sha: "scShaOf H' = scShaOf H"
    and compose: "good c \<Longrightarrow> scCompose H' (q c) = scCompose H c"
    and creds: "good c \<Longrightarrow> scCreds H' (q c) = scCreds H c"
    and patches: "good c \<Longrightarrow> scPatches H' (q c) = scPatches H c"
    and pull: "good c \<Longrightarrow> scPull H' (q c) k = scPull H c k"
    and update_cr: "good c \<Longrightarrow> scUpdateCR H' (q c) = map_sum id q (scUpdateCR H c)"
begin

text \<open>What is left of a deployment once the chart is there.\<close>

lemma deployTail_q:
  assumes "good c"
  shows "deployTail H' (q c) u k chart cv p a =
     map_prod (map (map_effect q)) (map_prod q id) (deployTail H c u k chart cv p a)"
proof (cases "if u then scUpdateCR H c else Inr c")
  case (Inl e)
  then show ?thesis by (cases u) (simp_all add: deployTail_def Let_def update_cr assms)
next
  case (Inr c2)
  have "runAction (scHelm H') a (mdExternalName (q c2)) chart cv p =
      runAction (scHelm H) a (mdExternalName c2) chart cv p"
    by (simp add: helm q_reads)
  with Inr show ?thesis
    by (cases u)
      (simp_all add: deployTail_def Let_def update_cr assms q_reads sha recordDeployment_q
        split: sum.split option.split)
qed

theorem deploy_simulation:
  assumes "good c"
  shows "deployWith H' (q c) a = map_prod (map (map_effect q)) (map_prod q id) (deployWith H c a)"
proof (cases "scCompose H c")
  case (Inl e)
  then show ?thesis by (simp add: deployWith_def compose assms)
next
  case cv: (Inr cv)
  note g = deployWith_def compose creds patches pull lateInitialize_q assms cv
  show ?thesis
  proof (cases "scCreds H c")
    case (Inl e)
    then show ?thesis by (simp add: g)
  next
    case k: (Inr k)
    show ?thesis
    proof (cases "scPatches H c")
      case (Inl e)
      with k show ?thesis by (simp add: g)
    next
      case p: (Inr p)
      show ?thesis
      proof (cases "scPull H c k")
        case (Inl e)
        with k p show ?thesis by (simp add: g)
      next
        case ch: (Inr chart)
        show ?thesis
        proof (cases "lateInitialize c chart")
          case (Inl e)
          with k p ch show ?thesis by (simp add: g)
        next
          case (Inr li)
          obtain c1 u where li: "lateInitialize c chart = Inr (c1, u)" using Inr by (cases li) simp
          have d: "deployWith H' (q c) a = deployTail H' (q c1) u k chart cv p a"
            "deployWith H c a = deployTail H c1 u k chart cv p a"
            using cv k p ch li by (simp_all add: g deployTail_def)
          show ?thesis
            unfolding d using assms good_lateInitialize [OF li] by (intro deployTail_q) simp
        qed
      qed
    qed
  qed
qed

theorem update_simulation:
  assumes "good c"
  shows "updateWith H' (q c) = map_prod (map (map_effect q)) (map_prod q id) (updateWith H c)"
proof (cases "shouldRollBack c")
  case True
  then obtain l where "spRollbackRetriesLimit (rlSpec c) = Some l" using shouldRollBack_limit by blast
  with True show ?thesis
    by (cases "sint l \<le> sint (stFailed (rlStatus c))")
      (simp_all add: updateWith_def Let_def q_status q_reads helm)
next
  case False
  then show ?thesis
    by (simp add: updateWith_def deploy_simulation [OF assms] split: prod.split)
qed

end

section \<open>The qualified release\<close>

definition qualifyParameters :: "string \<Rightarrow> NsReleaseParameters \<Rightarrow> ClusterReleaseParameters" where
  "qualifyParameters ns fp =
     \<lparr>fpChart = \<lparr>csRepository = csRepository (fpChart fp), csName = csName (fpChart fp),
        csVersion = csVersion (fpChart fp), csURL = csURL (fpChart fp),
        csDigest = csDigest (fpChart fp),
        csPullSecretRef = \<lparr>srName = lsrName (csPullSecretRef (fpChart fp)), srNamespace = ns\<rparr>\<rparr>,
      fpNamespace = fpNamespace fp, fpSkipCreateNamespace = fpSkipCreateNamespace fp,
      fpWait = fpWait fp, fpWaitTimeout = fpWaitTimeout fp,
      fpPatchesFrom = map (qualifySource ns) (fpPatchesFrom fp),
      fpValuesSpec = qualifyValues ns (fpValuesSpec fp),
      fpSkipCRDs = fpSkipCRDs fp, fpInsecureSkipTLSVerify = fpInsecureSkipTLSVerify fp,
      fpPlainHTTP = fpPlainHTTP fp, fpTakeOwnership = fpTakeOwnership fp,
      fpMaxHistory = fpMaxHistory fp, fpSSAForceConflicts = fpSSAForceConflicts fp\<rparr>"

definition qualifyRelease :: "NsRelease \<Rightarrow> ClusterRelease" where
  "qualifyRelease c =
     \<lparr>mdName = mdName c, mdNamespace = mdNamespace c, mdExternalName = mdExternalName c,
      mdDeleted = mdDeleted c,
      rlSpec = \<lparr>spManagementPolicies = spManagementPolicies (rlSpec c),
        spProviderConfigReference =
          map_option (\<lambda>r. \<lparr>refName = pcrName r\<rparr>) (spProviderConfigReference (rlSpec c)),
        spConnectionDetails = spConnectionDetails (rlSpec c),
        spForProvider = qualifyParameters (mdNamespace c) (forProvider c),
        spRollbackRetriesLimit = spRollbackRetriesLimit (rlSpec c)\<rparr>,
      rlStatus = rlStatus c\<rparr>"

text \<open>Its inverse, for releases whose provider config has the kind \<open>K\<close>.\<close>

definition unqualifySelector :: "DataKeySelector \<Rightarrow> NsDataKeySelector" where
  "unqualifySelector r = \<lparr>ndksName = nnName r, ndksKey = dksKey r, ndksOptional = dksOptional r\<rparr>"

definition unqualifySource :: "ClusterValueFromSource \<Rightarrow> NsValueFromSource" where
  "unqualifySource s =
     \<lparr>ConfigMapKeyRef = map_option unqualifySelector (ConfigMapKeyRef s),
      SecretKeyRef = map_option unqualifySelector (SecretKeyRef s)\<rparr>"

definition unqualifyValues :: "ClusterValuesSpec \<Rightarrow> NsValuesSpec" where
  "unqualifyValues v =
     \<lparr>ValuesRaw = ValuesRaw v, ValuesFrom = map unqualifySource (ValuesFrom v),
      SetVals = map (\<lambda>s. \<lparr>svName = svName s, svValue = svValue s,
        svValueFrom = map_option unqualifySource (svValueFrom s)\<rparr>) (SetVals v)\<rparr>"

definition unqualifyRelease :: "string \<Rightarrow> ClusterRelease \<Rightarrow> NsRelease" where
  "unqualifyRelease K c =
     (let fp = forProvider c; ch = chartOf c in
      \<lparr>mdName = mdName c, mdNamespace = mdNamespace c, mdExternalName = mdExternalName c,
       mdDeleted = mdDeleted c,
       rlSpec = \<lparr>spManagementPolicies = spManagementPolicies (rlSpec c),
         spProviderConfigReference =
           map_option (\<lambda>r. \<lparr>pcrKind = K, pcrName = refName r\<rparr>) (spProviderConfigReference (rlSpec c)),
         spConnectionDetails = spConnectionDetails (rlSpec c),
         spForProvider =
           \<lparr>fpChart = \<lparr>csRepository = csRepository ch, csName = csName ch, csVersion = csVersion ch,
              csURL = csURL ch, csDigest = csDigest ch,
              csPullSecretRef = \<lparr>lsrName = srName (csPullSecretRef ch)\<rparr>\<rparr>,
            fpNamespace = fpNamespace fp, fpSkipCreateNamespace = fpSkipCreateNamespace fp,
            fpWait = fpWait fp, fpWaitTimeout = fpWaitTimeout fp,
            fpPatchesFrom = map unqualifySource (fpPatchesFrom fp),
            fpValuesSpec = unqualifyValues (fpValuesSpec fp),
            fpSkipCRDs = fpSkipCRDs fp, fpInsecureSkipTLSVerify = fpInsecureSkipTLSVerify fp,
            fpPlainHTTP = fpPlainHTTP fp, fpTakeOwnership = fpTakeOwnership fp,
            fpMaxHistory = fpMaxHistory fp, fpSSAForceConflicts = fpSSAForceConflicts fp\<rparr>,
         spRollbackRetriesLimit = spRollbackRetriesLimit (rlSpec c)\<rparr>,
       rlStatus = rlStatus c\<rparr>)"

lemma unqualify_simps [simp]:
  "unqualifySource (qualifySource ns s) = s" "unqualifyValues (qualifyValues ns v) = v"
proof -
  have sel: "unqualifySelector (qualifySelector ns r) = r" for r
    by (simp add: unqualifySelector_def qualifySelector_def)
  have src: "unqualifySource (qualifySource ns s) = s" for s
    by (simp add: unqualifySource_def qualifySource_def option.map_comp comp_def sel option.map_ident)
  then show "unqualifySource (qualifySource ns s) = s" .
  have sets: "map (\<lambda>x. \<lparr>svName = svName x, svValue = svValue x, svValueFrom = svValueFrom x\<rparr>) xs = xs"
    for xs :: "NsSetVal list"
    by (simp add: map_idI)
  show "unqualifyValues (qualifyValues ns v) = v"
    by (simp add: unqualifyValues_def qualifyValues_def qualifySet_def comp_def option.map_comp src
        option.map_ident sets)
qed

text \<open>The kind of provider config a release refers to, which its qualified form does not name.\<close>

definition configKind :: "NsRelease \<Rightarrow> string" where
  "configKind c = (case spProviderConfigReference (rlSpec c) of None \<Rightarrow> [] | Some r \<Rightarrow> pcrKind r)"

text \<open>Every namespaced release is comparable with its qualified form, for its own kind.\<close>

definition comparable :: "string \<Rightarrow> NsRelease \<Rightarrow> bool" where
  "comparable K c \<longleftrightarrow> mdNamespace c \<noteq> [] \<and> configKind c = K"

lemma unqualify_qualify: "comparable K c \<Longrightarrow> unqualifyRelease K (qualifyRelease c) = c"
  by (cases "spProviderConfigReference (rlSpec c)")
    (auto simp: unqualifyRelease_def qualifyRelease_def qualifyParameters_def comparable_def
      configKind_def Let_def comp_def)

text \<open>
  The qualified release with its connection details read from the namespace \<open>N\<close>: the namespaced
  controller reads them in the namespace of the Helm release, whatever namespace they name.
\<close>

definition qualifyDetail :: "string \<Rightarrow> ConnectionDetail \<Rightarrow> ConnectionDetail" where
  "qualifyDetail N cd = cd\<lparr>cdObjectReference := (cdObjectReference cd)\<lparr>orNamespace := N\<rparr>\<rparr>"

definition qualifyReleaseIn :: "string \<Rightarrow> NsRelease \<Rightarrow> ClusterRelease" where
  "qualifyReleaseIn N c = (qualifyRelease c)\<lparr>rlSpec := (rlSpec (qualifyRelease c))
     \<lparr>spConnectionDetails := map (qualifyDetail N) (spConnectionDetails (rlSpec c))\<rparr>\<rparr>"

text \<open>A client reads the object at the key it is given; the namespace that the object to be filled
  has before does not matter.\<close>

definition readsByKey :: "'r kube \<Rightarrow> bool" where
  "readsByKey k \<longleftrightarrow> (\<forall>u N nn. kObject k (u\<lparr>unNamespace := N\<rparr>) nn = kObject k u nn)"

lemma connectionValue_qualify:
  assumes "readsByKey k"
  shows "sameDetails
    (connectionValue L k (\<lambda>ro. \<lparr>nnNamespace = unNamespace ro, nnName = unName ro\<rparr>) (qualifyDetail N cd) n N)
    (connectionValue L k (\<lambda>ro. \<lparr>nnNamespace = N, nnName = unName ro\<rparr>) cd n N)"
proof -
  have key: "kObject k (unstructuredFromObjectRef ((cdObjectReference cd)\<lparr>orNamespace := N\<rparr>)) nn =
      kObject k (unstructuredFromObjectRef (cdObjectReference cd)) nn" for nn
    using assms [unfolded readsByKey_def, rule_format, of N "unstructuredFromObjectRef (cdObjectReference cd)"]
    by (simp add: unstructuredFromObjectRef_def)
  have names: "unName (unstructuredFromObjectRef r) = orName r"
    "unNamespace (unstructuredFromObjectRef r) = orNamespace r" for r
    by (simp_all add: unstructuredFromObjectRef_def)
  show ?thesis
    by (cases "kObject k (unstructuredFromObjectRef (cdObjectReference cd)) \<lparr>nnNamespace = N, nnName = orName (cdObjectReference cd)\<rparr>")
      (simp_all add: connectionValue_def qualifyDetail_def Let_def key names sameDetails_def)
qed

section \<open>The simulation of the controllers\<close>

text \<open>The world of a namespaced controller, as the cluster controller would see it.\<close>

definition clusterKube :: "string \<Rightarrow> NsRelease kube \<Rightarrow> ClusterRelease kube" where
  "clusterKube K k =
     \<lparr>kSecret = kSecret k, kConfigMap = kConfigMap k, kObject = kObject k,
      kCreateNamespace = kCreateNamespace k,
      kUpdate = (\<lambda>c. map_sum id qualifyRelease (kUpdate k (unqualifyRelease K c)))\<rparr>"

definition clusterView :: "string \<Rightarrow> NsExternal \<Rightarrow> ClusterExternal" where
  "clusterView K E =
     \<lparr>heLib = heLib E, heAuth = heAuth E, heLocalKube = clusterKube K (heLocalKube E),
      heKube = clusterKube K (heKube E),
      heHelm = (heHelm E)\<lparr>hcPullAndLoadChart := (\<lambda>mg creds.
        case mg of
          MgCluster c \<Rightarrow> hcPullAndLoadChart (heHelm E) (MgNamespaced (unqualifyRelease K c)) creds
        | _ \<Rightarrow> hcPullAndLoadChart (heHelm E) mg creds)\<rparr>,
      hePatch = newPatcher (heLib E)\<rparr>"

lemma clusterKube_data:
  "getDataValueFromSource (clusterKube K k) = getDataValueFromSource k"
  "resolveSecretCredentials (clusterKube K k) = resolveSecretCredentials k"
  by (simp_all add: fun_eq_iff getDataValueFromSource_def getSecretData_def getConfigMapData_def
      resolveSecretCredentials_def clusterKube_def split: option.splits)

lemma clusterKube_specs:
  "composeValuesFromSpec L (clusterKube K k) spec = composeValuesFromSpec L k spec"
  "getFromSpec L (clusterKube K k) vals = getFromSpec L k vals"
  "hasUpdates (newPatcher L) (clusterKube K k) vals st = hasUpdates (newPatcher L) k vals st"
  by (simp_all add: composeValuesFromSpec_def getFromSpec_def hasUpdates_def clusterKube_data)

lemma qualifyRelease_simps [simp]:
  "rlStatus (qualifyRelease c) = rlStatus c" "mdExternalName (qualifyRelease c) = mdExternalName c"
  "mdDeleted (qualifyRelease c) = mdDeleted c" "mdNamespace (qualifyRelease c) = mdNamespace c"
  "forProvider (qualifyRelease c) = qualifyParameters (mdNamespace c) (forProvider c)"
  "spManagementPolicies (rlSpec (qualifyRelease c)) = spManagementPolicies (rlSpec c)"
  "spRollbackRetriesLimit (rlSpec (qualifyRelease c)) = spRollbackRetriesLimit (rlSpec c)"
  "spConnectionDetails (rlSpec (qualifyRelease c)) = spConnectionDetails (rlSpec c)"
  "fpValuesSpec (qualifyParameters ns fp) = qualifyValues ns (fpValuesSpec fp)"
  "fpPatchesFrom (qualifyParameters ns fp) = map (qualifySource ns) (fpPatchesFrom fp)"
  "fpTakeOwnership (qualifyParameters ns fp) = fpTakeOwnership fp"
  "csName (fpChart (qualifyParameters ns fp)) = csName (fpChart fp)"
  "csVersion (fpChart (qualifyParameters ns fp)) = csVersion (fpChart fp)"
  "csDigest (fpChart (qualifyParameters ns fp)) = csDigest (fpChart fp)"
  "csURL (fpChart (qualifyParameters ns fp)) = csURL (fpChart fp)"
  "csRepository (fpChart (qualifyParameters ns fp)) = csRepository (fpChart fp)"
  by (simp_all add: qualifyRelease_def qualifyParameters_def)

lemma nsIsUpToDate_qualify:
  "nsIsUpToDate L k (rlSpec c) rel st (mdNamespace c) = isUpToDate L k (rlSpec (qualifyRelease c)) rel st"
  unfolding nsIsUpToDate_def isUpToDate_def upToDate_def Let_def qualifyRelease_simps
    nsCompose_qualify nsHasUpdates_qualify
  by (rule refl)

lemma ResolveNamespaced_qualify:
  "mdNamespace c \<noteq> [] \<Longrightarrow> ResolveNamespaced A k c = ResolveCluster A k (qualifyRelease c)"
  by (simp add: ResolveNamespaced_def ResolveCluster_def Let_def registryURLOf_def
      qualifyRelease_def qualifyParameters_def)

lemma clusterView_simps [simp]:
  "heLib (clusterView K E) = heLib E" "heAuth (clusterView K E) = heAuth E"
  "heLocalKube (clusterView K E) = clusterKube K (heLocalKube E)"
  "heKube (clusterView K E) = clusterKube K (heKube E)"
  "hePatch (clusterView K E) = newPatcher (heLib E)"
  "hcGetLastRelease (heHelm (clusterView K E)) = hcGetLastRelease (heHelm E)"
  "hcRollback (heHelm (clusterView K E)) = hcRollback (heHelm E)"
  "hcUninstall (heHelm (clusterView K E)) = hcUninstall (heHelm E)"
  "hcPullAndLoadChart (heHelm (clusterView K E)) (MgCluster c) creds =
     hcPullAndLoadChart (heHelm E) (MgNamespaced (unqualifyRelease K c)) creds"
  by (simp_all add: clusterView_def)

lemma clusterView_runAction [simp]: "runAction (heHelm (clusterView K E)) a = runAction (heHelm E) a"
  by (cases a) (simp_all add: clusterView_def)

lemma hePatch_simps [simp]:
  "heLib (E\<lparr>hePatch := p\<rparr>) = heLib E" "hePatch (E\<lparr>hePatch := p\<rparr>) = p"
  "heLocalKube (E\<lparr>hePatch := p\<rparr>) = heLocalKube E" "heHelm (E\<lparr>hePatch := p\<rparr>) = heHelm E"
  by simp_all

lemma ResolveCluster_clusterKube: "ResolveCluster A (clusterKube K k) c = ResolveCluster A k c"
  unfolding ResolveCluster_def Let_def clusterKube_data by (rule refl)

lemma isUpToDate_clusterKube:
  "isUpToDate L (clusterKube K k) spec rel st = isUpToDate L k spec rel st"
  unfolding isUpToDate_def by (rule upToDate_lookups) (simp_all add: clusterKube_specs)

lemma q_laws:
  "qualifyRelease (mapChart (\<lambda>ch. ch\<lparr>csName := x, csVersion := y\<rparr>) c) =
     mapChart (\<lambda>ch. ch\<lparr>csName := x, csVersion := y\<rparr>) (qualifyRelease c)"
  "qualifyRelease (c\<lparr>rlStatus := st\<rparr>) = (qualifyRelease c)\<lparr>rlStatus := st\<rparr>"
  by (simp_all add: qualifyRelease_def qualifyParameters_def)

lemma comparable_laws [simp]:
  "comparable K (c\<lparr>rlStatus := st\<rparr>) = comparable K c"
  "comparable K (c\<lparr>rlSpec := (rlSpec c)\<lparr>spForProvider := fp\<rparr>\<rparr>) = comparable K c"
  by (simp_all add: comparable_def configKind_def)

interpretation ns_deploys:
  deploy_view "nsScope (E\<lparr>hePatch := nsNewPatcher (heLib E)\<rparr>)" "clusterScope (clusterView K E)"
    qualifyRelease "comparable K"
  for E K
proof unfold_locales
  fix c k
  show "comparable K c \<Longrightarrow> scCreds (clusterScope (clusterView K E)) (qualifyRelease c) =
      scCreds (nsScope (E\<lparr>hePatch := nsNewPatcher (heLib E)\<rparr>)) c"
    by (simp add: ResolveNamespaced_qualify comparable_def ResolveCluster_clusterKube)
  show "comparable K c \<Longrightarrow> scUpdateCR (clusterScope (clusterView K E)) (qualifyRelease c) =
      map_sum id qualifyRelease (scUpdateCR (nsScope (E\<lparr>hePatch := nsNewPatcher (heLib E)\<rparr>)) c)"
    by (simp add: clusterKube_def unqualify_qualify)
  show "comparable K c \<Longrightarrow> scPull (clusterScope (clusterView K E)) (qualifyRelease c) k =
      scPull (nsScope (E\<lparr>hePatch := nsNewPatcher (heLib E)\<rparr>)) c k"
    by (simp add: unqualify_qualify)
qed (simp_all add: nsCompose_qualify nsGetFromSpec_qualify clusterKube_specs q_laws)

text \<open>The connection details: what one scope reads at the place the other names.\<close>

lemma connectionLoop_qualify:
  assumes "\<And>cd. sameDetails (f' (g cd)) (f cd)"
    and "\<And>cd. cdToConnectionSecretKey (g cd) = cdToConnectionSecretKey cd"
  shows "sameDetails (connectionLoop f' mcd (map g cds)) (connectionLoop f mcd cds)"
proof (induction cds arbitrary: mcd)
  case Nil
  then show ?case by (simp add: sameDetails_def)
next
  case (Cons cd cds)
  then show ?case
    using assms(1) [of cd] by (cases "f cd"; cases "f' (g cd)") (auto simp: assms(2) sameDetails_def)
qed

lemma connectionDetails_qualify:
  "readsByKey k \<Longrightarrow> sameDetails (connectionDetails L k (map (qualifyDetail N) cds) n N)
     (nsConnectionDetails L k cds n N)"
  unfolding connectionDetails_def nsConnectionDetails_def
  by (rule connectionLoop_qualify) (rule connectionValue_qualify, simp, simp add: qualifyDetail_def)

lemma qualifyReleaseIn_simps [simp]:
  "rlStatus (qualifyReleaseIn N c) = rlStatus c" "mdExternalName (qualifyReleaseIn N c) = mdExternalName c"
  "mdDeleted (qualifyReleaseIn N c) = mdDeleted c" "forProvider (qualifyReleaseIn N c) = forProvider (qualifyRelease c)"
  "spManagementPolicies (rlSpec (qualifyReleaseIn N c)) = spManagementPolicies (rlSpec c)"
  "spRollbackRetriesLimit (rlSpec (qualifyReleaseIn N c)) = spRollbackRetriesLimit (rlSpec c)"
  "spConnectionDetails (rlSpec (qualifyReleaseIn N c)) = map (qualifyDetail N) (spConnectionDetails (rlSpec c))"
  by (simp_all add: qualifyReleaseIn_def)

lemma isUpToDate_qualifyIn:
  "isUpToDate L k (rlSpec (qualifyReleaseIn N c)) rel st = isUpToDate L k (rlSpec (qualifyRelease c)) rel st"
  unfolding isUpToDate_def upToDate_def Let_def qualifyReleaseIn_simps qualifyRelease_simps by (rule refl)

lemma clusterKube_object: "connectionDetails L (clusterKube K k) = connectionDetails L k"
  by (simp add: fun_eq_iff connectionDetails_def connectionValue_def clusterKube_def)

interpretation ns_observes:
  observe_view "nsScope (E\<lparr>hePatch := nsNewPatcher (heLib E)\<rparr>)" "clusterScope (clusterView K E)"
    "qualifyReleaseIn N" "\<lambda>c. readsByKey (heKube E)" "\<lambda>rel. hrNamespace rel = N"
  for E K N
proof unfold_locales
  fix c rel
  show "scUpToDate (clusterScope (clusterView K E)) (qualifyReleaseIn N c) rel =
      scUpToDate (nsScope (E\<lparr>hePatch := nsNewPatcher (heLib E)\<rparr>)) c rel"
    by (simp add: nsIsUpToDate_qualify isUpToDate_clusterKube isUpToDate_qualifyIn)
  show "readsByKey (heKube E) \<Longrightarrow> hrNamespace rel = N \<Longrightarrow>
      sameDetails (scConnection (clusterScope (clusterView K E)) (qualifyReleaseIn N c) rel)
        (scConnection (nsScope (E\<lparr>hePatch := nsNewPatcher (heLib E)\<rparr>)) c rel)"
    by (simp add: clusterKube_object) (rule connectionDetails_qualify)
next
  fix c :: NsRelease and x y
  show "qualifyReleaseIn N (mapChart (\<lambda>ch. ch\<lparr>csName := x, csVersion := y\<rparr>) c) =
      mapChart (\<lambda>ch. ch\<lparr>csName := x, csVersion := y\<rparr>) (qualifyReleaseIn N c)"
    by (simp add: qualifyReleaseIn_def q_laws)
next
  fix c :: NsRelease and st
  show "qualifyReleaseIn N (c\<lparr>rlStatus := st\<rparr>) = (qualifyReleaseIn N c)\<lparr>rlStatus := st\<rparr>"
    by (simp add: qualifyReleaseIn_def q_laws)
qed simp_all

end
