(* ===== verification/Release_Stable.thy ===== *)
theory Release_Stable
  imports Release_Scope
begin

text \<open>
  Observing again what has been observed, in the same surroundings, changes nothing and gives the
  same answer: what Observe writes into the status is a fixed point of what it reads from there.
\<close>

section \<open>What the check reads of the status\<close>

text \<open>
  The status is read for the digest that was deployed and by the check of the patches; a digest that
  is filled in from the specification is the one that is asked for.
\<close>

lemma upToDate_status:
  assumes "updates (fpPatchesFrom (spForProvider spec)) s' = updates (fpPatchesFrom (spForProvider spec)) s"
    and "obsDigest (stAtProvider s') = obsDigest (stAtProvider s)
      \<or> obsDigest (stAtProvider s) = [] \<and> obsDigest (stAtProvider s') = csDigest (fpChart (spForProvider spec))"
  shows "upToDate L compose updates spec rel s' = upToDate L compose updates spec rel s"
  using assms(2) unfolding upToDate_def Let_def assms(1) by (elim disjE) (simp_all cong: if_cong option.case_cong)

text \<open>Two releases that the lookups of a scope cannot tell apart.\<close>

definition sameInput :: "('s, 'r, 'p) Release \<Rightarrow> ('s, 'r, 'p) Release \<Rightarrow> bool" where
  "sameInput cr cr' \<longleftrightarrow> rlSpec cr' = rlSpec cr \<and> mdNamespace cr' = mdNamespace cr
     \<and> stPatchesSha (rlStatus cr') = stPatchesSha (rlStatus cr)
     \<and> (obsDigest (atProvider cr') = obsDigest (atProvider cr)
        \<or> obsDigest (atProvider cr) = [] \<and> obsDigest (atProvider cr') = csDigest (chartOf cr))"

definition readsInput :: "('s, 'r, 'p) scope \<Rightarrow> bool" where
  "readsInput H \<longleftrightarrow> (\<forall>cr cr' rel. sameInput cr cr' \<longrightarrow>
     scUpToDate H cr' rel = scUpToDate H cr rel \<and> scConnection H cr' rel = scConnection H cr rel)"

lemma cluster_readsInput: "readsInput (clusterScope E)"
  unfolding readsInput_def sameInput_def
  by (auto simp: isUpToDate_def hasUpdates_def intro!: upToDate_status)

lemma ns_readsInput: "readsInput (nsScope E)"
  unfolding readsInput_def sameInput_def
  by (auto simp: nsIsUpToDate_def nsHasUpdates_def intro!: upToDate_status)

section \<open>Observing twice\<close>

lemma stored_again [simp]:
  "observed (observed cr rel) rel = observed cr rel"
  "unavailable (unavailable cr rel s) rel s = unavailable cr rel s"
  "synced (synced cr rel) rel = synced cr rel"
  "available (available cr rel) rel = available cr rel"
  by (simp_all add: observed_def unavailable_def synced_def available_def)

lemma sameInput_observed [simp]:
  "sameInput (observed cr rel) (observed (unavailable cr rel s) rel)"
  "sameInput (observed cr rel) (observed (synced cr rel) rel)"
  "sameInput (observed cr rel) (observed (available cr rel) rel)"
  "sameInput (synced cr rel) (synced (available cr rel) rel)"
  by (simp_all add: sameInput_def observed_def unavailable_def synced_def available_def)

lemma observe_again:
  assumes reads: "readsInput H"
  shows "observeWith H (fst (observeWith H cr)) = observeWith H cr"
proof (cases "hcGetLastRelease (scHelm H) (mdExternalName cr)")
  case (Inl e)
  then show ?thesis by (simp add: observeWith_def)
next
  case get0: (Inr r)
  show ?thesis
  proof (cases r)
    case None
    with get0 show ?thesis by (simp add: observe_nil)
  next
    case (Some rel)
    with get0 have get: "hcGetLastRelease (scHelm H) (mdExternalName cr) = Inr (Some rel)" by simp
    have check: "scUpToDate H b rel = scUpToDate H a rel" and conn: "scConnection H b rel = scConnection H a rel"
      if "sameInput a b" for a b
      using reads that unfolding readsInput_def by blast+
    show ?thesis
    proof (cases "mdDeleted cr")
      case True
      with get show ?thesis by (simp add: observe_deleted)
    next
      case live: False
      show ?thesis
      proof (cases "scUpToDate H (observed cr rel) rel")
        case (Inl e)
        with get live show ?thesis by (simp add: observe_check_error)
      next
        case (Inr s)
        show ?thesis
        proof (cases "obsState (generateObservation rel) = StatusDeployed \<and> s")
          case False
          have "scUpToDate H (observed (unavailable cr rel s) rel) rel = Inr s"
            using check [of "observed cr rel"] Inr by simp
          with get live False show ?thesis
            using observe_unavailable [OF get live Inr False] observe_unavailable [of H "unavailable cr rel s" rel s] by simp
        next
          case True
          then have up: "scUpToDate H (observed cr rel) rel = Inr True" and dep: "obsState (generateObservation rel) = StatusDeployed"
            using Inr by simp_all
          have "scUpToDate H (observed (synced cr rel) rel) rel = Inr True"
            "scUpToDate H (observed (available cr rel) rel) rel = Inr True"
            using check [of "observed cr rel"] up by simp_all
          moreover have "scConnection H (synced (available cr rel) rel) rel = scConnection H (synced cr rel) rel"
            by (rule conn) simp
          ultimately show ?thesis
            using observe_available [OF get live up dep] observe_available [of H "synced cr rel" rel]
              observe_available [of H "available cr rel" rel] get live dep
            by (cases "scConnection H (synced cr rel) rel") simp_all
        qed
      qed
    qed
  qed
qed

end
