(* ===== verification/Release_Properties.thy ===== *)
theory Release_Properties
  imports Data_Properties Release_Retries Release_Refinement Release_Stable
begin

text \<open>
  Properties of the external clients of both scopes: what a deployment leads to, how retries are
  bounded, what Observe, Create and Update may do, and that the scopes agree.
\<close>

section \<open>A deployment settles\<close>

lemma own_patcher: "hePatch E = newPatcher (heLib E) \<Longrightarrow> E\<lparr>hePatch := newPatcher (heLib E)\<rparr> = E"
  by (simp add: helmExternal.surjective helmExternal.update_convs)

lemma ns_own_patcher: "hePatch E = nsNewPatcher (heLib E) \<Longrightarrow> E\<lparr>hePatch := nsNewPatcher (heLib E)\<rparr> = E"
  by (simp add: helmExternal.surjective helmExternal.update_convs)

text \<open>The observation that follows a deployment, in a scope whose Helm client has moved on.\<close>

lemma observe_after:
  assumes "hcGetLastRelease (scHelm H') (mdExternalName c) = Inr (Some rel)" and "\<not> mdDeleted c"
    and "scUpToDate H' (observed c rel) rel = Inr True"
    and "obsState (generateObservation rel) = StatusDeployed"
  shows "snd (observeWith H' c) =
    (case scConnection H' (synced c rel) rel of
       Inl e \<Rightarrow> Inl (Wrap e errCannotGetConnectionDetails)
     | Inr cd \<Rightarrow> Inr \<lparr>eoResourceExists = True, eoResourceUpToDate = True, eoConnectionDetails = cd\<rparr>)"
proof (cases "scConnection H' (synced c rel) rel")
  case (Inl e)
  with observe_available [OF assms] show ?thesis by simp
next
  case (Inr cd)
  with observe_up_to_date [OF assms] show ?thesis by simp
qed

text \<open>C1: A deployment settles. After a successful install or upgrade of a cluster-scoped release,
  observing the release that Helm returned reports it as up to date (unless its connection details
  cannot be read): the controller does not deploy again what it has just deployed. It is relied on
  that Helm returns the chart and the values it was given, that the chart pulled has the name and
  version asked for (the name may be late-initialized), and that the API server stores the specification it is sent (the
  status it answers with may be any).\<close>

theorem deploy_settles_cluster:
  assumes "deploy E cr a = (es, cr', None)" and "hePatch E = newPatcher (heLib E)"
    and "keepsObject (clusterScope E)" and "helmEchoes (heHelm E)" and "pullsAsked (clusterScope E) cr"
    and "\<not> mdDeleted cr" and "\<forall>v. semanticDeepEqual (heLib E) v v"
  shows "\<exists>c v p rel.
    filter isHelmAction es = [actionEffect a (mdExternalName cr) c v p]
    \<and> runAction (heHelm E) a (mdExternalName cr) c v p = Inr (Some rel)
    \<and> (\<forall>h. hcGetLastRelease h (mdExternalName cr) = Inr (Some rel) \<longrightarrow>
        snd (Observe (E\<lparr>heHelm := h\<rparr>) (MgCluster cr')) =
          (case connectionDetails (heLib E) (heKube E) (spConnectionDetails (rlSpec cr')) (hrName rel)
                  (hrNamespace rel) of
             Inl e \<Rightarrow> Inl (Wrap e errCannotGetConnectionDetails)
           | Inr cd \<Rightarrow> Inr \<lparr>eoResourceExists = True, eoResourceUpToDate = True,
               eoConnectionDetails = cd\<rparr>))"
proof -
  note E = own_patcher [OF assms(2)]
  obtain c v p rel where r: "filter isHelmAction es = [actionEffect a (mdExternalName cr) c v p]"
    "runAction (heHelm E) a (mdExternalName cr) c v p = Inr (Some rel)"
    "mdExternalName cr' = mdExternalName cr" "\<not> mdDeleted cr'"
    "scUpToDate (clusterScope E) (observed cr' rel) rel = Inr True"
    "obsState (generateObservation rel) = StatusDeployed"
    using cluster_scope.deploy_settles [of E, unfolded E, OF assms(1) [unfolded deploy_def] assms(3) _ assms(5,6)]
      assms(4,7) unfolding clusterScope_simps(1) by metis
  have "snd (Observe (E\<lparr>heHelm := h\<rparr>) (MgCluster cr')) =
      (case connectionDetails (heLib E) (heKube E) (spConnectionDetails (rlSpec cr')) (hrName rel) (hrNamespace rel) of
         Inl e \<Rightarrow> Inl (Wrap e errCannotGetConnectionDetails)
       | Inr cd \<Rightarrow> Inr \<lparr>eoResourceExists = True, eoResourceUpToDate = True, eoConnectionDetails = cd\<rparr>)"
    if "hcGetLastRelease h (mdExternalName cr) = Inr (Some rel)" for h
    using observe_after [of "clusterScope (E\<lparr>heHelm := h\<rparr>)" cr' rel] that r(3-6)
    by (simp add: Observe_def split_beta)
  with r(1,2) show ?thesis by blast
qed

theorem deploy_settles_cluster_witness:
  "\<exists>es cr' rel. deploy (sampleExternal (Inl ErrReleaseNotFound)) (sampleRelease None (sampleStatus StatusFailed 0 False))
      InstallAction = (es, cr', None)
    \<and> snd (Observe (sampleExternal (Inr (Some rel))) (MgCluster cr')) =
        (case connectionDetails sampleLib (sampleKube :: ClusterRelease kube) (spConnectionDetails (rlSpec cr')) (hrName rel) (hrNamespace rel) of
           Inl e \<Rightarrow> Inl (Wrap e errCannotGetConnectionDetails)
         | Inr cd \<Rightarrow> Inr \<lparr>eoResourceExists = True, eoResourceUpToDate = True, eoConnectionDetails = cd\<rparr>)"
proof -
  let ?E = "sampleExternal (Inl ErrReleaseNotFound)" and ?cr = "sampleRelease None (sampleStatus StatusFailed 0 False)"
  obtain es cr' where d: "deploy ?E ?cr InstallAction = (es, cr', None)" using sample_deploy by blast
  have live: "\<not> mdDeleted ?cr" by (simp add: sampleRelease_def)
  obtain rel where rel: "\<forall>h. hcGetLastRelease h (mdExternalName ?cr) = Inr (Some rel) \<longrightarrow>
      snd (Observe (?E\<lparr>heHelm := h\<rparr>) (MgCluster cr')) =
        (case connectionDetails (heLib ?E) (heKube ?E) (spConnectionDetails (rlSpec cr')) (hrName rel) (hrNamespace rel) of
           Inl e \<Rightarrow> Inl (Wrap e errCannotGetConnectionDetails)
         | Inr cd \<Rightarrow> Inr \<lparr>eoResourceExists = True, eoResourceUpToDate = True, eoConnectionDetails = cd\<rparr>)"
    using deploy_settles_cluster [OF d _ sample_keepsObject(1) _ sample_pullsAsked(1) live] by auto
  have E: "?E\<lparr>heHelm := sampleHelm (Inr (Some rel))\<rparr> = sampleExternal (Inr (Some rel))"
    by (simp add: sampleExternal_def)
  have "hcGetLastRelease (sampleHelm (Inr (Some rel))) (mdExternalName ?cr) = Inr (Some rel)"
    by (simp add: sampleHelm_def)
  note r = rel [rule_format, OF this, unfolded E]
  with d show ?thesis unfolding sampleExternal_simps by blast
qed

text \<open>C11: A deployed namespaced release settles: after a successful install or upgrade, observing what Helm
  returned with the same sources reports it as up to date, so the controller does not deploy in a loop.
  It is relied on that Helm answers with the chart and the values it was given, that the pull gives the
  chart that was asked for and that an update of the object stores its specification.\<close>

theorem deploy_settles_namespaced:
  assumes "nsDeploy E cr a = (es, cr', None)" and "hePatch E = nsNewPatcher (heLib E)"
    and "keepsObject (nsScope E)" and "helmEchoes (heHelm E)" and "pullsAsked (nsScope E) cr"
    and "\<not> mdDeleted cr" and "\<forall>v. semanticDeepEqual (heLib E) v v"
  shows "\<exists>c v p rel.
    filter isHelmAction es = [actionEffect a (mdExternalName cr) c v p]
    \<and> runAction (heHelm E) a (mdExternalName cr) c v p = Inr (Some rel)
    \<and> (\<forall>h. hcGetLastRelease h (mdExternalName cr) = Inr (Some rel) \<longrightarrow>
        snd (nsObserve (E\<lparr>heHelm := h\<rparr>) (MgNamespaced cr')) =
          (case nsConnectionDetails (heLib E) (heKube E) (spConnectionDetails (rlSpec cr')) (hrName rel)
                  (hrNamespace rel) of
             Inl e \<Rightarrow> Inl (Wrap e errCannotGetConnectionDetails)
           | Inr cd \<Rightarrow> Inr \<lparr>eoResourceExists = True, eoResourceUpToDate = True,
               eoConnectionDetails = cd\<rparr>))"
proof -
  note E = ns_own_patcher [OF assms(2)]
  obtain c v p rel where r: "filter isHelmAction es = [actionEffect a (mdExternalName cr) c v p]"
    "runAction (heHelm E) a (mdExternalName cr) c v p = Inr (Some rel)"
    "mdExternalName cr' = mdExternalName cr" "\<not> mdDeleted cr'"
    "scUpToDate (nsScope E) (observed cr' rel) rel = Inr True"
    "obsState (generateObservation rel) = StatusDeployed"
    using ns_scope.deploy_settles [of E, unfolded E, OF assms(1) [unfolded nsDeploy_def] assms(3) _ assms(5,6)]
      assms(4,7) unfolding nsScope_simps(1) by metis
  have "snd (nsObserve (E\<lparr>heHelm := h\<rparr>) (MgNamespaced cr')) =
      (case nsConnectionDetails (heLib E) (heKube E) (spConnectionDetails (rlSpec cr')) (hrName rel) (hrNamespace rel) of
         Inl e \<Rightarrow> Inl (Wrap e errCannotGetConnectionDetails)
       | Inr cd \<Rightarrow> Inr \<lparr>eoResourceExists = True, eoResourceUpToDate = True, eoConnectionDetails = cd\<rparr>)"
    if "hcGetLastRelease h (mdExternalName cr) = Inr (Some rel)" for h
    using observe_after [of "nsScope (E\<lparr>heHelm := h\<rparr>)" cr' rel] that r(3-6)
    by (simp add: nsObserve_def split_beta)
  with r(1,2) show ?thesis by blast
qed

theorem deploy_settles_namespaced_witness:
  "\<exists>es cr' rel. nsDeploy (sampleNsExternal (Inl ErrReleaseNotFound)) (sampleNsRelease None (sampleStatus StatusFailed 0 False))
      InstallAction = (es, cr', None)
    \<and> snd (nsObserve (sampleNsExternal (Inr (Some rel))) (MgNamespaced cr')) =
        (case nsConnectionDetails sampleLib (sampleKube :: NsRelease kube) (spConnectionDetails (rlSpec cr')) (hrName rel) (hrNamespace rel) of
           Inl e \<Rightarrow> Inl (Wrap e errCannotGetConnectionDetails)
         | Inr cd \<Rightarrow> Inr \<lparr>eoResourceExists = True, eoResourceUpToDate = True, eoConnectionDetails = cd\<rparr>)"
proof -
  let ?E = "sampleNsExternal (Inl ErrReleaseNotFound)" and ?cr = "sampleNsRelease None (sampleStatus StatusFailed 0 False)"
  obtain es cr' where d: "nsDeploy ?E ?cr InstallAction = (es, cr', None)" using sample_nsDeploy by blast
  have live: "\<not> mdDeleted ?cr" by (simp add: sampleNsRelease_def)
  obtain rel where rel: "\<forall>h. hcGetLastRelease h (mdExternalName ?cr) = Inr (Some rel) \<longrightarrow>
      snd (nsObserve (?E\<lparr>heHelm := h\<rparr>) (MgNamespaced cr')) =
        (case nsConnectionDetails (heLib ?E) (heKube ?E) (spConnectionDetails (rlSpec cr')) (hrName rel) (hrNamespace rel) of
           Inl e \<Rightarrow> Inl (Wrap e errCannotGetConnectionDetails)
         | Inr cd \<Rightarrow> Inr \<lparr>eoResourceExists = True, eoResourceUpToDate = True, eoConnectionDetails = cd\<rparr>)"
    using deploy_settles_namespaced [OF d _ sample_keepsObject(2) _ sample_pullsAsked(2) live] by auto
  have E: "?E\<lparr>heHelm := sampleHelm (Inr (Some rel))\<rparr> = sampleNsExternal (Inr (Some rel))"
    by (simp add: sampleNsExternal_def)
  have "hcGetLastRelease (sampleHelm (Inr (Some rel))) (mdExternalName ?cr) = Inr (Some rel)"
    by (simp add: sampleHelm_def)
  note r = rel [rule_format, OF this, unfolded E]
  with d show ?thesis unfolding sampleExternal_simps by blast
qed

text \<open>C39: A release without a chart name never settles when late initialization is excluded by the
  management policies: the check compares the empty name with the name of the deployed chart, so
  every observation asks for an update, whatever the state of the release, and no deployment fills the
  name in.\<close>

theorem nameless_chart_never_settles:
  assumes "csName (chartOf cr) = []" and "\<not> shouldLateInit cr" and "\<not> mdDeleted cr"
    and "hcGetLastRelease (heHelm E) (mdExternalName cr) = Inr (Some rel)"
    and "hrInfo rel = Some i" and "hrChart rel = Some c" and "chMetadata c = Some m" and "cmName m \<noteq> []"
  shows "snd (Observe E (MgCluster cr)) = Inr \<lparr>eoResourceExists = True, eoResourceUpToDate = False,
      eoConnectionDetails = []\<rparr>
    \<and> (\<forall>a es cr' err. deploy E cr a = (es, cr', err) \<longrightarrow> keepsObject (clusterScope E) \<longrightarrow>
        csName (chartOf cr') = [])"
proof (intro conjI allI impI)
  have "scUpToDate (clusterScope E) (observed cr rel) rel = Inr False"
    using assms(1,5-8) by (simp add: isUpToDate_def upToDate_def Let_def)
  then have "observeWith (clusterScope E) cr = finishObserve (unavailable cr rel False) []"
    using assms(3,4) by (intro observe_unavailable) simp_all
  then show "snd (Observe E (MgCluster cr)) = Inr \<lparr>eoResourceExists = True, eoResourceUpToDate = False,
      eoConnectionDetails = []\<rparr>"
    by (simp add: Observe_def finishObserve_def resourceUpToDate_def)
next
  fix a es cr' err
  assume "deploy E cr a = (es, cr', err)" and keeps: "keepsObject (clusterScope E)"
  from this(1) [unfolded deploy_def] show "csName (chartOf cr') = []"
  proof (cases rule: deploy_effects)
    case early
    with assms(1) show ?thesis by simp
  next
    case (update_failed creds chart cr1)
    with assms(2) show ?thesis by (simp add: lateInitialize_off)
  next
    case (acted cv creds p chart cr1 upd cr2)
    from acted(5) assms(1,2) have "csName (chartOf cr1) = []" by (simp add: lateInitialize_off)
    with keepsObjectD(1) [OF keeps acted(6)] acted(8) show ?thesis by auto
  qed
qed

text \<open>Observed and deployed, the release still has no name.\<close>

definition sampleNameless :: ClusterRelease where
  "sampleNameless = sampleBlank\<lparr>rlSpec := (rlSpec sampleBlank)\<lparr>spManagementPolicies := [MAUpdate]\<rparr>\<rparr>"

theorem nameless_chart_never_settles_witness:
  "snd (Observe (sampleExternal (Inr (Some (sampleHelmRelease StatusDeployed sampleChart [])))) (MgCluster sampleNameless)) =
     Inr \<lparr>eoResourceExists = True, eoResourceUpToDate = False, eoConnectionDetails = []\<rparr>
   \<and> (\<exists>es cr' err. deploy (sampleExternal (Inr (Some (sampleHelmRelease StatusDeployed sampleChart [])))) sampleNameless
        UpgradeAction = (es, cr', err) \<and> csName (chartOf cr') = [])"
proof -
  let ?E = "sampleExternal (Inr (Some (sampleHelmRelease StatusDeployed sampleChart [])))"
  obtain es cr' err where d: "deploy ?E sampleNameless UpgradeAction = (es, cr', err)" by (rule prod_cases3)
  have "snd (Observe ?E (MgCluster sampleNameless)) =
      Inr \<lparr>eoResourceExists = True, eoResourceUpToDate = False, eoConnectionDetails = []\<rparr>
    \<and> (\<forall>a es cr' err. deploy ?E sampleNameless a = (es, cr', err) \<longrightarrow> keepsObject (clusterScope ?E) \<longrightarrow>
        csName (chartOf cr') = [])"
    by (rule nameless_chart_never_settles
          [where rel = "sampleHelmRelease StatusDeployed sampleChart []" and c = sampleChart
            and i = "\<lparr>riStatus = StatusDeployed, riDescription = ''done''\<rparr>"
            and m = "\<lparr>cmName = ''app'', cmVersion = ''1.0.0''\<rparr>"])
      (simp_all add: sampleNameless_def sampleBlank_def sample_defs shouldLateInit_def hasAny_def)
  with d show ?thesis by (metis sample_keepsObject(1))
qed

section \<open>Retries\<close>

text \<open>C2: The retry counter stays between zero and the limit, in memory and as stored, over every
  sequence of reconciles: reading the release, calls of the handlers and storing the status, in any
  order and whether storing succeeds or not, with edits of the specification that keep the limit.
  Helm may answer anything; of the API server it is relied on that an update of the object stores
  the specification and answers with the stored status. The 32-bit counter never wraps.\<close>

theorem retry_counter_bounded:
  assumes "handler_steps (cr, st) tr (cr', st')" and "stFailed (rlStatus cr) = 0" and "stFailed st = 0"
    and "spRollbackRetriesLimit (rlSpec cr) = Some l"
  shows "0 \<le> sint (stFailed (rlStatus cr')) \<and> sint (stFailed (rlStatus cr')) \<le> max 0 (sint l)
    \<and> 0 \<le> sint (stFailed st') \<and> sint (stFailed st') \<le> max 0 (sint l)
    \<and> spRollbackRetriesLimit (rlSpec cr') = Some l"
proof -
  have "counterOk (cr, st)" using assms(2,3) by (simp add: counterOk_def)
  with assms(1) have "counterOk (cr', st')" "retryBound cr' = retryBound cr"
    using counterOk_steps by fastforce+
  moreover have "spRollbackRetriesLimit (rlSpec (fst (cr', st'))) = spRollbackRetriesLimit (rlSpec (fst (cr, st)))"
    using assms(1) by (induction rule: handler_steps.induct) (simp_all add: handler_step_limit)
  ultimately show ?thesis using assms(4) by (simp add: counterOk_def retryBound_def)
qed

text \<open>A reconcile that retries: the failed release is rolled back, and the count is stored.\<close>

abbreviation sampleFailing :: ClusterRelease where
  "sampleFailing \<equiv> sampleRelease (Some 1) (sampleStatus StatusFailed 2 True)"

abbreviation sampleRetried :: ClusterRelease where
  "sampleRetried \<equiv> mapStatus (\<lambda>st. st\<lparr>stFailed := 1\<rparr>) sampleFailing"

lemma sample_release_reads [simp]:
  "stFailed (rlStatus (sampleRelease l (sampleStatus st r s))) = 0"
  "stFailed (sampleStatus st r s) = 0" "stReady (sampleStatus st r s) = None"
  "rlStatus (sampleRelease l x) = x"
  "spRollbackRetriesLimit (rlSpec (sampleRelease l x)) = l"
  by (simp_all add: sampleRelease_def sampleStatus_def sampleSpec_def)

lemma sample_retry_step:
  "handler_step (sampleFailing, rlStatus sampleFailing) (HUpdate, [ERollback ''app''])
     (sampleRetried, rlStatus sampleFailing)"
proof (rule hs_update [where H = "(clusterScope (sampleExternal (Inl ErrReleaseNotFound)))\<lparr>scUpdateCR :=
      (\<lambda>c. Inr (c\<lparr>rlStatus := rlStatus sampleFailing\<rparr>))\<rparr>" and err = None])
  show "updateWith ((clusterScope (sampleExternal (Inl ErrReleaseNotFound)))\<lparr>scUpdateCR :=
      (\<lambda>c. Inr (c\<lparr>rlStatus := rlStatus sampleFailing\<rparr>))\<rparr>) sampleFailing =
    ([ERollback ''app''], sampleRetried, None)"
    by (simp add: updateWith_def shouldRollBack_def rollBackEnabled_def rollBackLimitReached_def
      sampleRelease_def sampleSpec_def sampleStatus_def Let_def zeroObservation_def sampleHelm_def)
qed (simp_all add: keepsObject_def answersStored_def)

lemma sample_store_step:
  "handler_step (sampleRetried, rlStatus sampleFailing) (HStore, []) (sampleRetried, rlStatus sampleRetried)"
proof -
  have "rlStatus sampleRetried = (rlStatus sampleRetried)\<lparr>stReady := None\<rparr>"
    by (rule ReleaseStatus.equality) (simp_all add: sampleStatus_def sampleRelease_def)
  from hs_store [OF this] show ?thesis by simp
qed

theorem retry_counter_bounded_witness:
  "\<exists>tr cr' st'. handler_steps (sampleFailing, rlStatus sampleFailing) tr (cr', st')
    \<and> stFailed st' = 1 \<and> sint (stFailed st') \<le> max 0 (sint (1 :: 32 word))"
proof -
  have "handler_steps (sampleFailing, rlStatus sampleFailing)
      (([] @ [(HUpdate, [ERollback ''app''])]) @ [(HStore, [])]) (sampleRetried, rlStatus sampleRetried)"
    by (rule steps_snoc [OF steps_snoc [OF steps_nil sample_retry_step] sample_store_step])
  from this retry_counter_bounded [OF this] show ?thesis by fastforce
qed

text \<open>C12: Retries are limited: as long as the count is not lost (no observation resets it, and no
  answer of the API server has a status from before a retry), the updates of a release roll back or
  uninstall at most as often as the limit says.\<close>

theorem retries_limited:
  assumes "counted_steps (cr, st) tr s'" and "stFailed (rlStatus cr) = 0" and "stFailed st = 0"
    and "spRollbackRetriesLimit (rlSpec cr) = Some l"
  shows "int (retriesOf tr) \<le> max 0 (sint l)"
proof -
  have "counterOk (cr, st)" using assms(2,3) by (simp add: counterOk_def)
  from counted_retries [OF assms(1) this] assms(2-4) show ?thesis
    by (simp add: counterOk_def retryBound_def)
qed

theorem retries_limited_witness:
  "\<exists>tr s'. counted_steps (sampleFailing, rlStatus sampleFailing) tr s'
    \<and> retriesOf tr = 1 \<and> int (retriesOf tr) \<le> max 0 (sint (1 :: 32 word))"
proof -
  let ?tr = "([] @ [(HUpdate, [ERollback ''app'' :: ClusterRelease effect])]) @ [(HStore, [])]"
  have "counted_steps (sampleFailing, rlStatus sampleFailing) ?tr (sampleRetried, rlStatus sampleRetried)"
    by (rule counted_snoc [OF counted_snoc [OF counted_nil sample_retry_step] sample_store_step]) simp_all
  from this retries_limited [OF this] have "int (retriesOf ?tr) \<le> max 0 (sint (1 :: 32 word))" by simp
  moreover have "retriesOf ?tr = 1" by simp
  ultimately show ?thesis using \<open>counted_steps _ ?tr _\<close> by blast
qed

text \<open>What an update does with a failed release, or one stuck in a pending install or upgrade, when
  a limit is set: below the limit it counts one retry and uninstalls the first revision or rolls back
  any later one, with Helm's answer as its result; at the limit it does nothing and reports success.
  It never upgrades.\<close>

lemma update_retries:
  assumes "spRollbackRetriesLimit (rlSpec cr) = Some l"
    and "stSynced (rlStatus cr) \<and> obsState (atProvider cr) = StatusFailed
      \<or> obsState (atProvider cr) \<in> {StatusPendingInstall, StatusPendingUpgrade}"
  shows "UpdateRelease E (MgCluster cr) =
    (if sint l \<le> sint (stFailed (rlStatus cr)) then ([], MgCluster cr, None)
     else let cr' = mapStatus (\<lambda>st. st\<lparr>stFailed := stFailed st + 1\<rparr>) cr in
       if obsRevision (atProvider cr) = 1
       then ([EUninstall (mdExternalName cr)], MgCluster cr', hcUninstall (heHelm E) (mdExternalName cr))
       else ([ERollback (mdExternalName cr)], MgCluster cr', hcRollback (heHelm E) (mdExternalName cr)))"
proof -
  have "shouldRollBack cr" using assms by (auto simp: shouldRollBack_def rollBackEnabled_def)
  with assms(1) show ?thesis by (simp add: UpdateRelease_def updateWith_def Let_def)
qed

text \<open>How a failed release that matches its specification is observed: it is reported as up to date
  without a limit, or when the retries are used up, and as outdated while retries are left; it is
  never available and its counter is kept.\<close>

lemma observe_failed_release:
  assumes "hcGetLastRelease (heHelm E) (mdExternalName cr) = Inr (Some rel)" and "\<not> mdDeleted cr"
    and "hrInfo rel = Some i" and "riStatus i = StatusFailed"
    and "isUpToDate (heLib E) (heLocalKube E) (rlSpec cr) rel (rlStatus (observed cr rel)) = Inr True"
  shows "\<exists>cr'. Observe E (MgCluster cr) =
      (MgCluster cr', Inr \<lparr>eoResourceExists = True,
         eoResourceUpToDate = (case spRollbackRetriesLimit (rlSpec cr) of
            None \<Rightarrow> True | Some l \<Rightarrow> sint l \<le> sint (stFailed (rlStatus cr))),
         eoConnectionDetails = []\<rparr>)
    \<and> stReady (rlStatus cr') = Some Unavailable \<and> stFailed (rlStatus cr') = stFailed (rlStatus cr)"
proof -
  have failed: "obsState (generateObservation rel) = StatusFailed" using assms(3,4) by simp
  have "observeWith (clusterScope E) cr = finishObserve (unavailable cr rel True) []"
    using assms failed by (intro observe_unavailable) simp_all
  then show ?thesis
    using failed
    by (auto simp: Observe_def finishObserve_def resourceUpToDate_def shouldRollBack_def
        rollBackEnabled_def split: option.split)
qed

lemma sample_up_to_date:
  assumes "rlSpec cr = rlSpec (sampleRelease l x)" and "hrInfo rel = Some i" and "\<not> isPending (riStatus i)"
    and "hrChart rel = Some sampleChart" and "hrConfig rel = Some [(''raw'', VStr ''x'')]"
    and "stPatchesSha st = []"
  shows "isUpToDate sampleLib (sampleKube :: ClusterRelease kube) (rlSpec cr) rel st = Inr True"
proof -
  have "composeValuesFromSpec sampleLib (sampleKube :: ClusterRelease kube)
      \<lparr>ValuesRaw = ''x'', ValuesFrom = [], SetVals = []\<rparr> = Inr [(''raw'', VStr ''x'')]"
    by (simp add: composeValuesFromSpec_def composeValues_def sampleLib_def mergeMaps_Cons)
  with assms show ?thesis
    by (auto simp: isUpToDate_def upToDate_True sampleRelease_def sampleSpec_def sampleChart_def
        hasUpdates_def getFromSpec_def shaOf_def hasAny_def)
qed

text \<open>C37: A release in a pending state is never up to date and never available. What the next update
  does with it depends on the state: with a limit, a pending install or upgrade is not deployed over
  (it is rolled back or left); without a limit, and always for a pending rollback, the release is
  deployed over.\<close>

theorem pending_release:
  assumes "hcGetLastRelease (heHelm E) (mdExternalName cr) = Inr (Some rel)" and "\<not> mdDeleted cr"
    and "hrInfo rel = Some i" and "isPending (riStatus i)"
  shows "\<exists>cr'. Observe E (MgCluster cr) = (MgCluster cr', Inr \<lparr>eoResourceExists = True,
        eoResourceUpToDate = False, eoConnectionDetails = []\<rparr>)
    \<and> stReady (rlStatus cr') = Some Unavailable \<and> \<not> stSynced (rlStatus cr')
    \<and> (\<forall>E' es mg err. UpdateRelease E' (MgCluster cr') = (es, mg, err) \<longrightarrow>
        (if spRollbackRetriesLimit (rlSpec cr) \<noteq> None \<and> riStatus i \<noteq> StatusPendingRollback
         then (\<forall>n c v p. EUpgrade n c v p \<notin> set es \<and> EInstall n c v p \<notin> set es)
         else (\<exists>c e. deploy E' cr' UpgradeAction = (es, c, e) \<and> mg = MgCluster c
           \<and> err = WrapNil e errFailedToUpgrade)))"
proof -
  let ?cr' = "unavailable cr rel False"
  have state: "obsState (generateObservation rel) = riStatus i" using assms(3) by simp
  have "riStatus i \<noteq> StatusDeployed" using assms(4) by auto
  have "scUpToDate (clusterScope E) (observed cr rel) rel = Inr False"
    using assms(3,4) by (simp add: isUpToDate_def upToDate_def)
  then have "observeWith (clusterScope E) cr = finishObserve ?cr' []"
    using assms(1,2) by (intro observe_unavailable) simp_all
  then have "Observe E (MgCluster cr) = (MgCluster ?cr',
      Inr \<lparr>eoResourceExists = True, eoResourceUpToDate = False, eoConnectionDetails = []\<rparr>)"
    by (simp add: Observe_def finishObserve_def resourceUpToDate_def)
  moreover have rollback: "shouldRollBack ?cr' \<longleftrightarrow>
      spRollbackRetriesLimit (rlSpec cr) \<noteq> None \<and> riStatus i \<noteq> StatusPendingRollback"
    using assms(4) state by (auto simp: shouldRollBack_def rollBackEnabled_def isPending_def)
  have "if shouldRollBack ?cr' then (\<forall>n c v p. EUpgrade n c v p \<notin> set es \<and> EInstall n c v p \<notin> set es)
      else (\<exists>c e. deploy E' ?cr' UpgradeAction = (es, c, e) \<and> mg = MgCluster c
        \<and> err = WrapNil e errFailedToUpgrade)"
    if u: "UpdateRelease E' (MgCluster ?cr') = (es, mg, err)" for E' es mg err
  proof -
    obtain c' where u': "updateWith (clusterScope E') ?cr' = (es, c', err)" "mg = MgCluster c'"
      using u by (auto simp: UpdateRelease_def split: prod.splits)
    from u'(1) show ?thesis
    proof (cases rule: update_cases)
      case (upgrade e)
      with u'(2) show ?thesis by (simp add: deploy_def)
    qed simp_all
  qed
  ultimately show ?thesis unfolding rollback by (intro exI [of _ ?cr']) auto
qed

theorem pending_release_witness:
  "\<exists>cr'. Observe (sampleExternal (Inr (Some (sampleHelmRelease StatusPendingRollback sampleChart []))))
      (MgCluster (sampleRelease (Some 1) (sampleStatus StatusDeployed 1 True))) =
    (MgCluster cr', Inr \<lparr>eoResourceExists = True, eoResourceUpToDate = False, eoConnectionDetails = []\<rparr>)
    \<and> (\<exists>es c e. deploy (sampleExternal (Inr None)) cr' UpgradeAction = (es, c, e)
        \<and> UpdateRelease (sampleExternal (Inr None)) (MgCluster cr') =
          (es, MgCluster c, WrapNil e errFailedToUpgrade))"
proof -
  let ?rel = "sampleHelmRelease StatusPendingRollback sampleChart []"
  let ?cr = "sampleRelease (Some 1) (sampleStatus StatusDeployed 1 True)"
  have "hcGetLastRelease (heHelm (sampleExternal (Inr (Some ?rel)))) (mdExternalName ?cr) = Inr (Some ?rel)"
    "\<not> mdDeleted ?cr" "hrInfo ?rel = Some \<lparr>riStatus = StatusPendingRollback, riDescription = ''done''\<rparr>"
    "isPending (riStatus \<lparr>riStatus = StatusPendingRollback, riDescription = ''done''\<rparr>)"
    by (simp_all add: sampleHelm_def sampleRelease_def sampleHelmRelease_def)
  from pending_release [OF this] obtain cr' where o: "Observe (sampleExternal (Inr (Some ?rel))) (MgCluster ?cr) =
      (MgCluster cr', Inr \<lparr>eoResourceExists = True, eoResourceUpToDate = False, eoConnectionDetails = []\<rparr>)"
    and u: "\<forall>E' es mg err. UpdateRelease E' (MgCluster cr') = (es, mg, err) \<longrightarrow>
      (\<exists>c e. deploy E' cr' UpgradeAction = (es, c, e) \<and> mg = MgCluster c \<and> err = WrapNil e errFailedToUpgrade)"
    by auto
  obtain es mg err where "UpdateRelease (sampleExternal (Inr None)) (MgCluster cr') = (es, mg, err)"
    by (cases "UpdateRelease (sampleExternal (Inr None)) (MgCluster cr')")
  with u o show ?thesis by blast
qed

section \<open>Panics\<close>

text \<open>C17: Observe never panics, whatever is stored in Helm and in the specification, as long as its
  libraries and clients do not: in particular the limit is never read when it is not set, and
  missing parts of the stored release are errors.\<close>

theorem observe_never_panics:
  assumes "kubeNoPanic (heLocalKube E)" and "libNoPanic (heLib E)" and "hePatch E = newPatcher (heLib E)"
    and "\<forall>u nn e. kObject (heKube E) u nn = Inl e \<longrightarrow> \<not> IsPanic e"
    and "\<forall>n e. hcGetLastRelease (heHelm E) n = Inl e \<longrightarrow> \<not> IsPanic e"
    and "snd (Observe E mg) = Inl e"
  shows "\<not> IsPanic e"
proof (cases mg)
  case (MgCluster cr)
  have "snd (observeWith (clusterScope E) cr) = Inl e"
    using assms(6) MgCluster by (simp add: Observe_def split: prod.splits)
  moreover have "\<not> IsPanic x" if "scUpToDate (clusterScope E) c r = Inl x" for c r x
    using that [unfolded clusterScope_simps isUpToDate_def] cluster_source.compose_no_panic [OF assms(1,2)]
      hasUpdates_no_panic [OF assms(1,2)]
    by (elim upToDate_no_panic) (simp_all add: composeValuesFromSpec_def)
  moreover have "\<not> IsPanic x" if "scConnection (clusterScope E) c r = Inl x" for c r x
  proof -
    have "connectionDetails (heLib E) (heKube E) (spConnectionDetails (rlSpec c)) (hrName r) (hrNamespace r) = Inl x"
      using that by simp
    then show ?thesis by (rule connectionDetails_no_panic(1) [OF _ assms(2), rotated]) (use assms(4) in blast)
  qed
  ultimately show ?thesis using assms(5) observe_no_panic [of "clusterScope E" cr] by simp
qed (use assms(6) in \<open>auto simp: Observe_def\<close>)

theorem observe_never_panics_witness:
  "\<exists>e. snd (Observe (sampleExternal (Inr (Some (sampleHelmRelease StatusFailed sampleChart []\<lparr>hrChart := None\<rparr>))))
      (MgCluster (sampleRelease None (sampleStatus StatusDeployed 1 True)))) = Inl e \<and> \<not> IsPanic e"
proof -
  let ?rel = "sampleHelmRelease StatusFailed sampleChart []\<lparr>hrChart := None\<rparr>"
  let ?E = "sampleExternal (Inr (Some ?rel))"
  let ?cr = "sampleRelease None (sampleStatus StatusDeployed 1 True)"
  have "scUpToDate (clusterScope ?E) (observed ?cr ?rel) ?rel = Inl (ErrNew errChartNilInObservedRelease)"
    by (simp add: isUpToDate_def upToDate_def sampleHelmRelease_def)
  then obtain e where e: "snd (Observe ?E (MgCluster ?cr)) = Inl e"
    using observe_check_error [of "clusterScope ?E" ?cr ?rel]
    by (simp add: Observe_def sampleHelm_def sampleRelease_def)
  moreover have "\<forall>u nn e. kObject (heKube ?E) u nn = Inl e \<longrightarrow> \<not> IsPanic e"
    "\<forall>n e. hcGetLastRelease (heHelm ?E) n = Inl e \<longrightarrow> \<not> IsPanic e"
    by (auto simp: sampleKube_def sampleHelm_def)
  ultimately have "\<not> IsPanic e" by (intro observe_never_panics [of ?E]) simp_all
  with e show ?thesis by blast
qed

lemma keychain_Inr: "\<exists>c. resolveCredentialsFromKeychain A kc repo = Inr c"
  by (simp add: resolveCredentialsFromKeychain_def split: sum.split)

lemma ResolveCluster_no_panic:
  assumes "kubeNoPanic k" and "\<And>s e. alNewRepository A s = Inl e \<Longrightarrow> \<not> IsPanic e"
    and "ResolveCluster A k c = Inl x"
  shows "\<not> IsPanic x"
proof (cases "srName (csPullSecretRef (chartOf c)) = []")
  case True
  then show ?thesis
    using assms(2,3) keychain_Inr [of A createKeychain]
    by (auto simp: ResolveCluster_def Let_def resolveKeychainAuth_def parseRegistryReference_def
        bindE_eq_Inl wrapE_eq_Inl) (metis Inl_Inr_False)
next
  case False
  then show ?thesis
    using assms(3) resolveSecretCredentials_no_panic [OF assms(1)]
    by (auto simp: ResolveCluster_def Let_def split: if_splits)
qed

text \<open>C18: A deployment panics only if a library or client does, provided that a chart that was pulled
  has metadata (which Helm's loader checks).\<close>

theorem deploy_never_panics:
  assumes "kubeNoPanic (heLocalKube E)" and "libNoPanic (heLib E)" and "hePatch E = newPatcher (heLib E)"
    and "\<forall>s e. alNewRepository (heAuth E) s = Inl e \<longrightarrow> \<not> IsPanic e"
    and "\<forall>c e. kUpdate (heLocalKube E) c = Inl e \<longrightarrow> \<not> IsPanic e"
    and "\<forall>mg k e. hcPullAndLoadChart (heHelm E) mg k = Inl e \<longrightarrow> \<not> IsPanic e"
    and "\<forall>n c v p e. runAction (heHelm E) a n c v p = Inl e \<longrightarrow> \<not> IsPanic e"
    and "\<forall>mg k chart. hcPullAndLoadChart (heHelm E) mg k = Inr chart \<longrightarrow> chMetadata chart \<noteq> None"
    and "deploy E cr a = (es, cr', Some e)"
  shows "\<not> IsPanic e"
proof (rule deploy_no_panic [OF assms(9) [unfolded deploy_def]])
  show "scCompose (clusterScope E) c = Inl x \<Longrightarrow> \<not> IsPanic x" for c x
    using cluster_source.compose_no_panic [OF assms(1,2)] by (simp add: composeValuesFromSpec_def)
  show "scPatches (clusterScope E) c = Inl x \<Longrightarrow> \<not> IsPanic x" for c x
    using cluster_source.loadPatches_no_panic [OF assms(1,2)] assms(3) by (simp add: getFromSpec_def)
  show "scShaOf (clusterScope E) p = Inl x \<Longrightarrow> \<not> IsPanic x" for p x
    using shaOf_no_panic [OF assms(2)] assms(3) by simp
  show "scCreds (clusterScope E) c = Inl x \<Longrightarrow> \<not> IsPanic x" for c x
    using assms(4) by (auto dest: ResolveCluster_no_panic [OF assms(1), rotated])
qed (use assms in \<open>simp_all\<close>)

theorem deploy_never_panics_witness:
  "\<exists>es cr' e. deploy (sampleExternal (Inl ErrReleaseNotFound)\<lparr>heLocalKube := sampleKube\<lparr>kUpdate :=
      (\<lambda>c. Inl (ErrExt ''conflict''))\<rparr>\<rparr>) (sampleRelease None (sampleStatus StatusDeployed 1 True)) InstallAction =
      (es, cr', Some e) \<and> \<not> IsPanic e"
proof -
  let ?E = "sampleExternal (Inl ErrReleaseNotFound)\<lparr>heLocalKube := sampleKube\<lparr>kUpdate :=
      (\<lambda>c. Inl (ErrExt ''conflict''))\<rparr>\<rparr>"
  obtain es cr' e where d: "deploy ?E (sampleRelease None (sampleStatus StatusDeployed 1 True)) InstallAction = (es, cr', Some e)"
    by (simp add: deploy_def deployWith_def sample_defs clusterScope_def composeValuesFromSpec_def
      composeValues_def ResolveCluster_def Let_def registryURLOf_def resolveKeychainAuth_def
      parseRegistryReference_def resolveCredentialsFromKeychain_def newPatcher_def getFromSpec_def
      shaOf_def lateInitialize_def shouldLateInit_def hasAny_def split: prod.split)
  then have "\<not> IsPanic e"
    by (rule deploy_never_panics [rotated -1])
      (auto simp: kubeNoPanic_def sampleKube_def sampleAuth_def sampleHelm_def sampleChart_def)
  with d show ?thesis by blast
qed

section \<open>Effects\<close>

text \<open>C8: Nothing is deployed before everything it is made of is there: a deployment runs at most one
  Helm action, as its last effect, with the composed values, the loaded patches and the pulled
  chart, and after the late-initialized specification was written back.\<close>

theorem deploy_effects_order:
  assumes "deploy E cr a = (es, cr', err)"
  shows "(filter isHelmAction es = [] \<and> err \<noteq> None)
    \<or> (\<exists>pre n c v p creds. es = pre @ [actionEffect a n c v p] \<and> filter isHelmAction pre = []
        \<and> composeValuesFromSpec (heLib E) (heLocalKube E) (fpValuesSpec (forProvider cr)) = Inr v
        \<and> ResolveCluster (heAuth E) (heLocalKube E) cr = Inr creds
        \<and> paGetFromSpec (hePatch E) (heLocalKube E) (fpPatchesFrom (forProvider cr)) = Inr p
        \<and> hcPullAndLoadChart (heHelm E) (MgCluster cr) creds = Inr c
        \<and> (\<exists>cr1 u. lateInitialize cr c = Inr (cr1, u)
             \<and> (u \<longrightarrow> pre = [EPull creds, EUpdateCR cr1] \<and> (\<exists>cr2. kUpdate (heLocalKube E) cr1 = Inr cr2))))"
  using assms [unfolded deploy_def]
proof (cases rule: deploy_effects)
  case early
  then show ?thesis by auto
next
  case (update_failed creds chart cr1)
  then show ?thesis by simp
next
  case (acted cv creds p chart cr1 upd cr2)
  show ?thesis
  proof (rule disjI2, intro exI conjI)
    show "es = (EPull creds # (if upd then [EUpdateCR cr1] else [])) @ [actionEffect a (mdExternalName cr2) chart cv p]"
      using acted(7) by simp
    show "lateInitialize cr chart = Inr (cr1, upd)" by (rule acted(5))
    show "upd \<longrightarrow> EPull creds # (if upd then [EUpdateCR cr1] else []) = [EPull creds, EUpdateCR cr1]
        \<and> (\<exists>cr2. kUpdate (heLocalKube E) cr1 = Inr cr2)"
      using acted(6) by auto
  qed (use acted(1-4) in auto)
qed

theorem deploy_effects_order_witness:
  "\<exists>es cr'. deploy (sampleExternal (Inl ErrReleaseNotFound)) (sampleRelease None (sampleStatus StatusDeployed 1 True))
      InstallAction = (es, cr', None) \<and> filter isHelmAction es \<noteq> []"
proof -
  obtain es cr' where d: "deploy (sampleExternal (Inl ErrReleaseNotFound))
      (sampleRelease None (sampleStatus StatusDeployed 1 True)) InstallAction = (es, cr', None)"
    using sample_deploy by blast
  from deploy_effects_order [OF this] d show ?thesis by auto
qed

section \<open>What is recorded\<close>

text \<open>A successful deployment records in the status the digest of the patches it deployed, the
  digest of the chart specification, the state and revision Helm returned, and whether ownership was
  asked for.\<close>

lemma deployment_recorded:
  assumes "deploy E cr a = (es, cr', None)" and "keepsObject (clusterScope E)"
  shows "\<exists>p sha rel n c v. paGetFromSpec (hePatch E) (heLocalKube E) (fpPatchesFrom (forProvider cr)) = Inr p
    \<and> paShaOf (hePatch E) p = Inr sha \<and> runAction (heHelm E) a n c v p = Inr (Some rel)
    \<and> stPatchesSha (rlStatus cr') = sha
    \<and> atProvider cr' = (generateObservation rel)\<lparr>obsDigest := csDigest (chartOf cr),
        obsOwnershipTaken := fpTakeOwnership (forProvider cr)\<rparr>"
proof -
  obtain cv creds p chart cr1 upd cr2 rel sha where
    d: "scPatches (clusterScope E) cr = Inr p" "lateInitialize cr chart = Inr (cr1, upd)"
      "(if upd then scUpdateCR (clusterScope E) cr1 else Inr cr1) = Inr cr2"
      "runAction (scHelm (clusterScope E)) a (mdExternalName cr2) chart cv p = Inr (Some rel)"
      "scShaOf (clusterScope E) p = Inr sha" "cr' = recordDeployment cr2 rel sha"
    using deploy_success [OF assms(1) [unfolded deploy_def]] by metis
  note k = keepsObjectD [OF assms(2) d(3)] and l = lateInitialize_frame [OF d(2)]
  have "atProvider (recordDeployment cr2 rel sha) = (generateObservation rel)\<lparr>obsDigest := csDigest (chartOf cr2),
      obsOwnershipTaken := fpTakeOwnership (forProvider cr2)\<rparr>"
    by (auto simp: recordDeployment_def Let_def intro!: ReleaseObservation.equality)
  with d k l show ?thesis
    by (intro exI [of _ p] exI [of _ sha] exI [of _ rel] exI [of _ "mdExternalName cr2"] exI [of _ chart]
        exI [of _ cv]) simp
qed

text \<open>C19: Late initialization fills in what the user left empty and nothing else: the name of the chart,
  and the version unless a digest is given, both from the metadata of the pulled chart, and only if
  the management policies allow it; whatever happens, every other field of the specification of the
  chart and every other part of the specification stay as they were.\<close>

theorem late_initialization_conservative:
  assumes "deploy E cr a = (es, cr', err)" and "keepsObject (clusterScope E)"
  shows "\<exists>n v. rlSpec cr' = rlSpec (mapChart (\<lambda>c. c\<lparr>csName := n, csVersion := v\<rparr>) cr)
    \<and> (n \<noteq> csName (chartOf cr) \<longrightarrow> csName (chartOf cr) = [] \<and> shouldLateInit cr)
    \<and> (v \<noteq> csVersion (chartOf cr) \<longrightarrow> csVersion (chartOf cr) = [] \<and> csDigest (chartOf cr) = [] \<and> shouldLateInit cr)
    \<and> ((n \<noteq> csName (chartOf cr) \<or> v \<noteq> csVersion (chartOf cr)) \<longrightarrow>
        (\<exists>creds c m. hcPullAndLoadChart (heHelm E) (MgCluster cr) creds = Inr c \<and> chMetadata c = Some m
          \<and> n \<in> {csName (chartOf cr), cmName m} \<and> v \<in> {csVersion (chartOf cr), cmVersion m}))"
proof -
  have same: ?thesis if "rlSpec cr' = rlSpec cr"
    using that by (intro exI [of _ "csName (chartOf cr)"] exI [of _ "csVersion (chartOf cr)"]) simp
  have li: ?thesis if l: "lateInitialize cr chart = Inr (cr1, u)" and s: "rlSpec cr' = rlSpec cr1"
    and p: "hcPullAndLoadChart (heHelm E) (MgCluster cr) creds = Inr chart" for chart cr1 u creds
    using l
  proof (cases rule: lateInitialize_Inr)
    case same
    with s show ?thesis using \<open>rlSpec cr' = rlSpec cr \<Longrightarrow> ?thesis\<close> by simp
  next
    case (filled m)
    show ?thesis
      using filled s p
      by (intro exI [of _ "if csName (chartOf cr) = [] then cmName m else csName (chartOf cr)"]
          exI [of _ "if csVersion (chartOf cr) = [] \<and> csDigest (chartOf cr) = [] then cmVersion m
            else csVersion (chartOf cr)"]) auto
  qed
  from assms(1) [unfolded deploy_def] show ?thesis
  proof (cases rule: deploy_effects)
    case early
    then show ?thesis using same by simp
  next
    case (update_failed creds chart cr1)
    then show ?thesis using li by simp
  next
    case (acted cv creds p chart cr1 upd cr2)
    from keepsObjectD(1) [OF assms(2) acted(6)] acted(8) have "rlSpec cr' = rlSpec cr1" by auto
    with acted(4,5) show ?thesis using li by simp
  qed
qed

theorem late_initialization_conservative_witness:
  "\<exists>es cr' n v. deploy (sampleExternal (Inl ErrReleaseNotFound)) sampleBlank InstallAction = (es, cr', None)
    \<and> csName (chartOf cr') = ''app'' \<and> csVersion (chartOf cr') = ''1.0.0''
    \<and> rlSpec cr' = rlSpec (mapChart (\<lambda>c. c\<lparr>csName := n, csVersion := v\<rparr>) sampleBlank)"
proof -
  obtain es cr' where d: "deploy (sampleExternal (Inl ErrReleaseNotFound)) sampleBlank InstallAction = (es, cr', None)"
    "csName (chartOf cr') = ''app''" "csVersion (chartOf cr') = ''1.0.0''"
    using sample_blank_deploy by blast
  from late_initialization_conservative [OF d(1) sample_keepsObject(1)] d show ?thesis by blast
qed

lemma Observe_cluster:
  "Observe E (MgCluster cr) =
     (MgCluster (fst (observeWith (clusterScope E) cr)), snd (observeWith (clusterScope E) cr))"
  by (simp add: Observe_def split_beta)

lemma observe_found:
  assumes "hcGetLastRelease (scHelm H) (mdExternalName cr) = Inr (Some rel)"
  shows "\<not> obsOwnershipTaken (atProvider (fst (observeWith H cr)))"
  by (cases rule: observe_cases [of H cr]) (use assms in simp_all)

text \<open>C16: Taking ownership is not a one-time action: once a release of Helm has been observed, the
  status has forgotten that ownership was taken, and the client that is connected for the observed
  object asks for it again whenever the specification says so.\<close>

theorem ownership_taken_again:
  assumes "hcGetLastRelease (heHelm E) (mdExternalName cr) = Inr (Some rel)"
    and "Observe E (MgCluster cr) = (MgCluster cr', r)"
  shows "agTakeOwnership (withRelease cr' args) \<longleftrightarrow> fpTakeOwnership (forProvider cr)"
proof -
  have cr': "cr' = fst (observeWith (clusterScope E) cr)"
    using assms(2) by (simp add: Observe_def split: prod.splits)
  have "\<not> obsOwnershipTaken (atProvider cr')"
    unfolding cr' using assms(1) by (intro observe_found) simp
  moreover have "rlSpec cr' = rlSpec cr" unfolding cr' by (rule observe_frame)
  ultimately show ?thesis by (simp add: withRelease_def)
qed

theorem ownership_taken_again_witness:
  "\<exists>cr' r. Observe (sampleExternal (Inr (Some (sampleHelmRelease StatusDeployed sampleChart []))))
      (MgCluster (mapObs (\<lambda>o'. o'\<lparr>obsOwnershipTaken := True\<rparr>) (sampleRelease None (sampleStatus StatusDeployed 1 True)))) =
      (MgCluster cr', r)
    \<and> agTakeOwnership (withRelease cr' zeroArgs)"
proof -
  let ?E = "sampleExternal (Inr (Some (sampleHelmRelease StatusDeployed sampleChart [])))"
  let ?cr = "mapObs (\<lambda>o'. o'\<lparr>obsOwnershipTaken := True\<rparr>) (sampleRelease None (sampleStatus StatusDeployed 1 True))"
  obtain cr' r where o: "Observe ?E (MgCluster ?cr) = (MgCluster cr', r)"
    using Observe_cluster by blast
  have g: "hcGetLastRelease (heHelm ?E) (mdExternalName ?cr) =
      Inr (Some (sampleHelmRelease StatusDeployed sampleChart []))" by (simp add: sampleHelm_def)
  have "fpTakeOwnership (forProvider ?cr)" by (simp add: sampleRelease_def sampleSpec_def)
  with ownership_taken_again [OF g o] o show ?thesis by blast
qed

text \<open>C38: Observe has no say in what is wanted: it never changes the specification or the identity of a
  release, it keeps the recorded patch digest, and it resets the retry counter only for a release
  that is deployed and up to date.\<close>

theorem observe_changes_status_only:
  assumes "Observe E (MgCluster cr) = (MgCluster cr', r)"
  shows "rlSpec cr' = rlSpec cr \<and> mdExternalName cr' = mdExternalName cr
    \<and> stPatchesSha (rlStatus cr') = stPatchesSha (rlStatus cr)
    \<and> (stFailed (rlStatus cr') \<noteq> stFailed (rlStatus cr) \<longrightarrow> stFailed (rlStatus cr') = 0
        \<and> obsState (atProvider cr') = StatusDeployed \<and> stSynced (rlStatus cr'))"
proof -
  have "cr' = fst (observeWith (clusterScope E) cr)" using assms by (simp add: Observe_cluster)
  moreover have "stPatchesSha (rlStatus (fst (observeWith (clusterScope E) cr))) = stPatchesSha (rlStatus cr)"
    by (cases rule: observe_cases [of "clusterScope E" cr])
      (simp_all add: unavailable_def available_def synced_def)
  moreover have "stFailed (rlStatus (fst (observeWith (clusterScope E) cr))) \<noteq> stFailed (rlStatus cr) \<longrightarrow>
      stFailed (rlStatus (fst (observeWith (clusterScope E) cr))) = 0
      \<and> obsState (atProvider (fst (observeWith (clusterScope E) cr))) = StatusDeployed
      \<and> stSynced (rlStatus (fst (observeWith (clusterScope E) cr)))"
    by (cases rule: observe_cases [of "clusterScope E" cr]) (simp_all add: synced_def)
  ultimately show ?thesis using observe_frame [of "clusterScope E" cr] by simp
qed

theorem observe_changes_status_only_witness:
  "\<exists>cr' r. Observe (sampleExternal (Inr None)) (MgCluster (sampleRelease None (sampleStatus StatusDeployed 1 True))) =
      (MgCluster cr', r) \<and> rlSpec cr' = rlSpec (sampleRelease None (sampleStatus StatusDeployed 1 True))"
proof -
  obtain cr' r where o: "Observe (sampleExternal (Inr None))
      (MgCluster (sampleRelease None (sampleStatus StatusDeployed 1 True))) = (MgCluster cr', r)"
    using Observe_cluster by blast
  from observe_changes_status_only [OF o] o show ?thesis by blast
qed

text \<open>C9: Observing is stable in both scopes: whatever is observed, and whether that fails or not, as long as
  Helm and the cluster answer the same, observing any number of times leaves the resource as the
  first observation left it and gives the same answer. What is up to date stays so, what has to be
  deployed goes on to be reported until it is.\<close>

theorem observe_stable:
  "Observe E (((\<lambda>m. fst (Observe E m)) ^^ n) mg) = Observe E mg
   \<and> nsObserve E' (((\<lambda>m. fst (nsObserve E' m)) ^^ n) mg) = nsObserve E' mg"
proof -
  have "Observe E (fst (Observe E m)) = Observe E m" for m
    using observe_again [OF cluster_readsInput [of E]] by (cases m) (simp_all add: Observe_def split_beta)
  moreover have "nsObserve E' (fst (nsObserve E' m)) = nsObserve E' m" for m
    using observe_again [OF ns_readsInput [of E']] by (cases m) (simp_all add: nsObserve_def split_beta)
  ultimately show ?thesis by (induction n) simp_all
qed

section \<open>Creating the namespace\<close>

text \<open>A release is created in a namespace that exists: unless it is told not to, Create first asks for
  the namespace of the specification, takes an existing one for an answer, and deploys nothing if
  the namespace cannot be created.\<close>

lemma create_namespace_first:
  assumes "\<not> fpSkipCreateNamespace (forProvider cr)"
  shows "Create E (MgCluster cr) =
    (let e0 = ECreateNamespace (fpNamespace (forProvider cr)) [(''app.kubernetes.io/managed-by'', ''provider-helm'')] in
     case kCreateNamespace (heKube E) (fpNamespace (forProvider cr))
            [(''app.kubernetes.io/managed-by'', ''provider-helm'')] of
       Some e \<Rightarrow>
         (if IsAlreadyExists e then
            (case deploy E cr InstallAction of (es, cr', err) \<Rightarrow> (e0 # es, MgCluster cr', WrapNil err errFailedToInstall))
          else ([e0], MgCluster cr, Some (Wrap e errFailedToCreateNamespace)))
     | None \<Rightarrow>
         (case deploy E cr InstallAction of (es, cr', err) \<Rightarrow> (e0 # es, MgCluster cr', WrapNil err errFailedToInstall)))"
  using assms
  by (simp add: Create_def createNamespace_def helmNamespaceLabel_def helmProviderName_def Let_def
      split: option.split prod.split)

text \<open>A namespaced release whose specification names no namespace is deployed into the namespace of
  the managed resource, but the namespace that its Create asks for is the empty one.\<close>

lemma namespaced_create_empty_namespace:
  assumes "fpNamespace (forProvider cr) = []" and "\<not> fpSkipCreateNamespace (forProvider cr)"
    and "nsCreate E (MgNamespaced cr) = (es, mg, err)"
  shows "agNamespace (nsWithRelease cr args) = mdNamespace cr
    \<and> (\<exists>es'. es = ECreateNamespace [] [(''app.kubernetes.io/managed-by'', ''provider-helm'')] # es')"
  using assms
  by (auto simp: nsWithRelease_def nsCreate_def helmNamespaceLabel_def helmProviderName_def Let_def
      split: option.splits prod.splits)

section \<open>Isolation of namespaces\<close>

text \<open>What a handler depends on: the lookups of its scope, at the release it is called with.\<close>

lemma observe_depends:
  assumes helm: "scHelm H' = scHelm H"
    and check: "\<And>rel. scUpToDate H' (observed cr rel) rel = scUpToDate H (observed cr rel) rel"
    and connection: "\<And>rel. hcGetLastRelease (scHelm H) (mdExternalName cr) = Inr (Some rel) \<Longrightarrow>
      scConnection H' (synced cr rel) rel = scConnection H (synced cr rel) rel"
  shows "observeWith H' cr = observeWith H cr"
proof (cases "\<exists>rel. hcGetLastRelease (scHelm H) (mdExternalName cr) = Inr (Some rel)")
  case False
  then show ?thesis
    unfolding observeWith_def by (auto simp: helm split: sum.split option.split)
next
  case True
  then obtain rel where rel: "hcGetLastRelease (scHelm H) (mdExternalName cr) = Inr (Some rel)" by blast
  note rel' = rel [folded helm]
  consider (gone) "mdDeleted cr" | (err) e where "\<not> mdDeleted cr" "scUpToDate H (observed cr rel) rel = Inl e"
    | (up) "\<not> mdDeleted cr" "scUpToDate H (observed cr rel) rel = Inr True"
        "obsState (generateObservation rel) = StatusDeployed"
    | (down) u where "\<not> mdDeleted cr" "scUpToDate H (observed cr rel) rel = Inr u"
        "\<not> (obsState (generateObservation rel) = StatusDeployed \<and> u)"
    by (metis sumE)
  then show ?thesis
  proof cases
    case gone
    then show ?thesis by (simp add: observe_deleted [OF rel] observe_deleted [OF rel'])
  next
    case err
    then show ?thesis by (simp add: observe_check_error [OF rel] observe_check_error [OF rel'] check)
  next
    case up
    then show ?thesis
      by (simp add: observe_available [OF rel] observe_available [OF rel'] check connection [OF rel])
  next
    case down
    then show ?thesis
      using observe_unavailable [OF rel down] observe_unavailable [OF rel', of u] check by simp
  qed
qed

lemma deploy_depends:
  assumes "scHelm H' = scHelm H" and "scShaOf H' = scShaOf H" and "scUpdateCR H' = scUpdateCR H"
    and "scPull H' cr = scPull H cr" and "scCompose H' cr = scCompose H cr"
    and "scCreds H' cr = scCreds H cr" and "scPatches H' cr = scPatches H cr"
  shows "deployWith H' cr a = deployWith H cr a" and "updateWith H' cr = updateWith H cr"
proof -
  show d: "deployWith H' cr a = deployWith H cr a" for a unfolding deployWith_def assms by (rule refl)
  show "updateWith H' cr = updateWith H cr" unfolding updateWith_def assms(1) d by (rule refl)
qed

text \<open>C10: The namespaced controller reads no other tenant's data. Of the cluster it runs in, a release
  sees the secrets and config maps of its own namespace only; of the target cluster, Observe sees
  objects in the namespace of the Helm release only (which the specification may choose). In any
  two worlds that agree on these, Observe, Create, Update and Delete have the same effects, the same
  result and leave the same release.\<close>

theorem namespace_isolation:
  assumes "\<forall>nn. nnNamespace nn = mdNamespace cr \<longrightarrow>
      kSecret k nn = kSecret (heLocalKube E) nn \<and> kConfigMap k nn = kConfigMap (heLocalKube E) nn"
    and "\<forall>rel u nn. hcGetLastRelease (heHelm E) (mdExternalName cr) = Inr (Some rel) \<longrightarrow>
      nnNamespace nn = hrNamespace rel \<longrightarrow> kObject k' u nn = kObject (heKube E) u nn"
    and "kUpdate k = kUpdate (heLocalKube E)" and "kCreateNamespace k' = kCreateNamespace (heKube E)"
    and "hePatch E = nsNewPatcher (heLib E)"
  shows "nsObserve (E\<lparr>heLocalKube := k, heKube := k'\<rparr>) (MgNamespaced cr) = nsObserve E (MgNamespaced cr)
    \<and> nsCreate (E\<lparr>heLocalKube := k, heKube := k'\<rparr>) (MgNamespaced cr) = nsCreate E (MgNamespaced cr)
    \<and> nsUpdateRelease (E\<lparr>heLocalKube := k, heKube := k'\<rparr>) (MgNamespaced cr) = nsUpdateRelease E (MgNamespaced cr)
    \<and> nsDelete (E\<lparr>heLocalKube := k, heKube := k'\<rparr>) (MgNamespaced cr) = nsDelete E (MgNamespaced cr)"
proof -
  let ?E' = "E\<lparr>heLocalKube := k, heKube := k'\<rparr>"
  note reads = namespace_reads [OF assms(1)]
  have obs: "observeWith (nsScope ?E') cr = observeWith (nsScope E) cr"
  proof (rule observe_depends)
    fix rel
    show "scUpToDate (nsScope ?E') (observed cr rel) rel = scUpToDate (nsScope E) (observed cr rel) rel"
      using reads by simp
    assume "hcGetLastRelease (scHelm (nsScope E)) (mdExternalName cr) = Inr (Some rel)"
    then show "scConnection (nsScope ?E') (synced cr rel) rel = scConnection (nsScope E) (synced cr rel) rel"
      using assms(2) by (simp add: connection_details_tenancy)
  qed simp
  have dep: "deployWith (nsScope ?E') cr a = deployWith (nsScope E) cr a"
    "updateWith (nsScope ?E') cr = updateWith (nsScope E) cr" for a
    by (rule deploy_depends; use reads assms(3,5) in simp)+
  have "nsCreateNamespace k' n = nsCreateNamespace (heKube E) n" for n
    by (simp add: nsCreateNamespace_def assms(4))
  then have ns: "nsCreateNamespace (heKube ?E') n = nsCreateNamespace (heKube E) n" for n by simp
  have "nsCreate ?E' (MgNamespaced cr) = nsCreate E (MgNamespaced cr)"
    unfolding nsCreate_def nsDeploy_def Managed.case dep ns by (rule refl)
  with obs dep show ?thesis by (simp add: nsObserve_def nsUpdateRelease_def nsDelete_def)
qed

text \<open>An upgrade of a release whose chart version is late-initialized.\<close>

lemma sample_nsUpdate:
  "\<exists>es cr'. nsUpdateRelease (sampleNsExternal (Inr None))
      (MgNamespaced (sampleNsRelease None (sampleStatus StatusDeployed 1 True))) = (es, MgNamespaced cr', None)
    \<and> csVersion (chartOf cr') = ''1.0.0''
    \<and> filter isHelmAction es = [EUpgrade ''app'' sampleChart [(''raw'', VStr ''x'')] []]"
  by (simp add: nsUpdateRelease_def updateWith_def shouldRollBack_def rollBackEnabled_def deployWith_def sample_defs
      nsScope_def nsComposeValuesFromSpec_def composeValues_def ResolveNamespaced_def Let_def mergeMaps_Cons
      resolveSecretCredentials_def sampleSecret_def dataAt_def keyRepoUsername_def keyRepoPassword_def
      nsNewPatcher_def nsGetFromSpec_def shaOf_def lateInitialize_def shouldLateInit_def hasAny_def
      recordDeployment_def split: prod.split)

text \<open>The pull secret of the release is in \<open>team-a\<close>; the secrets of \<open>team-b\<close> and the objects of the target
  cluster are others.\<close>

theorem namespace_isolation_witness:
  "let k = sampleKube\<lparr>kSecret := (\<lambda>nn. if nnNamespace nn = ''team-b'' then Inr None else kSecret (sampleKube :: unit kube) nn)\<rparr>;
       cr = sampleNsRelease None (sampleStatus StatusDeployed 1 True) in
   kSecret k \<lparr>nnNamespace = ''team-b'', nnName = ''creds''\<rparr> \<noteq>
     kSecret (sampleKube :: NsRelease kube) \<lparr>nnNamespace = ''team-b'', nnName = ''creds''\<rparr>
   \<and> nsUpdateRelease ((sampleNsExternal (Inr None))\<lparr>heLocalKube := k, heKube := sampleKube\<rparr>) (MgNamespaced cr) =
     nsUpdateRelease (sampleNsExternal (Inr None)) (MgNamespaced cr)
   \<and> (\<exists>es cr'. nsUpdateRelease (sampleNsExternal (Inr None)) (MgNamespaced cr) = (es, MgNamespaced cr', None))"
proof -
  let ?k = "(sampleKube :: NsRelease kube)\<lparr>kSecret := (\<lambda>nn :: NamespacedName. if nnNamespace nn = ''team-b'' then Inr None
    else kSecret (sampleKube :: unit kube) nn)\<rparr>"
  let ?cr = "sampleNsRelease None (sampleStatus StatusDeployed 1 True)"
  let ?E = "sampleNsExternal (Inr None)"
  have "\<forall>nn. nnNamespace nn = mdNamespace ?cr \<longrightarrow>
      kSecret ?k nn = kSecret (heLocalKube ?E) nn \<and> kConfigMap ?k nn = kConfigMap (heLocalKube ?E) nn"
    by (simp add: sampleNsRelease_def sampleKube_def)
  from namespace_isolation [OF this, of sampleKube] have
    "nsUpdateRelease (?E\<lparr>heLocalKube := ?k, heKube := sampleKube\<rparr>) (MgNamespaced ?cr) = nsUpdateRelease ?E (MgNamespaced ?cr)"
    by (simp add: sampleHelm_def)
  moreover have "\<exists>es cr'. nsUpdateRelease ?E (MgNamespaced ?cr) = (es, MgNamespaced cr', None)"
    using sample_nsUpdate by blast
  moreover have "kSecret ?k \<lparr>nnNamespace = ''team-b'', nnName = ''creds''\<rparr> \<noteq>
      kSecret (sampleKube :: NsRelease kube) \<lparr>nnNamespace = ''team-b'', nnName = ''creds''\<rparr>"
    by (simp add: sampleKube_def sampleSecret_def)
  ultimately show ?thesis unfolding Let_def by blast
qed

section \<open>The scopes agree\<close>

text \<open>C4: The namespaced controller observes a release as the cluster controller observes its qualified
  form: every reference of the specification is qualified with the namespace of the managed
  resource, and every connection detail is read from the namespace of the Helm release, whatever
  namespace it names. The changes of the status are the same, and so is the answer, but for the text
  of an error in the connection details (which prints the reference). It is relied on that a read
  depends on the key it is given.\<close>

theorem namespaced_observe_refines:
  assumes "readsByKey (heKube E)" and "hePatch E = nsNewPatcher (heLib E)"
    and "\<forall>rel. hcGetLastRelease (heHelm E) (mdExternalName cr) = Inr (Some rel) \<longrightarrow> hrNamespace rel = N"
    and "nsObserve E (MgNamespaced cr) = (MgNamespaced cr', r)"
  shows "\<exists>r'. Observe (clusterView K E) (MgCluster (qualifyReleaseIn N cr)) = (MgCluster (qualifyReleaseIn N cr'), r')
    \<and> sameAnswer r' r"
proof -
  have o: "observeWith (nsScope E) cr = (cr', r)"
    using assms(4) by (simp add: nsObserve_def split: prod.splits)
  have "fst (observeWith (clusterScope (clusterView K E)) (qualifyReleaseIn N cr)) = qualifyReleaseIn N cr'
      \<and> sameAnswer (snd (observeWith (clusterScope (clusterView K E)) (qualifyReleaseIn N cr))) r"
    using ns_observes.observe_simulation [OF assms(1), of cr N K, unfolded ns_own_patcher [OF assms(2)] o] assms(3)
    by simp
  then show ?thesis by (simp add: Observe_cluster)
qed

lemma sample_readsByKey [simp]: "readsByKey sampleKube"
  by (simp add: readsByKey_def sampleKube_def)

text \<open>A deployed release with a connection detail that names another namespace.\<close>

definition sampleDetailed :: NsRelease where
  "sampleDetailed = (sampleNsRelease None (sampleStatus StatusDeployed 1 True))\<lparr>rlSpec :=
     (rlSpec (sampleNsRelease None (sampleStatus StatusDeployed 1 True)))\<lparr>spConnectionDetails :=
       [qualifyDetail ''elsewhere'' sampleDetail]\<rparr>\<rparr>"

lemma sampleDetailed_value:
  "nsConnectionDetails sampleLib sampleKube [qualifyDetail ''elsewhere'' sampleDetail] ''app'' ''team-a'' =
     Inr [(''pw'', ''pp'')]"
proof -
  note d = base64_roundtrip [of "''pp''"]
  show ?thesis
    by (simp add: nsConnectionDetails_def connectionValue_def sampleDetail_def qualifyDetail_def sampleKube_def
        Let_def unstructuredFromObjectRef_def sampleSecret_def sampleSecretObject_def partOfRelease_def
        annotation_def sampleLib_def helmReleaseNameAnnotation_def helmReleaseNamespaceAnnotation_def
        HasPrefix_def d del: base64Encode.simps)
qed

lemma sampleDetailed_observe:
  "\<exists>cr'. nsObserve (sampleNsExternal (Inr (Some (sampleHelmRelease StatusDeployed sampleChart [(''raw'', VStr ''x'')]))))
      (MgNamespaced sampleDetailed) =
    (MgNamespaced cr', Inr \<lparr>eoResourceExists = True, eoResourceUpToDate = True,
       eoConnectionDetails = [(''pw'', ''pp'')]\<rparr>)"
proof -
  let ?rel = "sampleHelmRelease StatusDeployed sampleChart [(''raw'', VStr ''x'')]"
  let ?H = "nsScope (sampleNsExternal (Inr (Some ?rel)))"
  have spec: "spConnectionDetails (rlSpec sampleDetailed) = [qualifyDetail ''elsewhere'' sampleDetail]"
    "mdNamespace sampleDetailed = ''team-a''" "\<not> mdDeleted sampleDetailed"
    by (simp_all add: sampleDetailed_def sampleNsRelease_def)
  have "observeWith ?H sampleDetailed = (available sampleDetailed ?rel, Inr \<lparr>eoResourceExists = True,
      eoResourceUpToDate = True, eoConnectionDetails = [(''pw'', ''pp'')]\<rparr>)"
  proof (rule observe_up_to_date)
    show "hcGetLastRelease (scHelm ?H) (mdExternalName sampleDetailed) = Inr (Some ?rel)"
      by (simp add: sampleHelm_def)
    show "\<not> mdDeleted sampleDetailed" by (rule spec)
    show "obsState (generateObservation ?rel) = StatusDeployed" by (simp add: sampleHelmRelease_def)
    have "nsComposeValuesFromSpec sampleLib (sampleKube :: NsRelease kube)
        \<lparr>ValuesRaw = ''x'', ValuesFrom = [], SetVals = []\<rparr> ''team-a'' = Inr [(''raw'', VStr ''x'')]"
      by (simp add: nsComposeValuesFromSpec_def composeValues_def sampleLib_def mergeMaps_Cons)
    then show "scUpToDate ?H (observed sampleDetailed ?rel) ?rel = Inr True"
      by (simp add: nsIsUpToDate_def upToDate_True sampleDetailed_def sampleNsRelease_def sampleSpec_def
          sampleStatus_def sampleChart_def sampleHelmRelease_def nsHasUpdates_def nsGetFromSpec_def shaOf_def
          nsNewPatcher_def hasAny_def)
    show "scConnection ?H (synced sampleDetailed ?rel) ?rel = Inr [(''pw'', ''pp'')]"
      using sampleDetailed_value by (simp add: spec sampleHelmRelease_def)
  qed
  then show ?thesis by (simp add: nsObserve_def)
qed

theorem namespaced_observe_refines_witness:
  "\<exists>cr'. Observe (clusterView ''ClusterProviderConfig''
        (sampleNsExternal (Inr (Some (sampleHelmRelease StatusDeployed sampleChart [(''raw'', VStr ''x'')])))))
      (MgCluster (qualifyReleaseIn ''team-a'' sampleDetailed)) =
    (MgCluster (qualifyReleaseIn ''team-a'' cr'), Inr \<lparr>eoResourceExists = True, eoResourceUpToDate = True,
       eoConnectionDetails = [(''pw'', ''pp'')]\<rparr>)"
proof -
  let ?rel = "sampleHelmRelease StatusDeployed sampleChart [(''raw'', VStr ''x'')]"
  obtain cr' where o: "nsObserve (sampleNsExternal (Inr (Some ?rel))) (MgNamespaced sampleDetailed) =
      (MgNamespaced cr', Inr \<lparr>eoResourceExists = True, eoResourceUpToDate = True,
       eoConnectionDetails = [(''pw'', ''pp'')]\<rparr>)"
    using sampleDetailed_observe by blast
  have "\<forall>rel. hcGetLastRelease (heHelm (sampleNsExternal (Inr (Some ?rel)))) (mdExternalName sampleDetailed) =
      Inr (Some rel) \<longrightarrow> hrNamespace rel = ''team-a''"
    by (auto simp: sampleHelm_def sampleHelmRelease_def)
  from namespaced_observe_refines [OF _ _ this o, of "''ClusterProviderConfig''"] show ?thesis
    by (auto simp: sameAnswer_def)
qed

text \<open>C3: The namespaced controller updates every namespaced release, retries and deployments included, as
  the cluster controller updates its qualified form: it has the effects, the resulting status and the error of the cluster
  controller on the release whose references are qualified with the namespace of the managed
  resource.\<close>

theorem namespaced_update_refines:
  assumes "mdNamespace cr \<noteq> []" and "hePatch E = nsNewPatcher (heLib E)"
    and "nsUpdateRelease E (MgNamespaced cr) = (es, MgNamespaced cr', err)"
  shows "UpdateRelease (clusterView (configKind cr) E) (MgCluster (qualifyRelease cr)) =
    (map (map_effect qualifyRelease) es, MgCluster (qualifyRelease cr'), err)"
proof -
  have u: "updateWith (nsScope E) cr = (es, cr', err)"
    using assms(3) by (simp add: nsUpdateRelease_def split: prod.splits)
  have "comparable (configKind cr) cr" using assms(1) by (simp add: comparable_def)
  from ns_deploys.update_simulation [OF this, of E, unfolded ns_own_patcher [OF assms(2)] u] show ?thesis
    by (simp add: UpdateRelease_def)
qed

lemma filter_map_effect [simp]:
  "filter isHelmAction (map (map_effect f) es) = map (map_effect f) (filter isHelmAction es)"
proof (induction es)
  case (Cons e es)
  then show ?case by (cases e) simp_all
qed simp

theorem namespaced_update_refines_witness:
  "\<exists>es cr'. UpdateRelease (clusterView ''ClusterProviderConfig'' (sampleNsExternal (Inr None)))
      (MgCluster (qualifyRelease (sampleNsRelease None (sampleStatus StatusDeployed 1 True)))) =
    (es, MgCluster (qualifyRelease cr'), None)
    \<and> csVersion (chartOf cr') = ''1.0.0''
    \<and> filter isHelmAction es = [EUpgrade ''app'' sampleChart [(''raw'', VStr ''x'')] []]"
proof -
  let ?cr = "sampleNsRelease None (sampleStatus StatusDeployed 1 True)"
  obtain es cr' where u: "nsUpdateRelease (sampleNsExternal (Inr None)) (MgNamespaced ?cr) = (es, MgNamespaced cr', None)"
    "csVersion (chartOf cr') = ''1.0.0''"
    "filter isHelmAction es = [EUpgrade ''app'' sampleChart [(''raw'', VStr ''x'')] []]"
    using sample_nsUpdate by blast
  have "mdNamespace ?cr \<noteq> []" "configKind ?cr = ''ClusterProviderConfig''"
    by (simp_all add: sampleNsRelease_def sampleSpec_def configKind_def)
  with namespaced_update_refines [OF _ _ u(1)] u(2,3) show ?thesis by fastforce
qed

end
