(* ===== verification/Interleaving.thy ===== *)
theory Interleaving
  imports Main
begin

text \<open>
  Workers that share a state and interleave their steps, with a rely/guarantee rule as a locale: what
  one worker's step guarantees, what another worker relies on, and the invariant of all.
\<close>

inductive interleaved ::
  "('s \<times> 'l \<Rightarrow> 's \<times> 'l \<Rightarrow> bool) \<Rightarrow> 's \<times> ('w \<Rightarrow> 'l) \<Rightarrow> 's \<times> ('w \<Rightarrow> 'l) \<Rightarrow> bool" for step where
  il_worker: "step (s, ls w) (s', l) \<Longrightarrow> interleaved step (s, ls) (s', ls(w := l))"

text \<open>
  \<open>good\<close> is about the shared state, \<open>own\<close> about a worker in it, \<open>apart\<close> about two workers, and \<open>grows\<close>
  relates the shared state before and after.
\<close>

definition allOk ::
  "('s \<Rightarrow> bool) \<Rightarrow> ('s \<Rightarrow> 'l \<Rightarrow> bool) \<Rightarrow> ('l \<Rightarrow> 'l \<Rightarrow> bool) \<Rightarrow> 's \<times> ('w \<Rightarrow> 'l) \<Rightarrow> bool" where
  "allOk good own apart c \<longleftrightarrow>
     good (fst c) \<and> (\<forall>w. own (fst c) (snd c w)) \<and> (\<forall>v w. v \<noteq> w \<longrightarrow> apart (snd c v) (snd c w))"

locale workers =
  fixes step :: "'s \<times> 'l \<Rightarrow> 's \<times> 'l \<Rightarrow> bool" and good :: "'s \<Rightarrow> bool" and own :: "'s \<Rightarrow> 'l \<Rightarrow> bool"
    and apart :: "'l \<Rightarrow> 'l \<Rightarrow> bool" and grows :: "'s \<Rightarrow> 's \<Rightarrow> bool"
  assumes guarantee: "step (s, l) (s', l') \<Longrightarrow> good s \<Longrightarrow> own s l \<Longrightarrow> good s' \<and> own s' l' \<and> grows s s'"
    and rely: "step (s, l) (s', l') \<Longrightarrow> good s \<Longrightarrow> own s l \<Longrightarrow> own s m \<Longrightarrow> apart l m \<Longrightarrow> own s' m \<and> apart l' m"
    and apart_sym: "apart l m \<Longrightarrow> apart m l"
    and grows_refl: "grows s s"
    and grows_trans: "grows s s' \<Longrightarrow> grows s' s'' \<Longrightarrow> grows s s''"
begin

lemma interleaved_ok:
  assumes "interleaved step c c'" and "allOk good own apart c"
  shows "allOk good own apart c' \<and> grows (fst c) (fst c')"
  using assms(1)
proof cases
  case (il_worker s ls w s' l)
  have ok: "good s" "\<And>v. own s (ls v)" "\<And>v u. v \<noteq> u \<Longrightarrow> apart (ls v) (ls u)"
    using assms(2) by (simp_all add: allOk_def il_worker)
  note mine = guarantee [OF il_worker(3) ok(1,2)]
  have "own s' (ls v) \<and> apart l (ls v)" if "v \<noteq> w" for v
    using rely [OF il_worker(3) ok(1,2,2) ok(3) [OF that [symmetric]]] .
  with mine ok(3) apart_sym show ?thesis by (auto simp: allOk_def il_worker)
qed

lemma interleaved_run_ok:
  assumes "(interleaved step)\<^sup>*\<^sup>* c c'" and "allOk good own apart c"
  shows "allOk good own apart c' \<and> grows (fst c) (fst c')"
  using assms
  by (induction rule: rtranclp_induct) (use interleaved_ok grows_refl grows_trans in blast)+

end

lemma interleaved_alone:
  assumes "step\<^sup>*\<^sup>* (s, l) (s', l')"
  shows "(interleaved step)\<^sup>*\<^sup>* (s, ls(w := l)) (s', ls(w := l'))"
  using assms
proof (induction "(s', l')" arbitrary: s' l' rule: rtranclp_induct)
  case (step y)
  obtain r k where y: "y = (r, k)" by fastforce
  have "interleaved step (r, ls(w := k)) (s', (ls(w := k))(w := l'))"
    by (rule il_worker) (use step(2) y in simp)
  with step(3) [OF y] show ?case by simp
qed simp

text \<open>Two workers make the same step, one goes on, and then the other.\<close>

lemma interleaved_race:
  assumes "step (s, a) (s, m)" and "step (s, m) (s', z)" and "step (s', m) (s'', b)"
  shows "(interleaved step)\<^sup>*\<^sup>* (s, \<lambda>w::bool. a) (s'', \<lambda>w. if w then z else b)"
proof -
  let ?l = "\<lambda>x y w::bool. if w then x else y"
  have t: "interleaved step (r, ?l x y) (r', ?l x' y)" if "step (r, x) (r', x')" for r r' x x' y
    using il_worker [of step r "?l x y" True r' x'] that by (simp add: fun_upd_def if_distrib cong: if_cong)
  have f: "interleaved step (r, ?l x y) (r', ?l x y')" if "step (r, y) (r', y')" for r r' x y y'
    using il_worker [of step r "?l x y" False r' y'] that by (simp add: fun_upd_def if_distrib cong: if_cong)
  have "(interleaved step)\<^sup>*\<^sup>* (s, ?l a a) (s'', ?l z b)"
    using t [OF assms(1), of a] f [OF assms(1), of m] t [OF assms(2), of m] f [OF assms(3), of z]
    by (meson rtranclp.rtrancl_into_rtrancl rtranclp.rtrancl_refl)
  then show ?thesis by simp
qed

end
