(* ===== verification/Cache_Steps.thy ===== *)
theory Cache_Steps
  imports Helm_Cache_Facts Interleaving
begin

text \<open>
  The chart cache under concurrency. Reconciles of different releases run in parallel and share the
  cache directory; here \<open>pullChartToCache\<close>, \<open>ensureChartCached\<close> and the load at the end of
  \<open>PullAndLoadChart\<close> (\<open>pkg/clients/helm/client.go\<close>) are cut into the system calls they make, files are
  written piece by piece, and the steps of any number of workers interleave.
\<close>

section \<open>One worker\<close>

text \<open>
  Where a pull is: about to make its temporary directory; about to run Helm's pull in it; writing the
  files of the answer; in the middle of one file; about to list the directory; about to rename; in the
  deferred removal; done. Then the check for a cached file, and the load.
\<close>

datatype phase =
    Start
  | Pulling string
  | Writing string "(string \<times> string) list" "goerr option"
  | Filling string string string "(string \<times> string) list" "goerr option"
  | Listing string
  | Renaming string string
  | Removing string "goerr + string"
  | Finished "goerr + string"
  | Checking string
  | Loading string
  | Loaded "node option"

text \<open>The calls of \<open>pullChartToCache\<close>. A pull writes to the content cache while it runs. The directory is removed from the inside out.\<close>

inductive pstep :: "oslib \<Rightarrow> fsys \<times> phase \<Rightarrow> fsys \<times> phase \<Rightarrow> bool" for Os where
  ps_temp: "osTempName Os fs = Inr nm \<Longrightarrow> t = chartCache @ ''/'' @ nm \<Longrightarrow>
    pstep Os (fs, Start) (AList.update t Dir fs, Pulling t)"
| ps_temp_fail: "osTempName Os fs = Inl e \<Longrightarrow> pstep Os (fs, Start) (fs, Finished (Inl e))"
| ps_refuse: "pstep Os (fs, Pulling t) (fs, Removing t (Inl e))"
| ps_content: "(p, c) \<in> set (osContentRun Os pc ref) \<Longrightarrow>
    pstep Os (fs, Pulling t) (AList.update p (File c) fs, Pulling t)"
| ps_pull: "osPullRun Os pc ref = (files, err) \<Longrightarrow> pstep Os (fs, Pulling t) (fs, Writing t files err)"
| ps_create: "pstep Os (fs, Writing t ((n, c) # files) err)
    (AList.update (t @ ''/'' @ n) (File []) fs, Filling t n c files err)"
| ps_fill: "map_of fs (t @ ''/'' @ n) = Some (File d) \<Longrightarrow>
    pstep Os (fs, Filling t n (a @ b) files err)
      (AList.update (t @ ''/'' @ n) (File (d @ a)) fs, Filling t n b files err)"
| ps_close: "pstep Os (fs, Filling t n [] files err) (fs, Writing t files err)"
| ps_pulled: "pstep Os (fs, Writing t [] None) (fs, Listing t)"
| ps_failed: "pstep Os (fs, Writing t files (Some e)) (fs, Removing t (Inl (Wrap e errFailedToPullChart)))"
| ps_torn: "pstep Os (fs, Filling t n c files (Some e)) (fs, Removing t (Inl (Wrap e errFailedToPullChart)))"
| ps_list: "getChartFileName Os fs t = Inr nm \<Longrightarrow> pstep Os (fs, Listing t) (fs, Renaming t nm)"
| ps_list_fail: "getChartFileName Os fs t = Inl e \<Longrightarrow> pstep Os (fs, Listing t) (fs, Removing t (Inl e))"
| ps_rename: "renameFile Os fs (JoinPath [t, nm]) (JoinPath [chartCache, nm]) = Inr fs' \<Longrightarrow>
    pstep Os (fs, Renaming t nm) (fs', Removing t (Inr (JoinPath [chartCache, nm])))"
| ps_rename_fail: "renameFile Os fs (JoinPath [t, nm]) (JoinPath [chartCache, nm]) = Inl e \<Longrightarrow>
    pstep Os (fs, Renaming t nm) (fs, Removing t (Inl e))"
| ps_clean: "under t p \<Longrightarrow> p \<noteq> t \<Longrightarrow> pstep Os (fs, Removing t r) (AList.delete p fs, Removing t r)"
| ps_removed: "pstep Os (fs, Removing t r) (removeAll fs t, Finished r)"
| ps_remove_fail: "pstep Os (fs, Removing t r) (fs, Finished r)"

text \<open>
  The calls around it. The flag tells whether the pull was made to find the location of the latest
  version; then its result is checked like a given location. Otherwise it is loaded. A call that has
  returned (a check returns when the file cannot be read or is a directory) is followed by another.
\<close>

fun returned :: "phase \<Rightarrow> bool" where
  "returned (Finished (Inl e)) = True"
| "returned (Checking f) = True"
| "returned (Loaded x) = True"
| "returned ph = False"

fun called :: "phase \<Rightarrow> bool" where
  "called Start = True"
| "called (Checking f) = True"
| "called ph = False"

inductive wstep :: "oslib \<Rightarrow> fsys \<times> bool \<times> phase \<Rightarrow> fsys \<times> bool \<times> phase \<Rightarrow> bool" for Os where
  ws_pull: "pstep Os (fs, ph) (fs', ph') \<Longrightarrow> wstep Os (fs, k, ph) (fs', k, ph')"
| ws_located: "wstep Os (fs, True, Finished (Inr f)) (fs, False, Checking f)"
| ws_fetched: "wstep Os (fs, False, Finished (Inr f)) (fs, False, Loading (safePath chartCache f))"
| ws_miss: "f = [] \<or> map_of fs (JoinPath [chartCache, Base f]) = None \<Longrightarrow>
    wstep Os (fs, k, Checking f) (fs, False, Start)"
| ws_hit: "map_of fs (JoinPath [chartCache, Base f]) = Some (File c) \<Longrightarrow>
    wstep Os (fs, k, Checking f) (fs, False, Loading (safePath chartCache (JoinPath [chartCache, Base f])))"
| ws_load: "wstep Os (fs, k, Loading p) (fs, k, Loaded (map_of fs p))"

| ws_next: "returned ph \<Longrightarrow> called ph' \<Longrightarrow> wstep Os (fs, k, ph) (fs, True, ph')"

section \<open>All workers\<close>

inductive sstep :: "oslib \<Rightarrow> fsys \<times> ('w \<Rightarrow> bool \<times> phase) \<Rightarrow> fsys \<times> ('w \<Rightarrow> bool \<times> phase) \<Rightarrow> bool"
  for Os where
  ss_worker: "wstep Os (fs, ws w) (fs', s) \<Longrightarrow> sstep Os (fs, ws) (fs', ws(w := s))"

section \<open>The sequential code is one of the interleavings\<close>

lemma files_written:
  "(pstep Os)\<^sup>*\<^sup>* (fs, Writing t files err)
     (writeChart t fs files, Writing t [] err)"
  unfolding writeChart_def
proof (induction files arbitrary: fs)
  case (Cons f files)
  obtain n c where f: "f = (n, c)" by (cases f)
  let ?p = "t @ ''/'' @ n"
  have "pstep Os (fs, Writing t (f # files) err) (AList.update ?p (File []) fs, Filling t n c files err)"
    unfolding f by (rule ps_create)
  moreover have "pstep Os (AList.update ?p (File []) fs, Filling t n c files err)
      (AList.update ?p (File c) fs, Filling t n [] files err)"
    using ps_fill [of "AList.update ?p (File []) fs" t n "[]" Os c "[]" files err] by (simp add: update_conv')
  moreover have "pstep Os (AList.update ?p (File c) fs, Filling t n [] files err)
      (AList.update ?p (File c) fs, Writing t files err)"
    by (rule ps_close)
  ultimately have "(pstep Os)\<^sup>*\<^sup>* (fs, Writing t (f # files) err) (AList.update ?p (File c) fs, Writing t files err)"
    by (meson r_into_rtranclp rtranclp_trans)
  from rtranclp_trans [OF this Cons.IH] show ?case by (simp add: f)
qed simp

lemma content_written:
  "set files \<subseteq> set (osContentRun Os pc ref) \<Longrightarrow>
    (pstep Os)\<^sup>*\<^sup>* (fs, Pulling t) (writeContent fs files, Pulling t)"
  unfolding writeContent_def
proof (induction files arbitrary: fs)
  case (Cons f files)
  obtain p c where f: "f = (p, c)" by (cases f)
  have "pstep Os (fs, Pulling t) (AList.update p (File c) fs, Pulling t)"
    using Cons.prems f by (intro ps_content) auto
  from converse_rtranclp_into_rtranclp [OF this Cons.IH] Cons.prems show ?case by (simp add: f)
qed simp

lemma pullChart_steps:
  assumes "pullChart Os u n v r d creds t s = (s', err)"
  shows "(pstep Os)\<^sup>*\<^sup>* (cFS s, Pulling t)
    (cFS s', case err of None \<Rightarrow> Listing t | Some e \<Rightarrow> Removing t (Inl e))"
proof -
  have refuse: "(pstep Os)\<^sup>*\<^sup>* (fs, Pulling t) (fs, Removing t (Inl e))" for fs e
    by (rule r_into_rtranclp) (rule ps_refuse)
  have run: "(pstep Os)\<^sup>*\<^sup>* (cFS s, Pulling t)
      (writeChart t (writeContent (cFS s) (osContentRun Os pc ref)) files,
       case WrapNil err errFailedToPullChart of None \<Rightarrow> Listing t | Some e \<Rightarrow> Removing t (Inl e))"
    if "osPullRun Os pc ref = (files, err)" for pc ref files err
  proof -
    let ?fs = "writeContent (cFS s) (osContentRun Os pc ref)"
    let ?fs' = "writeChart t ?fs files"
    have "(pstep Os)\<^sup>*\<^sup>* (?fs, Pulling t) (?fs', Writing t [] err)"
      using ps_pull [OF that] files_written by (rule converse_rtranclp_into_rtranclp)
    with content_written [of "osContentRun Os pc ref" Os pc ref "cFS s" t]
    have "(pstep Os)\<^sup>*\<^sup>* (cFS s, Pulling t) (?fs', Writing t [] err)" by (auto intro: rtranclp_trans)
    moreover have "pstep Os (?fs', Writing t [] err)
        (?fs', case WrapNil err errFailedToPullChart of None \<Rightarrow> Listing t | Some e \<Rightarrow> Removing t (Inl e))"
      by (cases err) (auto simp: WrapNil_def intro: pstep.intros)
    ultimately show ?thesis by (rule rtranclp.rtrancl_into_rtrancl)
  qed
  obtain pc ref where ref: "chartReference Os (cPull s) u n v r d = (pc, ref)" by fastforce
  show ?thesis
  proof (cases ref)
    case (Inl e)
    with assms ref have "cFS s' = cFS s" "err = Some e" by (auto simp: pullChart_def)
    with refuse show ?thesis by simp
  next
    case (Inr rf)
    define pc' where "pc' = pc\<lparr>pcUsername := rcUsername creds, pcPassword := rcPassword creds, pcDestDir := t\<rparr>"
    obtain ev lerr where lg: "(if rcUsername creds \<noteq> [] \<and> rcPassword creds \<noteq> []
      then login Os u r creds (pcInsecureSkipTLSVerify pc') else ([], None)) = (ev, lerr)" by fastforce
    obtain files perr where run': "osPullRun Os pc' rf = (files, perr)" by fastforce
    note eq = assms [unfolded pullChart_def ref Inr Let_def prod.case sum.case pc'_def [symmetric] lg run']
    show ?thesis
    proof (cases lerr)
      case (Some e)
      with eq have "cFS s' = cFS s" "err = Some e" by auto
      with refuse show ?thesis by simp
    next
      case None
      with eq have "cFS s' = writeChart t (writeContent (cFS s) (osContentRun Os pc' rf)) files"
        "err = WrapNil perr errFailedToPullChart" by (auto simp: pc'_def)
      with run [OF run'] show ?thesis by simp
    qed
  qed
qed

lemma pullChartToCache_steps:
  assumes "pullChartToCache Os u n v r d creds s = (s', res)"
  shows "(pstep Os)\<^sup>*\<^sup>* (cFS s, Start) (cFS s', Finished res)"
proof (cases "osTempName Os (cFS s)")
  case (Inl e)
  with assms have "s' = s" "res = Inl e" by (simp_all add: pullChartToCache_def)
  with ps_temp_fail [OF Inl] show ?thesis by (simp add: r_into_rtranclp)
next
  case (Inr nm)
  define t where "t = chartCache @ ''/'' @ nm"
  define s1 where "s1 = s\<lparr>cFS := AList.update t Dir (cFS s)\<rparr>"
  have start: "pstep Os (cFS s, Start) (cFS s1, Pulling t)"
    using ps_temp [OF Inr t_def] by (simp add: s1_def)
  have fin: "(pstep Os)\<^sup>*\<^sup>* (cFS x, Removing t y) (cFS (cleanup Os t x), Finished y)" for x y
    by (cases "osRemoveErr Os t") (auto simp: cleanup_def intro: ps_removed ps_remove_fail)
  obtain s2 err where p: "pullChart Os u n v r d creds t s1 = (s2, err)" by fastforce
  note pulled = converse_rtranclp_into_rtranclp [OF start pullChart_steps [OF p]]
  show ?thesis
  proof (cases err)
    case (Some e)
    with assms Inr p have "s' = cleanup Os t s2" "res = Inl e"
      by (simp_all add: pullChartToCache_def Let_def t_def s1_def)
    with pulled Some fin show ?thesis by (auto intro: rtranclp_trans)
  next
    case None
    show ?thesis
    proof (cases "getChartFileName Os (cFS s2) t")
      case (Inl e)
      with assms Inr p None have "s' = cleanup Os t s2" "res = Inl e"
        by (simp_all add: pullChartToCache_def Let_def t_def s1_def)
      moreover have "(pstep Os)\<^sup>*\<^sup>* (cFS s, Start) (cFS s2, Removing t (Inl e))"
        using pulled ps_list_fail [OF Inl] unfolding None by (auto intro: rtranclp.rtrancl_into_rtrancl)
      ultimately show ?thesis using fin by (auto intro: rtranclp_trans)
    next
      case l: (Inr f)
      have listed: "(pstep Os)\<^sup>*\<^sup>* (cFS s, Start) (cFS s2, Renaming t f)"
        using pulled ps_list [OF l] unfolding None by (auto intro: rtranclp.rtrancl_into_rtrancl)
      show ?thesis
      proof (cases "renameFile Os (cFS s2) (JoinPath [t, f]) (JoinPath [chartCache, f])")
        case (Inl e)
        with assms Inr p None l have "s' = cleanup Os t s2" "res = Inl e"
          by (simp_all add: pullChartToCache_def Let_def t_def s1_def del: JoinPath.simps)
        moreover note rtranclp.rtrancl_into_rtrancl [OF listed ps_rename_fail [OF Inl]]
        ultimately show ?thesis using fin by (auto intro: rtranclp_trans)
      next
        case r: (Inr fs')
        with assms Inr p None l have "s' = cleanup Os t (s2\<lparr>cFS := fs'\<rparr>)" "res = Inr (JoinPath [chartCache, f])"
          by (simp_all add: pullChartToCache_def Let_def t_def s1_def del: JoinPath.simps)
        moreover note rtranclp.rtrancl_into_rtrancl [OF listed ps_rename [OF r]]
        ultimately show ?thesis using fin [of "s2\<lparr>cFS := fs'\<rparr>"]
          by (auto intro: rtranclp_trans simp del: JoinPath.simps)
      qed
    qed
  qed
qed

text \<open>The calls around it.\<close>

lemma pulls_wsteps: "(pstep Os)\<^sup>*\<^sup>* (fs, ph) (fs', ph') \<Longrightarrow> (wstep Os)\<^sup>*\<^sup>* (fs, k, ph) (fs', k, ph')"
proof (induction "(fs', ph')" arbitrary: fs' ph' rule: rtranclp_induct)
  case (step y)
  obtain fs1 ph1 where y: "y = (fs1, ph1)" by (cases y)
  with step ws_pull show ?case by (blast intro: rtranclp.rtrancl_into_rtrancl)
qed simp

lemma ensureChartCached_steps:
  assumes "ensureChartCached Os p u n v r d creds s = (s', res)"
  shows "\<exists>k' ph. (wstep Os)\<^sup>*\<^sup>* (cFS s, k, Checking p) (cFS s', k', ph)
    \<and> (case res of Inl e \<Rightarrow> returned ph | Inr f \<Rightarrow> ph = Loading (safePath chartCache f))"
proof -
  let ?path = "JoinPath [chartCache, Base p]"
  have miss: ?thesis
    if "p = [] \<or> map_of (cFS s) ?path = None" and pull: "pullChartToCache Os u n v r d creds s = (s', res)"
  proof -
    have st: "(wstep Os)\<^sup>*\<^sup>* (cFS s, k, Checking p) (cFS s', False, Finished res)"
      using ws_miss [OF that(1)] pulls_wsteps [OF pullChartToCache_steps [OF pull]]
      by (rule converse_rtranclp_into_rtranclp)
    show ?thesis
    proof (cases res)
      case (Inl e)
      with st show ?thesis by (intro exI [of _ False] exI [of _ "Finished res"]) simp
    next
      case (Inr f)
      with st ws_fetched have "(wstep Os)\<^sup>*\<^sup>* (cFS s, k, Checking p) (cFS s', False, Loading (safePath chartCache f))"
        by (blast intro: rtranclp.rtrancl_into_rtrancl)
      with Inr show ?thesis by (intro exI [of _ False] exI [of _ "Loading (safePath chartCache f)"]) simp
    qed
  qed
  have stay: ?thesis if "s' = s" "res = Inl e" for e
    using that by (intro exI [of _ k] exI [of _ "Checking p"]) simp
  note eq = assms [unfolded ensureChartCached_def Let_def]
  show ?thesis
  proof (cases "p = []")
    case True
    with eq show ?thesis by (intro miss) (simp_all only: if_True simp_thms)
  next
    case False
    note eq = eq [unfolded if_not_P [OF False]]
    show ?thesis
    proof (cases "osStatErr Os ?path")
      case (Some e)
      from eq [unfolded this] show ?thesis by (intro stay) (auto simp del: JoinPath.simps)
    next
      case st: None
      show ?thesis
      proof (cases "map_of (cFS s) ?path")
        case None
        from eq [unfolded st None] None show ?thesis by (intro miss) (simp_all only: option.case simp_thms)
      next
        case (Some nd)
        show ?thesis
        proof (cases nd)
          case Dir
          from eq [unfolded st Some this] show ?thesis by (intro stay) (auto simp del: JoinPath.simps)
        next
          case (File c)
          from eq [unfolded st Some this] have r: "s' = s" "res = Inr ?path" by (simp_all del: JoinPath.simps)
          have "(wstep Os)\<^sup>*\<^sup>* (cFS s, k, Checking p) (cFS s, False, Loading (safePath chartCache ?path))"
            by (rule r_into_rtranclp) (rule ws_hit [OF Some [unfolded File]])
          then show ?thesis
            unfolding r by (intro exI [of _ False] exI [of _ "Loading (safePath chartCache ?path)"])
              (simp del: JoinPath.simps)
        qed
      qed
    qed
  qed
qed

lemma chartLocation_steps:
  assumes "chartLocation Os u n v r d creds s = (s', res)"
  shows "\<exists>ph0 k ph. called ph0 \<and> (wstep Os)\<^sup>*\<^sup>* (cFS s, True, ph0) (cFS s', k, ph)
    \<and> (case res of Inl e \<Rightarrow> returned ph | Inr f \<Rightarrow> ph = Checking f)"
  using assms
proof (cases rule: chartLocation_cases)
  case unchanged
  then show ?thesis
    by (cases res) (auto intro!: exI [of _ "Checking (case res of Inl e \<Rightarrow> [] | Inr f \<Rightarrow> f)"])
next
  case pulled
  have st: "(wstep Os)\<^sup>*\<^sup>* (cFS s, True, Start) (cFS s', True, Finished res)"
    by (rule pulls_wsteps [OF pullChartToCache_steps [OF pulled]])
  show ?thesis
  proof (cases res)
    case (Inl e)
    with st show ?thesis by (intro exI [of _ Start] exI [of _ True] exI [of _ "Finished res"]) simp
  next
    case (Inr f)
    with st ws_located have "(wstep Os)\<^sup>*\<^sup>* (cFS s, True, Start) (cFS s', False, Checking f)"
      by (blast intro: rtranclp.rtrancl_into_rtrancl)
    with Inr show ?thesis by (intro exI [of _ Start] exI [of _ False] exI [of _ "Checking f"]) simp
  qed
qed

lemma pullAndLoad_steps:
  assumes "pullAndLoad Os ch creds s = (s', res)"
  shows "\<exists>ph0 k ph. called ph0 \<and> (wstep Os)\<^sup>*\<^sup>* (cFS s, True, ph0) (cFS s', k, ph) \<and> returned ph
    \<and> (\<forall>c. res = Inr c \<longrightarrow> (\<exists>p. ph = Loaded (map_of (cFS s') p) \<and> osLoad Os (cFS s') p = Inr c))"
proof (cases "csDigest ch \<noteq> [] \<and> \<not> (osIsOCI Os (csURL ch) \<or> osIsOCI Os (csRepository ch))")
  case True
  with assms have "s' = s" "\<exists>e. res = Inl e" by (auto simp: pullAndLoad_def)
  then show ?thesis by (intro exI [of _ "Checking []"] exI conjI) auto
next
  case False
  obtain s1 r1 where loc: "chartLocation Os (csURL ch) (csName ch) (csVersion ch) (csRepository ch) (csDigest ch) creds s
      = (s1, r1)" by fastforce
  obtain ph0 k1 ph1 where l: "called ph0" "(wstep Os)\<^sup>*\<^sup>* (cFS s, True, ph0) (cFS s1, k1, ph1)"
    "case r1 of Inl e \<Rightarrow> returned ph1 | Inr f \<Rightarrow> ph1 = Checking f"
    using chartLocation_steps [OF loc] by blast
  show ?thesis
  proof (cases r1)
    case (Inl e)
    with assms False loc have "s' = s1" "res = Inl e" by (auto simp: pullAndLoad_def Let_def)
    with l Inl show ?thesis by (intro exI conjI) auto
  next
    case (Inr p)
    obtain s2 r2 where ens: "ensureChartCached Os p (csURL ch) (csName ch) (csVersion ch) (csRepository ch)
        (csDigest ch) creds s1 = (s2, r2)" by fastforce
    obtain k2 ph2 where e: "(wstep Os)\<^sup>*\<^sup>* (cFS s1, k1, ph1) (cFS s2, k2, ph2)"
      "case r2 of Inl e \<Rightarrow> returned ph2 | Inr f \<Rightarrow> ph2 = Loading (safePath chartCache f)"
      using ensureChartCached_steps [OF ens] l(3) Inr by fastforce
    note st = rtranclp_trans [OF l(2) e(1)]
    show ?thesis
    proof (cases r2)
      case err: (Inl x)
      with assms False loc Inr ens have "s' = s2" "res = Inl x" by (auto simp: pullAndLoad_def Let_def)
      with l(1) st e(2) err show ?thesis by (intro exI conjI) auto
    next
      case f: (Inr f)
      let ?p = "safePath chartCache f"
      have r: "cFS s' = cFS s2" "res = wrapE (osLoad Os (cFS s2) ?p) errFailedToLoadChart"
        using assms False loc Inr ens f by (auto simp: pullAndLoad_def Let_def)
      have "(wstep Os)\<^sup>*\<^sup>* (cFS s, True, ph0) (cFS s', k2, Loaded (map_of (cFS s') ?p))"
        using st e(2) f ws_load [of Os "cFS s2" k2 ?p] r(1) by (auto intro: rtranclp.rtrancl_into_rtrancl)
      moreover have "osLoad Os (cFS s') ?p = Inr c" if "res = Inr c" for c
        using that unfolding r by (cases "osLoad Os (cFS s2) ?p") (simp_all add: wrapE_def)
      ultimately show ?thesis using l(1)
        by (intro exI [of _ ph0] exI [of _ k2] exI [of _ "Loaded (map_of (cFS s') ?p)"]) auto
    qed
  qed
qed

lemma sstep_interleaved: "sstep Os = interleaved (wstep Os)"
  by (intro ext iffI) (auto elim!: sstep.cases interleaved.cases intro: sstep.intros interleaved.intros)

text \<open>A worker that runs alone.\<close>

lemma worker_alone:
  "(wstep Os)\<^sup>*\<^sup>* (fs, x) (fs', x') \<Longrightarrow> (sstep Os)\<^sup>*\<^sup>* (fs, ws(w := x)) (fs', ws(w := x'))"
  unfolding sstep_interleaved by (rule interleaved_alone)

end
