(* ===== verification/Cache_Safety.thy ===== *)
theory Cache_Safety
  imports Cache_Steps
begin

text \<open>
  What the interleavings of \<open>Cache_Steps\<close> keep: every worker owns its temporary directory, a file
  lies in the cache directory only when it is complete, and once it does it stays a file.
\<close>

section \<open>Temporary directories\<close>

fun tmpOf :: "phase \<Rightarrow> string option" where
  "tmpOf (Pulling t) = Some t"
| "tmpOf (Writing t files err) = Some t"
| "tmpOf (Filling t n c files err) = Some t"
| "tmpOf (Listing t) = Some t"
| "tmpOf (Renaming t nm) = Some t"
| "tmpOf (Removing t r) = Some t"
| "tmpOf ph = None"

definition tempPath :: "string \<Rightarrow> bool" where
  "tempPath t \<longleftrightarrow> (\<exists>nm. plainElem nm \<and> t = chartCache @ slash # nm)"

lemma tempPathI: "plainElem nm \<Longrightarrow> tempPath (chartCache @ slash # nm)"
  by (auto simp: tempPath_def)

lemma under_plain: "slash \<notin> set n \<Longrightarrow> under (d @ slash # m) (d @ slash # n) \<Longrightarrow> n = m"
  by (auto simp: under_def prefix_def)

lemma takeWhile_slash:
  "slash \<notin> set a \<Longrightarrow> x = [] \<or> (\<exists>z. x = slash # z) \<Longrightarrow> takeWhile (\<lambda>c. c \<noteq> slash) (a @ x) = a"
  by (induction a) auto

lemma under_ext: "under t p \<Longrightarrow> \<exists>x. p = t @ x \<and> (x = [] \<or> (\<exists>z. x = slash # z))"
  by (auto simp: under_def prefix_def)

lemma under_disjoint:
  assumes "tempPath t" and "tempPath t'" and "under t p" and "under t' p"
  shows "t = t'"
proof -
  obtain a b where a: "plainElem a" "t = chartCache @ slash # a"
    and b: "plainElem b" "t' = chartCache @ slash # b"
    using assms(1,2) unfolding tempPath_def by blast
  obtain x where x: "p = t @ x" "x = [] \<or> (\<exists>z. x = slash # z)" using under_ext [OF assms(3)] by blast
  obtain y where y: "p = t' @ y" "y = [] \<or> (\<exists>z. y = slash # z)" using under_ext [OF assms(4)] by blast
  have "slash \<notin> set a" "slash \<notin> set b" using a(1) b(1) by (simp_all add: plainElem_def)
  moreover have "a @ x = b @ y" using x(1) y(1) a(2) b(2) by simp
  ultimately have "a = b" using takeWhile_slash [of a x] takeWhile_slash [of b y] x(2) y(2) by simp
  with a b show ?thesis by simp
qed

lemma tempPath_dirs: "tempPath t \<Longrightarrow> \<not> under t ''/tmp''" "tempPath t \<Longrightarrow> \<not> under t chartCache"
  by (auto simp: tempPath_def under_def prefix_def chartCache_def)

lemma tempPath_child: "tempPath t \<Longrightarrow> plainElem e \<Longrightarrow> under t p \<Longrightarrow> p \<noteq> t \<Longrightarrow> p \<noteq> chartCache @ slash # e"
  by (auto simp: tempPath_def plainElem_def dest: under_plain)

section \<open>The invariant of one worker\<close>

text \<open>The entries of a temporary directory, some apart, are complete files with plain names.\<close>

definition childrenOk :: "(string \<Rightarrow> bool) \<Rightarrow> fsys \<Rightarrow> string \<Rightarrow> string set \<Rightarrow> bool" where
  "childrenOk Q fs t X \<longleftrightarrow>
     (\<forall>p x. map_of fs p = Some x \<and> under t p \<and> p \<noteq> t \<and> p \<notin> X \<longrightarrow>
        (\<exists>n c. p = t @ slash # n \<and> plainElem n \<and> x = File c \<and> Q c))"

definition filesOk :: "(string \<Rightarrow> bool) \<Rightarrow> (string \<times> string) list \<Rightarrow> bool" where
  "filesOk Q files \<longleftrightarrow> (\<forall>n c. (n, c) \<in> set files \<longrightarrow> plainElem n \<and> Q c)"

fun okPhase :: "(string \<Rightarrow> bool) \<Rightarrow> fsys \<Rightarrow> phase \<Rightarrow> bool" where
  "okPhase Q fs (Pulling t) = childrenOk Q fs t {}"
| "okPhase Q fs (Writing t files err) = (err = None \<longrightarrow> childrenOk Q fs t {} \<and> filesOk Q files)"
| "okPhase Q fs (Filling t n c files err) =
     (err = None \<longrightarrow> childrenOk Q fs t {t @ slash # n} \<and> filesOk Q files \<and> plainElem n
        \<and> (\<exists>d. map_of fs (t @ slash # n) = Some (File d) \<and> Q (d @ c)))"
| "okPhase Q fs (Listing t) = childrenOk Q fs t {}"
| "okPhase Q fs (Renaming t nm) = (childrenOk Q fs t {} \<and> plainElem nm)"
| "okPhase Q fs (Removing t r) = (\<forall>f. r = Inr f \<longrightarrow> cachedFile fs f)"
| "okPhase Q fs (Finished r) = (\<forall>f. r = Inr f \<longrightarrow> cachedFile fs f)"
| "okPhase Q fs (Loading p) = cachedFile fs p"
| "okPhase Q fs (Loaded x) = (\<exists>c. x = Some (File c) \<and> Q c)"
| "okPhase Q fs ph = True"

definition tmpOk :: "fsys \<Rightarrow> phase \<Rightarrow> bool" where
  "tmpOk fs ph \<longleftrightarrow> (\<forall>t. tmpOf ph = Some t \<longrightarrow> tempPath t \<and> map_of fs t = Some Dir)"

definition cacheOk :: "(string \<Rightarrow> bool) \<Rightarrow> fsys \<Rightarrow> bool" where
  "cacheOk Q fs \<longleftrightarrow> wfFS fs \<and>
     (\<forall>e c. plainElem e \<longrightarrow> map_of fs (chartCache @ slash # e) = Some (File c) \<longrightarrow> Q c)"

section \<open>What one step changes\<close>

text \<open>
  The temporary directory \<open>t\<close>, files directly in the cache that are complete afterwards, and the content
  cache.
\<close>

definition changes :: "(string \<Rightarrow> bool) \<Rightarrow> string \<Rightarrow> fsys \<Rightarrow> fsys \<Rightarrow> bool" where
  "changes Q t fs fs' \<longleftrightarrow> tempPath t
     \<and> (\<forall>c. map_of fs t \<noteq> Some (File c)) \<and> (\<forall>c. map_of fs' t \<noteq> Some (File c))
     \<and> (\<forall>p. map_of fs' p = map_of fs p \<or> under t p \<or> contentPath p
          \<or> (\<exists>e c. plainElem e \<and> p = chartCache @ slash # e \<and> map_of fs p \<noteq> Some Dir
               \<and> map_of fs' p = Some (File c) \<and> Q c))"

lemma changes_other:
  assumes "changes Q t fs fs'" and "\<not> under t p" and "\<not> contentPath p"
    and "\<And>e. plainElem e \<Longrightarrow> p \<noteq> chartCache @ slash # e"
  shows "map_of fs' p = map_of fs p"
  using assms unfolding changes_def by blast

lemma changes_file:
  assumes ch: "changes Q t fs fs'" and e: "plainElem e" and p: "p = chartCache @ slash # e"
    and f: "map_of fs p = Some (File c) \<or> map_of fs' p = Some (File c)"
  shows "map_of fs' p = map_of fs p \<or> (\<exists>c. map_of fs' p = Some (File c) \<and> Q c)"
proof -
  have t: "tempPath t" using ch by (simp add: changes_def)
  have "p \<noteq> t" using ch f unfolding changes_def by blast
  then have "\<not> under t p" using tempPath_child [OF t e, of p] p by blast
  moreover have "\<not> contentPath p" by (simp add: p)
  ultimately show ?thesis using ch unfolding changes_def by blast
qed

lemma changes_cacheOk:
  assumes ch: "changes Q t fs fs'" and ok: "cacheOk Q fs"
  shows "cacheOk Q fs'"
proof -
  have t: "tempPath t" using ch by (simp add: changes_def)
  have "map_of fs' ''/tmp'' = map_of fs ''/tmp''"
    by (rule changes_other [OF ch tempPath_dirs(1) [OF t]])
      (simp_all add: chartCache_def contentPath_def chartContentCache_def)
  moreover have "map_of fs' chartCache = map_of fs chartCache"
    by (rule changes_other [OF ch tempPath_dirs(2) [OF t]])
      (simp_all add: contentPath_def chartContentCache_def chartCache_def)
  moreover have "Q c" if e: "plainElem e" and f: "map_of fs' (chartCache @ slash # e) = Some (File c)" for e c
    using changes_file [OF ch e refl, of c] f ok e unfolding cacheOk_def by auto
  ultimately show ?thesis using ok by (simp add: cacheOk_def wfFS_def)
qed

lemma changes_cachedFile:
  assumes ch: "changes Q t fs fs'" and f: "cachedFile fs f"
  shows "cachedFile fs' f"
proof -
  obtain e c where e: "plainElem e" "f = chartCache @ slash # e" "map_of fs f = Some (File c)"
    using f by (auto simp: cachedFile_def)
  with changes_file [OF ch e(1,2), of c] have "\<exists>c. map_of fs' f = Some (File c)" by auto
  with e(1,2) show ?thesis unfolding cachedFile_def by blast
qed

text \<open>Another worker, with another temporary directory, is not concerned.\<close>

lemma changes_frame:
  assumes ch: "changes Q t fs fs'" and ok: "okPhase Q fs ph" "tmpOk fs ph" and ne: "tmpOf ph \<noteq> Some t"
  shows "okPhase Q fs' ph \<and> tmpOk fs' ph"
proof (cases "tmpOf ph")
  case None
  then show ?thesis
    using ok(1) changes_cachedFile [OF ch] by (cases ph) (auto simp: tmpOk_def)
next
  case (Some t')
  have t: "tempPath t" using ch by (simp add: changes_def)
  have t': "tempPath t'" "map_of fs t' = Some Dir" using ok(2) Some by (auto simp: tmpOk_def)
  have "t \<noteq> t'" using ne Some by auto
  then have out: "\<not> under t p" if "under t' p" for p using under_disjoint [OF t t'(1)] that by blast
  have self: "under t' t'" by (simp add: under_def)
  have nc: "\<not> contentPath p" if "under t' p" for p
    using that t'(1) by (auto simp: tempPath_def under_def prefix_def contentPath_def chartContentCache_def chartCache_def)
  have "map_of fs' t' = Some Dir" using ch out [OF self] nc [OF self] t'(2) unfolding changes_def by metis
  then have tmp: "tmpOk fs' ph" using Some t'(1) by (simp add: tmpOk_def)
  have same: "map_of fs' p = map_of fs p" if "under t' p" "p \<noteq> t'" for p
    using changes_other [OF ch out [OF that(1)] nc [OF that(1)]] tempPath_child [OF t'(1) _ that] by blast
  have ch': "childrenOk Q fs' t' X" if "childrenOk Q fs t' X" for X
    using that same unfolding childrenOk_def by metis
  have "map_of fs' (t' @ slash # n) = map_of fs (t' @ slash # n)" for n
    by (rule same) (simp_all add: under_child)
  with ok(1) Some ch' changes_cachedFile [OF ch] tmp show ?thesis by (cases ph) auto
qed

section \<open>The steps of a worker\<close>

lemma changes_inside:
  assumes "tempPath t" and "\<And>c. map_of fs t \<noteq> Some (File c)" and "\<And>c. map_of fs' t \<noteq> Some (File c)"
    and "\<And>p. \<not> under t p \<Longrightarrow> map_of fs' p = map_of fs p"
  shows "changes Q t fs fs'"
  using assms unfolding changes_def by blast

text \<open>A file of the own directory is written.\<close>

lemma write_changes:
  assumes "tempPath t" and "map_of fs t = Some Dir"
  shows "changes Q t fs (AList.update (t @ slash # n) x fs)"
    and "map_of (AList.update (t @ slash # n) x fs) t = Some Dir"
proof -
  show d: "map_of (AList.update (t @ slash # n) x fs) t = Some Dir"
    using assms(2) by (simp add: update_conv')
  show "changes Q t fs (AList.update (t @ slash # n) x fs)"
    using assms d by (intro changes_inside) (auto simp: update_conv' under_child)
qed

lemma write_children:
  "childrenOk Q fs t X \<Longrightarrow> childrenOk Q (AList.update (t @ slash # n) x fs) t (insert (t @ slash # n) X)"
  by (auto simp: childrenOk_def update_conv')

lemma complete_children:
  "childrenOk Q fs t {t @ slash # n} \<Longrightarrow> plainElem n \<Longrightarrow> map_of fs (t @ slash # n) = Some (File d) \<Longrightarrow> Q d \<Longrightarrow>
    childrenOk Q fs t {}"
  unfolding childrenOk_def by (metis insert_iff option.inject empty_iff)

text \<open>The only entry of the directory is renamed into the cache.\<close>

lemma rename_changes:
  assumes t: "tempPath t" "map_of fs t = Some Dir" and ch: "childrenOk Q fs t {}" and nm: "plainElem nm"
    and r: "renameFile Os fs (JoinPath [t, nm]) (JoinPath [chartCache, nm]) = Inr fs'"
  shows "changes Q t fs fs'" and "map_of fs' t = Some Dir" and "cachedFile fs' (JoinPath [chartCache, nm])"
proof -
  let ?old = "t @ slash # nm" and ?new = "chartCache @ slash # nm"
  have old: "JoinPath [t, nm] = ?old" using t(1) nm Join_sub_plain unfolding tempPath_def by blast
  have new: "JoinPath [chartCache, nm] = ?new" using Join_cache_plain [OF nm] by simp
  obtain x where x: "map_of fs ?old = Some x" and free: "map_of fs ?new \<noteq> Some Dir"
    and fs': "fs' = AList.update ?new x (AList.delete ?old fs)"
    using r unfolding old new by (auto simp: renameFile_def split: option.splits if_splits)
  obtain c where c: "x = File c" "Q c"
    using ch x under_child [of t nm] unfolding childrenOk_def by force
  have ne: "?new \<noteq> ?old" using t(1) by (auto simp: tempPath_def)
  have m: "map_of fs' p = (if p = ?new then Some (File c) else if p = ?old then None else map_of fs p)" for p
    using ne by (simp add: fs' c update_conv' delete_conv')
  have tn: "t \<noteq> ?new" using free t(2) by metis
  show dir: "map_of fs' t = Some Dir" using m [of t] tn t(2) by simp
  show "changes Q t fs fs'"
    unfolding changes_def
  proof (intro conjI allI)
    fix p
    consider "p = ?new" | "p = ?old" | "p \<noteq> ?new" "p \<noteq> ?old" by blast
    then show "map_of fs' p = map_of fs p \<or> under t p \<or> contentPath p \<or>
        (\<exists>e c. plainElem e \<and> p = chartCache @ slash # e \<and> map_of fs p \<noteq> Some Dir
           \<and> map_of fs' p = Some (File c) \<and> Q c)"
    proof cases
      case 1
      have "map_of fs' ?new = Some (File c)" by (simp add: m)
      with 1 free nm c(2) show ?thesis by blast
    next
      case 2
      then show ?thesis using under_child [of t nm] by blast
    next
      case 3
      then show ?thesis using m [of p] by simp
    qed
  qed (use t dir in simp_all)
  show "cachedFile fs' (JoinPath [chartCache, nm])"
    using nm m [of ?new] unfolding new cachedFile_def by auto
qed

text \<open>The content cache is written.\<close>

lemma content_changes:
  assumes "tempPath t" and "map_of fs t = Some Dir" and "contentPath p"
  shows "changes Q t fs (AList.update p x fs)" and "map_of (AList.update p x fs) t = Some Dir"
    and "childrenOk Q fs t X \<Longrightarrow> childrenOk Q (AList.update p x fs) t X"
proof -
  have nc: "p \<noteq> q" if "under t q" for q
    using that assms(1,3) by (auto simp: tempPath_def under_def prefix_def)
  then have "p \<noteq> t" by (simp add: under_def)
  then show d: "map_of (AList.update p x fs) t = Some Dir" using assms(2) by (simp add: update_conv')
  show "changes Q t fs (AList.update p x fs)"
    using assms d by (auto simp: changes_def update_conv')
  show "childrenOk Q (AList.update p x fs) t X" if "childrenOk Q fs t X"
    unfolding childrenOk_def
  proof (intro allI impI)
    fix q y
    assume q: "map_of (AList.update p x fs) q = Some y \<and> under t q \<and> q \<noteq> t \<and> q \<notin> X"
    then have "map_of fs q = Some y" using nc [of q] by (simp add: update_conv')
    with q that show "\<exists>n c. q = t @ slash # n \<and> plainElem n \<and> y = File c \<and> Q c"
      unfolding childrenOk_def by blast
  qed
qed

text \<open>Removal, of one entry and of the whole directory.\<close>

lemma clean_changes:
  assumes "tempPath t" and "map_of fs t = Some Dir" and "under t p" and "p \<noteq> t"
  shows "changes Q t fs (AList.delete p fs)" and "map_of (AList.delete p fs) t = Some Dir"
  using assms by (auto intro!: changes_inside simp: delete_conv')

lemma removed_changes:
  assumes "tempPath t" and "map_of fs t = Some Dir"
  shows "changes Q t fs (removeAll fs t)"
  using assms by (intro changes_inside) (auto simp: map_of_removeAll under_def)

text \<open>A new directory.\<close>

lemma temp_changes:
  assumes wb: "wellBehaved Os" and nm: "osTempName Os fs = Inr nm" and t: "t = chartCache @ slash # nm"
  shows "changes Q t fs (AList.update t Dir fs)" and "tempPath t" and "map_of fs t = None"
    and "childrenOk Q (AList.update t Dir fs) t {}"
proof -
  have plain: "plainElem nm" and fresh: "p \<in> fst ` set fs \<Longrightarrow> \<not> under t p" for p
    using wb nm unfolding wellBehaved_def t by (auto simp only: append_Cons append_Nil)
  show tp: "tempPath t" unfolding t by (rule tempPathI [OF plain])
  have none: "map_of fs p = None" if "under t p" for p
    using fresh [of p] that unfolding map_of_eq_None_iff by blast
  show "map_of fs t = None" by (rule none) (simp add: under_def)
  then show "changes Q t fs (AList.update t Dir fs)"
    using tp by (intro changes_inside) (auto simp: update_conv' under_def)
  show "childrenOk Q (AList.update t Dir fs) t {}"
    using none by (auto simp: childrenOk_def update_conv')
qed

text \<open>
  What a step does to the file system and to the directory the worker owns: nothing, or changes
  around one directory, which was its own or is new.
\<close>

definition ownStep :: "(string \<Rightarrow> bool) \<Rightarrow> fsys \<Rightarrow> phase \<Rightarrow> fsys \<Rightarrow> phase \<Rightarrow> bool" where
  "ownStep Q fs ph fs' ph' \<longleftrightarrow>
     fs' = fs \<and> (tmpOf ph' = None \<or> tmpOf ph' = tmpOf ph)
     \<or> (\<exists>t. changes Q t fs fs' \<and> (tmpOf ph = Some t \<or> map_of fs t = None)
          \<and> (tmpOf ph' = None \<or> tmpOf ph' = Some t))"

lemma ownStepI:
  "changes Q t fs fs' \<Longrightarrow> tmpOf ph = Some t \<or> map_of fs t = None \<Longrightarrow> tmpOf ph' = None \<or> tmpOf ph' = Some t \<Longrightarrow>
    ownStep Q fs ph fs' ph'"
  unfolding ownStep_def by blast

definition pullsOk :: "(string \<Rightarrow> bool) \<Rightarrow> oslib \<Rightarrow> bool" where
  "pullsOk Q Os \<longleftrightarrow> (\<forall>pc ref files. osPullRun Os pc ref = (files, None) \<longrightarrow> filesOk Q files)"

lemma pstep_ok:
  assumes wb: "wellBehaved Os" and pulls: "pullsOk Q Os" and step: "pstep Os (fs, ph) (fs', ph')"
    and tmp: "tmpOk fs ph" and ok: "okPhase Q fs ph"
  shows "tmpOk fs' ph' \<and> okPhase Q fs' ph' \<and> ownStep Q fs ph fs' ph'"
  using step
proof cases
  case (ps_temp nm t)
  have t: "t = chartCache @ slash # nm" using ps_temp(5) by simp
  note new = temp_changes [OF wb ps_temp(4) t]
  show ?thesis
    using new unfolding ps_temp(1,2,3) by (auto simp: tmpOk_def update_conv' intro!: ownStepI [OF new(1)])
next
  case ps_temp_fail
  then show ?thesis by (simp add: tmpOk_def ownStep_def)
next
  case ps_refuse
  with tmp show ?thesis by (simp add: tmpOk_def ownStep_def)
next
  case (ps_content p c pc ref t)
  have t: "tempPath t" "map_of fs t = Some Dir" using tmp ps_content by (simp_all add: tmpOk_def)
  have p: "contentPath p" using wb ps_content(4) unfolding wellBehaved_def by blast
  show ?thesis
    using content_changes [OF t p] t ok
    by (auto simp: ps_content(1-3) tmpOk_def intro!: ownStepI [OF content_changes(1) [OF t p]])
next
  case (ps_pull pc ref files err t)
  have "err = None \<longrightarrow> filesOk Q files" using pulls ps_pull(4) unfolding pullsOk_def by blast
  with tmp ok ps_pull show ?thesis by (simp add: tmpOk_def ownStep_def)
next
  case (ps_create t n c files err)
  have t: "tempPath t" "map_of fs t = Some Dir" using tmp ps_create by (simp_all add: tmpOk_def)
  have c: "childrenOk Q fs t {} \<and> plainElem n \<and> Q c \<and> filesOk Q files" if "err = None"
    using ok ps_create that by (simp add: filesOk_def)
  show ?thesis
    using write_changes [OF t] write_children [of Q fs t "{}" n "File []"] t c
    by (auto simp: ps_create tmpOk_def update_conv' intro!: ownStepI [OF write_changes(1) [OF t]])
next
  case (ps_fill t n d a b files err)
  have t: "tempPath t" "map_of fs t = Some Dir" using tmp ps_fill by (simp_all add: tmpOk_def)
  have c: "childrenOk Q fs t {t @ slash # n} \<and> plainElem n \<and> Q (d @ a @ b) \<and> filesOk Q files" if "err = None"
    using ok ps_fill that by simp
  show ?thesis
    using write_changes [OF t] write_children [of Q fs t "{t @ slash # n}" n "File (d @ a)"] t c
    by (auto simp: ps_fill tmpOk_def update_conv' intro!: ownStepI [OF write_changes(1) [OF t]])
next
  case (ps_close t n files err)
  with tmp ok show ?thesis by (auto simp: tmpOk_def ownStep_def intro: complete_children)
next
  case ps_pulled
  with tmp ok show ?thesis by (simp add: tmpOk_def ownStep_def)
next
  case ps_failed
  with tmp ok show ?thesis by (simp add: tmpOk_def ownStep_def)
next
  case ps_torn
  with tmp ok show ?thesis by (simp add: tmpOk_def ownStep_def)
next
  case (ps_list t nm)
  have "nm \<in> set (childNames fs t)"
    using ps_list(4) by (auto simp: getChartFileName_def split: option.splits list.splits)
  then obtain x where "map_of fs (t @ slash # nm) = Some x" by (auto simp: childNames_iff)
  then have "plainElem nm"
    using ok ps_list under_child [of t nm] by (force simp: childrenOk_def)
  with tmp ok ps_list show ?thesis by (simp add: tmpOk_def ownStep_def)
next
  case ps_list_fail
  with tmp ok show ?thesis by (simp add: tmpOk_def ownStep_def)
next
  case (ps_rename t nm)
  have t: "tempPath t" "map_of fs t = Some Dir" using tmp ps_rename by (simp_all add: tmpOk_def)
  have c: "childrenOk Q fs t {}" "plainElem nm" using ok ps_rename by simp_all
  show ?thesis
    using rename_changes [OF t c ps_rename(3)] t
    by (auto simp: ps_rename(1,2) tmpOk_def simp del: JoinPath.simps intro!: ownStepI [OF rename_changes(1) [OF t c ps_rename(3)]])
next
  case ps_rename_fail
  with tmp ok show ?thesis by (simp add: tmpOk_def ownStep_def)
next
  case (ps_clean t p r)
  have t: "tempPath t" "map_of fs t = Some Dir" using tmp ps_clean by (simp_all add: tmpOk_def)
  note cl = clean_changes [OF t ps_clean(4,5)]
  show ?thesis
    using cl t ok changes_cachedFile [OF cl(1)]
    by (auto simp: ps_clean(1-3) tmpOk_def intro!: ownStepI [OF cl(1)])
next
  case (ps_removed t r)
  have t: "tempPath t" "map_of fs t = Some Dir" using tmp ps_removed by (simp_all add: tmpOk_def)
  note cl = removed_changes [OF t]
  show ?thesis
    using cl t ok changes_cachedFile [OF cl]
    by (auto simp: ps_removed tmpOk_def intro!: ownStepI [OF cl])
next
  case ps_remove_fail
  with tmp ok show ?thesis by (simp add: tmpOk_def ownStep_def)
qed

lemma wstep_ok:
  assumes wb: "wellBehaved Os" and pulls: "pullsOk Q Os" and step: "wstep Os (fs, k, ph) (fs', k', ph')"
    and cache: "cacheOk Q fs" and tmp: "tmpOk fs ph" and ok: "okPhase Q fs ph"
  shows "tmpOk fs' ph' \<and> okPhase Q fs' ph' \<and> ownStep Q fs ph fs' ph'"
proof -
  have safe: "cachedFile fs (safePath chartCache f)" if "cachedFile fs f" for f
    using that safePath_inside unfolding cachedFile_def by auto
  from step show ?thesis
  proof cases
    case ws_pull
    from pstep_ok [OF wb pulls this(2) tmp ok] show ?thesis .
  next
    case (ws_hit f c)
    have "cachedFile fs (JoinPath [chartCache, Base f])"
      using ws_hit(5) cache
      by (cases rule: Join_cache_Base [of f]) (auto simp: cacheOk_def wfFS_def cachedFile_def simp del: JoinPath.simps)
    with ws_hit safe show ?thesis by (simp add: tmpOk_def ownStep_def del: JoinPath.simps)
  next
    case (ws_load p)
    then show ?thesis using ok cache by (auto simp: cachedFile_def cacheOk_def tmpOk_def ownStep_def)
  next
    case ws_next
    then show ?thesis by (cases ph') (simp_all add: tmpOk_def ownStep_def)
  qed (use ok safe in \<open>simp_all add: tmpOk_def ownStep_def\<close>)
qed

section \<open>The system\<close>

text \<open>Two workers are apart when they do not own the same directory; the cache keeps the files it has.\<close>

definition workerOk :: "(string \<Rightarrow> bool) \<Rightarrow> fsys \<Rightarrow> bool \<times> phase \<Rightarrow> bool" where
  "workerOk Q fs l \<longleftrightarrow> tmpOk fs (snd l) \<and> okPhase Q fs (snd l)"

definition ownsApart :: "bool \<times> phase \<Rightarrow> bool \<times> phase \<Rightarrow> bool" where
  "ownsApart l m \<longleftrightarrow> (\<forall>t. tmpOf (snd l) = Some t \<longrightarrow> tmpOf (snd m) \<noteq> Some t)"

definition keepsFiles :: "fsys \<Rightarrow> fsys \<Rightarrow> bool" where
  "keepsFiles fs fs' \<longleftrightarrow> (\<forall>f. cachedFile fs f \<longrightarrow> cachedFile fs' f)"

definition goodCache :: "oslib \<Rightarrow> (string \<Rightarrow> bool) \<Rightarrow> fsys \<Rightarrow> bool" where
  "goodCache Os Q fs \<longleftrightarrow> wellBehaved Os \<and> pullsOk Q Os \<and> cacheOk Q fs"

lemma wstep_own:
  assumes "wstep Os (fs, l) (fs', l')" and "goodCache Os Q fs" and "workerOk Q fs l"
  shows "workerOk Q fs' l' \<and> ownStep Q fs (snd l) fs' (snd l')"
  using wstep_ok [of Os Q fs "fst l" "snd l" fs' "fst l'" "snd l'"] assms by (simp add: goodCache_def workerOk_def)

lemma ownStepE:
  assumes "ownStep Q fs ph fs' ph'"
  obtains "fs' = fs" "tmpOf ph' = None \<or> tmpOf ph' = tmpOf ph"
  | t where "changes Q t fs fs'" "tmpOf ph = Some t \<or> map_of fs t = None" "tmpOf ph' = None \<or> tmpOf ph' = Some t"
  using assms unfolding ownStep_def by blast

interpretation cache_workers: workers "wstep Os" "goodCache Os Q" "workerOk Q" ownsApart keepsFiles
  for Os :: oslib and Q :: "string \<Rightarrow> bool"
proof
  fix fs fs' :: fsys and l l' m :: "bool \<times> phase"
  assume step: "wstep Os (fs, l) (fs', l')" and inv: "goodCache Os Q fs" and own: "workerOk Q fs l"
  note mine = wstep_own [OF step inv own]
  show "goodCache Os Q fs' \<and> workerOk Q fs' l' \<and> keepsFiles fs fs'"
  proof (cases rule: ownStepE [OF conjunct2 [OF mine]])
    case 1
    with mine inv show ?thesis by (simp add: keepsFiles_def)
  next
    case (2 t)
    with mine inv changes_cacheOk [OF 2(1)] changes_cachedFile [OF 2(1)] show ?thesis
      by (simp add: goodCache_def keepsFiles_def)
  qed
  assume m: "workerOk Q fs m" and apart: "ownsApart l m"
  from mine have "ownStep Q fs (snd l) fs' (snd l')" by simp
  then show "workerOk Q fs' m \<and> ownsApart l' m"
  proof (cases rule: ownStepE)
    case 1
    with m apart show ?thesis by (auto simp: ownsApart_def)
  next
    case (2 t)
    have foreign: "tmpOf (snd m) \<noteq> Some t"
      using 2(2) apart m by (auto simp: ownsApart_def workerOk_def tmpOk_def)
    with 2(3) changes_frame [OF 2(1) _ _ foreign] m show ?thesis
      by (auto simp: ownsApart_def workerOk_def)
  qed
qed (auto simp: ownsApart_def keepsFiles_def)

lemma run_ok:
  assumes "wellBehaved Os" and "pullsOk Q Os" and "(sstep Os)\<^sup>*\<^sup>* (fs, ws) (fs', ws')" and "cacheOk Q fs"
    and "\<forall>w. tmpOf (snd (ws w)) = None \<and> okPhase Q fs (snd (ws w))"
  shows "cacheOk Q fs' \<and> (\<forall>w. okPhase Q fs' (snd (ws' w))) \<and> (\<forall>f. cachedFile fs f \<longrightarrow> cachedFile fs' f)"
  using cache_workers.interleaved_run_ok [of Os "(fs, ws)" "(fs', ws')" Q] assms
  by (auto simp: sstep_interleaved allOk_def goodCache_def workerOk_def ownsApart_def keepsFiles_def tmpOk_def)

text \<open>A chart that was in the cache at the beginning, or is the whole answer to a pull that succeeded.\<close>

definition wholeChart :: "oslib \<Rightarrow> fsys \<Rightarrow> string \<Rightarrow> bool" where
  "wholeChart Os fs c \<longleftrightarrow> (\<exists>e. map_of fs (chartCache @ slash # e) = Some (File c))
     \<or> (\<exists>pc ref n files. osPullRun Os pc ref = (files, None) \<and> (n, c) \<in> set files)"

lemma wholeChart_pulls:
  assumes "wellBehaved Os" shows "pullsOk (wholeChart Os fs) Os"
proof -
  have "plainElem n \<and> wholeChart Os fs c" if "osPullRun Os pc ref = (files, None)" "(n, c) \<in> set files"
    for pc ref files n c
    using assms that unfolding wellBehaved_def wholeChart_def by (metis fst_conv)
  then show ?thesis unfolding pullsOk_def filesOk_def by blast
qed

lemma called_start:
  "called ph \<Longrightarrow> tmpOf ph = None \<and> okPhase Q fs ph"
  by (cases ph) simp_all

lemma wholeChart_start:
  "wfFS fs \<Longrightarrow> cacheOk (wholeChart Os fs) fs"
  by (auto simp: cacheOk_def wholeChart_def)

end
