(* ===== verification/Client_Start.thy ===== *)
theory Client_Start
  imports Helm_Client Interleaving
begin

text \<open>
  \<open>NewClient\<close> when reconciles run in parallel. Every call of \<open>Connect\<close> makes a client, and makes sure
  that the two cache directories are there with \<open>os.Stat\<close> and then \<open>os.Mkdir\<close>; between the two another
  worker may have made the directory, and then \<open>Mkdir\<close> fails.
\<close>

section \<open>Steps\<close>

text \<open>
  Where a call is: about to look for the first of some directories; about to make one; returned, with
  its error. The directories come with the message their failure is wrapped in. A worker also counts
  its calls that failed because a directory was there already.
\<close>

datatype startPhase =
    StatDirs "(string \<times> string) list"
  | MkdirOf string string "(string \<times> string) list"
  | Returned "goerr option"

definition cacheDirs :: "(string \<times> string) list" where
  "cacheDirs =
     [(chartCache, errFailedToCreateChartCacheDir), (chartContentCache, errFailedToCreateContentCacheDir)]"

definition errExist :: "string \<Rightarrow> goerr" where
  "errExist d = ErrNew (''mkdir '' @ d @ '': file exists'')"

definition dirSettled :: "oslib \<Rightarrow> fsys \<Rightarrow> string \<Rightarrow> bool" where
  "dirSettled Os fs d \<longleftrightarrow> osStatErr Os d \<noteq> None \<or> map_of fs d \<noteq> None"

inductive dstep :: "'cfg helmlib \<Rightarrow> oslib \<Rightarrow> fsys \<times> nat \<times> startPhase \<Rightarrow> fsys \<times> nat \<times> startPhase \<Rightarrow> bool"
  for HL Os where
  ds_there: "dirSettled Os fs d \<Longrightarrow> dstep HL Os (fs, n, StatDirs ((d, m) # ds)) (fs, n, StatDirs ds)"
| ds_missing: "\<not> dirSettled Os fs d \<Longrightarrow> dstep HL Os (fs, n, StatDirs ((d, m) # ds)) (fs, n, MkdirOf d m ds)"
| ds_made: "hlMkdirErr HL d = None \<Longrightarrow> map_of fs d = None \<Longrightarrow>
    dstep HL Os (fs, n, MkdirOf d m ds) (AList.update d Dir fs, n, StatDirs ds)"
| ds_taken: "hlMkdirErr HL d = None \<Longrightarrow> map_of fs d \<noteq> None \<Longrightarrow>
    dstep HL Os (fs, n, MkdirOf d m ds) (fs, Suc n, Returned (Some (Wrap (errExist d) m)))"
| ds_fault: "hlMkdirErr HL d = Some e \<Longrightarrow>
    dstep HL Os (fs, n, MkdirOf d m ds) (fs, n, Returned (Some (Wrap e m)))"
| ds_ready: "dstep HL Os (fs, n, StatDirs []) (fs, n, Returned None)"
| ds_again: "dstep HL Os (fs, n, Returned r) (fs, n, StatDirs cacheDirs)"

section \<open>The sequential code is a run of one worker\<close>

lemma ensureDir_steps:
  "(dstep HL Os)\<^sup>*\<^sup>* (fs, n, StatDirs ((d, m) # ds))
     (case ensureDir HL Os d m fs of Inl e \<Rightarrow> (fs, n, Returned (Some e)) | Inr fs' \<Rightarrow> (fs', n, StatDirs ds))"
proof (cases "dirSettled Os fs d")
  case True
  then have "ensureDir HL Os d m fs = Inr fs" by (auto simp: ensureDir_def dirSettled_def)
  with r_into_rtranclp [of "dstep HL Os", OF ds_there [OF True]] show ?thesis by simp
next
  case False
  note missing = ds_missing [OF False, of HL n m ds]
  show ?thesis
  proof (cases "hlMkdirErr HL d")
    case None
    from ds_made [OF this, of fs Os n m ds] missing False None show ?thesis
      by (auto simp: ensureDir_def dirSettled_def intro: converse_rtranclp_into_rtranclp)
  next
    case (Some e)
    from ds_fault [OF this, of Os fs n m ds] missing False Some show ?thesis
      by (auto simp: ensureDir_def dirSettled_def intro: converse_rtranclp_into_rtranclp)
  qed
qed

lemma NewClient_steps:
  assumes "NewClient HL Os cfg appliers fs = (fs', r)"
    and "hlInit HL cfg (agNamespace (foldl (\<lambda>a apply. apply a) zeroArgs appliers)) helmDriverSecret = None"
    and "hlNewRegistryClient HL = None"
  shows "(dstep HL Os)\<^sup>*\<^sup>* (fs, n, StatDirs cacheDirs)
    (fs', n, Returned (case r of Inl e \<Rightarrow> Some e | Inr c \<Rightarrow> None))"
proof -
  let ?d1 = "(chartCache, errFailedToCreateChartCacheDir)" and ?d2 = "(chartContentCache, errFailedToCreateContentCacheDir)"
  show ?thesis
  proof (cases "ensureDir HL Os chartCache errFailedToCreateChartCacheDir fs")
    case (Inl e)
    with assms have "fs' = fs" "r = Inl e" by (auto simp: NewClient_def Let_def)
    with ensureDir_steps [of HL Os fs n chartCache errFailedToCreateChartCacheDir "[?d2]"] Inl show ?thesis
      by (simp add: cacheDirs_def)
  next
    case (Inr fs1)
    with ensureDir_steps [of HL Os fs n chartCache errFailedToCreateChartCacheDir "[?d2]"]
    have one: "(dstep HL Os)\<^sup>*\<^sup>* (fs, n, StatDirs cacheDirs) (fs1, n, StatDirs [?d2])" by (simp add: cacheDirs_def)
    note two = ensureDir_steps [of HL Os fs1 n chartContentCache errFailedToCreateContentCacheDir "[]"]
    show ?thesis
    proof (cases "ensureDir HL Os chartContentCache errFailedToCreateContentCacheDir fs1")
      case (Inl e)
      with assms Inr have "fs' = fs1" "r = Inl e" by (auto simp: NewClient_def Let_def)
      with one two Inl show ?thesis by (auto intro: rtranclp_trans)
    next
      case (Inr fs2)
      with assms \<open>ensureDir HL Os chartCache _ fs = Inr fs1\<close> have "fs' = fs2" "\<exists>c. r = Inr c"
        by (auto simp: NewClient_def Let_def)
      moreover have "(dstep HL Os)\<^sup>*\<^sup>* (fs1, n, StatDirs [?d2]) (fs2, n, Returned None)"
        using rtranclp.rtrancl_into_rtrancl [of "dstep HL Os", OF _ ds_ready] two Inr by simp
      ultimately show ?thesis using one by (auto intro: rtranclp_trans)
    qed
  qed
qed

section \<open>All workers\<close>

text \<open>
  What a worker has: the directories it has passed are settled, and every failed call is paid for by a
  directory that is there; a call that is going to fail is paid for as well.
\<close>

definition dirsThere :: "fsys \<Rightarrow> nat" where
  "dirsThere fs = length (filter (\<lambda>(d, m). map_of fs d \<noteq> None) cacheDirs)"

definition passed :: "oslib \<Rightarrow> fsys \<Rightarrow> (string \<times> string) list \<Rightarrow> bool" where
  "passed Os fs ds \<longleftrightarrow> (\<exists>pre. cacheDirs = pre @ ds \<and> (\<forall>(d, m)\<in>set pre. dirSettled Os fs d))"

definition startOk :: "oslib \<Rightarrow> fsys \<Rightarrow> nat \<times> startPhase \<Rightarrow> bool" where
  "startOk Os fs l \<longleftrightarrow>
     (case l of (n, ph) \<Rightarrow>
        (case ph of
           StatDirs ds \<Rightarrow> passed Os fs ds \<and> n \<le> dirsThere fs
         | MkdirOf d m ds \<Rightarrow> passed Os fs ((d, m) # ds) \<and> n + (if map_of fs d = None then 0 else 1) \<le> dirsThere fs
         | Returned r \<Rightarrow> (r = None \<longrightarrow> passed Os fs []) \<and> n \<le> dirsThere fs))"

definition moreDirs :: "fsys \<Rightarrow> fsys \<Rightarrow> bool" where
  "moreDirs fs fs' \<longleftrightarrow> (\<forall>d\<in>{chartCache, chartContentCache}. map_of fs d \<noteq> None \<longrightarrow> map_of fs' d \<noteq> None)"

lemma dirsThere_le: "dirsThere fs \<le> 2"
  by (simp add: dirsThere_def cacheDirs_def)

lemma dirsThere_mono: "moreDirs fs fs' \<Longrightarrow> dirsThere fs \<le> dirsThere fs'"
  by (auto simp: dirsThere_def cacheDirs_def moreDirs_def)

lemma passed_dir: "passed Os fs ((d, m) # ds) \<Longrightarrow> d = chartCache \<or> d = chartContentCache"
proof -
  assume "passed Os fs ((d, m) # ds)"
  then obtain pre where "cacheDirs = pre @ (d, m) # ds" by (auto simp: passed_def)
  then have "(d, m) \<in> set cacheDirs" by (metis in_set_conv_decomp)
  then show ?thesis by (auto simp: cacheDirs_def)
qed

lemma dirsThere_update:
  assumes "passed Os fs ((d, m) # ds)" and "map_of fs d = None"
  shows "dirsThere (AList.update d Dir fs) = Suc (dirsThere fs)"
  using passed_dir [OF assms(1)] assms(2) cacheDirs_differ
  by (auto simp: dirsThere_def cacheDirs_def update_conv')

lemma passed_mono:
  assumes "passed Os fs ds" and "moreDirs fs fs'"
  shows "passed Os fs' ds"
proof -
  obtain pre where pre: "cacheDirs = pre @ ds" "\<forall>(d, m)\<in>set pre. dirSettled Os fs d"
    using assms(1) by (auto simp: passed_def)
  have "dirSettled Os fs' d" if "(d, m) \<in> set pre" for d m
  proof -
    from that have "(d, m) \<in> set cacheDirs" unfolding pre(1) by simp
    then have "d \<in> {chartCache, chartContentCache}" by (auto simp: cacheDirs_def)
    moreover have "dirSettled Os fs d" using pre(2) that by blast
    ultimately show ?thesis using assms(2) unfolding moreDirs_def dirSettled_def by blast
  qed
  with pre(1) show ?thesis unfolding passed_def by blast
qed

lemma passed_next:
  assumes "passed Os fs ((d, m) # ds)" and "dirSettled Os fs d"
  shows "passed Os fs ds"
proof -
  obtain pre where "cacheDirs = pre @ (d, m) # ds" "\<forall>(d, m)\<in>set pre. dirSettled Os fs d"
    using assms(1) by (auto simp: passed_def)
  with assms(2) show ?thesis by (auto simp: passed_def intro!: exI [of _ "pre @ [(d, m)]"])
qed

lemma update_moreDirs: "moreDirs fs (AList.update d Dir fs)"
  by (auto simp: moreDirs_def update_conv')

lemma dstep_moreDirs: "dstep HL Os (fs, l) (fs', l') \<Longrightarrow> moreDirs fs fs'"
  by (erule dstep.cases) (auto simp: update_moreDirs moreDirs_def)

lemma startOk_grows:
  assumes "startOk Os fs (n, ph)" and "moreDirs fs fs'"
    and "\<And>d m ds. ph = MkdirOf d m ds \<Longrightarrow> map_of fs d = None \<Longrightarrow> map_of fs' d \<noteq> None \<Longrightarrow>
      dirsThere fs < dirsThere fs'"
  shows "startOk Os fs' (n, ph)"
proof (cases ph)
  case (MkdirOf d m ds)
  have more: "map_of fs d \<noteq> None \<Longrightarrow> map_of fs' d \<noteq> None"
    using assms(1,2) MkdirOf passed_dir [of Os fs d m ds] by (auto simp: moreDirs_def cacheDirs_def startOk_def)
  have p: "passed Os fs' ((d, m) # ds)" using assms(1) passed_mono [OF _ assms(2)] MkdirOf by (simp add: startOk_def)
  have "n + (if map_of fs' d = None then 0 else 1) \<le> dirsThere fs'"
    using assms(1,3) MkdirOf more dirsThere_mono [OF assms(2)] by (auto simp: startOk_def split: if_splits)
  with p MkdirOf show ?thesis by (simp add: startOk_def)
qed (use assms passed_mono [OF _ assms(2)] dirsThere_mono [OF assms(2)] in \<open>auto simp: startOk_def\<close>)

lemma passed_start: "passed Os fs cacheDirs"
  by (simp add: passed_def)

lemma dstep_own:
  assumes "dstep HL Os (fs, l) (fs', l')" and "startOk Os fs l"
  shows "startOk Os fs' l'"
  using assms(1)
proof cases
  case (ds_made d n m ds)
  then have p: "passed Os fs ((d, m) # ds)" and n: "n \<le> dirsThere fs" using assms(2) by (simp_all add: startOk_def)
  have "passed Os fs' ds"
    using passed_next [OF passed_mono [OF p update_moreDirs], of d] ds_made by (simp add: dirSettled_def update_conv')
  with n dirsThere_update [OF p ds_made(5)] ds_made show ?thesis by (simp add: startOk_def)
next
  case ds_there
  with assms(2) passed_next show ?thesis by (simp add: startOk_def) blast
qed (use assms(2) passed_start in \<open>auto simp: startOk_def dirSettled_def split: if_splits\<close>)

lemma dstep_new_dir:
  assumes "dstep HL Os (fs, l) (fs', l')" and "startOk Os fs l" and "map_of fs d = None" and "map_of fs' d \<noteq> None"
  shows "dirsThere fs < dirsThere fs'"
  using assms(1)
proof cases
  case (ds_made d' n m ds)
  with assms(2) have "passed Os fs ((d', m) # ds)" by (simp add: startOk_def)
  from dirsThere_update [OF this ds_made(5)] ds_made show ?thesis by simp
qed (use assms(3,4) in simp_all)

interpretation start_workers: workers "dstep HL Os" "\<lambda>fs. True" "startOk Os" "\<lambda>l m. True" moreDirs
  for HL :: "'cfg helmlib" and Os :: oslib
proof
  fix fs fs' :: fsys and l l' m :: "nat \<times> startPhase"
  assume step: "dstep HL Os (fs, l) (fs', l')" and own: "startOk Os fs l"
  then show "True \<and> startOk Os fs' l' \<and> moreDirs fs fs'" using dstep_own dstep_moreDirs by blast
  assume "startOk Os fs m"
  then show "startOk Os fs' m \<and> True"
    using startOk_grows [of Os fs "fst m" "snd m" fs'] dstep_moreDirs [OF step] dstep_new_dir [OF step own] by simp
qed (auto simp: moreDirs_def)

end
