(* ===== verification/Reconcile_Steps.thy ===== *)
theory Reconcile_Steps
  imports Cache_Safety Client_Start
begin

text \<open>
  Whole reconciles in parallel, as far as they touch the file system. A reconcile makes a client
  (\<open>Client_Start\<close>); when that succeeds it may pull and load charts (\<open>Cache_Steps\<close>); then the next
  reconcile begins. That the cache directory is there is what the first part guarantees and the second
  relies on.
\<close>

section \<open>Steps\<close>

datatype activity = Starting startPhase | Caching "bool \<times> phase"

inductive rstep :: "'cfg helmlib \<Rightarrow> oslib \<Rightarrow> fsys \<times> nat \<times> activity \<Rightarrow> fsys \<times> nat \<times> activity \<Rightarrow> bool" for HL Os where
  rs_start: "dstep HL Os (fs, n, ph) (fs', n', ph') \<Longrightarrow> rstep HL Os (fs, n, Starting ph) (fs', n', Starting ph')"
| rs_client: "called ph \<Longrightarrow> rstep HL Os (fs, n, Starting (Returned None)) (fs, n, Caching (True, ph))"
| rs_cache: "wstep Os (fs, l) (fs', l') \<Longrightarrow> rstep HL Os (fs, n, Caching l) (fs', n, Caching l')"
| rs_next: "returned ph \<Longrightarrow> rstep HL Os (fs, n, Caching (k, ph)) (fs, n, Starting (StatDirs cacheDirs))"

section \<open>The contract\<close>

text \<open>
  The cache directory is missing or a directory, its files are complete; a worker that pulls or loads
  has the directory.
\<close>

definition cacheSafe :: "oslib \<Rightarrow> (string \<Rightarrow> bool) \<Rightarrow> fsys \<Rightarrow> bool" where
  "cacheSafe Os Q fs \<longleftrightarrow> wellBehaved Os \<and> pullsOk Q Os \<and> (\<forall>d\<in>{chartCache, chartContentCache}. osStatErr Os d = None)
     \<and> map_of fs ''/tmp'' = Some Dir \<and> (map_of fs chartCache = None \<or> map_of fs chartCache = Some Dir)
     \<and> (\<forall>e c. plainElem e \<longrightarrow> map_of fs (chartCache @ slash # e) = Some (File c) \<longrightarrow> Q c)"

definition reconcileOk :: "oslib \<Rightarrow> (string \<Rightarrow> bool) \<Rightarrow> fsys \<Rightarrow> nat \<times> activity \<Rightarrow> bool" where
  "reconcileOk Os Q fs l \<longleftrightarrow>
     (case snd l of
        Starting ph \<Rightarrow> startOk Os fs (fst l, ph)
      | Caching c \<Rightarrow> startOk Os fs (fst l, Returned None) \<and> workerOk Q fs c)"

definition reconcilesApart :: "nat \<times> activity \<Rightarrow> nat \<times> activity \<Rightarrow> bool" where
  "reconcilesApart l m \<longleftrightarrow> (\<forall>c c'. snd l = Caching c \<longrightarrow> snd m = Caching c' \<longrightarrow> ownsApart c c')"

definition keepsCache :: "fsys \<Rightarrow> fsys \<Rightarrow> bool" where
  "keepsCache fs fs' \<longleftrightarrow> keepsFiles fs fs' \<and> moreDirs fs fs'"

lemma cacheSafe_good:
  "cacheSafe Os Q fs \<Longrightarrow> map_of fs chartCache = Some Dir \<Longrightarrow> goodCache Os Q fs"
  by (simp add: cacheSafe_def goodCache_def cacheOk_def wfFS_def)

lemma goodCache_safe:
  "goodCache Os Q fs' \<Longrightarrow> cacheSafe Os Q fs \<Longrightarrow> cacheSafe Os Q fs'"
  by (simp add: cacheSafe_def goodCache_def cacheOk_def wfFS_def)

text \<open>A worker that has made its client has the cache directory.\<close>

lemma startOk_cache:
  assumes "startOk Os fs (n, Returned None)" and "cacheSafe Os Q fs"
  shows "map_of fs chartCache = Some Dir"
proof -
  have "dirSettled Os fs chartCache" using assms(1) by (auto simp: startOk_def passed_def cacheDirs_def)
  with assms(2) show ?thesis by (auto simp: cacheSafe_def dirSettled_def)
qed

section \<open>Starting leaves the cache alone\<close>

text \<open>A step of \<open>NewClient\<close> changes nothing but that one of the two directories is made.\<close>

lemma dstep_changes:
  assumes "dstep HL Os (fs, l) (fs', l')" and "startOk Os fs l"
  obtains "fs' = fs" | d where "d \<in> {chartCache, chartContentCache}" "map_of fs d = None" "fs' = AList.update d Dir fs"
  using assms(1)
proof cases
  case (ds_made d n m ds)
  then have "passed Os fs ((d, m) # ds)" using assms(2) by (simp add: startOk_def)
  from passed_dir [OF this] have "d \<in> {chartCache, chartContentCache}" by blast
  with ds_made show ?thesis using that by blast
qed (use that in blast)+

lemma cacheDir_paths:
  assumes "d \<in> {chartCache, chartContentCache}"
  shows "d \<noteq> ''/tmp''" and "d \<noteq> chartCache @ slash # p" and "tempPath t \<Longrightarrow> \<not> under t d"
  using assms tempPath_dirs(2) [of t]
  by (auto simp: chartCache_def chartContentCache_def tempPath_def under_def prefix_def)

lemma made_frame:
  assumes d: "d \<in> {chartCache, chartContentCache}" and ok: "okPhase Q fs ph" "tmpOk fs ph"
  shows "okPhase Q (AList.update d Dir fs) ph \<and> tmpOk (AList.update d Dir fs) ph"
proof -
  let ?fs = "AList.update d Dir fs"
  have cached: "cachedFile ?fs f" if "cachedFile fs f" for f
    using that cacheDir_paths(2) [OF d] by (auto simp: cachedFile_def update_conv')
  have tmp: "tmpOk ?fs ph"
    using ok(2) cacheDir_paths(3) [OF d] by (auto simp: tmpOk_def update_conv' under_def)
  have ch: "childrenOk Q ?fs t X" if "childrenOk Q fs t X" "tempPath t" for t X
    using that cacheDir_paths(3) [OF d] by (auto simp: childrenOk_def update_conv')
  have sub: "map_of ?fs (t @ slash # n) = map_of fs (t @ slash # n)" if "tempPath t" for t n
    using cacheDir_paths(3) [OF d that] under_child [of t n] by (auto simp: update_conv')
  show ?thesis
    using ok(1) tmp cached ch sub by (cases ph) (auto simp: tmpOk_def)
qed

lemma made_safe:
  assumes "cacheSafe Os Q fs" and "d \<in> {chartCache, chartContentCache}"
  shows "cacheSafe Os Q (AList.update d Dir fs)"
  using assms(1) cacheDir_paths(1,2) [OF assms(2)]
  by (auto simp: cacheSafe_def update_conv')

lemma made_keepsFiles: "d \<in> {chartCache, chartContentCache} \<Longrightarrow> keepsFiles fs (AList.update d Dir fs)"
  using cacheDir_paths(2) by (auto simp: keepsFiles_def cachedFile_def update_conv')

section \<open>Pulling and loading leaves the directories alone\<close>

lemma ownStep_dirs:
  assumes "ownStep Q fs ph fs' ph'" and "d \<in> {chartCache, chartContentCache}"
  shows "map_of fs' d = map_of fs d"
  using assms(1)
proof (cases rule: ownStepE)
  case (2 t)
  have t: "tempPath t" using 2(1) by (simp add: changes_def)
  show ?thesis
    using assms(2) cacheDir_paths(2) [OF assms(2)]
    by (intro changes_other [OF 2(1) cacheDir_paths(3) [OF assms(2) t]])
      (auto simp: contentPath_def chartContentCache_def chartCache_def)
qed simp

lemma startOk_same:
  assumes "startOk Os fs (n, ph)" and "\<And>d. d \<in> {chartCache, chartContentCache} \<Longrightarrow> map_of fs' d = map_of fs d"
  shows "startOk Os fs' (n, ph)"
proof (rule startOk_grows [OF assms(1)])
  show "moreDirs fs fs'" using assms(2) by (simp add: moreDirs_def)
  show "dirsThere fs < dirsThere fs'" if "ph = MkdirOf d m ds" "map_of fs d = None" "map_of fs' d \<noteq> None" for d m ds
    using assms that passed_dir [of Os fs d m ds] by (auto simp: startOk_def)
qed

section \<open>The reconciles keep their contracts\<close>

lemma rstep_guarantee:
  assumes "rstep HL Os (fs, l) (fs', l')" and safe: "cacheSafe Os Q fs" and own: "reconcileOk Os Q fs l"
  shows "cacheSafe Os Q fs' \<and> reconcileOk Os Q fs' l' \<and> keepsCache fs fs'"
  using assms(1)
proof cases
  case (rs_start n ph n' ph')
  have o: "startOk Os fs (n, ph)" using own rs_start by (simp add: reconcileOk_def)
  have "startOk Os fs' (n', ph')" by (rule dstep_own [OF rs_start(3) o])
  moreover have "cacheSafe Os Q fs' \<and> keepsFiles fs fs'"
    using dstep_changes [OF rs_start(3) o] made_safe [OF safe] made_keepsFiles safe by (metis keepsFiles_def)
  ultimately show ?thesis using dstep_moreDirs [OF rs_start(3)] rs_start by (simp add: reconcileOk_def keepsCache_def)
next
  case (rs_client ph n)
  then show ?thesis
    using own safe called_start [OF rs_client(4)]
    by (simp add: reconcileOk_def workerOk_def tmpOk_def keepsCache_def keepsFiles_def moreDirs_def)
next
  case (rs_cache c c' n)
  have o: "startOk Os fs (n, Returned None)" "workerOk Q fs c" using own rs_cache by (simp_all add: reconcileOk_def)
  have good: "goodCache Os Q fs" by (rule cacheSafe_good [OF safe startOk_cache [OF o(1) safe]])
  note g = cache_workers.guarantee [OF rs_cache(3) good o(2)]
  have same: "map_of fs' d = map_of fs d" if "d \<in> {chartCache, chartContentCache}" for d
    using ownStep_dirs [OF _ that] wstep_own [OF rs_cache(3) good o(2)] by blast
  then have "moreDirs fs fs'" by (simp add: moreDirs_def)
  with g startOk_same [OF o(1) same] goodCache_safe [OF _ safe] rs_cache show ?thesis
    by (simp add: reconcileOk_def keepsCache_def)
next
  case (rs_next ph n k)
  then show ?thesis
    using own safe passed_start
    by (simp add: reconcileOk_def startOk_def keepsCache_def keepsFiles_def moreDirs_def)
qed

lemma rstep_rely:
  assumes "rstep HL Os (fs, l) (fs', l')" and safe: "cacheSafe Os Q fs" and own: "reconcileOk Os Q fs l"
    and other: "reconcileOk Os Q fs m" and apart: "reconcilesApart l m"
  shows "reconcileOk Os Q fs' m \<and> reconcilesApart l' m"
proof -
  obtain n a where m: "m = (n, a)" by fastforce
  from assms(1) show ?thesis
  proof cases
    case (rs_start i ph i' ph')
    have o: "startOk Os fs (i, ph)" using own rs_start by (simp add: reconcileOk_def)
    have st: "startOk Os fs' (n, p)" if "startOk Os fs (n, p)" for p
      using startOk_grows [OF that dstep_moreDirs [OF rs_start(3)]] dstep_new_dir [OF rs_start(3) o] by blast
    have "workerOk Q fs' c" if "workerOk Q fs c" for c
      using dstep_changes [OF rs_start(3) o] made_frame [of _ Q fs "snd c"] that by (metis workerOk_def)
    with st other show ?thesis
      unfolding rs_start m by (cases a) (simp_all add: reconcileOk_def reconcilesApart_def)
  next
    case (rs_client ph i)
    have "ownsApart (True, ph) c" for c using called_start [OF rs_client(4)] by (simp add: ownsApart_def)
    with other show ?thesis unfolding rs_client by (simp add: reconcilesApart_def)
  next
    case (rs_cache c c' i)
    have o: "startOk Os fs (i, Returned None)" "workerOk Q fs c" using own rs_cache by (simp_all add: reconcileOk_def)
    have good: "goodCache Os Q fs" by (rule cacheSafe_good [OF safe startOk_cache [OF o(1) safe]])
    have same: "map_of fs' d = map_of fs d" if "d \<in> {chartCache, chartContentCache}" for d
      using ownStep_dirs [OF _ that] wstep_own [OF rs_cache(3) good o(2)] by blast
    have st: "startOk Os fs' (n, p)" if "startOk Os fs (n, p)" for p by (rule startOk_same [OF that same])
    show ?thesis
    proof (cases a)
      case (Starting p)
      with st other show ?thesis unfolding rs_cache m by (simp add: reconcileOk_def reconcilesApart_def)
    next
      case (Caching k)
      have "workerOk Q fs' k \<and> ownsApart c' k"
        by (rule cache_workers.rely [OF rs_cache(3) good o(2)])
          (use other apart Caching rs_cache m in \<open>simp_all add: reconcileOk_def reconcilesApart_def\<close>)
      with st other Caching show ?thesis unfolding rs_cache m by (simp add: reconcileOk_def reconcilesApart_def)
    qed
  next
    case rs_next
    with other show ?thesis by (simp add: reconcilesApart_def)
  qed
qed

interpretation reconciles: workers "rstep HL Os" "cacheSafe Os Q" "reconcileOk Os Q" reconcilesApart keepsCache
  for HL :: "'cfg helmlib" and Os :: oslib and Q :: "string \<Rightarrow> bool"
proof
  show "cacheSafe Os Q s' \<and> reconcileOk Os Q s' l' \<and> keepsCache s s'"
    if "rstep HL Os (s, l) (s', l')" "cacheSafe Os Q s" "reconcileOk Os Q s l" for s l s' l'
    by (rule rstep_guarantee [OF that])
  show "reconcileOk Os Q s' m \<and> reconcilesApart l' m"
    if "rstep HL Os (s, l) (s', l')" "cacheSafe Os Q s" "reconcileOk Os Q s l" "reconcileOk Os Q s m" "reconcilesApart l m"
    for s l s' l' m
    by (rule rstep_rely [OF that])
qed (auto simp: reconcilesApart_def ownsApart_def keepsCache_def keepsFiles_def moreDirs_def)

section \<open>Runs\<close>

lemma reconcileOk_start:
  "cacheSafe Os Q fs \<Longrightarrow> \<forall>w. ls w = (0, Starting (StatDirs cacheDirs)) \<Longrightarrow>
    allOk (cacheSafe Os Q) (reconcileOk Os Q) reconcilesApart (fs, ls)"
  by (simp add: allOk_def reconcileOk_def reconcilesApart_def startOk_def passed_start)

text \<open>A run of \<open>NewClient\<close> and one of a call of the client are runs of a reconcile.\<close>

lemma start_lift:
  "(dstep HL Os)\<^sup>*\<^sup>* (fs, n, ph) (fs', n', ph') \<Longrightarrow> (rstep HL Os)\<^sup>*\<^sup>* (fs, n, Starting ph) (fs', n', Starting ph')"
  by (induction "(fs', n', ph')" arbitrary: fs' n' ph' rule: rtranclp_induct)
    (auto intro: rtranclp.rtrancl_into_rtrancl rs_start)

lemma cache_lift:
  "(wstep Os)\<^sup>*\<^sup>* (fs, l) (fs', l') \<Longrightarrow> (rstep HL Os)\<^sup>*\<^sup>* (fs, n, Caching l) (fs', n, Caching l')"
  by (induction "(fs', l')" arbitrary: fs' l' rule: rtranclp_induct)
    (auto intro: rtranclp.rtrancl_into_rtrancl rs_cache)

lemma reconcile_run:
  assumes "(dstep HL Os)\<^sup>*\<^sup>* (fs, n, StatDirs cacheDirs) (fs1, n, Returned None)" and "called ph"
    and "(wstep Os)\<^sup>*\<^sup>* (fs1, True, ph) (fs', k, ph')"
  shows "(rstep HL Os)\<^sup>*\<^sup>* (fs, n, Starting (StatDirs cacheDirs)) (fs', n, Caching (k, ph'))"
  using start_lift [OF assms(1)] rs_client [OF assms(2), of HL Os fs1 n] cache_lift [OF assms(3), of HL n]
  by (meson r_into_rtranclp rtranclp_trans)

end
