(* ===== verification/Post_Render.thy ===== *)
theory Post_Render
  imports Helm_Cache_Facts Api_Types
begin

text \<open>
  The post-renderer that applies the Kustomize patches to the manifests Helm has rendered
  (\<open>pkg/clients/helm/kustomize.go\<close>). It works in a temporary directory on disk; Kustomize itself,
  the JSON form of a kustomization and the faults of system calls are parameters.
\<close>

definition kustomizationFileName :: string where "kustomizationFileName = ''kustomization.yaml''"
definition helmOutputFileName :: string where "helmOutputFileName = ''helm-output.yaml''"
definition helmTempDirNamePattern :: string where "helmTempDirNamePattern = ''helm-post-render''"

record KustomizationRender =
  krPatches :: "Patch list"

text \<open>The fields the code sets of \<open>types.Kustomization\<close> and of \<open>krusty.Options\<close>.\<close>

record Kustomization =
  kuResources :: "string list"
  kuPatches :: "Patch list"

record KustOptions =
  koLoadRestrictionsRootOnly :: bool
  koPluginsDisabled :: bool

text \<open>\<open>knTempDir\<close> is \<open>os.MkdirTemp("", pattern)\<close>, by the directory it creates.\<close>

record 'm kustlib =
  knTempDir :: "fsys \<Rightarrow> string \<Rightarrow> goerr + string"
  knMarshal :: "Kustomization \<Rightarrow> goerr + string"
  knWriteErr :: "string \<Rightarrow> goerr option"
  knRun :: "KustOptions \<Rightarrow> fsys \<Rightarrow> string \<Rightarrow> goerr + 'm"
  knAsYaml :: "'m \<Rightarrow> goerr + string"
  knRemoveErr :: "string \<Rightarrow> goerr option"

definition writeFile :: "'m kustlib \<Rightarrow> string \<Rightarrow> string \<Rightarrow> fsys \<Rightarrow> goerr + fsys" where
  "writeFile K p content fs =
     (case knWriteErr K p of Some e \<Rightarrow> Inl e | None \<Rightarrow> Inr (AList.update p (File content) fs))"

text \<open>The body after the directory was made: the file system it leaves, and its result.\<close>

definition renderIn ::
  "'m kustlib \<Rightarrow> KustomizationRender \<Rightarrow> string \<Rightarrow> string \<Rightarrow> fsys \<Rightarrow> fsys \<times> (goerr + string)" where
  "renderIn K kr d renderedManifests fs =
     (let k = \<lparr>kuResources = [helmOutputFileName], kuPatches = krPatches kr\<rparr> in
      case knMarshal K k of
        Inl e \<Rightarrow> (fs, Inl e)
      | Inr kdata \<Rightarrow>
     (case writeFile K (JoinPath [d, kustomizationFileName]) kdata fs of
        Inl e \<Rightarrow> (fs, Inl e)
      | Inr fs1 \<Rightarrow>
     (case writeFile K (JoinPath [d, helmOutputFileName]) renderedManifests fs1 of
        Inl e \<Rightarrow> (fs1, Inl e)
      | Inr fs2 \<Rightarrow>
     (let opts = \<lparr>koLoadRestrictionsRootOnly = True, koPluginsDisabled = True\<rparr> in
      (fs2, bindE (knRun K opts fs2 d) (knAsYaml K))))))"

text \<open>A failing removal of the directory is only logged.\<close>

definition Run ::
  "'m kustlib \<Rightarrow> KustomizationRender \<Rightarrow> string \<Rightarrow> fsys \<Rightarrow> fsys \<times> (goerr + string)" where
  "Run K kr renderedManifests fs =
     (case knTempDir K fs helmTempDirNamePattern of
        Inl e \<Rightarrow> (fs, Inl e)
      | Inr d \<Rightarrow>
          (case renderIn K kr d renderedManifests (AList.update d Dir fs) of
             (fs', r) \<Rightarrow> ((case knRemoveErr K d of Some e \<Rightarrow> fs' | None \<Rightarrow> removeAll fs' d), r)))"

section \<open>Facts\<close>

text \<open>A temporary directory: an absolute path whose entries do not exist yet.\<close>

definition freshDir :: "fsys \<Rightarrow> string \<Rightarrow> bool" where
  "freshDir fs d \<longleftrightarrow> (\<exists>es. d = absPath es \<and> list_all plainElem es \<and> es \<noteq> [])
     \<and> (\<forall>p. under d p \<longrightarrow> map_of fs p = None)"

lemma plain_names: "plainElem kustomizationFileName" "plainElem helmOutputFileName"
  by (simp_all add: plainElem_def kustomizationFileName_def helmOutputFileName_def)

lemma freshDir_join:
  assumes "freshDir fs d"
  shows "JoinPath [d, kustomizationFileName] = d @ slash # kustomizationFileName"
    "JoinPath [d, helmOutputFileName] = d @ slash # helmOutputFileName"
  using assms plain_names Join_plain unfolding freshDir_def by blast+

text \<open>Outside its directory the body changes nothing.\<close>

lemma renderIn_frame:
  assumes "freshDir fs0 d" and "renderIn K kr d m fs = (fs', r)" and "\<not> under d p"
  shows "map_of fs' p = map_of fs p"
proof -
  have "p \<noteq> d @ slash # n" for n using assms(3) under_child by blast
  with assms(2) show ?thesis
    unfolding renderIn_def freshDir_join [OF assms(1)]
    by (auto simp: writeFile_def Let_def update_conv' simp del: JoinPath.simps
        split: sum.splits option.splits)
qed

end
