(* ===== verification/Helm_Log.thy ===== *)
theory Helm_Log
  imports Go_Encoding
begin

text \<open>
  The adapter that forwards Helm's log records to the logger of the provider
  (\<open>pkg/clients/helm/logger.go\<close>), with the string form of a level as in \<open>log/slog\<close>. The logger is the
  list of the values that were attached to it; what it is told is a call.
\<close>

datatype 'v logValue = AnyValue 'v | LevelValue string

type_synonym 'v keysAndValues = "(string \<times> 'v logValue) list"

datatype 'v logCall =
    DebugCall "'v keysAndValues" string "'v keysAndValues"
  | InfoCall "'v keysAndValues" string "'v keysAndValues"

record 'v slogHandler =
  shLog :: "'v keysAndValues"

record 'v slogRecord =
  srLevel :: int
  srMessage :: string
  srAttrs :: "(string \<times> 'v) list"

definition LevelInfo :: int where "LevelInfo = 0"

definition Level_String :: "int \<Rightarrow> string" where
  "Level_String l =
     (let str = (\<lambda>base val :: int. if val = 0 then base
                  else base @ (if val > 0 then ''+'' else []) @ showInt val) in
      if l < 0 then str ''DEBUG'' (l + 4)
      else if l < 4 then str ''INFO'' l
      else if l < 8 then str ''WARN'' (l - 4)
      else str ''ERROR'' (l - 8))"

definition Enabled :: "'v slogHandler \<Rightarrow> int \<Rightarrow> bool" where "Enabled h l = True"

definition Handle :: "'v slogHandler \<Rightarrow> 'v slogRecord \<Rightarrow> 'v logCall" where
  "Handle h r =
     (let keysAndValues = map (\<lambda>(k, v). (k, AnyValue v)) (srAttrs r) in
      if srLevel r < LevelInfo then DebugCall (shLog h) (srMessage r) keysAndValues
      else if srLevel r > LevelInfo
      then InfoCall (shLog h) (srMessage r) (keysAndValues @ [(''level'', LevelValue (Level_String (srLevel r)))])
      else InfoCall (shLog h) (srMessage r) keysAndValues)"

definition WithAttrs :: "'v slogHandler \<Rightarrow> (string \<times> 'v) list \<Rightarrow> 'v slogHandler" where
  "WithAttrs h attrs = \<lparr>shLog = shLog h @ map (\<lambda>(k, v). (k, AnyValue v)) attrs\<rparr>"

definition WithGroup :: "'v slogHandler \<Rightarrow> string \<Rightarrow> 'v slogHandler" where "WithGroup h nm = h"

section \<open>Facts\<close>

text \<open>What a call tells: the values of the logger followed by those of the record.\<close>

fun toldBy :: "'v logCall \<Rightarrow> 'v keysAndValues" where
  "toldBy (DebugCall vs m kv) = vs @ kv"
| "toldBy (InfoCall vs m kv) = vs @ kv"

text \<open>Attributes attached to the handler are told before those of the record, groups are flattened,
  and only a level that the logger does not have is added.\<close>

lemma Handle_told:
  "toldBy (Handle (WithGroup (WithAttrs h as) g) r) =
     shLog h @ map (\<lambda>(k, v). (k, AnyValue v)) (as @ srAttrs r)
     @ (if srLevel r > 0 then [(''level'', LevelValue (Level_String (srLevel r)))] else [])"
  by (simp add: Handle_def WithAttrs_def WithGroup_def LevelInfo_def Let_def)

end
