(* ===== verification/Rest_Getter.thy ===== *)
theory Rest_Getter
  imports Prelude
begin

text \<open>
  The adapter that hands a REST config to Helm (\<open>pkg/clients/helm/restclientgetter.go\<close>). The config is a
  pointer that the caller keeps, so configs live in a store of addresses; of a config the code only
  touches \<open>Burst\<close>. The discovery client, the mapper and the loader are made by client-go: what the
  code gives to their constructors is kept.
\<close>

record 'r RestConfig =
  rfBurst :: int
  rfRest :: 'r

type_synonym addr = nat
type_synonym 'r configs = "addr \<Rightarrow> 'r RestConfig option"

record restClientGetter =
  rgNamespace :: string
  rgConfig :: "addr option"

definition newRESTClientGetter :: "addr option \<Rightarrow> string \<Rightarrow> restClientGetter" where
  "newRESTClientGetter config namespace = \<lparr>rgNamespace = namespace, rgConfig = config\<rparr>"

definition ToRESTConfig :: "restClientGetter \<Rightarrow> goerr + addr option" where
  "ToRESTConfig c = Inr (rgConfig c)"

text \<open>
  A cached client around the client for a config; when that could not be made, its error is dropped
  and the cache is around a nil pointer. \<open>newDisco\<close> is \<open>discovery.NewDiscoveryClientForConfig\<close>.
\<close>

datatype 'd cachedDiscovery = MemCache "'d option"

definition ToDiscoveryClient ::
  "('r RestConfig \<Rightarrow> goerr + 'd) \<Rightarrow> restClientGetter \<Rightarrow> 'r configs \<Rightarrow> 'r configs \<times> (goerr + 'd cachedDiscovery)"
where
  "ToDiscoveryClient newDisco c h =
     (case ToRESTConfig c of
        Inl e \<Rightarrow> (h, Inl e)
      | Inr config \<Rightarrow>
          (case Option.bind config (\<lambda>a. map_option (Pair a) (h a)) of
             None \<Rightarrow> (h, Inl (ErrPanic ''nil pointer dereference''))
           | Some (a, cfg) \<Rightarrow>
               (let cfg' = cfg\<lparr>rfBurst := 300\<rparr> in
                (h(a \<mapsto> cfg'),
                 Inr (MemCache (case newDisco cfg' of Inl e \<Rightarrow> None | Inr d \<Rightarrow> Some d))))))"

text \<open>The deferred mapper around a discovery client, and the expander around both.\<close>

datatype 'd restMapper = ShortcutExpander "'d cachedDiscovery" "'d cachedDiscovery"

definition ToRESTMapper ::
  "('r RestConfig \<Rightarrow> goerr + 'd) \<Rightarrow> restClientGetter \<Rightarrow> 'r configs \<Rightarrow> 'r configs \<times> (goerr + 'd restMapper)"
where
  "ToRESTMapper newDisco c h =
     (case ToDiscoveryClient newDisco c h of
        (h', Inl e) \<Rightarrow> (h', Inl e)
      | (h', Inr discoveryClient) \<Rightarrow> (h', Inr (ShortcutExpander discoveryClient discoveryClient)))"

text \<open>The loader gets the defaults of client-go and the namespace, not the config.\<close>

record ('g, 'k) kubeConfigLoader =
  klDefaultClientConfig :: 'g
  klClusterDefaults :: 'k
  klNamespace :: string

definition ToRawKubeConfigLoader :: "'g \<Rightarrow> 'k \<Rightarrow> restClientGetter \<Rightarrow> ('g, 'k) kubeConfigLoader" where
  "ToRawKubeConfigLoader defaultConfig clusterDefaults c =
     \<lparr>klDefaultClientConfig = defaultConfig, klClusterDefaults = clusterDefaults, klNamespace = rgNamespace c\<rparr>"

section \<open>Facts\<close>

lemma ToDiscoveryClient_some:
  "rgConfig c = Some a \<Longrightarrow> h a = Some cfg \<Longrightarrow> ToDiscoveryClient newDisco c h =
    (h(a \<mapsto> cfg\<lparr>rfBurst := 300\<rparr>),
     Inr (MemCache (case newDisco (cfg\<lparr>rfBurst := 300\<rparr>) of Inl e \<Rightarrow> None | Inr d \<Rightarrow> Some d)))"
  by (simp add: ToDiscoveryClient_def ToRESTConfig_def Let_def)

text \<open>Once the burst is set, further clients of the same config are equal and change nothing.\<close>

lemma ToDiscoveryClient_again:
  assumes "ToDiscoveryClient newDisco c h = (h', Inr d)" and "rgConfig c' = rgConfig c"
  shows "ToDiscoveryClient newDisco c' h' = (h', Inr d)"
proof -
  obtain a cfg where a: "rgConfig c = Some a" "h a = Some cfg"
    using assms(1) by (auto simp: ToDiscoveryClient_def ToRESTConfig_def split: option.splits Option.bind_splits)
  note first = assms(1) [unfolded ToDiscoveryClient_some [where h = h, OF a]]
  then have "h' a = Some (cfg\<lparr>rfBurst := 300\<rparr>)" by auto
  from ToDiscoveryClient_some [where h = h' and c = c', OF _ this] assms(2) a first show ?thesis by (auto simp: fun_upd_idem)
qed

end
