(* ===== verification/Client_Properties.thy ===== *)
theory Client_Properties
  imports Sample_World Post_Render Helm_Log Rest_Getter
begin

text \<open>
  The properties of the Helm client: the options it is built with, the references it resolves and
  the chart cache.
\<close>

section \<open>A small registry for the witnesses\<close>

definition sampleOs :: oslib where
  "sampleOs =
     \<lparr>osIsOCI = (\<lambda>s. HasPrefix s ''oci://''), osHostLiteral = (\<lambda>s. Inl (ErrExt ''no literal'')),
      osTempName = (\<lambda>fs. if list_all (\<lambda>(p, n). \<not> under ''/tmp/charts/tmp1'' p) fs
        then Inr ''tmp1'' else Inl (ErrExt ''exists'')),
      osReadDirErr = (\<lambda>p. None), osRenameErr = (\<lambda>p q. None), osStatErr = (\<lambda>p. None),
      osRemoveErr = (\<lambda>p. None),
      osContentRun = (\<lambda>pc ref. [(''/tmp/content-cache/'' @ ref, ref)]),
      osPullRun = (\<lambda>pc ref. ([(''app-1.0.0.tgz'', ref)], None)),
      osLoginRun = (\<lambda>h u p i. None),
      osLoad = (\<lambda>fs p. case map_of fs p of
        Some (File c) \<Rightarrow> Inr \<lparr>chMetadata = Some \<lparr>cmName = ''app'', cmVersion = ''1.0.0''\<rparr>, chContent = c\<rparr>
      | _ \<Rightarrow> Inl (ErrExt ''not a chart''))\<rparr>"

definition sampleFS :: fsys where
  "sampleFS = [(''/tmp'', Dir), (chartCache, Dir), (''/etc/passwd'', File ''root'')]"

definition sampleState :: "fsys \<Rightarrow> cstate" where
  "sampleState fs = \<lparr>cFS = fs, cPull = clPullClient (clientOf zeroArgs), cTrace = []\<rparr>"

lemma sampleOs_simps [simp]:
  "osIsOCI sampleOs s \<longleftrightarrow> HasPrefix s ''oci://''" "osStatErr sampleOs p = None"
  by (simp_all add: sampleOs_def)

lemma sampleOs_wellBehaved [simp]: "wellBehaved sampleOs"
  by (auto simp: wellBehaved_def sampleOs_def list_all_iff plainElem_def chartCache_def
      contentPath_def chartContentCache_def split: if_splits)

lemma sampleState_wf [simp]: "wfFS (cFS (sampleState sampleFS))"
  by (simp add: wfFS_def sampleState_def sampleFS_def chartCache_def)

section \<open>The options of the actions\<close>

text \<open>What a release asks for is what Helm is run with: the client that is built for a release runs
  upgrades of it with its wait option and timeout, its CRD, TLS, plain HTTP, history and conflict
  options, without merging earlier values, and takes ownership only if it is asked to and has not
  been recorded as taken; installations get its namespace.\<close>

lemma client_options_of_release:
  assumes "NewClient HL Os cfg [withRelease cr] fs = (fs', Inr hc)"
  shows "\<exists>ic uc. (\<forall>n c v. hcInstall (helmClient HL Os fs' hc) n c v [] = bindE (hlInstall HL (ic\<lparr>icReleaseName := n\<rparr>) c v) asRelease)
    \<and> (\<forall>n c v. hcUpgrade (helmClient HL Os fs' hc) n c v [] = bindE (hlUpgrade HL uc n c v) asRelease)
    \<and> icNamespace ic = fpNamespace (forProvider cr) \<and> ucResetValues uc
    \<and> ucWaitStrategy uc = (if fpWait (forProvider cr) then StatusWatcherStrategy else HookOnlyStrategy)
    \<and> ucTimeout uc = waitTimeout cr
    \<and> ucSkipCRDs uc = fpSkipCRDs (forProvider cr) \<and> icSkipCRDs ic = fpSkipCRDs (forProvider cr)
    \<and> ucInsecureSkipTLSVerify uc = fpInsecureSkipTLSVerify (forProvider cr)
    \<and> ucPlainHTTP uc = fpPlainHTTP (forProvider cr)
    \<and> ucMaxHistory uc = fpMaxHistory (forProvider cr)
    \<and> ucForceConflicts uc = fpSSAForceConflicts (forProvider cr)
    \<and> ucTakeOwnership uc = (fpTakeOwnership (forProvider cr) \<and> \<not> obsOwnershipTaken (atProvider cr))
    \<and> icTakeOwnership ic = ucTakeOwnership uc"
proof -
  have hc: "hc = clientOf (withRelease cr zeroArgs)" using NewClient_Inr(1) [OF assms] by simp
  show ?thesis
    by (intro exI [of _ "clInstallClient hc"] exI [of _ "(clUpgradeClient hc)\<lparr>ucResetValues := True\<rparr>"])
      (simp add: hc helmClient_def Install_def Upgrade_def clientOf_def withRelease_def Let_def)
qed

section \<open>The config Helm is given\<close>

text \<open>The raised burst is not confined to discovery: making a discovery client or a mapper sets the
  burst of the very config that the caller gave to the getter and that \<open>ToRESTConfig\<close> goes on
  handing out, so every holder of that config sees it; nothing else of any config changes.\<close>

lemma discovery_raises_shared_burst:
  assumes "h a = Some cfg" and "ToRESTMapper newDisco (newRESTClientGetter (Some a) ns) h = (h', r)"
  shows "ToRESTConfig (newRESTClientGetter (Some a) ns') = Inr (Some a)
    \<and> h' a = Some (cfg\<lparr>rfBurst := 300\<rparr>) \<and> (\<forall>b. b \<noteq> a \<longrightarrow> h' b = h b)
    \<and> (\<exists>d. r = Inr (ShortcutExpander d d))"
  using assms ToDiscoveryClient_some [of "newRESTClientGetter (Some a) ns" a h cfg newDisco]
  by (auto simp: ToRESTMapper_def ToRESTConfig_def newRESTClientGetter_def)

section \<open>References\<close>

text \<open>C32: An OCI reference is read as it is written: repository, tag and digest are told apart, whatever
  of tag and digest is there, and printing the URL that remains gives the repository back.\<close>

theorem oci_reference_round_trip:
  assumes "plainHost h" and "repoPath p"
    and "\<forall>t. tag = Some t \<longrightarrow> list_all refChar t" and "\<forall>d. digest = Some d \<longrightarrow> digestString d"
    and "osIsOCI Os (ociURLOf h p tag digest)"
  shows "\<exists>u. resolveOCIChartVersionAndDigest Os (ociURLOf h p tag digest) =
      Inr (u, (case tag of None \<Rightarrow> [] | Some t \<Rightarrow> t), (case digest of None \<Rightarrow> [] | Some d \<Rightarrow> d))
    \<and> URL_String u = ''oci://'' @ h @ p \<and> uHost u = h \<and> uPath u = p"
proof (intro exI conjI)
  show "resolveOCIChartVersionAndDigest Os (ociURLOf h p tag digest) =
      Inr (zeroURL\<lparr>uScheme := ''oci'', uHost := h, uPath := p\<rparr>,
        (case tag of None \<Rightarrow> [] | Some t \<Rightarrow> t), (case digest of None \<Rightarrow> [] | Some d \<Rightarrow> d))"
    using assms by (intro resolveOCI_plain) auto
qed (use String_repo [OF assms(1,2)] in simp_all)

lemma sampleHost: "plainHost ''ghcr.io:443''" "repoPath ''/org/app''"
  unfolding plainHost_def
  by (rule exI [of _ "''ghcr.io''"], rule exI [of _ "'':443''"])
    (simp_all add: repoPath_def refChar_def alnum_def)

theorem oci_reference_round_trip_witness:
  "\<exists>u. resolveOCIChartVersionAndDigest sampleOs ''oci://ghcr.io:443/org/app:1.0.0@sha256:ab12'' =
      Inr (u, ''1.0.0'', ''sha256:ab12'') \<and> URL_String u = ''oci://ghcr.io:443/org/app''"
  using oci_reference_round_trip [OF sampleHost, of "Some ''1.0.0''" "Some ''sha256:ab12''" sampleOs]
  by (auto simp: ociURLOf_def refChar_def alnum_def digestString_def HasPrefix_def)

text \<open>C33: A release of either scope whose OCI URL and whose specification name different digests is
  refused before anything is pulled or loaded, whether or not the URL also names a tag.\<close>

theorem conflicting_digests_refused:
  assumes "plainHost h" and "repoPath p" and "\<forall>t. tag = Some t \<longrightarrow> list_all refChar t"
    and "digestString d" and "d \<noteq> []" and "osIsOCI Os (ociURLOf h p tag (Some d))"
    and "(\<exists>cr. mg = MgCluster cr \<and> csURL (chartOf cr) = ociURLOf h p tag (Some d) \<and> csDigest (chartOf cr) = d')
      \<or> (\<exists>nr. mg = MgNamespaced nr \<and> csURL (chartOf nr) = ociURLOf h p tag (Some d) \<and> csDigest (chartOf nr) = d')"
    and "d' \<noteq> d" and "d' \<noteq> []"
  shows "PullAndLoadChart Os mg creds s = (s, Inl (ErrNew (errDigestMismatchTmpl d d')))"
proof -
  have res: "\<exists>u v. resolveOCIChartVersionAndDigest Os (ociURLOf h p tag (Some d)) = Inr (u, v, d)"
    using resolveOCI_plain [OF assms(1,2), of tag "Some d" Os] assms(3,4,6) by simp
  have digest: "pullAndLoad Os ch creds s = (s, Inl (ErrNew (errDigestMismatchTmpl d d')))"
    if "csURL ch = ociURLOf h p tag (Some d)" "csDigest ch = d'" for ch :: "'ref ChartSpec"
    using res assms(5,6,8,9) that
    by (auto simp: pullAndLoad_def chartLocation_def resolveEffectiveDigest_def Let_def)
  from assms(7) show ?thesis by (elim disjE exE conjE) (simp_all add: PullAndLoadChart_def digest)
qed

definition sampleChartSpec :: "string \<Rightarrow> string \<Rightarrow> string \<Rightarrow> 'ref ChartSpec \<Rightarrow> 'ref ChartSpec" where
  "sampleChartSpec url version digest c =
     c\<lparr>csURL := url, csVersion := version, csDigest := digest\<rparr>"

definition sampleOfChart :: "string \<Rightarrow> string \<Rightarrow> string \<Rightarrow> ClusterRelease" where
  "sampleOfChart url version digest =
     mapChart (sampleChartSpec url version digest) (sampleRelease None (sampleStatus StatusDeployed 1 True))"

lemma sampleOfChart_simps [simp]:
  "csURL (chartOf (sampleOfChart u v d)) = u" "csVersion (chartOf (sampleOfChart u v d)) = v"
  "csDigest (chartOf (sampleOfChart u v d)) = d" "csName (chartOf (sampleOfChart u v d)) = ''app''"
  "csRepository (chartOf (sampleOfChart u v d)) = ''https://charts.example.org''"
  by (simp_all add: sampleOfChart_def sampleChartSpec_def sampleRelease_def sampleSpec_def)

definition sampleOfNsChart :: "string \<Rightarrow> string \<Rightarrow> NsRelease" where
  "sampleOfNsChart url digest =
     mapChart (sampleChartSpec url [] digest) (sampleNsRelease None (sampleStatus StatusDeployed 1 True))"

lemma sampleOfNsChart_simps [simp]:
  "csURL (chartOf (sampleOfNsChart u d)) = u" "csDigest (chartOf (sampleOfNsChart u d)) = d"
  by (simp_all add: sampleOfNsChart_def sampleChartSpec_def sampleNsRelease_def sampleSpec_def)

theorem conflicting_digests_refused_witness:
  "PullAndLoadChart sampleOs (MgCluster (sampleOfChart ''oci://ghcr.io:443/org/app@sha256:ab12'' [] ''sha256:cd34''))
      emptyCreds (sampleState sampleFS) =
    (sampleState sampleFS, Inl (ErrNew (errDigestMismatchTmpl ''sha256:ab12'' ''sha256:cd34'')))
  \<and> PullAndLoadChart sampleOs (MgNamespaced (sampleOfNsChart ''oci://ghcr.io:443/org/app:1.0.0@sha256:ab12'' ''sha256:cd34''))
      emptyCreds (sampleState sampleFS) =
    (sampleState sampleFS, Inl (ErrNew (errDigestMismatchTmpl ''sha256:ab12'' ''sha256:cd34'')))"
  using conflicting_digests_refused [OF sampleHost, of None "''sha256:ab12''" sampleOs
      "MgCluster (sampleOfChart ''oci://ghcr.io:443/org/app@sha256:ab12'' [] ''sha256:cd34'')"
      "''sha256:cd34''" emptyCreds "sampleState sampleFS"]
    conflicting_digests_refused [OF sampleHost, of "Some ''1.0.0''" "''sha256:ab12''" sampleOs
      "MgNamespaced (sampleOfNsChart ''oci://ghcr.io:443/org/app:1.0.0@sha256:ab12'' ''sha256:cd34'')"
      "''sha256:cd34''" emptyCreds "sampleState sampleFS"]
  by (simp add: ociURLOf_def digestString_def refChar_def alnum_def HasPrefix_def)

section \<open>The post-renderer\<close>

text \<open>C26: Post-rendering leaves nothing behind: whether Kustomize succeeds or anything fails on the way,
  every path has afterwards what it had before, as long as the temporary directory was new and can be
  removed.\<close>

theorem post_render_leaves_nothing:
  assumes "\<forall>d. knTempDir K fs helmTempDirNamePattern = Inr d \<longrightarrow> freshDir fs d \<and> knRemoveErr K d = None"
  shows "map_of (fst (Run K kr m fs)) p = map_of fs p"
proof (cases "knTempDir K fs helmTempDirNamePattern")
  case (Inl e)
  then show ?thesis by (simp add: Run_def)
next
  case (Inr d)
  then have d: "freshDir fs d" "knRemoveErr K d = None" using assms by auto
  obtain fs' r where run: "renderIn K kr d m (AList.update d Dir fs) = (fs', r)" by fastforce
  have res: "fst (Run K kr m fs) = removeAll fs' d" using Inr d(2) by (simp add: Run_def run)
  show ?thesis
  proof (cases "under d p")
    case True
    with d(1) show ?thesis by (simp add: res map_of_removeAll freshDir_def)
  next
    case False
    then have "p \<noteq> d" by (auto simp: under_def)
    with renderIn_frame [OF d(1) run False] False show ?thesis
      by (simp add: res map_of_removeAll update_conv')
  qed
qed

definition sampleKust :: "string kustlib" where
  "sampleKust =
     \<lparr>knTempDir = (\<lambda>fs pat. Inr ''/tmp/helm-post-render1''), knMarshal = (\<lambda>k. Inr ''patches''),
      knWriteErr = (\<lambda>p. None),
      knRun = (\<lambda>opts fs d. case map_of fs (d @ ''/helm-output.yaml'') of
        Some (File c) \<Rightarrow> Inr (c @ ''!'') | _ \<Rightarrow> Inl (ErrExt ''no resources'')),
      knAsYaml = Inr, knRemoveErr = (\<lambda>p. None)\<rparr>"

lemma sampleKust_fresh: "freshDir sampleFS ''/tmp/helm-post-render1''"
  unfolding freshDir_def
  by (intro conjI exI [of _ "[''tmp'', ''helm-post-render1'']"])
    (auto simp: absPath_def plainElem_def sampleFS_def chartCache_def under_def prefix_def)

theorem post_render_leaves_nothing_witness:
  "map_of (fst (Run sampleKust \<lparr>krPatches = [Patch ''p'']\<rparr> ''kind: Pod'' sampleFS)) ''/etc/passwd'' =
     Some (File ''root'')"
proof -
  have "map_of (fst (Run sampleKust \<lparr>krPatches = [Patch ''p'']\<rparr> ''kind: Pod'' sampleFS)) ''/etc/passwd'' =
      map_of sampleFS ''/etc/passwd''"
    by (rule post_render_leaves_nothing) (use sampleKust_fresh in \<open>simp add: sampleKust_def\<close>)
  then show ?thesis by (simp add: sampleFS_def chartCache_def)
qed

text \<open>C27: What Kustomize is run on: a directory with exactly two files, the kustomization with the patches
  of the release and the manifests that Helm rendered; the answer is what Kustomize makes of it.\<close>

theorem post_render_input:
  assumes "knTempDir K fs helmTempDirNamePattern = Inr d" and "freshDir fs d" and "\<forall>p. knWriteErr K p = None"
    and "knMarshal K \<lparr>kuResources = [helmOutputFileName], kuPatches = krPatches kr\<rparr> = Inr kdata"
  shows "\<exists>fs2. snd (Run K kr m fs) =
      bindE (knRun K \<lparr>koLoadRestrictionsRootOnly = True, koPluginsDisabled = True\<rparr> fs2 d) (knAsYaml K)
    \<and> {p. under d p \<and> map_of fs2 p \<noteq> None} = {d, d @ ''/'' @ kustomizationFileName, d @ ''/'' @ helmOutputFileName}
    \<and> map_of fs2 (d @ ''/'' @ kustomizationFileName) = Some (File kdata)
    \<and> map_of fs2 (d @ ''/'' @ helmOutputFileName) = Some (File m)"
proof -
  let ?fs2 = "AList.update (d @ slash # helmOutputFileName) (File m)
    (AList.update (d @ slash # kustomizationFileName) (File kdata) (AList.update d Dir fs))"
  have "snd (Run K kr m fs) =
      bindE (knRun K \<lparr>koLoadRestrictionsRootOnly = True, koPluginsDisabled = True\<rparr> ?fs2 d) (knAsYaml K)"
    using assms by (simp add: Run_def renderIn_def writeFile_def freshDir_join [OF assms(2)] Let_def
        split_beta del: JoinPath.simps)
  moreover have "{p. under d p \<and> map_of ?fs2 p \<noteq> None} =
      {d, d @ slash # kustomizationFileName, d @ slash # helmOutputFileName}"
  proof (rule set_eqI)
    fix p
    note u = under_child [of d kustomizationFileName] under_child [of d helmOutputFileName]
    have d: "under d d" by (simp add: under_def)
    have fs2: "map_of ?fs2 p = (if p = d @ slash # helmOutputFileName then Some (File m)
        else if p = d @ slash # kustomizationFileName then Some (File kdata)
        else if p = d then Some Dir else map_of fs p)"
      by (simp only: update_conv' fun_upd_apply)
    show "p \<in> {p. under d p \<and> map_of ?fs2 p \<noteq> None} \<longleftrightarrow>
        p \<in> {d, d @ slash # kustomizationFileName, d @ slash # helmOutputFileName}"
    proof (cases "under d p")
      case True
      then have "map_of fs p = None" using assms(2) by (simp add: freshDir_def)
      with True show ?thesis unfolding mem_Collect_eq fs2 by simp
    next
      case False
      with u d show ?thesis by (simp only: mem_Collect_eq insert_iff empty_iff) metis
    qed
  qed
  moreover have "helmOutputFileName \<noteq> kustomizationFileName"
    by (simp add: helmOutputFileName_def kustomizationFileName_def)
  then have "map_of ?fs2 (d @ slash # kustomizationFileName) = Some (File kdata)"
    "map_of ?fs2 (d @ slash # helmOutputFileName) = Some (File m)"
    by (simp_all add: update_conv')
  ultimately show ?thesis unfolding append_Cons append_Nil by blast
qed

theorem post_render_input_witness:
  "snd (Run sampleKust \<lparr>krPatches = [Patch ''p'']\<rparr> ''kind: Pod'' sampleFS) = Inr ''kind: Pod!''"
proof -
  have "knTempDir sampleKust sampleFS helmTempDirNamePattern = Inr ''/tmp/helm-post-render1''"
    "\<forall>p. knWriteErr sampleKust p = None"
    "knMarshal sampleKust \<lparr>kuResources = [helmOutputFileName], kuPatches = krPatches \<lparr>krPatches = [Patch ''p'']\<rparr>\<rparr> =
      Inr ''patches''"
    by (simp_all add: sampleKust_def)
  from post_render_input [OF this(1) sampleKust_fresh this(2,3), of "''kind: Pod''"]
  obtain fs2 where run: "snd (Run sampleKust \<lparr>krPatches = [Patch ''p'']\<rparr> ''kind: Pod'' sampleFS) =
      bindE (knRun sampleKust \<lparr>koLoadRestrictionsRootOnly = True, koPluginsDisabled = True\<rparr> fs2
        ''/tmp/helm-post-render1'') (knAsYaml sampleKust)"
    and out: "map_of fs2 (''/tmp/helm-post-render1'' @ ''/'' @ helmOutputFileName) = Some (File ''kind: Pod'')"
    by blast
  from out have "map_of fs2 ''/tmp/helm-post-render1/helm-output.yaml'' = Some (File ''kind: Pod'')"
    by (simp add: helmOutputFileName_def)
  with run show ?thesis by (simp add: sampleKust_def)
qed

section \<open>The chart cache\<close>



text \<open>C36: A chart is pulled at most once per call, also when the location of the latest version has to be
  found by a pull.\<close>

theorem one_pull_per_call:
  assumes "wellBehaved Os" and "wfFS (cFS s)" and "PullAndLoadChart Os mg creds s = (s', res)"
  shows "\<exists>ev. cTrace s' = cTrace s @ ev \<and> length (filter isPull ev) \<le> 1"
  by (rule PullAndLoadChart_effects [OF assms]) blast

theorem one_pull_per_call_witness:
  "\<exists>s' res. PullAndLoadChart sampleOs (MgCluster (sampleOfChart [] [] [])) emptyCreds (sampleState sampleFS) = (s', res)
    \<and> length (filter isPull (cTrace s')) \<le> 1"
proof -
  obtain s' res where p: "PullAndLoadChart sampleOs (MgCluster (sampleOfChart [] [] [])) emptyCreds
      (sampleState sampleFS) = (s', res)" by fastforce
  from one_pull_per_call [OF sampleOs_wellBehaved sampleState_wf p] p show ?thesis
    by (simp add: sampleState_def)
qed





text \<open>Charts that are pinned by a version can: a name and a version that share a dash have the same
  cache path when the dash moves from one to the other.\<close>

lemma version_cache_key_ambiguous:
  "resolveChartFilePath n (v @ ''-'' @ w) = resolveChartFilePath (n @ ''-'' @ v) w"
  by (simp add: resolveChartFilePath_def resolveChartFilePathWithBase_def del: JoinPath.simps)

end
