(* ===== verification/Cache_Properties.thy ===== *)
theory Cache_Properties
  imports Reconcile_Steps Client_Properties
begin

text \<open>The properties of the chart cache when reconciles run in parallel.\<close>

section \<open>The steps are those of the client\<close>


lemma sample_pull:
  "snd (PullAndLoadChart sampleOs (MgCluster (sampleOfChart [] ''1.0.0'' [])) emptyCreds (sampleState sampleFS)) =
     Inr \<lparr>chMetadata = Some \<lparr>cmName = ''app'', cmVersion = ''1.0.0''\<rparr>, chContent = ''app''\<rparr>"
  by code_simp

lemma sample_pulled:
  obtains s' where "PullAndLoadChart sampleOs (MgCluster (sampleOfChart [] ''1.0.0'' [])) emptyCreds
      (sampleState sampleFS) =
    (s', Inr \<lparr>chMetadata = Some \<lparr>cmName = ''app'', cmVersion = ''1.0.0''\<rparr>, chContent = ''app''\<rparr>)"
  using sample_pull by (metis prod.collapse)

lemma sampleOs_load: "osLoad sampleOs fs p = Inr c \<Longrightarrow> map_of fs p = Some (File (chContent c))"
  by (auto simp: sampleOs_def split: option.splits node.splits)


section \<open>No torn chart\<close>

text \<open>C6: Charts are whole. Any number of workers check, pull, write piece by piece, fail, clean up and
  load in the same cache directory, in any interleaving of their system calls, also several for the
  same chart: what a worker loads is a file, and that file was in the cache at the beginning or is a
  complete file of one pull that succeeded. What was in the cache stays a file.\<close>

theorem loaded_chart_whole:
  assumes "wellBehaved Os" and "wfFS fs" and "\<forall>w. called (snd (ws w))"
    and "(sstep Os)\<^sup>*\<^sup>* (fs, ws) (fs', ws')" and "snd (ws' w) = Loaded x"
  shows "(\<exists>c. x = Some (File c)
      \<and> ((\<exists>e. map_of fs (chartCache @ ''/'' @ e) = Some (File c))
         \<or> (\<exists>pc ref n files. osPullRun Os pc ref = (files, None) \<and> (n, c) \<in> set files)))
    \<and> (\<forall>f. cachedFile fs f \<longrightarrow> cachedFile fs' f)"
proof -
  have start: "\<forall>w. tmpOf (snd (ws w)) = None \<and> okPhase (wholeChart Os fs) fs (snd (ws w))"
    using assms(3) called_start by blast
  note run = run_ok [OF assms(1) wholeChart_pulls [OF assms(1)] assms(4) wholeChart_start [OF assms(2)] start]
  then have "okPhase (wholeChart Os fs) fs' (Loaded x)" using assms(5) by metis
  with run show ?thesis by (simp add: wholeChart_def)
qed

theorem loaded_chart_whole_witness:
  "\<exists>(ws :: bool \<Rightarrow> bool \<times> phase) fs' ws'. (sstep sampleOs)\<^sup>*\<^sup>* (sampleFS, ws) (fs', ws')
     \<and> snd (ws' True) = Loaded (Some (File ''app''))
     \<and> (\<exists>pc ref n files. osPullRun sampleOs pc ref = (files, None) \<and> (n, ''app'') \<in> set files)"
proof -
  obtain s' where p: "PullAndLoadChart sampleOs (MgCluster (sampleOfChart [] ''1.0.0'' [])) emptyCreds
      (sampleState sampleFS) =
    (s', Inr \<lparr>chMetadata = Some \<lparr>cmName = ''app'', cmVersion = ''1.0.0''\<rparr>, chContent = ''app''\<rparr>)"
    using sample_pulled .
  then have "pullAndLoad sampleOs (chartOf (sampleOfChart [] ''1.0.0'' [])) emptyCreds (sampleState sampleFS) =
    (s', Inr \<lparr>chMetadata = Some \<lparr>cmName = ''app'', cmVersion = ''1.0.0''\<rparr>, chContent = ''app''\<rparr>)"
    by (simp add: PullAndLoadChart_def)
  from pullAndLoad_steps [OF this] obtain ph0 k where ph0: "called ph0"
    and run: "(wstep sampleOs)\<^sup>*\<^sup>* (sampleFS, True, ph0) (cFS s', k, Loaded (Some (File ''app'')))"
    by (auto simp: sampleState_def dest!: sampleOs_load)
  let ?ws = "(\<lambda>w::bool. (True, Start))(True := (True, ph0))"
  let ?ws' = "(\<lambda>w::bool. (True, Start))(True := (k, Loaded (Some (File ''app''))))"
  have steps: "(sstep sampleOs)\<^sup>*\<^sup>* (sampleFS, ?ws) (cFS s', ?ws')" by (rule worker_alone [OF run])
  have "wfFS sampleFS" using sampleState_wf by (simp add: sampleState_def)
  moreover have "\<forall>w. called (snd (?ws w))" using ph0 by simp
  ultimately have "\<exists>pc ref n files. osPullRun sampleOs pc ref = (files, None) \<and> (n, ''app'') \<in> set files"
    using loaded_chart_whole [OF sampleOs_wellBehaved _ _ steps, of True "Some (File ''app'')"]
    by (auto simp: sampleFS_def chartCache_def split: if_splits)
  with steps show ?thesis by (intro exI [of _ ?ws] exI [of _ "cFS s'"] exI [of _ ?ws']) simp
qed

section \<open>New clients\<close>

text \<open>
  Two workers that both find no cache directory: one makes it, the other fails, which no call does on
  its own.
\<close>

lemma new_clients_race:
  assumes "osStatErr Os chartCache = None" and "hlMkdirErr HL chartCache = None" and "map_of fs chartCache = None"
  shows "(interleaved (dstep HL Os))\<^sup>*\<^sup>* (fs, \<lambda>w::bool. (0, StatDirs cacheDirs))
    (AList.update chartCache Dir fs, \<lambda>w. if w then (0, StatDirs (tl cacheDirs))
       else (1, Returned (Some (Wrap (errExist chartCache) errFailedToCreateChartCacheDir))))"
proof (rule interleaved_race)
  let ?mk = "(0, MkdirOf chartCache errFailedToCreateChartCacheDir (tl cacheDirs))"
  show "dstep HL Os (fs, 0, StatDirs cacheDirs) (fs, ?mk)"
    by (simp add: cacheDirs_def ds_missing dirSettled_def assms)
  show "dstep HL Os (fs, ?mk) (AList.update chartCache Dir fs, 0, StatDirs (tl cacheDirs))"
    using assms(2,3) by (rule ds_made)
  show "dstep HL Os (AList.update chartCache Dir fs, ?mk)
      (AList.update chartCache Dir fs, 1, Returned (Some (Wrap (errExist chartCache) errFailedToCreateChartCacheDir)))"
    using ds_taken [OF assms(2), of "AList.update chartCache Dir fs" Os 0] by (simp add: update_conv')
qed

text \<open>
  A worker whose call of NewClient succeeds finds both cache directories; a call may fail because
  another worker made a directory between its Stat and its Mkdir, but this happens to each worker at
  most twice, once for each directory, however the calls interleave.
\<close>

lemma new_client_failures_bounded:
  assumes "\<forall>w. ls w = (0, StatDirs cacheDirs)" and "(interleaved (dstep HL Os))\<^sup>*\<^sup>* (fs, ls) (fs', ls')"
  shows "fst (ls' w) \<le> 2
    \<and> (snd (ls' w) = Returned None \<longrightarrow> dirSettled Os fs' chartCache \<and> dirSettled Os fs' chartContentCache)
    \<and> moreDirs fs fs'"
proof -
  have "allOk (\<lambda>fs. True) (startOk Os) (\<lambda>l m. True) (fs, ls)"
    using assms(1) by (simp add: allOk_def startOk_def passed_start)
  from start_workers.interleaved_run_ok [OF assms(2) this]
  have "startOk Os fs' (ls' w)" "moreDirs fs fs'" by (simp_all add: allOk_def)
  then show ?thesis
    using dirsThere_le [of fs']
    by (cases "ls' w"; cases "snd (ls' w)")
      (auto simp: startOk_def moreDirs_def passed_def cacheDirs_def split: if_splits)
qed

section \<open>Whole reconciles\<close>

text \<open>C7: Reconciles in parallel, from a container whose cache directory may still be missing. Any number
  of workers make clients and then pull, write, fail, clean up and load charts, again and again, in any
  interleaving of their system calls. Every chart that is loaded is a whole file, one that was cached
  at the beginning or one of a pull that succeeded; what is in the cache stays there; and no worker
  loses more than two calls of NewClient to the race for the directories.\<close>

theorem parallel_reconciles_safe:
  assumes "wellBehaved Os" and "osStatErr Os chartCache = None" and "osStatErr Os chartContentCache = None"
    and "map_of fs ''/tmp'' = Some Dir" and "map_of fs chartCache \<in> {None, Some Dir}"
    and "\<forall>w. ls w = (0, Starting (StatDirs cacheDirs))"
    and run: "(interleaved (rstep HL Os))\<^sup>*\<^sup>* (fs, ls) (fs', ls')"
  shows "fst (ls' w) \<le> 2
    \<and> (snd (ls' w) = Caching (k, Loaded x) \<longrightarrow>
         (\<exists>c. x = Some (File c)
            \<and> ((\<exists>e. map_of fs (chartCache @ ''/'' @ e) = Some (File c))
               \<or> (\<exists>pc ref n files. osPullRun Os pc ref = (files, None) \<and> (n, c) \<in> set files))))
    \<and> (\<forall>f. cachedFile fs f \<longrightarrow> cachedFile fs' f)"
proof -
  let ?Q = "wholeChart Os fs"
  have safe: "cacheSafe Os ?Q fs"
    using assms(1-5) wholeChart_pulls [OF assms(1)] by (auto simp: cacheSafe_def wholeChart_def)
  from reconciles.interleaved_run_ok [OF run reconcileOk_start [OF safe assms(6)]]
  have ok: "reconcileOk Os ?Q fs' (ls' w)" and keep: "keepsCache fs fs'" by (simp_all add: allOk_def)
  have "startOk Os fs' (fst (ls' w), case snd (ls' w) of Starting ph \<Rightarrow> ph | Caching c \<Rightarrow> Returned None)"
    using ok by (simp add: reconcileOk_def split: activity.splits)
  then have "fst (ls' w) \<le> 2"
    using dirsThere_le [of fs'] by (auto simp: startOk_def split: startPhase.splits if_splits)
  with ok keep show ?thesis
    by (auto simp: reconcileOk_def workerOk_def keepsCache_def keepsFiles_def wholeChart_def)
qed

definition sampleHL :: "unit helmlib" where
  "sampleHL = \<lparr>hlInit = (\<lambda>cfg ns drv. None), hlNewRegistryClient = None, hlMkdirErr = (\<lambda>d. None),
     hlGet = (\<lambda>n. Inr (V1Release None)), hlInstall = (\<lambda>ic c v. Inr (V1Release None)),
     hlUpgrade = (\<lambda>uc n c v. Inr (V1Release None)), hlUninstall = (\<lambda>uc n. None), hlRollback = (\<lambda>rc n. None)\<rparr>"

definition emptyTmp :: fsys where
  "emptyTmp = [(''/tmp'', Dir)]"

lemma sample_reconcile:
  obtains fs' k where "(rstep sampleHL sampleOs)\<^sup>*\<^sup>* (emptyTmp, 0, Starting (StatDirs cacheDirs))
    (fs', 0, Caching (k, Loaded (Some (File ''app''))))"
proof -
  let ?fs1 = "[(''/tmp'', Dir), (chartCache, Dir), (chartContentCache, Dir)]"
  have "NewClient sampleHL sampleOs () [] emptyTmp = (?fs1, Inr (clientOf zeroArgs))" by code_simp
  from NewClient_steps [OF this, of 0]
  have start: "(dstep sampleHL sampleOs)\<^sup>*\<^sup>* (emptyTmp, 0, StatDirs cacheDirs) (?fs1, 0, Returned None)"
    by (simp add: sampleHL_def)
  have "snd (PullAndLoadChart sampleOs (MgCluster (sampleOfChart [] ''1.0.0'' [])) emptyCreds (sampleState ?fs1)) =
      Inr \<lparr>chMetadata = Some \<lparr>cmName = ''app'', cmVersion = ''1.0.0''\<rparr>, chContent = ''app''\<rparr>"
    by code_simp
  then obtain s' where "PullAndLoadChart sampleOs (MgCluster (sampleOfChart [] ''1.0.0'' [])) emptyCreds (sampleState ?fs1) =
      (s', Inr \<lparr>chMetadata = Some \<lparr>cmName = ''app'', cmVersion = ''1.0.0''\<rparr>, chContent = ''app''\<rparr>)"
    by (metis prod.collapse)
  then have "pullAndLoad sampleOs (chartOf (sampleOfChart [] ''1.0.0'' [])) emptyCreds (sampleState ?fs1) =
      (s', Inr \<lparr>chMetadata = Some \<lparr>cmName = ''app'', cmVersion = ''1.0.0''\<rparr>, chContent = ''app''\<rparr>)"
    by (simp add: PullAndLoadChart_def)
  from pullAndLoad_steps [OF this] obtain ph0 k where "called ph0"
    "(wstep sampleOs)\<^sup>*\<^sup>* (?fs1, True, ph0) (cFS s', k, Loaded (Some (File ''app'')))"
    by (auto simp: sampleState_def dest!: sampleOs_load)
  from reconcile_run [OF start this] show ?thesis by (rule that)
qed

theorem parallel_reconciles_safe_witness:
  "\<exists>fs' ls' k. (interleaved (rstep sampleHL sampleOs))\<^sup>*\<^sup>* (emptyTmp, \<lambda>w::bool. (0, Starting (StatDirs cacheDirs))) (fs', ls')
     \<and> snd (ls' True) = Caching (k, Loaded (Some (File ''app'')))
     \<and> (\<exists>pc ref n files. osPullRun sampleOs pc ref = (files, None) \<and> (n, ''app'') \<in> set files)"
proof -
  obtain fs' k where run: "(rstep sampleHL sampleOs)\<^sup>*\<^sup>* (emptyTmp, 0, Starting (StatDirs cacheDirs))
    (fs', 0, Caching (k, Loaded (Some (File ''app''))))" using sample_reconcile .
  let ?ls = "\<lambda>w::bool. (0::nat, Starting (StatDirs cacheDirs))"
  let ?ls' = "?ls(True := (0, Caching (k, Loaded (Some (File ''app'')))))"
  have steps: "(interleaved (rstep sampleHL sampleOs))\<^sup>*\<^sup>* (emptyTmp, ?ls) (fs', ?ls')"
    using interleaved_alone [OF run, of ?ls True] by (simp add: fun_upd_idem)
  have "\<exists>pc ref n files. osPullRun sampleOs pc ref = (files, None) \<and> (n, ''app'') \<in> set files"
    using parallel_reconciles_safe [OF sampleOs_wellBehaved _ _ _ _ _ steps, of True k "Some (File ''app'')"]
    by (auto simp: emptyTmp_def sampleOs_def chartCache_def split: if_splits)
  with steps show ?thesis by (intro exI [of _ fs'] exI [of _ ?ls'] exI [of _ k]) simp
qed

end
