(* ===== verification/Provider_Scheme.thy ===== *)
theory Provider_Scheme
  imports Go_Strings
begin

text \<open>
  The API groups of the provider and the registration of their types (\<open>register.go\<close> of every API
  package, \<open>helm.go\<close> of \<open>apis/cluster\<close> and \<open>apis/namespaced\<close>). A scheme is a library type; what the
  code does to it is the list of its calls of \<open>AddKnownTypes\<close> and \<open>AddToGroupVersion\<close>.
\<close>

record GroupVersion =
  gvGroup :: string
  gvVersion :: string

record GroupVersionKind = GroupVersion +
  gvkKind :: string

definition WithKind :: "GroupVersion \<Rightarrow> string \<Rightarrow> GroupVersionKind" where
  "WithKind gv k = \<lparr>gvGroup = gvGroup gv, gvVersion = gvVersion gv, gvkKind = k\<rparr>"

text \<open>\<open>schema.GroupKind.String\<close> and \<open>schema.GroupVersion.String\<close>, for a group that is not empty, and
  the string form of a kind.\<close>

definition GroupKind_String :: "string \<Rightarrow> string \<Rightarrow> string" where
  "GroupKind_String g k = (if g = [] then k else k @ ''.'' @ g)"

definition GVK_String :: "GroupVersionKind \<Rightarrow> string" where
  "GVK_String k = gvGroup k @ ''/'' @ gvVersion k @ '', Kind='' @ gvkKind k"

section \<open>Group versions\<close>

definition clusterReleaseV1alpha1 :: GroupVersion where
  "clusterReleaseV1alpha1 = \<lparr>gvGroup = ''helm.crossplane.io'', gvVersion = ''v1alpha1''\<rparr>"

definition clusterReleaseV1beta1 :: GroupVersion where
  "clusterReleaseV1beta1 = \<lparr>gvGroup = ''helm.crossplane.io'', gvVersion = ''v1beta1''\<rparr>"

definition clusterConfigV1alpha1 :: GroupVersion where
  "clusterConfigV1alpha1 = \<lparr>gvGroup = ''helm.crossplane.io'', gvVersion = ''v1alpha1''\<rparr>"

definition clusterConfigV1beta1 :: GroupVersion where
  "clusterConfigV1beta1 = \<lparr>gvGroup = ''helm.crossplane.io'', gvVersion = ''v1beta1''\<rparr>"

definition nsReleaseV1beta1 :: GroupVersion where
  "nsReleaseV1beta1 = \<lparr>gvGroup = ''helm.m.crossplane.io'', gvVersion = ''v1beta1''\<rparr>"

definition nsConfigV1beta1 :: GroupVersion where
  "nsConfigV1beta1 = \<lparr>gvGroup = ''helm.m.crossplane.io'', gvVersion = ''v1beta1''\<rparr>"

section \<open>Kinds\<close>

text \<open>\<open>reflect.TypeOf(T{}).Name()\<close> is the name of the type.\<close>

definition ReleaseKind :: string where "ReleaseKind = ''Release''"
definition ProviderConfigKind :: string where "ProviderConfigKind = ''ProviderConfig''"
definition ProviderConfigUsageKind :: string where "ProviderConfigUsageKind = ''ProviderConfigUsage''"

definition ProviderConfigUsageListKind :: string where
  "ProviderConfigUsageListKind = ''ProviderConfigUsageList''"

definition ClusterProviderConfigKind :: string where
  "ClusterProviderConfigKind = ''ClusterProviderConfig''"

definition ReleaseGroupVersionKind :: GroupVersionKind where
  "ReleaseGroupVersionKind = WithKind clusterReleaseV1beta1 ReleaseKind"

definition ReleaseGroupKind :: string where
  "ReleaseGroupKind = GroupKind_String (gvGroup clusterReleaseV1beta1) ReleaseKind"

definition nsReleaseGroupVersionKind :: GroupVersionKind where
  "nsReleaseGroupVersionKind = WithKind nsReleaseV1beta1 ReleaseKind"

definition nsReleaseGroupKind :: string where
  "nsReleaseGroupKind = GroupKind_String (gvGroup nsReleaseV1beta1) ReleaseKind"

definition ProviderConfigGroupVersionKind :: "GroupVersion \<Rightarrow> GroupVersionKind" where
  "ProviderConfigGroupVersionKind gv = WithKind gv ProviderConfigKind"

definition ProviderConfigGroupKind :: "GroupVersion \<Rightarrow> string" where
  "ProviderConfigGroupKind gv = GroupKind_String (gvGroup gv) ProviderConfigKind"

definition ProviderConfigUsageGroupVersionKind :: "GroupVersion \<Rightarrow> GroupVersionKind" where
  "ProviderConfigUsageGroupVersionKind gv = WithKind gv ProviderConfigUsageKind"

definition ProviderConfigUsageListGroupVersionKind :: "GroupVersion \<Rightarrow> GroupVersionKind" where
  "ProviderConfigUsageListGroupVersionKind gv = WithKind gv ProviderConfigUsageListKind"

definition ClusterProviderConfigGroupVersionKind :: GroupVersionKind where
  "ClusterProviderConfigGroupVersionKind = WithKind nsConfigV1beta1 ClusterProviderConfigKind"

definition ClusterProviderConfigGroupKind :: string where
  "ClusterProviderConfigGroupKind = GroupKind_String (gvGroup nsConfigV1beta1) ClusterProviderConfigKind"

section \<open>Registration\<close>

datatype schemeCall =
    AddKnownTypes GroupVersion "string list"
  | AddToGroupVersion GroupVersion

text \<open>\<open>addKnownTypes\<close> of the packages with a release, and of those with provider configs.\<close>

definition releaseKnownTypes :: "GroupVersion \<Rightarrow> schemeCall list" where
  "releaseKnownTypes gv =
     [AddKnownTypes gv [''Release'', ''ReleaseList''], AddToGroupVersion gv]"

definition configKnownTypes :: "GroupVersion \<Rightarrow> schemeCall list" where
  "configKnownTypes gv =
     [AddKnownTypes gv [''ProviderConfig'', ''ProviderConfigList'', ''ProviderConfigUsage'',
        ''ProviderConfigUsageList''],
      AddToGroupVersion gv]"

definition nsConfigKnownTypes :: "schemeCall list" where
  "nsConfigKnownTypes =
     [AddKnownTypes nsConfigV1beta1 [''ProviderConfig'', ''ProviderConfigList'', ''ProviderConfigUsage'',
        ''ProviderConfigUsageList'', ''ClusterProviderConfig'', ''ClusterProviderConfigList''],
      AddToGroupVersion nsConfigV1beta1]"

text \<open>\<open>AddToSchemes\<close>, in the order of \<open>init\<close>.\<close>

definition clusterAddToScheme :: "schemeCall list" where
  "clusterAddToScheme =
     configKnownTypes clusterConfigV1alpha1 @ configKnownTypes clusterConfigV1beta1
     @ releaseKnownTypes clusterReleaseV1alpha1 @ releaseKnownTypes clusterReleaseV1beta1"

definition nsAddToScheme :: "schemeCall list" where
  "nsAddToScheme = nsConfigKnownTypes @ releaseKnownTypes nsReleaseV1beta1"

section \<open>Type metadata of the packages\<close>

text \<open>\<open>schema.GroupVersion.String\<close> for a group that is not empty, and the four variables that a package has per type.\<close>

definition GroupVersion_String :: "GroupVersion \<Rightarrow> string" where
  "GroupVersion_String gv = gvGroup gv @ ''/'' @ gvVersion gv"

record typeMetadata =
  tmdKind :: string
  tmdGroupKind :: string
  tmdKindAPIVersion :: string
  tmdGroupVersionKind :: GroupVersionKind

definition metadataOf :: "GroupVersion \<Rightarrow> string \<Rightarrow> typeMetadata" where
  "metadataOf gv k =
     \<lparr>tmdKind = k, tmdGroupKind = GroupKind_String (gvGroup gv) k,
      tmdKindAPIVersion = k @ ''.'' @ GroupVersion_String gv, tmdGroupVersionKind = WithKind gv k\<rparr>"

definition alphaReleaseMetadata :: typeMetadata where
  "alphaReleaseMetadata = metadataOf clusterReleaseV1alpha1 ''Release''"

definition betaReleaseMetadata :: typeMetadata where
  "betaReleaseMetadata = metadataOf clusterReleaseV1beta1 ''Release''"

definition nsReleaseMetadata :: typeMetadata where
  "nsReleaseMetadata = metadataOf nsReleaseV1beta1 ''Release''"

definition alphaConfigMetadata :: typeMetadata where
  "alphaConfigMetadata = metadataOf clusterConfigV1alpha1 ''ProviderConfig''"

definition alphaUsageMetadata :: "typeMetadata list" where
  "alphaUsageMetadata =
     [metadataOf clusterConfigV1alpha1 ''ProviderConfigUsage'', metadataOf clusterConfigV1alpha1 ''ProviderConfigUsageList'']"

definition betaConfigMetadata :: typeMetadata where
  "betaConfigMetadata = metadataOf clusterConfigV1beta1 ''ProviderConfig''"

definition betaUsageMetadata :: "typeMetadata list" where
  "betaUsageMetadata =
     [metadataOf clusterConfigV1beta1 ''ProviderConfigUsage'', metadataOf clusterConfigV1beta1 ''ProviderConfigUsageList'']"

definition nsConfigMetadata :: typeMetadata where
  "nsConfigMetadata = metadataOf nsConfigV1beta1 ''ProviderConfig''"

definition nsUsageMetadata :: "typeMetadata list" where
  "nsUsageMetadata =
     [metadataOf nsConfigV1beta1 ''ProviderConfigUsage'', metadataOf nsConfigV1beta1 ''ProviderConfigUsageList'',
      metadataOf nsConfigV1beta1 ''ClusterProviderConfig'']"

text \<open>The registration of each package, with its own group version.\<close>

definition alphaReleaseKnownTypes :: "schemeCall list" where
  "alphaReleaseKnownTypes = releaseKnownTypes clusterReleaseV1alpha1"

definition nsReleaseKnownTypes :: "schemeCall list" where
  "nsReleaseKnownTypes = releaseKnownTypes nsReleaseV1beta1"

definition alphaConfigKnownTypes :: "schemeCall list" where
  "alphaConfigKnownTypes = configKnownTypes clusterConfigV1alpha1"

section \<open>Facts\<close>

text \<open>The kinds that calls register.\<close>

fun kindsOf :: "schemeCall \<Rightarrow> GroupVersionKind list" where
  "kindsOf (AddKnownTypes gv ts) = map (WithKind gv) ts"
| "kindsOf (AddToGroupVersion gv) = []"

definition registeredKinds :: "schemeCall list \<Rightarrow> GroupVersionKind list" where
  "registeredKinds cs = concat (map kindsOf cs)"

lemmas scheme_defs = clusterAddToScheme_def nsAddToScheme_def configKnownTypes_def
  nsConfigKnownTypes_def releaseKnownTypes_def registeredKinds_def WithKind_def
  clusterReleaseV1alpha1_def clusterReleaseV1beta1_def clusterConfigV1alpha1_def
  clusterConfigV1beta1_def nsReleaseV1beta1_def nsConfigV1beta1_def

lemmas kind_defs = ReleaseKind_def ProviderConfigKind_def ProviderConfigUsageKind_def
  ProviderConfigUsageListKind_def ClusterProviderConfigKind_def ReleaseGroupVersionKind_def
  ReleaseGroupKind_def nsReleaseGroupVersionKind_def nsReleaseGroupKind_def
  ProviderConfigGroupVersionKind_def ProviderConfigGroupKind_def
  ProviderConfigUsageGroupVersionKind_def ProviderConfigUsageListGroupVersionKind_def
  ClusterProviderConfigGroupVersionKind_def ClusterProviderConfigGroupKind_def GroupKind_String_def

lemma registered_distinct: "distinct (registeredKinds (clusterAddToScheme @ nsAddToScheme))"
  by (simp add: scheme_defs)

text \<open>Every kind that a package names is one that it registers.\<close>

lemma metadata_registered:
  "tmdGroupVersionKind ` set ([alphaReleaseMetadata, betaReleaseMetadata, alphaConfigMetadata, betaConfigMetadata]
      @ alphaUsageMetadata @ betaUsageMetadata) \<subseteq> set (registeredKinds clusterAddToScheme)"
  "tmdGroupVersionKind ` set ([nsReleaseMetadata, nsConfigMetadata] @ nsUsageMetadata) \<subseteq> set (registeredKinds nsAddToScheme)"
  by (simp_all add: scheme_defs metadataOf_def alphaReleaseMetadata_def betaReleaseMetadata_def alphaConfigMetadata_def
      betaConfigMetadata_def alphaUsageMetadata_def betaUsageMetadata_def nsReleaseMetadata_def nsConfigMetadata_def nsUsageMetadata_def)

text \<open>The kinds that the controllers are set up for are those of the metadata.\<close>

lemma metadata_kinds:
  "tmdGroupVersionKind betaReleaseMetadata = ReleaseGroupVersionKind" "tmdGroupKind betaReleaseMetadata = ReleaseGroupKind"
  "tmdGroupVersionKind nsReleaseMetadata = nsReleaseGroupVersionKind" "tmdGroupKind nsReleaseMetadata = nsReleaseGroupKind"
  "tmdGroupVersionKind betaConfigMetadata = ProviderConfigGroupVersionKind clusterConfigV1beta1"
  "map tmdGroupVersionKind betaUsageMetadata =
     [ProviderConfigUsageGroupVersionKind clusterConfigV1beta1, ProviderConfigUsageListGroupVersionKind clusterConfigV1beta1]"
  by (simp_all add: metadataOf_def betaReleaseMetadata_def nsReleaseMetadata_def betaConfigMetadata_def betaUsageMetadata_def kind_defs)

end
