(* ===== verification/Provider_Setup.thy ===== *)
theory Provider_Setup
  imports Provider_Scheme Api_Types
begin

text \<open>
  Starting the controllers: \<open>Setup\<close> and \<open>SetupGated\<close> of the release and provider config controllers
  of both scopes (\<open>pkg/controller\<close>), and the part of \<open>cmd/provider/main.go\<close> that chooses between
  them. What is done to the manager, the gate and the log is a list of events, in order, the
  failing ones included; the manager's answers and the names that crossplane-runtime gives to
  controllers are parameters.
\<close>

section \<open>Controllers\<close>

text \<open>The options of \<open>controller.Options\<close> that differ between runs.\<close>

record Options =
  opPollInterval :: Duration
  opMaxConcurrentReconciles :: int
  opPollStateMetricInterval :: Duration
  opManagementPolicies :: bool
  opChangeLogs :: bool

datatype connectorKind = ClusterConnector | NsConnector

datatype reconcilerOption =
    WithExternalConnector connectorKind
  | WithPollInterval Duration
  | WithLogger string
  | WithRecorder string
  | WithTimeout Duration
  | WithMetricRecorder
  | WithDeterministicExternalName bool
  | WithChangeLogger
  | WithManagementPolicies

datatype reconciler =
    ManagedReconciler GroupVersionKind "reconcilerOption list"
  | ConfigReconciler GroupVersionKind GroupVersionKind GroupVersionKind string
  | RateLimited string reconciler

text \<open>What is given to the controller builder: the name, \<open>For\<close>, \<open>Watches\<close>, whether
  \<open>DesiredStateChanged\<close> filters events, and the reconciler.\<close>

record controllerSpec =
  ctName :: string
  ctMaxConcurrentReconciles :: int
  ctFor :: GroupVersionKind
  ctWatches :: "GroupVersionKind list"
  ctDesiredStateChanged :: bool
  ctReconciler :: reconciler

text \<open>\<open>mnManagedName\<close> and \<open>mnConfigName\<close> are \<open>managed.ControllerName\<close> and
  \<open>providerconfig.ControllerName\<close>.\<close>

record manager =
  mnManagedName :: "string \<Rightarrow> string"
  mnConfigName :: "string \<Rightarrow> string"
  mnAdd :: "GroupVersionKind \<Rightarrow> goerr option"
  mnComplete :: "controllerSpec \<Rightarrow> goerr option"
  mnCRDGate :: "goerr option"
  mnAddProbe :: "string \<Rightarrow> goerr option"
  mnStart :: "goerr option"

text \<open>The functions that \<open>SetupGated\<close> hands to the gate, with what each of them captures: the
  manager, the options and the timeout that \<open>SetupGated\<close> was called with.\<close>

datatype gateTask =
    ClusterConfigTask manager Options Duration
  | ClusterReleaseTask manager Options Duration
  | NsConfigTask manager Options Duration
  | NsReleaseTask manager Options Duration

datatype setupEvent =
    AddStateRecorder GroupVersionKind Duration
  | AddController controllerSpec
  | RegisterGate gateTask "GroupVersionKind list"
  | LogSetupError goerr string "string list"
  | SetupCRDGate
  | AddProbe string
  | StartManager

type_synonym run = "setupEvent list \<times> goerr option"

text \<open>\<open>if err := first; err != nil { return err }; return second\<close>\<close>

definition andThen :: "run \<Rightarrow> run \<Rightarrow> run" where
  "andThen r r' =
     (case r of (es, err) \<Rightarrow>
        (case err of Some e \<Rightarrow> (es, Some e) | None \<Rightarrow> (es @ fst r', snd r')))"

definition complete :: "manager \<Rightarrow> controllerSpec \<Rightarrow> run" where
  "complete mgr c = ([AddController c], mnComplete mgr c)"

section \<open>Releases\<close>

definition releaseOptions :: "Options \<Rightarrow> Duration \<Rightarrow> connectorKind \<Rightarrow> string \<Rightarrow> reconcilerOption list" where
  "releaseOptions opts timeout k nm =
     [WithExternalConnector k, WithPollInterval (opPollInterval opts), WithLogger nm, WithRecorder nm,
      WithTimeout timeout, WithMetricRecorder, WithDeterministicExternalName True]
     @ (if opChangeLogs opts then [WithChangeLogger] else [])
     @ (if opManagementPolicies opts then [WithManagementPolicies] else [])"

definition releaseSetup :: "manager \<Rightarrow> Options \<Rightarrow> Duration \<Rightarrow> run" where
  "releaseSetup mgr opts timeout =
     (let nm = mnManagedName mgr ReleaseGroupKind;
          list = WithKind clusterReleaseV1beta1 ''ReleaseList'' in
      andThen
        ([AddStateRecorder list (opPollStateMetricInterval opts)], mnAdd mgr list)
        (complete mgr
           \<lparr>ctName = nm, ctMaxConcurrentReconciles = opMaxConcurrentReconciles opts,
            ctFor = ReleaseGroupVersionKind, ctWatches = [], ctDesiredStateChanged = True,
            ctReconciler = ManagedReconciler ReleaseGroupVersionKind
              (releaseOptions opts timeout ClusterConnector nm)\<rparr>))"

definition nsReleaseSetup :: "manager \<Rightarrow> Options \<Rightarrow> Duration \<Rightarrow> run" where
  "nsReleaseSetup mgr opts timeout =
     (let nm = mnManagedName mgr nsReleaseGroupKind;
          list = WithKind nsReleaseV1beta1 ''ReleaseList'' in
      andThen
        ([AddStateRecorder list (opPollStateMetricInterval opts)], mnAdd mgr list)
        (complete mgr
           \<lparr>ctName = nm, ctMaxConcurrentReconciles = opMaxConcurrentReconciles opts,
            ctFor = nsReleaseGroupVersionKind, ctWatches = [], ctDesiredStateChanged = True,
            ctReconciler = ManagedReconciler nsReleaseGroupVersionKind
              (releaseOptions opts timeout NsConnector nm)\<rparr>))"

section \<open>Provider configs\<close>

definition configSetup :: "manager \<Rightarrow> Options \<Rightarrow> Duration \<Rightarrow> run" where
  "configSetup mgr opts timeout =
     (let gv = clusterConfigV1beta1; nm = mnConfigName mgr (ProviderConfigGroupKind gv) in
      complete mgr
        \<lparr>ctName = nm, ctMaxConcurrentReconciles = opMaxConcurrentReconciles opts,
         ctFor = ProviderConfigGroupVersionKind gv,
         ctWatches = [ProviderConfigUsageGroupVersionKind gv], ctDesiredStateChanged = False,
         ctReconciler = RateLimited nm
           (ConfigReconciler (ProviderConfigGroupVersionKind gv)
              (ProviderConfigUsageGroupVersionKind gv) (ProviderConfigUsageListGroupVersionKind gv) nm)\<rparr>)"

definition setupNamespacedProviderConfig :: "manager \<Rightarrow> Options \<Rightarrow> run" where
  "setupNamespacedProviderConfig mgr opts =
     (let gv = nsConfigV1beta1; nm = mnConfigName mgr (ProviderConfigGroupKind gv) in
      complete mgr
        \<lparr>ctName = nm, ctMaxConcurrentReconciles = opMaxConcurrentReconciles opts,
         ctFor = ProviderConfigGroupVersionKind gv,
         ctWatches = [ProviderConfigUsageGroupVersionKind gv], ctDesiredStateChanged = False,
         ctReconciler = RateLimited nm
           (ConfigReconciler (ProviderConfigGroupVersionKind gv)
              (ProviderConfigUsageGroupVersionKind gv) (ProviderConfigUsageListGroupVersionKind gv) nm)\<rparr>)"

text \<open>This one is not rate limited.\<close>

definition setupClusterProviderConfig :: "manager \<Rightarrow> Options \<Rightarrow> run" where
  "setupClusterProviderConfig mgr opts =
     (let gv = nsConfigV1beta1; nm = mnConfigName mgr ClusterProviderConfigGroupKind in
      complete mgr
        \<lparr>ctName = nm, ctMaxConcurrentReconciles = opMaxConcurrentReconciles opts,
         ctFor = ClusterProviderConfigGroupVersionKind,
         ctWatches = [ProviderConfigUsageGroupVersionKind gv], ctDesiredStateChanged = False,
         ctReconciler =
           ConfigReconciler ClusterProviderConfigGroupVersionKind
             (ProviderConfigUsageGroupVersionKind gv) (ProviderConfigUsageListGroupVersionKind gv) nm\<rparr>)"

definition nsConfigSetup :: "manager \<Rightarrow> Options \<Rightarrow> Duration \<Rightarrow> run" where
  "nsConfigSetup mgr opts timeout =
     andThen (setupNamespacedProviderConfig mgr opts) (setupClusterProviderConfig mgr opts)"

section \<open>Gated\<close>

definition configSetupGated :: "manager \<Rightarrow> Options \<Rightarrow> Duration \<Rightarrow> run" where
  "configSetupGated mgr opts timeout =
     ([RegisterGate (ClusterConfigTask mgr opts timeout)
         [ProviderConfigGroupVersionKind clusterConfigV1beta1,
          ProviderConfigUsageGroupVersionKind clusterConfigV1beta1]], None)"

definition releaseSetupGated :: "manager \<Rightarrow> Options \<Rightarrow> Duration \<Rightarrow> run" where
  "releaseSetupGated mgr opts timeout = ([RegisterGate (ClusterReleaseTask mgr opts timeout) [ReleaseGroupVersionKind]], None)"

definition nsConfigSetupGated :: "manager \<Rightarrow> Options \<Rightarrow> Duration \<Rightarrow> run" where
  "nsConfigSetupGated mgr opts timeout =
     ([RegisterGate (NsConfigTask mgr opts timeout)
         [ClusterProviderConfigGroupVersionKind, ProviderConfigGroupVersionKind nsConfigV1beta1,
          ProviderConfigUsageGroupVersionKind nsConfigV1beta1]], None)"

definition nsReleaseSetupGated :: "manager \<Rightarrow> Options \<Rightarrow> Duration \<Rightarrow> run" where
  "nsReleaseSetupGated mgr opts timeout = ([RegisterGate (NsReleaseTask mgr opts timeout) [nsReleaseGroupVersionKind]], None)"

text \<open>What the gate runs: the set-up, with an error logged.\<close>

definition logged :: "run \<Rightarrow> string \<Rightarrow> GroupVersionKind list \<Rightarrow> setupEvent list" where
  "logged r msg ks =
     fst r @ (case snd r of None \<Rightarrow> [] | Some e \<Rightarrow> [LogSetupError e msg (map GVK_String ks)])"

fun runTask :: "gateTask \<Rightarrow> setupEvent list" where
  "runTask (ClusterConfigTask mgr opts timeout) =
     logged (configSetup mgr opts timeout) ''unable to setup reconciler''
       [ProviderConfigGroupVersionKind clusterConfigV1beta1]"
| "runTask (ClusterReleaseTask mgr opts timeout) =
     logged (releaseSetup mgr opts timeout) ''unable to setup reconciler'' [ReleaseGroupVersionKind]"
| "runTask (NsConfigTask mgr opts timeout) =
     logged (nsConfigSetup mgr opts timeout) ''unable to setup reconcilers''
       [ClusterProviderConfigGroupVersionKind, ProviderConfigGroupVersionKind nsConfigV1beta1]"
| "runTask (NsReleaseTask mgr opts timeout) =
     logged (nsReleaseSetup mgr opts timeout) ''unable to setup reconciler'' [nsReleaseGroupVersionKind]"

section \<open>Both controllers of a scope\<close>

fun runAll :: "run list \<Rightarrow> run" where
  "runAll [] = ([], None)"
| "runAll (r # rs) = andThen r (runAll rs)"

definition clusterSetup :: "manager \<Rightarrow> Options \<Rightarrow> Duration \<Rightarrow> run" where
  "clusterSetup mgr opts timeout = runAll [configSetup mgr opts timeout, releaseSetup mgr opts timeout]"

definition clusterSetupGated :: "manager \<Rightarrow> Options \<Rightarrow> Duration \<Rightarrow> run" where
  "clusterSetupGated mgr opts timeout =
     runAll [configSetupGated mgr opts timeout, releaseSetupGated mgr opts timeout]"

definition nsSetup :: "manager \<Rightarrow> Options \<Rightarrow> Duration \<Rightarrow> run" where
  "nsSetup mgr opts timeout = runAll [nsConfigSetup mgr opts timeout, nsReleaseSetup mgr opts timeout]"

definition nsSetupGated :: "manager \<Rightarrow> Options \<Rightarrow> Duration \<Rightarrow> run" where
  "nsSetupGated mgr opts timeout =
     runAll [nsConfigSetupGated mgr opts timeout, nsReleaseSetupGated mgr opts timeout]"

section \<open>The command\<close>

text \<open>\<open>canWatchCRD\<close>: the verbs that were asked about, and the result. \<open>review\<close> creates an access
  review for a verb on custom resource definitions and gives back whether it is allowed.\<close>

fun askVerbs :: "(string \<Rightarrow> goerr + bool) \<Rightarrow> string list \<Rightarrow> string list \<times> (goerr + bool)" where
  "askVerbs review [] = ([], Inr True)"
| "askVerbs review (v # vs) =
     (case review v of
        Inl e \<Rightarrow> ([v], Inl (Wrap e (''unable to perform RBAC check for verb [get list watch]''
           @ '' on CustomResourceDefinitions'')))
      | Inr allowed \<Rightarrow>
          if \<not> allowed then ([v], Inr False)
          else (case askVerbs review vs of (asked, r) \<Rightarrow> (v # asked, r)))"

definition canWatchCRD ::
  "goerr option \<Rightarrow> (string \<Rightarrow> goerr + bool) \<Rightarrow> string list \<times> (goerr + bool)" where
  "canWatchCRD addErr review =
     (case addErr of
        Some e \<Rightarrow> ([], Inl e)
      | None \<Rightarrow> askVerbs review [''get'', ''list'', ''watch''])"

definition setupHealthProbes :: "manager \<Rightarrow> run" where
  "setupHealthProbes mgr =
     andThen ([AddProbe ''readyz''], map_option (\<lambda>e. Wrap e ''cannot add readiness probe'') (mnAddProbe mgr ''readyz''))
       ([AddProbe ''healthz''], map_option (\<lambda>e. Wrap e ''cannot add liveness probe'') (mnAddProbe mgr ''healthz''))"

text \<open>\<open>kingpin.FatalIfError\<close> ends the process with the message and the error.\<close>

definition fatal :: "run \<Rightarrow> string \<Rightarrow> setupEvent list \<times> (string \<times> goerr) option" where
  "fatal r msg = (fst r, map_option (Pair msg) (snd r))"

fun fatalAll ::
  "(setupEvent list \<times> (string \<times> goerr) option) list \<Rightarrow> setupEvent list \<times> (string \<times> goerr) option" where
  "fatalAll [] = ([], None)"
| "fatalAll ((es, Some f) # rs) = (es, Some f)"
| "fatalAll ((es, None) # rs) = (case fatalAll rs of (es', f) \<Rightarrow> (es @ es', f))"

text \<open>The end of \<open>main\<close>, from the check of permissions on.\<close>

definition startControllers ::
  "manager \<Rightarrow> Options \<Rightarrow> Duration \<Rightarrow> goerr + bool \<Rightarrow> setupEvent list \<times> (string \<times> goerr) option" where
  "startControllers mgr opts timeout check =
     (case check of
        Inl e \<Rightarrow> ([], Some (''SafeStart precheck failed'', e))
      | Inr canSafeStart \<Rightarrow>
          fatalAll
            ((if canSafeStart then
                [fatal ([SetupCRDGate], mnCRDGate mgr) ''Cannot setup CRD gate'',
                 fatal (clusterSetupGated mgr opts timeout) ''Cannot setup cluster-scoped AzureAD controllers'',
                 fatal (nsSetupGated mgr opts timeout) ''Cannot setup namespaced AzureAD controllers'']
              else
                [fatal (clusterSetup mgr opts timeout) ''Cannot setup cluster-scoped AzureAD controllers'',
                 fatal (nsSetup mgr opts timeout) ''Cannot setup namespaced AzureAD controllers''])
             @ [fatal (setupHealthProbes mgr) ''Cannot setup health probes'',
                fatal ([StartManager], mnStart mgr) ''Cannot start controller manager'']))"

end
