(* ===== verification/Provider_Main.thy ===== *)
theory Provider_Main
  imports Provider_Setup
begin

text \<open>
  The command (\<open>cmd/provider/main.go\<close>): its flags and their defaults, the options it derives from them
  for the manager and the controllers, and \<open>main\<close> as the sequence of what it does, up to the first
  fatal error. Reading flags and environment is left to kingpin.
\<close>

section \<open>Flags\<close>

definition timeSecond :: Duration where "timeSecond = 1000000000"
definition timeMinute :: Duration where "timeMinute = 60 * timeSecond"
definition timeHour :: Duration where "timeHour = 60 * timeMinute"

record Flags =
  flDebug :: bool
  flLeaderElection :: bool
  flTimeout :: Duration
  flSync :: Duration
  flPoll :: Duration
  flPollStateMetric :: Duration
  flMaxReconcileRate :: int
  flWebhookPort :: int
  flMetricsBindAddress :: string
  flHealthProbeBindAddress :: string
  flEnableManagementPolicies :: bool
  flEnableChangeLogs :: bool
  flChangelogsSocketPath :: string
  flEnableSecretCache :: bool

definition defaultFlags :: Flags where
  "defaultFlags =
     \<lparr>flDebug = False, flLeaderElection = False, flTimeout = 10 * timeMinute, flSync = 1 * timeHour,
      flPoll = 10 * timeMinute, flPollStateMetric = 5 * timeSecond, flMaxReconcileRate = 100,
      flWebhookPort = 9443, flMetricsBindAddress = '':8080'', flHealthProbeBindAddress = '':8081'',
      flEnableManagementPolicies = True, flEnableChangeLogs = False,
      flChangelogsSocketPath = ''/var/run/changelogs/changelogs.sock'', flEnableSecretCache = True\<rparr>"

section \<open>Options\<close>

record ManagerOptions =
  moUncached :: "string list"
  moSyncPeriod :: Duration
  moStripped :: "string list"
  moWebhookPort :: int
  moMetricsBindAddress :: string
  moHealthProbeBindAddress :: string
  moLeaderElection :: bool
  moLeaderElectionID :: string
  moLeaderElectionLock :: string
  moLeaseDuration :: Duration
  moRenewDeadline :: Duration

definition managerOptions :: "Flags \<Rightarrow> ManagerOptions" where
  "managerOptions fl =
     \<lparr>moUncached = (if \<not> flEnableSecretCache fl then [''Secret''] else []),
      moSyncPeriod = flSync fl,
      moStripped = [''CustomResourceDefinition''],
      moWebhookPort = flWebhookPort fl,
      moMetricsBindAddress = flMetricsBindAddress fl,
      moHealthProbeBindAddress = flHealthProbeBindAddress fl,
      moLeaderElection = flLeaderElection fl,
      moLeaderElectionID = ''crossplane-leader-election-provider-template'',
      moLeaderElectionLock = ''leases'',
      moLeaseDuration = 60 * timeSecond,
      moRenewDeadline = 50 * timeSecond\<rparr>"

text \<open>\<open>clusterOpts\<close> and \<open>namespacedOpts\<close> have the same contents.\<close>

definition controllerOptions :: "Flags \<Rightarrow> Options" where
  "controllerOptions fl =
     \<lparr>opPollInterval = flPoll fl, opMaxConcurrentReconciles = flMaxReconcileRate fl,
      opPollStateMetricInterval = flPollStateMetric fl,
      opManagementPolicies = flEnableManagementPolicies fl, opChangeLogs = flEnableChangeLogs fl\<rparr>"

section \<open>main\<close>

text \<open>The schemes are named after what they add; \<open>MgrNew\<close> has the rate limit of the config.\<close>

datatype mainEvent =
    GetConfig
  | AddScheme string "schemeCall list"
  | MgrNew int ManagerOptions
  | RegisterMetrics
  | DialChangeLogs string
  | AskAccess string
  | Setup setupEvent

record environment =
  enConfig :: "goerr option"
  enAddScheme :: "string \<Rightarrow> goerr option"
  enManager :: "int \<Rightarrow> ManagerOptions \<Rightarrow> goerr + manager"
  enDial :: "string \<Rightarrow> goerr option"
  enAuthScheme :: "goerr option"
  enReview :: "string \<Rightarrow> goerr + bool"

type_synonym outcome = "mainEvent list \<times> (string \<times> goerr) option"

text \<open>An event, its error if it has one, and the rest of \<open>main\<close> otherwise.\<close>

definition orFatal :: "mainEvent \<Rightarrow> goerr option \<Rightarrow> string \<Rightarrow> outcome \<Rightarrow> outcome" where
  "orFatal ev err msg rest =
     (case err of Some e \<Rightarrow> ([ev], Some (msg, e)) | None \<Rightarrow> (ev # fst rest, snd rest))"

definition afterManager :: "Flags \<Rightarrow> environment \<Rightarrow> manager \<Rightarrow> outcome" where
  "afterManager fl env mgr =
     (case canWatchCRD (enAuthScheme env) (enReview env) of (asked, check) \<Rightarrow>
      (case startControllers mgr (controllerOptions fl) (flTimeout fl) check of (es, f) \<Rightarrow>
        (map AskAccess asked @ map Setup es, f)))"

definition withChangeLogs :: "Flags \<Rightarrow> environment \<Rightarrow> outcome \<Rightarrow> outcome" where
  "withChangeLogs fl env rest =
     (if flEnableChangeLogs fl then
        (let target = ''unix://'' @ flChangelogsSocketPath fl in
         orFatal (DialChangeLogs target) (enDial env target)
           (''failed to create change logs client connection at '' @ flChangelogsSocketPath fl) rest)
      else rest)"

definition main :: "Flags \<Rightarrow> environment \<Rightarrow> outcome" where
  "main fl env =
     orFatal GetConfig (enConfig env) ''Cannot get API server rest config'' (
     orFatal (AddScheme ''clientgo'' []) (enAddScheme env ''clientgo'') ''Cannot add clientgo scheme'' (
     orFatal (AddScheme ''cluster'' clusterAddToScheme) (enAddScheme env ''cluster'')
       ''Cannot add cluster-scoped Helm APIs to scheme'' (
     orFatal (AddScheme ''namespaced'' nsAddToScheme) (enAddScheme env ''namespaced'')
       ''Cannot add namespaced Helm APIs to scheme'' (
     orFatal (AddScheme ''apiextensions'' []) (enAddScheme env ''apiextensions'')
       ''Cannot register k8s apiextensions APIs to scheme'' (
     (let rate = flMaxReconcileRate fl; opts = managerOptions fl in
      case enManager env rate opts of
        Inl e \<Rightarrow> ([MgrNew rate opts], Some (''Cannot create controller manager'', e))
      | Inr mgr \<Rightarrow>
          (case withChangeLogs fl env (afterManager fl env mgr) of (es, f) \<Rightarrow>
            (MgrNew rate opts # RegisterMetrics # es, f))))))))"

section \<open>Facts\<close>

lemma orFatal_None [simp]: "orFatal ev None msg rest = (ev # fst rest, snd rest)"
  by (simp add: orFatal_def)

lemma orFatal_Some [simp]: "orFatal ev (Some e) msg rest = ([ev], Some (msg, e))"
  by (simp add: orFatal_def)

lemma orFatal_in: "x \<in> set (fst (orFatal ev err msg rest)) \<Longrightarrow> x \<noteq> ev \<Longrightarrow> err = None \<and> x \<in> set (fst rest)"
  by (cases err) simp_all

text \<open>Reaching the end of \<open>main\<close>.\<close>

lemma main_reaches:
  assumes "Setup e \<in> set (fst (main fl env))"
  obtains mgr pre where
    "enManager env (flMaxReconcileRate fl) (managerOptions fl) = Inr mgr"
    "main fl env = (pre @ fst (afterManager fl env mgr), snd (afterManager fl env mgr))"
    "pre = [GetConfig, AddScheme ''clientgo'' [], AddScheme ''cluster'' clusterAddToScheme,
        AddScheme ''namespaced'' nsAddToScheme, AddScheme ''apiextensions'' [],
        MgrNew (flMaxReconcileRate fl) (managerOptions fl), RegisterMetrics]
      @ (if flEnableChangeLogs fl then [DialChangeLogs (''unix://'' @ flChangelogsSocketPath fl)] else [])"
proof -
  note start = assms [unfolded main_def]
  have none: "enConfig env = None" "\<And>s. s \<in> {''clientgo'', ''cluster'', ''namespaced'', ''apiextensions''} \<Longrightarrow> enAddScheme env s = None"
    using start by (auto dest!: orFatal_in)
  obtain mgr where mgr: "enManager env (flMaxReconcileRate fl) (managerOptions fl) = Inr mgr"
    using start none by (cases "enManager env (flMaxReconcileRate fl) (managerOptions fl)") (simp_all add: Let_def)
  have dial: "flEnableChangeLogs fl \<Longrightarrow> enDial env (''unix://'' @ flChangelogsSocketPath fl) = None"
    using start none mgr by (cases "enDial env (''unix://'' @ flChangelogsSocketPath fl)")
      (simp_all add: withChangeLogs_def Let_def)
  show ?thesis
    by (rule that [OF mgr _ refl]) (use none mgr dial in \<open>simp add: main_def withChangeLogs_def Let_def case_prod_beta\<close>)
qed

end
