(* ===== verification/Provider_Start.thy ===== *)
theory Provider_Start
  imports Provider_Main Go_Paths
begin

text \<open>
  What runs before the body of \<open>main\<close> (\<open>cmd/provider/main.go\<close>): the boot check of \<open>init\<close>
  (\<open>internal/bootcheck/default.go\<close>), the declared flags and their parsing, and the loggers. Parsing is
  kingpin's and a parameter; what is declared to it is not.
\<close>

section \<open>The boot check\<close>

definition CheckEnv :: "goerr option" where "CheckEnv = None"

definition programVersion :: string where "programVersion = ''0.0.0''"

section \<open>Flags\<close>

datatype flagKind = BoolFlag | DurationFlag | IntFlag | StringFlag

record flagDecl =
  fdName :: string
  fdShort :: "char option"
  fdDefault :: "string option"
  fdEnvar :: "string option"
  fdKind :: flagKind

text \<open>\<open>fdEnvar\<close> is what is given with \<open>Envar\<close>. The application is declared with \<open>DefaultEnvars\<close>, which has
  kingpin derive a variable for every flag without one from the names of program and flag.\<close>

record appDecl =
  adName :: string
  adHelp :: string
  adDefaultEnvars :: bool
  adFlags :: "flagDecl list"

definition declaredFlags :: "flagDecl list" where
  "declaredFlags =
     [\<lparr>fdName = ''debug'', fdShort = Some (CHR ''d''), fdDefault = None, fdEnvar = None, fdKind = BoolFlag\<rparr>,
      \<lparr>fdName = ''leader-election'', fdShort = Some (CHR ''l''), fdDefault = Some ''false'', fdEnvar = Some ''LEADER_ELECTION'',
       fdKind = BoolFlag\<rparr>,
      \<lparr>fdName = ''timeout'', fdShort = None, fdDefault = Some ''10m'', fdEnvar = None, fdKind = DurationFlag\<rparr>,
      \<lparr>fdName = ''sync'', fdShort = Some (CHR ''s''), fdDefault = Some ''1h'', fdEnvar = None, fdKind = DurationFlag\<rparr>,
      \<lparr>fdName = ''poll'', fdShort = None, fdDefault = Some ''10m'', fdEnvar = None, fdKind = DurationFlag\<rparr>,
      \<lparr>fdName = ''poll-state-metric'', fdShort = None, fdDefault = Some ''5s'', fdEnvar = None, fdKind = DurationFlag\<rparr>,
      \<lparr>fdName = ''max-reconcile-rate'', fdShort = None, fdDefault = Some ''100'', fdEnvar = None, fdKind = IntFlag\<rparr>,
      \<lparr>fdName = ''webhook-port'', fdShort = None, fdDefault = Some ''9443'', fdEnvar = Some ''WEBHOOK_PORT'', fdKind = IntFlag\<rparr>,
      \<lparr>fdName = ''metrics-bind-address'', fdShort = None, fdDefault = Some '':8080'', fdEnvar = Some ''METRICS_BIND_ADDRESS'',
       fdKind = StringFlag\<rparr>,
      \<lparr>fdName = ''health-probe-bind-addr'', fdShort = None, fdDefault = Some '':8081'', fdEnvar = Some ''HEALTH_PROBE_BIND_ADDRESS'',
       fdKind = StringFlag\<rparr>,
      \<lparr>fdName = ''enable-management-policies'', fdShort = None, fdDefault = Some ''true'',
       fdEnvar = Some ''ENABLE_MANAGEMENT_POLICIES'', fdKind = BoolFlag\<rparr>,
      \<lparr>fdName = ''enable-changelogs'', fdShort = None, fdDefault = Some ''false'', fdEnvar = Some ''ENABLE_CHANGE_LOGS'',
       fdKind = BoolFlag\<rparr>,
      \<lparr>fdName = ''changelogs-socket-path'', fdShort = None, fdDefault = Some ''/var/run/changelogs/changelogs.sock'',
       fdEnvar = Some ''CHANGELOGS_SOCKET_PATH'', fdKind = StringFlag\<rparr>,
      \<lparr>fdName = ''enable-secret-cache'', fdShort = None, fdDefault = Some ''true'', fdEnvar = Some ''ENABLE_SECRET_CACHE'',
       fdKind = BoolFlag\<rparr>]"

text \<open>The application, named after the file that is run.\<close>

definition declaredApp :: "string \<Rightarrow> appDecl" where
  "declaredApp arg0 =
     \<lparr>adName = Base arg0, adHelp = ''Helm support for Crossplane.'', adDefaultEnvars = True,
      adFlags = declaredFlags\<rparr>"

text \<open>The value that kingpin gives every flag, from the command line, the environment or the default, by its kind.\<close>

record flagValues =
  boolFlag :: "string \<Rightarrow> bool"
  durationFlag :: "string \<Rightarrow> Duration"
  intFlag :: "string \<Rightarrow> int"
  stringFlag :: "string \<Rightarrow> string"

definition readFlags :: "flagValues \<Rightarrow> Flags" where
  "readFlags v =
     \<lparr>flDebug = boolFlag v ''debug'',
      flLeaderElection = boolFlag v ''leader-election'',
      flTimeout = durationFlag v ''timeout'',
      flSync = durationFlag v ''sync'',
      flPoll = durationFlag v ''poll'',
      flPollStateMetric = durationFlag v ''poll-state-metric'',
      flMaxReconcileRate = intFlag v ''max-reconcile-rate'',
      flWebhookPort = intFlag v ''webhook-port'',
      flMetricsBindAddress = stringFlag v ''metrics-bind-address'',
      flHealthProbeBindAddress = stringFlag v ''health-probe-bind-addr'',
      flEnableManagementPolicies = boolFlag v ''enable-management-policies'',
      flEnableChangeLogs = boolFlag v ''enable-changelogs'',
      flChangelogsSocketPath = stringFlag v ''changelogs-socket-path'',
      flEnableSecretCache = boolFlag v ''enable-secret-cache''\<rparr>"

section \<open>Loggers\<close>

datatype timeEncoder = DefaultTimeEncoder | ISO8601TimeEncoder

record zapOptions =
  zoDevelopment :: bool
  zoTimeEncoder :: timeEncoder
  zoDiscard :: bool

definition zeroZap :: zapOptions where
  "zeroZap = \<lparr>zoDevelopment = False, zoTimeEncoder = DefaultTimeEncoder, zoDiscard = False\<rparr>"

definition UseISO8601 :: "zapOptions \<Rightarrow> zapOptions" where
  "UseISO8601 opts = opts\<lparr>zoTimeEncoder := ISO8601TimeEncoder\<rparr>"

text \<open>The loggers that the controller runtime is given, the last one counts.\<close>

definition setLoggers :: "Flags \<Rightarrow> zapOptions list" where
  "setLoggers fl =
     (let zl = UseISO8601 (zeroZap\<lparr>zoDevelopment := flDebug fl\<rparr>) in
      zeroZap\<lparr>zoDiscard := True\<rparr> # (if flDebug fl then [zl] else []))"

section \<open>The program\<close>

datatype programEvent =
    SetLogger zapOptions
  | MainEvent mainEvent

definition program ::
  "(appDecl \<Rightarrow> string list \<Rightarrow> goerr + flagValues) \<Rightarrow> string \<Rightarrow> string list \<Rightarrow> environment \<Rightarrow>
    programEvent list \<times> (string \<times> goerr) option" where
  "program parse arg0 args env =
     (case CheckEnv of
        Some e \<Rightarrow> ([], Some (''bootcheck failed. provider will not be started'', e))
      | None \<Rightarrow>
     (case parse (declaredApp arg0) args of
        Inl e \<Rightarrow> ([], Some ([], e))
      | Inr v \<Rightarrow>
          (let fl = readFlags v in
           (map SetLogger (setLoggers fl) @ map MainEvent (fst (main fl env)), snd (main fl env)))))"

section \<open>Facts\<close>

text \<open>
  The values when neither the command line nor the environment gives any flag: those of the declared
  texts, that are digits, a whole number of hours, minutes or seconds, or \<open>true\<close> and \<open>false\<close>.
\<close>

definition defaultText :: "flagDecl list \<Rightarrow> string \<Rightarrow> string" where
  "defaultText ds n =
     (case Option.bind (map_of (map (\<lambda>d. (fdName d, d)) ds) n) fdDefault of None \<Rightarrow> [] | Some s \<Rightarrow> s)"

definition decimalOf :: "string \<Rightarrow> int" where
  "decimalOf s = foldl (\<lambda>n c. 10 * n + (int (of_char c) - 48)) 0 s"

definition durationOf :: "string \<Rightarrow> Duration" where
  "durationOf s =
     decimalOf (butlast s) * (if last s = CHR ''h'' then timeHour else if last s = CHR ''m'' then timeMinute else timeSecond)"

definition defaultValues :: "flagDecl list \<Rightarrow> flagValues" where
  "defaultValues ds =
     \<lparr>boolFlag = (\<lambda>n. defaultText ds n = ''true''), durationFlag = (\<lambda>n. durationOf (defaultText ds n)),
      intFlag = (\<lambda>n. decimalOf (defaultText ds n)), stringFlag = defaultText ds\<rparr>"

lemma declared_defaults: "readFlags (defaultValues declaredFlags) = defaultFlags"
  by code_simp

text \<open>The variable that gives the value of a flag, as kingpin documents it: the one that is declared,
  otherwise \<open>APP_FLAG\<close> in capitals, with underscores for dashes.\<close>

definition envarName :: "string \<Rightarrow> string" where
  "envarName s = map (\<lambda>c. if c = CHR ''-'' then CHR ''_''
     else if c \<in> set ''abcdefghijklmnopqrstuvwxyz'' then char_of (of_char c - (32::nat)) else c) s"

definition flagEnvar :: "appDecl \<Rightarrow> flagDecl \<Rightarrow> string option" where
  "flagEnvar app d =
     (case fdEnvar d of
        Some v \<Rightarrow> Some v
      | None \<Rightarrow> if adDefaultEnvars app then Some (envarName (adName app @ ''_'' @ fdName d)) else None)"

lemma envars_distinct:
  "distinct (map (flagEnvar (declaredApp ''/usr/local/bin/provider-helm'')) declaredFlags)"
  "map (flagEnvar (declaredApp ''/usr/local/bin/provider-helm'')) (take 3 declaredFlags) =
     [Some ''PROVIDER_HELM_DEBUG'', Some ''LEADER_ELECTION'', Some ''PROVIDER_HELM_TIMEOUT'']"
  by code_simp+

lemma declared_distinct: "distinct (map fdName declaredFlags)"
  by code_simp

lemma declared_shorts: "distinct (filter (\<lambda>c. c \<noteq> None) (map fdShort declaredFlags))"
  by code_simp

text \<open>
  When the program starts the manager, its flags were parsed and all that \<open>main\<close> did is with them; the
  controller runtime logs only with \<open>--debug\<close>.
\<close>

lemma program_starts:
  assumes "MainEvent (Setup StartManager) \<in> set (fst (program parse arg0 args env))"
  obtains v where "parse (declaredApp arg0) args = Inr v"
    "fst (program parse arg0 args env) = map SetLogger (setLoggers (readFlags v)) @ map MainEvent (fst (main (readFlags v) env))"
    "Setup StartManager \<in> set (fst (main (readFlags v) env))"
  using assms by (auto simp: program_def CheckEnv_def Let_def split: sum.splits)

lemma last_logger: "zoDiscard (last (setLoggers fl)) \<longleftrightarrow> \<not> flDebug fl"
  by (simp add: setLoggers_def zeroZap_def UseISO8601_def Let_def)

end
