(* ===== verification/Setup_Properties.thy ===== *)
theory Setup_Properties
  imports Provider_Start "HOL-Library.Multiset"
begin

text \<open>
  The properties of starting the controllers: the gated and the immediate way set up the same
  controllers, a gated controller waits for every kind it watches, and the manager is started last.
\<close>

section \<open>Facts\<close>

fun registeredTasks :: "setupEvent list \<Rightarrow> (gateTask \<times> GroupVersionKind list) list" where
  "registeredTasks [] = []"
| "registeredTasks (RegisterGate t ks # es) = (t, ks) # registeredTasks es"
| "registeredTasks (e # es) = registeredTasks es"

lemma registered_in: "t \<in> fst ` set (registeredTasks es) \<Longrightarrow> \<exists>ks. RegisterGate t ks \<in> set es"
  by (induction es rule: registeredTasks.induct) auto

lemma andThen_simps [simp]:
  "andThen (es, None) r = (es @ fst r, snd r)" "andThen (es, Some e) r = (es, Some e)"
  by (simp_all add: andThen_def)

lemma andThen_fst: "set (fst (andThen r r')) \<subseteq> set (fst r) \<union> set (fst r')"
  by (cases r; cases "snd r") (auto simp: andThen_def split: option.splits)

lemma gated_runs:
  "fst (clusterSetupGated mgr opts t) = [RegisterGate (ClusterConfigTask mgr opts t)
       [ProviderConfigGroupVersionKind clusterConfigV1beta1,
        ProviderConfigUsageGroupVersionKind clusterConfigV1beta1],
     RegisterGate (ClusterReleaseTask mgr opts t) [ReleaseGroupVersionKind]]"
  "fst (nsSetupGated mgr opts t) = [RegisterGate (NsConfigTask mgr opts t)
       [ClusterProviderConfigGroupVersionKind, ProviderConfigGroupVersionKind nsConfigV1beta1,
        ProviderConfigUsageGroupVersionKind nsConfigV1beta1],
     RegisterGate (NsReleaseTask mgr opts t) [nsReleaseGroupVersionKind]]"
  "snd (clusterSetupGated mgr opts t) = None" "snd (nsSetupGated mgr opts t) = None"
  by (simp_all add: clusterSetupGated_def nsSetupGated_def configSetupGated_def releaseSetupGated_def
      nsConfigSetupGated_def nsReleaseSetupGated_def)

text \<open>An immediate set-up does no more than both of its parts, and no less when it succeeds.\<close>

lemma andThen_sub: "mset (fst (andThen r r')) \<subseteq># mset (fst r) + mset (fst r')"
  by (cases r; cases "snd r") (simp_all add: andThen_def)

lemma andThen_success:
  "snd (andThen r r') = None \<Longrightarrow> snd r = None \<and> snd r' = None \<and> fst (andThen r r') = fst r @ fst r'"
  by (cases r; cases "snd r") (simp_all add: andThen_def)

lemma andThen_done: "andThen r ([], None) = r"
  by (cases r; cases "snd r") (simp_all add: andThen_def)

lemma runAll_two: "runAll [r, r'] = andThen r r'"
  by (simp add: andThen_done)

lemma logged_sub: "mset (fst r) \<subseteq># mset (logged r m ks)" and
  logged_success: "snd r = None \<Longrightarrow> logged r m ks = fst r"
  by (simp_all add: logged_def)

lemma mset_concat_map: "mset (concat (map f xs)) = (\<Sum>x\<in>#mset xs. mset (f x))"
  by (induction xs) simp_all

section \<open>Both ways of starting\<close>

text \<open>C30: Safe start changes when a controller is set up and not which. In whatever order the gate runs the
  four registered functions, together they do everything that the immediate set-up of both scopes
  with the same options does, whatever the manager answers. If the immediate set-up succeeds, they do
  exactly that; otherwise they may do more, since they log an error and go on with the others where
  the immediate set-up stops.\<close>

theorem safe_start_same_controllers:
  assumes "mset ts = mset (map fst (registeredTasks
      (fst (clusterSetupGated mgr opts t) @ fst (nsSetupGated mgr opts t))))"
  shows "mset (fst (clusterSetup mgr opts t)) + mset (fst (nsSetup mgr opts t)) \<subseteq># mset (concat (map runTask ts))
    \<and> (snd (clusterSetup mgr opts t) = None \<and> snd (nsSetup mgr opts t) = None \<longrightarrow>
        mset (concat (map runTask ts)) = mset (fst (clusterSetup mgr opts t)) + mset (fst (nsSetup mgr opts t)))"
proof -
  let ?gated = "mset (runTask (ClusterConfigTask mgr opts t)) + mset (runTask (ClusterReleaseTask mgr opts t))
    + (mset (runTask (NsConfigTask mgr opts t)) + mset (runTask (NsReleaseTask mgr opts t)))"
  have ts: "mset (concat (map runTask ts)) = ?gated"
    unfolding mset_concat_map assms by (simp add: gated_runs del: runTask.simps)
  have "mset (fst (clusterSetup mgr opts t)) + mset (fst (nsSetup mgr opts t)) \<subseteq># ?gated"
    unfolding clusterSetup_def nsSetup_def runAll_two runTask.simps
    by (intro subset_mset.add_mono subset_mset.order_trans [OF andThen_sub] logged_sub)
  moreover have "?gated = mset (fst (clusterSetup mgr opts t)) + mset (fst (nsSetup mgr opts t))"
    if "snd (clusterSetup mgr opts t) = None" "snd (nsSetup mgr opts t) = None"
    using andThen_success [OF that(1) [unfolded clusterSetup_def runAll_two]]
      andThen_success [OF that(2) [unfolded nsSetup_def runAll_two]]
    by (simp add: clusterSetup_def nsSetup_def andThen_done logged_success)
  ultimately show ?thesis unfolding ts by blast
qed

definition sampleManager :: manager where
  "sampleManager =
     \<lparr>mnManagedName = (\<lambda>k. ''managed/'' @ k), mnConfigName = (\<lambda>k. ''providerconfig/'' @ k),
      mnAdd = (\<lambda>k. None), mnComplete = (\<lambda>c. None), mnCRDGate = None, mnAddProbe = (\<lambda>p. None), mnStart = None\<rparr>"

definition sampleOptions :: Options where
  "sampleOptions = \<lparr>opPollInterval = 600, opMaxConcurrentReconciles = 100, opPollStateMetricInterval = 5,
     opManagementPolicies = True, opChangeLogs = False\<rparr>"

text \<open>With a manager that refuses the release controllers, too, the gate sets up the others.\<close>

definition pickyManager :: manager where
  "pickyManager = sampleManager\<lparr>mnAdd := (\<lambda>k. Some (ErrExt ''no such kind''))\<rparr>"

theorem safe_start_same_controllers_witness:
  "mset (concat (map runTask
      [NsReleaseTask sampleManager sampleOptions 60, ClusterReleaseTask sampleManager sampleOptions 60,
       ClusterConfigTask sampleManager sampleOptions 60, NsConfigTask sampleManager sampleOptions 60])) =
    mset (fst (clusterSetup sampleManager sampleOptions 60)) + mset (fst (nsSetup sampleManager sampleOptions 60))
  \<and> mset (fst (clusterSetup pickyManager sampleOptions 60)) + mset (fst (nsSetup pickyManager sampleOptions 60))
    \<subseteq># mset (concat (map runTask
      [NsReleaseTask pickyManager sampleOptions 60, ClusterReleaseTask pickyManager sampleOptions 60,
       ClusterConfigTask pickyManager sampleOptions 60, NsConfigTask pickyManager sampleOptions 60]))"
proof -
  have tasks: "mset [NsReleaseTask m sampleOptions 60, ClusterReleaseTask m sampleOptions 60,
      ClusterConfigTask m sampleOptions 60, NsConfigTask m sampleOptions 60] =
    mset (map fst (registeredTasks (fst (clusterSetupGated m sampleOptions 60) @ fst (nsSetupGated m sampleOptions 60))))"
    for m by (simp add: gated_runs)
  have "snd (clusterSetup sampleManager sampleOptions 60) = None" "snd (nsSetup sampleManager sampleOptions 60) = None"
    by (simp_all add: clusterSetup_def nsSetup_def configSetup_def releaseSetup_def nsConfigSetup_def
        nsReleaseSetup_def setupNamespacedProviderConfig_def setupClusterProviderConfig_def complete_def
        sampleManager_def Let_def)
  with safe_start_same_controllers [OF tasks, of sampleManager] safe_start_same_controllers [OF tasks, of pickyManager]
  show ?thesis by blast
qed

text \<open>C31: A gated controller is not started before the kinds it reconciles and watches exist, and all
  these kinds are registered, each once, with the scheme that the command builds.\<close>

theorem gate_covers_watched_kinds:
  assumes "(t, ks) \<in> set (registeredTasks (fst (clusterSetupGated mgr opts tm) @ fst (nsSetupGated mgr opts' tm)))"
  shows "(\<forall>c. AddController c \<in> set (runTask t) \<longrightarrow> ctFor c \<in> set ks \<and> set (ctWatches c) \<subseteq> set ks)
    \<and> set ks \<subseteq> set (registeredKinds (clusterAddToScheme @ nsAddToScheme))
    \<and> distinct (registeredKinds (clusterAddToScheme @ nsAddToScheme))"
proof (intro conjI allI impI)
  fix c
  assume c: "AddController c \<in> set (runTask t)"
  have logged: "AddController c \<in> set (fst r)" if "AddController c \<in> set (logged r m k)" for r m k
    using that by (auto simp: logged_def split: option.splits)
  have add: "AddController c \<in> set (fst r) \<union> set (fst r')" if "AddController c \<in> set (fst (andThen r r'))" for r r'
    using that andThen_fst by blast
  have "ctFor c \<in> set ks \<and> set (ctWatches c) \<subseteq> set ks"
    using assms c
    by (auto simp: gated_runs configSetup_def releaseSetup_def nsConfigSetup_def nsReleaseSetup_def
        setupNamespacedProviderConfig_def setupClusterProviderConfig_def complete_def Let_def
        dest!: logged add)
  then show "ctFor c \<in> set ks" "set (ctWatches c) \<subseteq> set ks" by auto
next
  show "set ks \<subseteq> set (registeredKinds (clusterAddToScheme @ nsAddToScheme))"
    using assms by (auto simp: gated_runs kind_defs scheme_defs)
qed (rule registered_distinct)

theorem gate_covers_watched_kinds_witness:
  "set [ReleaseGroupVersionKind] \<subseteq> set (registeredKinds (clusterAddToScheme @ nsAddToScheme))
    \<and> AddController \<lparr>ctName = ''managed/Release.helm.crossplane.io'', ctMaxConcurrentReconciles = 100,
        ctFor = ReleaseGroupVersionKind, ctWatches = [], ctDesiredStateChanged = True,
        ctReconciler = ManagedReconciler ReleaseGroupVersionKind
          (releaseOptions sampleOptions 60 ClusterConnector ''managed/Release.helm.crossplane.io'')\<rparr>
      \<in> set (runTask (ClusterReleaseTask sampleManager sampleOptions 60))"
proof -
  have "(ClusterReleaseTask sampleManager sampleOptions 60, [ReleaseGroupVersionKind]) \<in> set (registeredTasks
      (fst (clusterSetupGated sampleManager sampleOptions 60) @ fst (nsSetupGated sampleManager sampleOptions 60)))"
    by (simp add: gated_runs)
  from gate_covers_watched_kinds [OF this] show ?thesis
    by (simp add: logged_def releaseSetup_def complete_def sampleManager_def sampleOptions_def Let_def
        ReleaseGroupKind_def GroupKind_String_def ReleaseKind_def clusterReleaseV1beta1_def)
qed

section \<open>The command\<close>

lemma fatalAll_append:
  "fatalAll (rs @ rs') = (case fatalAll rs of (es, Some f) \<Rightarrow> (es, Some f)
     | (es, None) \<Rightarrow> (es @ fst (fatalAll rs'), snd (fatalAll rs')))"
  by (induction rs rule: fatalAll.induct) (auto split: prod.splits option.splits)

text \<open>The manager is started last, once, and only when everything before it succeeded: with safe start
  the CRD gate is set up and the four functions are registered, without it the five controllers were
  accepted by the manager, and both probes are there.\<close>

lemma manager_started_last:
  assumes "startControllers mgr opts t check = (es, f)" and "StartManager \<in> set es"
  shows "\<exists>es'. es = es' @ [StartManager] \<and> StartManager \<notin> set es'
    \<and> AddProbe ''readyz'' \<in> set es' \<and> AddProbe ''healthz'' \<in> set es'
    \<and> f = map_option (Pair ''Cannot start controller manager'') (mnStart mgr)
    \<and> (if check = Inr True then SetupCRDGate \<in> set es'
         \<and> map fst (registeredTasks es') = [ClusterConfigTask mgr opts t, ClusterReleaseTask mgr opts t,
             NsConfigTask mgr opts t, NsReleaseTask mgr opts t]
       else length (filter (\<lambda>e. \<exists>c. e = AddController c \<and> mnComplete mgr c = None) es') = 5)"
proof -
  have probes: "setupHealthProbes mgr = ([AddProbe ''readyz'', AddProbe ''healthz''], None)
      \<or> (\<exists>ps e. setupHealthProbes mgr = (ps, Some e) \<and> StartManager \<notin> set ps)"
    by (cases "mnAddProbe mgr ''readyz''"; cases "mnAddProbe mgr ''healthz''") (simp_all add: setupHealthProbes_def)
  show ?thesis
  proof (cases check)
    case (Inl e)
    with assms show ?thesis by (simp add: startControllers_def)
  next
    case (Inr safe)
    show ?thesis
    proof (cases safe)
      case True
      with assms Inr probes show ?thesis
        by (cases "mnCRDGate mgr"; cases "mnStart mgr")
          (auto simp: startControllers_def fatal_def gated_runs)
    next
      case False
      have run: "(snd (clusterSetup mgr opts t) = None
          \<and> length (filter (\<lambda>e. \<exists>c. e = AddController c \<and> mnComplete mgr c = None) (fst (clusterSetup mgr opts t))) = 2)
        \<or> snd (clusterSetup mgr opts t) \<noteq> None"
        "(snd (nsSetup mgr opts t) = None
          \<and> length (filter (\<lambda>e. \<exists>c. e = AddController c \<and> mnComplete mgr c = None) (fst (nsSetup mgr opts t))) = 3)
        \<or> snd (nsSetup mgr opts t) \<noteq> None"
        by (simp_all add: clusterSetup_def nsSetup_def configSetup_def releaseSetup_def nsConfigSetup_def
            nsReleaseSetup_def setupNamespacedProviderConfig_def setupClusterProviderConfig_def
            complete_def andThen_def Let_def split: option.split)
      have no: "StartManager \<notin> set (fst (clusterSetup mgr opts t))" "StartManager \<notin> set (fst (nsSetup mgr opts t))"
        by (simp_all add: clusterSetup_def nsSetup_def configSetup_def releaseSetup_def nsConfigSetup_def
            nsReleaseSetup_def setupNamespacedProviderConfig_def setupClusterProviderConfig_def
            complete_def andThen_def Let_def split: option.split)
      obtain c1 e1 c2 e2 where c: "clusterSetup mgr opts t = (c1, e1)" "nsSetup mgr opts t = (c2, e2)" by fastforce
      from assms Inr False probes run no show ?thesis
        unfolding c by (cases e1; cases e2; cases "mnStart mgr") (auto simp: startControllers_def fatal_def c)
    qed
  qed
qed

text \<open>Safe start is used exactly when all three verbs are allowed on custom resource definitions; the
  check asks for them in order and stops at the first that is denied or cannot be checked.\<close>

lemma safe_start_check:
  "(snd (canWatchCRD None review) = Inr True \<longleftrightarrow>
      review ''get'' = Inr True \<and> review ''list'' = Inr True \<and> review ''watch'' = Inr True)
    \<and> fst (canWatchCRD None review) =
      (if review ''get'' = Inr True
       then (if review ''list'' = Inr True then [''get'', ''list'', ''watch''] else [''get'', ''list''])
       else [''get''])"
  by (auto simp: canWatchCRD_def split: sum.splits prod.splits)

text \<open>What the flags ask for: every controller has the reconcile rate, every release reconciler the timeout,
  the poll interval and the features, and every state recorder its interval.\<close>

definition followsFlags :: "Flags \<Rightarrow> setupEvent \<Rightarrow> bool" where
  "followsFlags fl e =
     (case e of
        AddController c \<Rightarrow> ctMaxConcurrentReconciles c = flMaxReconcileRate fl
          \<and> (case ctReconciler c of
               ManagedReconciler g os \<Rightarrow>
                 WithTimeout (flTimeout fl) \<in> set os \<and> WithPollInterval (flPoll fl) \<in> set os
                 \<and> (\<forall>d. WithTimeout d \<in> set os \<longrightarrow> d = flTimeout fl)
                 \<and> (\<forall>d. WithPollInterval d \<in> set os \<longrightarrow> d = flPoll fl)
                 \<and> (WithChangeLogger \<in> set os \<longleftrightarrow> flEnableChangeLogs fl)
                 \<and> (WithManagementPolicies \<in> set os \<longleftrightarrow> flEnableManagementPolicies fl)
             | _ \<Rightarrow> True)
      | AddStateRecorder g d \<Rightarrow> d = flPollStateMetric fl
      | _ \<Rightarrow> True)"

lemma setups_follow:
  fixes mgr fl
  defines "opts \<equiv> controllerOptions fl" and "t \<equiv> flTimeout fl"
  shows "\<forall>e \<in> set (fst (configSetup mgr opts t)). followsFlags fl e"
    "\<forall>e \<in> set (fst (releaseSetup mgr opts t)). followsFlags fl e"
    "\<forall>e \<in> set (fst (nsConfigSetup mgr opts t)). followsFlags fl e"
    "\<forall>e \<in> set (fst (nsReleaseSetup mgr opts t)). followsFlags fl e"
  by (simp_all add: opts_def t_def followsFlags_def configSetup_def releaseSetup_def nsConfigSetup_def
      nsReleaseSetup_def setupNamespacedProviderConfig_def setupClusterProviderConfig_def complete_def
      releaseOptions_def controllerOptions_def andThen_def Let_def split: option.split)

lemma logged_follow: "\<forall>e \<in> set (fst r). followsFlags fl e \<Longrightarrow> e \<in> set (logged r m ks) \<Longrightarrow> followsFlags fl e"
  by (auto simp: logged_def followsFlags_def split: option.splits)

text \<open>What \<open>main\<close> does with the manager from its check of permissions on, and later in the gate.\<close>

lemma startControllers_events:
  assumes "e \<in> set (fst (startControllers mgr opts t check))"
  shows "e \<in> set (fst (clusterSetup mgr opts t)) \<union> set (fst (nsSetup mgr opts t))
      \<union> set (fst (clusterSetupGated mgr opts t)) \<union> set (fst (nsSetupGated mgr opts t))
      \<union> {SetupCRDGate, AddProbe ''readyz'', AddProbe ''healthz'', StartManager}"
proof -
  obtain c1 e1 c2 e2 p e3 where r: "clusterSetup mgr opts t = (c1, e1)" "nsSetup mgr opts t = (c2, e2)"
    "setupHealthProbes mgr = (p, e3)" by fastforce
  have p: "set p \<subseteq> {AddProbe ''readyz'', AddProbe ''healthz''}"
    using r(3) by (auto simp: setupHealthProbes_def andThen_def split: option.splits)
  show ?thesis
  proof (cases check)
    case (Inl e)
    with assms show ?thesis by (simp add: startControllers_def)
  next
    case (Inr safe)
    with assms p show ?thesis
      by (cases safe; cases e1; cases e2; cases e3; cases "mnStart mgr"; cases "mnCRDGate mgr")
        (auto simp: startControllers_def fatal_def gated_runs r)
  qed
qed

lemma no_gate:
  "RegisterGate task ks \<notin> set (fst (clusterSetup mgr opts t))" "RegisterGate task ks \<notin> set (fst (nsSetup mgr opts t))"
  by (simp_all add: clusterSetup_def nsSetup_def configSetup_def releaseSetup_def nsConfigSetup_def
      nsReleaseSetup_def setupNamespacedProviderConfig_def setupClusterProviderConfig_def
      complete_def andThen_def Let_def split: option.split)

lemma started_follow:
  assumes "e \<in> set (fst (startControllers mgr (controllerOptions fl) (flTimeout fl) check))
      \<or> (\<exists>task ks. RegisterGate task ks \<in> set (fst (startControllers mgr (controllerOptions fl) (flTimeout fl) check))
          \<and> e \<in> set (runTask task))"
  shows "followsFlags fl e"
proof -
  let ?o = "controllerOptions fl" and ?t = "flTimeout fl"
  have now: "followsFlags fl e" if "e \<in> set (fst (clusterSetup mgr ?o ?t)) \<union> set (fst (nsSetup mgr ?o ?t))" for e
    using that setups_follow [of mgr fl] andThen_fst unfolding clusterSetup_def nsSetup_def runAll_two by blast
  have gate: "followsFlags fl e"
    if "e \<in> set (fst (clusterSetupGated mgr ?o ?t)) \<union> set (fst (nsSetupGated mgr ?o ?t))
      \<union> {SetupCRDGate, AddProbe ''readyz'', AddProbe ''healthz'', StartManager}" for e
    using that by (auto simp: followsFlags_def gated_runs)
  have gated: "followsFlags fl e"
    if "RegisterGate task ks \<in> set (fst (clusterSetupGated mgr ?o ?t)) \<union> set (fst (nsSetupGated mgr ?o ?t))"
      "e \<in> set (runTask task)" for task ks e
    using that setups_follow [of mgr fl] by (auto simp: gated_runs intro: logged_follow)
  from assms show ?thesis
  proof
    assume "e \<in> set (fst (startControllers mgr ?o ?t check))"
    from startControllers_events [OF this] now gate show ?thesis by blast
  next
    assume "\<exists>task ks. RegisterGate task ks \<in> set (fst (startControllers mgr ?o ?t check)) \<and> e \<in> set (runTask task)"
    then obtain task ks where t: "RegisterGate task ks \<in> set (fst (startControllers mgr ?o ?t check))"
      and e: "e \<in> set (runTask task)" by blast
    from startControllers_events [OF t] no_gate [of task ks mgr] have
      "RegisterGate task ks \<in> set (fst (clusterSetupGated mgr ?o ?t)) \<union> set (fst (nsSetupGated mgr ?o ?t))" by blast
    from gated [OF this e] show ?thesis .
  qed
qed

text \<open>\<open>main\<close> with the flags it is given.\<close>

lemma main_wires:
  assumes "Setup StartManager \<in> set (fst (main fl env))"
  shows "\<exists>mgr before after. enManager env (flMaxReconcileRate fl) (managerOptions fl) = Inr mgr
    \<and> fst (main fl env) = before @ MgrNew (flMaxReconcileRate fl) (managerOptions fl) # after @ [Setup StartManager]
    \<and> Setup StartManager \<notin> set (before @ after)
    \<and> {AddScheme ''cluster'' clusterAddToScheme, AddScheme ''namespaced'' nsAddToScheme} \<subseteq> set before
    \<and> (DialChangeLogs (''unix://'' @ flChangelogsSocketPath fl) \<in> set after \<longleftrightarrow> flEnableChangeLogs fl)
    \<and> (set [ClusterConfigTask, ClusterReleaseTask, NsConfigTask, NsReleaseTask] \<subseteq>
           {task. \<exists>ks. Setup (RegisterGate (task mgr (controllerOptions fl) (flTimeout fl)) ks) \<in> set after}
         \<or> length (filter (\<lambda>e. \<exists>c. e = Setup (AddController c) \<and> mnComplete mgr c = None) after) = 5)
    \<and> (\<forall>e. Setup e \<in> set after \<or> (\<exists>task ks. Setup (RegisterGate task ks) \<in> set after \<and> e \<in> set (runTask task)) \<longrightarrow>
          followsFlags fl e)"
proof -
  obtain mgr pre where mgr: "enManager env (flMaxReconcileRate fl) (managerOptions fl) = Inr mgr"
    and m: "main fl env = (pre @ fst (afterManager fl env mgr), snd (afterManager fl env mgr))"
    and pre: "pre = [GetConfig, AddScheme ''clientgo'' [], AddScheme ''cluster'' clusterAddToScheme,
        AddScheme ''namespaced'' nsAddToScheme, AddScheme ''apiextensions'' [],
        MgrNew (flMaxReconcileRate fl) (managerOptions fl), RegisterMetrics]
      @ (if flEnableChangeLogs fl then [DialChangeLogs (''unix://'' @ flChangelogsSocketPath fl)] else [])"
    using main_reaches [OF assms] .
  obtain asked check where ac: "canWatchCRD (enAuthScheme env) (enReview env) = (asked, check)" by fastforce
  obtain es f where st: "startControllers mgr (controllerOptions fl) (flTimeout fl) check = (es, f)" by fastforce
  have ends: "fst (main fl env) = pre @ map AskAccess asked @ map Setup es"
    by (simp add: m afterManager_def ac st)
  have "StartManager \<in> set es" using assms unfolding ends by (auto simp: pre split: if_splits)
  from manager_started_last [OF st this] obtain es' where es: "es = es' @ [StartManager]" "StartManager \<notin> set es'"
    and ctl: "if check = Inr True then SetupCRDGate \<in> set es' \<and> map fst (registeredTasks es') =
          map (\<lambda>task. task mgr (controllerOptions fl) (flTimeout fl))
            [ClusterConfigTask, ClusterReleaseTask, NsConfigTask, NsReleaseTask]
        else length (filter (\<lambda>e. \<exists>c. e = AddController c \<and> mnComplete mgr c = None) es') = 5"
    by auto
  let ?before = "take 5 pre" and ?after = "drop 6 pre @ map AskAccess asked @ map Setup es'"
  have split: "fst (main fl env) = ?before @ MgrNew (flMaxReconcileRate fl) (managerOptions fl) # ?after @ [Setup StartManager]"
    unfolding ends es(1) by (simp add: pre)
  have dial: "DialChangeLogs (''unix://'' @ flChangelogsSocketPath fl) \<in> set ?after \<longleftrightarrow> flEnableChangeLogs fl"
    by (auto simp: pre)
  have once: "Setup StartManager \<notin> set (?before @ ?after)" using es(2) by (auto simp: pre)
  have schemes: "{AddScheme ''cluster'' clusterAddToScheme, AddScheme ''namespaced'' nsAddToScheme} \<subseteq> set ?before"
    by (simp add: pre)
  have wired: "followsFlags fl e"
    if "Setup e \<in> set ?after \<or> (\<exists>task ks. Setup (RegisterGate task ks) \<in> set ?after \<and> e \<in> set (runTask task))" for e
    by (rule started_follow [of e mgr fl check]) (use that in \<open>auto simp: st es(1) pre split: if_splits\<close>)
  have all: "set [ClusterConfigTask, ClusterReleaseTask, NsConfigTask, NsReleaseTask] \<subseteq>
      {task. \<exists>ks. Setup (RegisterGate (task mgr (controllerOptions fl) (flTimeout fl)) ks) \<in> set ?after}
    \<or> length (filter (\<lambda>e. \<exists>c. e = Setup (AddController c) \<and> mnComplete mgr c = None) ?after) = 5"
  proof (cases "check = Inr True")
    case True
    show ?thesis
    proof (rule disjI1, rule subsetI)
      fix task
      assume "task \<in> set [ClusterConfigTask, ClusterReleaseTask, NsConfigTask, NsReleaseTask]"
      then have "task mgr (controllerOptions fl) (flTimeout fl) \<in> fst ` set (registeredTasks es')"
        using ctl True by (simp flip: set_map) blast
      from registered_in [OF this] obtain ks where
        "RegisterGate (task mgr (controllerOptions fl) (flTimeout fl)) ks \<in> set es'" by blast
      then have "Setup (RegisterGate (task mgr (controllerOptions fl) (flTimeout fl)) ks) \<in> set ?after" by simp
      then show "task \<in> {task. \<exists>ks. Setup (RegisterGate (task mgr (controllerOptions fl) (flTimeout fl)) ks) \<in> set ?after}"
        by blast
    qed
  next
    case False
    have "filter (\<lambda>e. \<exists>c. e = Setup (AddController c) \<and> mnComplete mgr c = None) ?after =
        map Setup (filter (\<lambda>e. \<exists>c. e = AddController c \<and> mnComplete mgr c = None) es')"
      by (auto simp: pre filter_map comp_def)
    with False ctl show ?thesis by simp
  qed
  show ?thesis
    by (rule exI [of _ mgr], rule exI [of _ ?before], rule exI [of _ ?after])
      (rule conjI [OF mgr conjI [OF split conjI [OF once conjI [OF schemes conjI [OF dial conjI [OF all]]]]]],
        intro allI impI, rule wired)
qed

definition sampleEnv :: environment where
  "sampleEnv =
     \<lparr>enConfig = None, enAddScheme = (\<lambda>s. None), enManager = (\<lambda>r mo. Inr sampleManager), enDial = (\<lambda>t. None),
      enAuthScheme = None, enReview = (\<lambda>v. Inr (v \<noteq> ''watch''))\<rparr>"

text \<open>C29: The command wires its flags: when the program starts the manager, that is the last thing it does; the
  command line was parsed against the declared application, and it is these values that count: the
  types of both scopes were registered before the manager was made with the options that the flags
  ask for; the change log is dialled exactly when it is enabled; the controller runtime logs exactly
  with debugging on. Either all four functions were registered with the gate, with the manager, the
  options and the timeout they were given, or five controllers were accepted by the manager; and every
  controller, set up at once or by a function that was registered, has the reconcile rate, every release
  reconciler the timeout, the poll interval and the features, and every state recorder the interval of
  the flags.\<close>

theorem main_wires_flags:
  assumes "MainEvent (Setup StartManager) \<in> set (fst (program parse arg0 args env))"
  shows "\<exists>v fl mgr before after. parse (declaredApp arg0) args = Inr v \<and> fl = readFlags v
    \<and> enManager env (flMaxReconcileRate fl) (managerOptions fl) = Inr mgr
    \<and> fst (program parse arg0 args env) = map SetLogger (setLoggers fl)
        @ map MainEvent (before @ MgrNew (flMaxReconcileRate fl) (managerOptions fl) # after @ [Setup StartManager])
    \<and> (zoDiscard (last (setLoggers fl)) \<longleftrightarrow> \<not> flDebug fl)
    \<and> Setup StartManager \<notin> set (before @ after)
    \<and> {AddScheme ''cluster'' clusterAddToScheme, AddScheme ''namespaced'' nsAddToScheme} \<subseteq> set before
    \<and> (DialChangeLogs (''unix://'' @ flChangelogsSocketPath fl) \<in> set after \<longleftrightarrow> flEnableChangeLogs fl)
    \<and> (set [ClusterConfigTask, ClusterReleaseTask, NsConfigTask, NsReleaseTask] \<subseteq>
           {task. \<exists>ks. Setup (RegisterGate (task mgr (controllerOptions fl) (flTimeout fl)) ks) \<in> set after}
         \<or> length (filter (\<lambda>e. \<exists>c. e = Setup (AddController c) \<and> mnComplete mgr c = None) after) = 5)
    \<and> (\<forall>e. Setup e \<in> set after \<or> (\<exists>task ks. Setup (RegisterGate task ks) \<in> set after \<and> e \<in> set (runTask task)) \<longrightarrow>
          followsFlags fl e)"
proof -
  obtain v where v: "parse (declaredApp arg0) args = Inr v"
    "fst (program parse arg0 args env) = map SetLogger (setLoggers (readFlags v)) @ map MainEvent (fst (main (readFlags v) env))"
    and start: "Setup StartManager \<in> set (fst (main (readFlags v) env))"
    using assms by (rule program_starts)
  show ?thesis
    using main_wires [OF start]
    apply (elim exE)
    subgoal for mgr before after
      by (intro exI [of _ v] exI [of _ "readFlags v"] exI [of _ mgr] exI [of _ before] exI [of _ after])
        (simp only: v last_logger simp_thms, simp)
    done
qed

theorem main_wires_flags_witness:
  "\<exists>before after. fst (program (\<lambda>app args. Inr (defaultValues (adFlags app))) ''/usr/local/bin/provider-helm'' [] sampleEnv) = SetLogger (zeroZap\<lparr>zoDiscard := True\<rparr>)
       # map MainEvent (before @ MgrNew 100 (managerOptions defaultFlags) # after @ [Setup StartManager])
     \<and> DialChangeLogs ''unix:///var/run/changelogs/changelogs.sock'' \<notin> set after"
proof -
  let ?parse = "\<lambda>app args. Inr (defaultValues (adFlags app)) :: goerr + flagValues"
  have "Setup StartManager \<in> set (fst (main defaultFlags sampleEnv))"
    by (simp add: main_def sampleEnv_def sampleManager_def defaultFlags_def withChangeLogs_def afterManager_def
        canWatchCRD_def startControllers_def fatal_def setupHealthProbes_def clusterSetup_def nsSetup_def
        configSetup_def releaseSetup_def nsConfigSetup_def nsReleaseSetup_def setupNamespacedProviderConfig_def
        setupClusterProviderConfig_def complete_def Let_def)
  then have "MainEvent (Setup StartManager) \<in> set (fst (program ?parse ''/usr/local/bin/provider-helm'' [] sampleEnv))"
    by (simp add: program_def CheckEnv_def declared_defaults declaredApp_def Let_def)
  from main_wires_flags [OF this] obtain before after where
    "fst (program ?parse ''/usr/local/bin/provider-helm'' [] sampleEnv) = map SetLogger (setLoggers defaultFlags)
       @ map MainEvent (before @ MgrNew (flMaxReconcileRate defaultFlags) (managerOptions defaultFlags) # after @ [Setup StartManager])"
    "DialChangeLogs (''unix://'' @ flChangelogsSocketPath defaultFlags) \<in> set after \<longleftrightarrow> flEnableChangeLogs defaultFlags"
    by (auto simp: declared_defaults declaredApp_def)
  moreover have "setLoggers defaultFlags = [zeroZap\<lparr>zoDiscard := True\<rparr>]" by (simp add: setLoggers_def defaultFlags_def Let_def)
  ultimately show ?thesis by (intro exI [of _ before] exI [of _ after]) (simp add: defaultFlags_def)
qed

end
