(* ===== verification/Go_Memory.thy ===== *)
theory Go_Memory
  imports Main "HOL-Library.Monad_Syntax" "HOL-Library.Sublist"
begin

text \<open>
  Go's memory, as far as deep copies need it: blocks of cells, pointers to a cell, slices of a block,
  and the laws of a deep copy. A deep copy of a value gives a value that means the same and lies
  wholly in new blocks; it changes no old block.
\<close>

section \<open>Blocks, pointers and slices\<close>

text \<open>
  A memory is the list of its blocks, in the order they were made; a cell holds a value of some type,
  or nothing as long as it has only the zero value \<open>new\<close> and \<open>make\<close> gave it: a cell is written before
  it is read, and a read of such a cell fails here.
  A pointer is a block and an index, so that it may point to an element of a slice.
\<close>

type_synonym 'c memory = "'c option list list"
type_synonym pointer = "nat \<times> nat"

record slice =
  slBlock :: nat
  slOffset :: nat
  slLen :: nat

text \<open>A Go type: how its values are put into cells and read from them.\<close>

record ('t, 'c) goType =
  gtInj :: "'t \<Rightarrow> 'c"
  gtPrj :: "'c \<Rightarrow> 't option"

definition elemPtr :: "slice \<Rightarrow> nat \<Rightarrow> pointer" where
  "elemPtr s i = (slBlock s, slOffset s + i)"

definition load :: "('t, 'c) goType \<Rightarrow> 'c memory \<Rightarrow> pointer \<Rightarrow> 't option" where
  "load T h p =
     (case p of (b, i) \<Rightarrow>
        if b < length h \<and> i < length (h ! b) then Option.bind (h ! b ! i) (gtPrj T) else None)"

definition store :: "('t, 'c) goType \<Rightarrow> 'c memory \<Rightarrow> pointer \<Rightarrow> 't \<Rightarrow> 'c memory option" where
  "store T h p x =
     (case p of (b, i) \<Rightarrow>
        if b < length h \<and> i < length (h ! b) then Some (h[b := (h ! b)[i := Some (gtInj T x)]]) else None)"

text \<open>\<open>new(T)\<close> is a block of one cell, \<open>make([]T, n)\<close> one of \<open>n\<close>.\<close>

definition makeBlock :: "nat \<Rightarrow> 'c memory \<Rightarrow> nat \<times> 'c memory" where
  "makeBlock n h = (length h, h @ [replicate n None])"

section \<open>Copying\<close>

text \<open>
  \<open>DeepCopyInto\<close> reads its receiver and gives the final contents of \<open>*out\<close> and of the memory; it fails
  where Go would dereference an invalid pointer.
\<close>

type_synonym ('t, 'c) copier = "'t \<Rightarrow> 'c memory \<Rightarrow> ('t \<times> 'c memory) option"

definition copyFlat :: "('t, 'c) copier" where
  "copyFlat x h = Some (x, h)"

text \<open>\<open>if in != nil { *out = new(T); (*in).DeepCopyInto(*out) }\<close>\<close>

definition copyPointer :: "('t, 'c) goType \<Rightarrow> ('t, 'c) copier \<Rightarrow> (pointer option, 'c) copier" where
  "copyPointer T into p h =
     (case p of
        None \<Rightarrow> Some (None, h)
      | Some q \<Rightarrow>
          (case makeBlock 1 h of (b, h1) \<Rightarrow>
             do {
               x \<leftarrow> load T h1 q;
               (y, h2) \<leftarrow> into x h1;
               h3 \<leftarrow> store T h2 (b, 0) y;
               Some (Some (b, 0), h3)
             }))"

text \<open>\<open>for i := range *in { (*in)[i].DeepCopyInto(&(*out)[i]) }\<close>, from index \<open>i\<close> on.\<close>

fun copyElems ::
  "('t, 'c) goType \<Rightarrow> ('t, 'c) copier \<Rightarrow> slice \<Rightarrow> nat \<Rightarrow> nat \<Rightarrow> nat \<Rightarrow> 'c memory \<Rightarrow> 'c memory option" where
  "copyElems T into s b i 0 h = Some h"
| "copyElems T into s b i (Suc n) h =
     do {
       x \<leftarrow> load T h (elemPtr s i);
       (y, h1) \<leftarrow> into x h;
       h2 \<leftarrow> store T h1 (b, i) y;
       copyElems T into s b (Suc i) n h2
     }"

definition copySlice :: "('t, 'c) goType \<Rightarrow> ('t, 'c) copier \<Rightarrow> (slice option, 'c) copier" where
  "copySlice T into s h =
     (case s of
        None \<Rightarrow> Some (None, h)
      | Some sl \<Rightarrow>
          (case makeBlock (slLen sl) h of (b, h1) \<Rightarrow>
             do {
               h2 \<leftarrow> copyElems T into sl b 0 (slLen sl) h1;
               Some (Some \<lparr>slBlock = b, slOffset = 0, slLen = slLen sl\<rparr>, h2)
             }))"

section \<open>Values and footprints\<close>

text \<open>
  What a pointer or a slice means in a memory (nothing, when it is dangling), and the blocks that this
  depends on. A nil slice is told apart from an empty one.
\<close>

type_synonym ('t, 'a, 'c) valuation = "'c memory \<Rightarrow> 't \<Rightarrow> 'a option"
type_synonym ('t, 'c) footprint = "'c memory \<Rightarrow> 't \<Rightarrow> nat set"

definition flatVal :: "('t, 't, 'c) valuation" where "flatVal h x = Some x"
definition flatFoot :: "('t, 'c) footprint" where "flatFoot h x = {}"

definition ptrVal :: "('t, 'c) goType \<Rightarrow> ('t, 'a, 'c) valuation \<Rightarrow> (pointer option, 'a option, 'c) valuation" where
  "ptrVal T val h p =
     (case p of
        None \<Rightarrow> Some None
      | Some q \<Rightarrow> do { x \<leftarrow> load T h q; v \<leftarrow> val h x; Some (Some v) })"

definition ptrFoot :: "('t, 'c) goType \<Rightarrow> ('t, 'c) footprint \<Rightarrow> (pointer option, 'c) footprint" where
  "ptrFoot T foot h p =
     (case p of
        None \<Rightarrow> {}
      | Some q \<Rightarrow> insert (fst q) (case load T h q of None \<Rightarrow> {} | Some x \<Rightarrow> foot h x))"

definition elems :: "('t, 'c) goType \<Rightarrow> 'c memory \<Rightarrow> slice \<Rightarrow> 't list option" where
  "elems T h s =
     (if slBlock s < length h then those (map (\<lambda>i. load T h (elemPtr s i)) [0..<slLen s]) else None)"

definition sliceVal :: "('t, 'c) goType \<Rightarrow> ('t, 'a, 'c) valuation \<Rightarrow> (slice option, 'a list option, 'c) valuation" where
  "sliceVal T val h s =
     (case s of
        None \<Rightarrow> Some None
      | Some sl \<Rightarrow> do { xs \<leftarrow> elems T h sl; vs \<leftarrow> those (map (val h) xs); Some (Some vs) })"

definition sliceFoot :: "('t, 'c) goType \<Rightarrow> ('t, 'c) footprint \<Rightarrow> (slice option, 'c) footprint" where
  "sliceFoot T foot h s =
     (case s of
        None \<Rightarrow> {}
      | Some sl \<Rightarrow> insert (slBlock sl)
          (case elems T h sl of None \<Rightarrow> {} | Some xs \<Rightarrow> \<Union> (set (map (foot h) xs))))"

end
