(* ===== verification/Deep_Copy.thy ===== *)
theory Deep_Copy
  imports Go_Memory
begin

text \<open>
  The laws of a deep copy as a locale, and the constructions that keep them: pointers, slices, and
  structs by their fields.
\<close>

section \<open>Agreement of memories\<close>

definition agree :: "nat set \<Rightarrow> 'c memory \<Rightarrow> 'c memory \<Rightarrow> bool" where
  "agree B h h' \<longleftrightarrow> (\<forall>b\<in>B. b < length h \<and> b < length h' \<and> h' ! b = h ! b)"

lemma agree_mono: "agree B h h' \<Longrightarrow> A \<subseteq> B \<Longrightarrow> agree A h h'"
  by (auto simp: agree_def)

lemma agree_insert: "agree (insert b B) h h' \<longleftrightarrow> b < length h \<and> b < length h' \<and> h' ! b = h ! b \<and> agree B h h'"
  by (auto simp: agree_def)

lemma prefix_agree:
  assumes "prefix h h'" and "B \<subseteq> {..<length h}"
  shows "agree B h h'"
proof -
  obtain ys where h': "h' = h @ ys" using assms(1) by (auto simp: prefix_def)
  have "b < length h \<and> b < length h + length ys" if "b \<in> B" for b using assms(2) that by fastforce
  then show ?thesis by (simp add: agree_def h' nth_append)
qed

lemma agree_prefix:
  assumes "agree {..<length h} h h'"
  shows "prefix h h'"
proof -
  have at: "b < length h' \<and> h' ! b = h ! b" if "b < length h" for b using assms that by (simp add: agree_def)
  have "length h \<le> length h'" using at [of "length h - 1"] by (cases h) auto
  with at have "take (length h) h' = h" by (intro nth_equalityI) auto
  then show ?thesis by (metis take_is_prefix)
qed

lemma agree_trans:
  assumes "agree B h1 h2" and "agree B h2 h3"
  shows "agree B h1 h3"
  using assms by (simp add: agree_def)

lemma load_agree: "agree {fst p} h h' \<Longrightarrow> load T h' p = load T h p"
  by (cases p) (simp add: load_def agree_def)

lemma load_prefix: "prefix h h' \<Longrightarrow> load T h p = Some x \<Longrightarrow> load T h' p = Some x"
  by (cases p) (auto simp: load_def prefix_def nth_append split: if_splits)

lemma load_inside: "load T h p = Some x \<Longrightarrow> fst p < length h"
  by (cases p) (auto simp: load_def split: if_splits)

lemma prefix_makeBlock: "makeBlock n h = (b, h1) \<Longrightarrow> prefix h h1 \<and> b = length h \<and> length h1 = Suc (length h)
    \<and> length (h1 ! b) = n"
  by (auto simp: makeBlock_def)

lemma store_prefix:
  assumes "store T h1 (b, i) y = Some h2" and "prefix h h1" and "length h \<le> b"
  shows "prefix h h2"
  using assms by (auto simp: store_def prefix_def list_update_append split: if_splits)

lemma store_agree:
  assumes "store T h1 (b, i) y = Some h2" and "b \<notin> B" and "B \<subseteq> {..<length h1}"
  shows "agree B h1 h2"
proof -
  have "h2 = h1[b := (h1 ! b)[i := Some (gtInj T y)]]" using assms(1) by (auto simp: store_def split: if_splits)
  moreover have "c < length h1 \<and> c \<noteq> b" if "c \<in> B" for c using assms(2,3) that by auto
  ultimately show ?thesis by (simp add: agree_def) (metis nth_list_update_neq)
qed

lemma store_lengths:
  assumes "store T h1 (b, i) y = Some h2"
  shows "length h2 = length h1" and "length (h2 ! c) = length (h1 ! c)"
  using assms by (cases "c = b"; auto simp: store_def split: if_splits)+

lemma store_load_other:
  "store T h1 (b, i) y = Some h2 \<Longrightarrow> p \<noteq> (b, i) \<Longrightarrow> load T' h2 p = load T' h1 p"
  by (cases p) (auto simp: store_def load_def nth_list_update split: if_splits)

section \<open>Types\<close>

locale go_type =
  fixes T :: "('t, 'c) goType"
  assumes prj_inj [simp]: "gtPrj T (gtInj T x) = Some x"
begin

lemma load_store: "store T h p x = Some h' \<Longrightarrow> load T h' p = Some x"
  by (cases p) (auto simp: store_def load_def split: if_splits)

end

section \<open>The laws\<close>

text \<open>
  A value that means something occupies blocks of the memory, depends on them only, and its copy means
  the same, in new blocks, with every old block as it was.
\<close>

locale deep_copy =
  fixes into :: "('t, 'c) copier" and val :: "('t, 'a, 'c) valuation" and foot :: "('t, 'c) footprint"
  assumes inside: "val h x = Some v \<Longrightarrow> foot h x \<subseteq> {..<length h}"
    and frame: "val h x = Some v \<Longrightarrow> agree (foot h x) h h' \<Longrightarrow> val h' x = Some v \<and> foot h' x = foot h x"
    and copies: "val h x = Some v \<Longrightarrow>
      \<exists>y h'. into x h = Some (y, h') \<and> prefix h h' \<and> val h' y = Some v \<and> foot h' y \<subseteq> {length h..<length h'}"
begin

lemma frame_prefix:
  "val h x = Some v \<Longrightarrow> prefix h h' \<Longrightarrow> val h' x = Some v \<and> foot h' x = foot h x"
  using frame prefix_agree inside by blast

text \<open>
  What a copy is for: writes through the original, or anything else that leaves the new blocks alone,
  do not change the copy, and writes through the copy do not change the original.
\<close>

lemma independent:
  assumes "val h x = Some v"
  obtains y h' where "into x h = Some (y, h')" "prefix h h'" "val h' y = Some v"
    "\<And>h''. agree {length h..<length h'} h' h'' \<Longrightarrow> val h'' y = Some v"
    "\<And>h''. agree {..<length h} h h'' \<Longrightarrow> val h'' x = Some v"
proof -
  obtain y h' where c: "into x h = Some (y, h')" "prefix h h'" "val h' y = Some v"
    "foot h' y \<subseteq> {length h..<length h'}"
    using copies [OF assms] by blast
  show ?thesis
  proof (rule that [OF c(1-3)])
    show "val h'' y = Some v" if "agree {length h..<length h'} h' h''" for h''
      using frame [OF c(3)] agree_mono [OF that c(4)] by blast
    show "val h'' x = Some v" if "agree {..<length h} h h''" for h''
      using frame [OF assms] agree_mono [OF that inside [OF assms]] by blast
  qed
qed

end

lemma deep_copy_flat: "deep_copy copyFlat flatVal flatFoot"
  by unfold_locales (auto simp: copyFlat_def flatVal_def flatFoot_def)

section \<open>Pointers\<close>

locale deep_copy_cells = go_type T + deep_copy into val foot
  for T :: "('t, 'c) goType" and into :: "('t, 'c) copier" and val :: "('t, 'a, 'c) valuation"
    and foot :: "('t, 'c) footprint"
begin

lemma ptrValE:
  assumes "ptrVal T val h (Some q) = Some v"
  obtains x w where "load T h q = Some x" "val h x = Some w" "v = Some w"
  using assms by (cases "load T h q"; cases "val h (the (load T h q))") (auto simp: ptrVal_def)

lemma pointer: "deep_copy (copyPointer T into) (ptrVal T val) (ptrFoot T foot)"
proof
  fix h :: "'c memory" and p v
  assume v: "ptrVal T val h p = Some v"
  show "ptrFoot T foot h p \<subseteq> {..<length h}"
    using v inside load_inside by (force simp: ptrVal_def ptrFoot_def split: option.splits Option.bind_splits)
  show "ptrVal T val h' p = Some v \<and> ptrFoot T foot h' p = ptrFoot T foot h p"
    if a: "agree (ptrFoot T foot h p) h h'" for h'
  proof (cases p)
    case (Some q)
    with v obtain x w where x: "load T h q = Some x" "val h x = Some w" "v = Some w"
      by (auto elim: ptrValE)
    with a Some have "agree {fst q} h h'" "agree (foot h x) h h'" by (auto simp: ptrFoot_def agree_def)
    with load_agree [of q h h' T] frame [OF x(2)] x Some show ?thesis by (simp add: ptrVal_def ptrFoot_def)
  qed (use v in \<open>simp add: ptrVal_def ptrFoot_def\<close>)
  show "\<exists>y h'. copyPointer T into p h = Some (y, h') \<and> prefix h h' \<and> ptrVal T val h' y = Some v
      \<and> ptrFoot T foot h' y \<subseteq> {length h..<length h'}"
  proof (cases p)
    case None
    with v show ?thesis by (auto simp: copyPointer_def ptrVal_def ptrFoot_def)
  next
    case (Some q)
    with v obtain x w where x: "load T h q = Some x" "val h x = Some w" "v = Some w"
      by (auto elim: ptrValE)
    obtain b h1 where mk: "makeBlock 1 h = (b, h1)" by fastforce
    note m = prefix_makeBlock [OF mk]
    have x1: "load T h1 q = Some x" "val h1 x = Some w"
      using m load_prefix [OF _ x(1)] frame_prefix [OF x(2)] by blast+
    obtain y h2 where c: "into x h1 = Some (y, h2)" "prefix h1 h2" "val h2 y = Some w"
      "foot h2 y \<subseteq> {length h1..<length h2}" using copies [OF x1(2)] by blast
    have "b < length h2" "length (h2 ! b) = 1"
      using m c(2) by (auto simp: prefix_def nth_append)
    then obtain h3 where st: "store T h2 (b, 0) y = Some h3" by (simp add: store_def)
    have "agree (foot h2 y) h2 h3"
      by (rule store_agree [OF st]) (use c(4) m in auto)
    from frame [OF c(3) this] have y3: "val h3 y = Some w" "foot h3 y = foot h2 y" by auto
    have "prefix h h3"
      by (rule store_prefix [OF st]) (use m c(2) in \<open>auto intro: prefix_order.trans\<close>)
    moreover have "copyPointer T into p h = Some (Some (b, 0), h3)"
      using Some mk x1(1) c(1) st by (simp add: copyPointer_def)
    ultimately show ?thesis
      using load_store [OF st] y3 c(4) m x(3) store_lengths(1) [OF st] \<open>b < length h2\<close>
      by (intro exI [of _ "Some (b, 0)"] exI [of _ h3]) (auto simp: ptrVal_def ptrFoot_def)
  qed
qed


end

section \<open>Slices\<close>

lemma those_map_eq_Some:
  "those (map f xs) = Some ys \<longleftrightarrow> length ys = length xs \<and> (\<forall>i<length xs. f (xs ! i) = Some (ys ! i))"
proof (induction xs arbitrary: ys)
  case Nil
  show ?case by auto
next
  case (Cons x xs)
  then show ?case
    by (cases ys) (auto simp: All_less_Suc2 split: option.splits)
qed

lemma elems_eq_Some:
  "elems T h s = Some xs \<longleftrightarrow> slBlock s < length h \<and> length xs = slLen s
    \<and> (\<forall>i<slLen s. load T h (elemPtr s i) = Some (xs ! i))"
  by (auto simp: elems_def those_map_eq_Some)

lemma fst_elemPtr [simp]: "fst (elemPtr s i) = slBlock s"
  by (simp add: elemPtr_def)

lemma sliceValE:
  assumes "sliceVal T val h (Some s) = Some v"
  obtains xs vs where "elems T h s = Some xs" "v = Some vs" "length vs = slLen s" "\<forall>i<slLen s. val h (xs ! i) = Some (vs ! i)"
proof -
  obtain xs where xs: "elems T h s = Some xs" using assms by (cases "elems T h s") (auto simp: sliceVal_def)
  then have "length xs = slLen s" by (simp add: elems_eq_Some)
  with that [OF xs] assms xs show ?thesis
    by (cases "those (map (val h) xs)") (auto simp: sliceVal_def those_map_eq_Some)
qed

lemma sliceValI:
  assumes "elems T h s = Some xs" and "length vs = slLen s" and "\<forall>i<slLen s. val h (xs ! i) = Some (vs ! i)"
  shows "sliceVal T val h (Some s) = Some (Some vs)"
proof -
  have "length xs = slLen s" using assms(1) by (simp add: elems_eq_Some)
  with assms(2,3) have "those (map (val h) xs) = Some vs" by (simp add: those_map_eq_Some)
  with assms(1) show ?thesis by (simp add: sliceVal_def)
qed

lemma sliceFoot_elems:
  assumes "elems T h s = Some xs"
  shows "sliceFoot T foot h (Some s) = insert (slBlock s) (\<Union>i<slLen s. foot h (xs ! i))"
proof -
  have "length xs = slLen s" using assms by (simp add: elems_eq_Some)
  then have "\<Union> (set (map (foot h) xs)) = (\<Union>i<slLen s. foot h (xs ! i))"
    by (auto simp: set_conv_nth)
  with assms show ?thesis by (simp add: sliceFoot_def)
qed

context deep_copy_cells
begin

lemma copyElems_step:
  assumes x: "load T h (elemPtr s i) = Some x" "val h x = Some v" "b \<notin> foot h x" "slBlock s \<noteq> b"
    and b: "b < length h" "i < length (h ! b)"
  obtains y h1 h2 where "into x h = Some (y, h1)" "store T h1 (b, i) y = Some h2"
    "agree ({..<length h} - {b}) h h2" "length h \<le> length h2" "length (h2 ! b) = length (h ! b)"
    "\<And>k. k \<noteq> i \<Longrightarrow> h2 ! b ! k = h ! b ! k" "load T h2 (b, i) = Some y" "val h2 y = Some v"
    "foot h2 y \<subseteq> {length h..<length h2}"
proof -
  obtain y h1 where c: "into x h = Some (y, h1)" "prefix h h1" "val h1 y = Some v"
    "foot h1 y \<subseteq> {length h..<length h1}" using copies [OF x(2)] by blast
  have blk: "b < length h1" "h1 ! b = h ! b" using b c(2) by (auto simp: prefix_def nth_append)
  define h2 where "h2 = h1[b := (h1 ! b)[i := Some (gtInj T y)]]"
  have st: "store T h1 (b, i) y = Some h2" using blk b by (simp add: store_def h2_def)
  have "agree (foot h1 y) h1 h2" by (rule store_agree [OF st]) (use c(4) b in auto)
  from frame [OF c(3) this] have y2: "val h2 y = Some v" "foot h2 y = foot h1 y" by auto
  have "agree ({..<length h} - {b}) h h1" by (rule prefix_agree [OF c(2)]) auto
  moreover have "agree ({..<length h} - {b}) h1 h2"
    by (rule store_agree [OF st]) (use prefix_length_le [OF c(2)] in auto)
  ultimately have "agree ({..<length h} - {b}) h h2" by (rule agree_trans)
  moreover have "length h \<le> length h2" using prefix_length_le [OF c(2)] by (simp add: h2_def)
  moreover have "length (h2 ! b) = length (h ! b)" "h2 ! b ! k = h ! b ! k" if "k \<noteq> i" for k
    using that blk by (simp_all add: h2_def)
  moreover have "foot h2 y \<subseteq> {length h..<length h2}" using y2 c(4) by (simp add: h2_def)
  ultimately show ?thesis
    using that [OF c(1) st] load_store [OF st] y2(1) by (metis n_not_Suc_n)
qed

lemma copyElems_copies:
  assumes "\<And>j. j < n \<Longrightarrow> load T h (elemPtr s (i + j)) = Some (xs ! (i + j)) \<and> val h (xs ! (i + j)) = Some (vs ! (i + j))
      \<and> b \<notin> foot h (xs ! (i + j))"
    and "slBlock s \<noteq> b" and "b < length h" and "i + n \<le> length (h ! b)"
  shows "\<exists>h'. copyElems T into s b i n h = Some h' \<and> agree ({..<length h} - {b}) h h' \<and> length h \<le> length h'
    \<and> length (h' ! b) = length (h ! b) \<and> (\<forall>k<i. h' ! b ! k = h ! b ! k)
    \<and> (\<forall>j<n. \<exists>y. load T h' (b, i + j) = Some y \<and> val h' y = Some (vs ! (i + j))
          \<and> foot h' y \<subseteq> {length h..<length h'})"
  using assms
proof (induction n arbitrary: i h)
  case 0
  then show ?case by (auto simp: agree_def)
next
  case (Suc n)
  have x: "load T h (elemPtr s i) = Some (xs ! i)" "val h (xs ! i) = Some (vs ! i)" "b \<notin> foot h (xs ! i)"
    using Suc.prems(1) [of 0] by auto
  obtain y h1 h2 where c: "into (xs ! i) h = Some (y, h1)" "store T h1 (b, i) y = Some h2"
    and a: "agree ({..<length h} - {b}) h h2" "length h \<le> length h2" "length (h2 ! b) = length (h ! b)"
    and k: "\<And>k. k \<noteq> i \<Longrightarrow> h2 ! b ! k = h ! b ! k"
    and y: "load T h2 (b, i) = Some y" "val h2 y = Some (vs ! i)" "foot h2 y \<subseteq> {length h..<length h2}"
    using copyElems_step [OF x Suc.prems(2,3)] Suc.prems(4) by auto
  have src: "load T h2 (elemPtr s (Suc i + j)) = Some (xs ! (Suc i + j)) \<and> val h2 (xs ! (Suc i + j)) = Some (vs ! (Suc i + j))
      \<and> b \<notin> foot h2 (xs ! (Suc i + j))" if "j < n" for j
  proof -
    have o: "load T h (elemPtr s (Suc i + j)) = Some (xs ! (Suc i + j))" "val h (xs ! (Suc i + j)) = Some (vs ! (Suc i + j))"
      "b \<notin> foot h (xs ! (Suc i + j))"
      using Suc.prems(1) [of "Suc j"] that by auto
    have "agree {slBlock s} h h2" "agree (foot h (xs ! (Suc i + j))) h h2"
      using load_inside [OF o(1)] Suc.prems(2) inside [OF o(2)] o(3) by (auto intro!: agree_mono [OF a(1)])
    with load_agree [of "elemPtr s (Suc i + j)" h h2 T] frame [OF o(2)] o show ?thesis by simp
  qed
  obtain h' where h': "copyElems T into s b (Suc i) n h2 = Some h'" "agree ({..<length h2} - {b}) h2 h'"
    "length h2 \<le> length h'" "length (h' ! b) = length (h2 ! b)" "\<forall>k<Suc i. h' ! b ! k = h2 ! b ! k"
    "\<forall>j<n. \<exists>y. load T h' (b, Suc i + j) = Some y \<and> val h' y = Some (vs ! (Suc i + j))
        \<and> foot h' y \<subseteq> {length h2..<length h'}"
    using Suc.IH [of h2 "Suc i", OF src] Suc.prems(2-4) a by auto
  have "agree (foot h2 y) h2 h'"
    by (rule agree_mono [OF h'(2)]) (use y(3) Suc.prems(3) in auto)
  from frame [OF y(2) this] have y': "val h' y = Some (vs ! i)" "foot h' y \<subseteq> {length h..<length h'}"
    using y(3) h'(3) by auto
  have "load T h' (b, i) = Some y"
    using y(1) h'(3-5) by (auto simp: load_def split: if_splits)
  moreover have "agree ({..<length h} - {b}) h h'"
    by (rule agree_trans [OF a(1)]) (rule agree_mono [OF h'(2)], use a(2) in auto)
  moreover have "\<forall>j<n. \<exists>y. load T h' (b, i + Suc j) = Some y \<and> val h' y = Some (vs ! (i + Suc j))
      \<and> foot h' y \<subseteq> {length h..<length h'}"
    using h'(6) a(2) by fastforce
  moreover have "\<forall>k<i. h' ! b ! k = h ! b ! k" using h'(5) k by simp
  moreover have "copyElems T into s b i (Suc n) h = Some h'" using c x(1) h'(1) by simp
  ultimately show ?case
    unfolding All_less_Suc2 using y' h'(3,4) a(2,3) by (intro exI [of _ h'] conjI) auto
qed

lemma slice: "deep_copy (copySlice T into) (sliceVal T val) (sliceFoot T foot)"
proof
  fix h :: "'c memory" and s v
  assume v: "sliceVal T val h s = Some v"
  show "sliceFoot T foot h s \<subseteq> {..<length h}"
  proof (cases s)
    case (Some sl)
    obtain xs vs where xs: "elems T h sl = Some xs" "\<forall>i<slLen sl. val h (xs ! i) = Some (vs ! i)"
      using sliceValE [OF v [unfolded Some]] by blast
    have "foot h (xs ! i) \<subseteq> {..<length h}" if "i < slLen sl" for i using inside xs(2) that by blast
    then have "(\<Union>i<slLen sl. foot h (xs ! i)) \<subseteq> {..<length h}" by blast
    moreover have "slBlock sl < length h" using xs(1) by (simp add: elems_eq_Some)
    ultimately show ?thesis by (simp add: Some sliceFoot_elems [OF xs(1)])
  qed (simp add: sliceFoot_def)
  show "sliceVal T val h' s = Some v \<and> sliceFoot T foot h' s = sliceFoot T foot h s"
    if a: "agree (sliceFoot T foot h s) h h'" for h'
  proof (cases s)
    case (Some sl)
    obtain xs vs where xs: "elems T h sl = Some xs" "v = Some vs" "length vs = slLen sl"
      "\<forall>i<slLen sl. val h (xs ! i) = Some (vs ! i)"
      using sliceValE [OF v [unfolded Some]] by blast
    have "agree {slBlock sl} h h'" and "\<forall>i<slLen sl. agree (foot h (xs ! i)) h h'"
      using a xs(1) Some by (auto simp: sliceFoot_elems agree_def)
    with xs(4) frame have "\<forall>i<slLen sl. val h' (xs ! i) = Some (vs ! i) \<and> foot h' (xs ! i) = foot h (xs ! i)"
      by blast
    moreover have "elems T h' sl = Some xs"
      using xs(1) load_agree [of "elemPtr sl i" h h' T for i] \<open>agree {slBlock sl} h h'\<close>
      by (simp add: elems_eq_Some) (simp add: agree_def)
    ultimately show ?thesis using xs Some by (simp add: sliceValI sliceFoot_elems)
  qed (use v in \<open>simp add: sliceVal_def sliceFoot_def\<close>)
  show "\<exists>y h'. copySlice T into s h = Some (y, h') \<and> prefix h h' \<and> sliceVal T val h' y = Some v
      \<and> sliceFoot T foot h' y \<subseteq> {length h..<length h'}"
  proof (cases s)
    case None
    with v show ?thesis by (auto simp: copySlice_def sliceVal_def sliceFoot_def)
  next
    case (Some sl)
    obtain xs vs where xs: "elems T h sl = Some xs" "v = Some vs" "length vs = slLen sl"
      "\<forall>i<slLen sl. val h (xs ! i) = Some (vs ! i)"
      using sliceValE [OF v [unfolded Some]] by blast
    obtain b h1 where mk: "makeBlock (slLen sl) h = (b, h1)" by fastforce
    note m = prefix_makeBlock [OF mk]
    have src: "load T h1 (elemPtr sl (0 + j)) = Some (xs ! (0 + j)) \<and> val h1 (xs ! (0 + j)) = Some (vs ! (0 + j))
        \<and> b \<notin> foot h1 (xs ! (0 + j))" if "j < slLen sl" for j
      using xs(1,4) that m load_prefix [of h h1 T "elemPtr sl j"] frame_prefix [of h "xs ! j" "vs ! j" h1] inside [of h "xs ! j" "vs ! j"]
      by (auto simp: elems_eq_Some)
    have ne: "slBlock sl \<noteq> b" using xs(1) m by (simp add: elems_eq_Some)
    obtain h' where c: "copyElems T into sl b 0 (slLen sl) h1 = Some h'" "agree ({..<length h1} - {b}) h1 h'"
      "length h1 \<le> length h'"
      "\<forall>j<slLen sl. \<exists>y. load T h' (b, j) = Some y \<and> val h' y = Some (vs ! j) \<and> foot h' y \<subseteq> {length h1..<length h'}"
      using copyElems_copies [of "slLen sl" h1 sl 0 xs vs b, OF src ne] m by auto
    have "agree {..<length h} h h1" using m by (intro prefix_agree) auto
    moreover have "agree {..<length h} h1 h'" using m by (intro agree_mono [OF c(2)]) auto
    ultimately have "prefix h h'" by (blast intro: agree_prefix agree_trans)
    define ys where "ys = map (\<lambda>j. the (load T h' (b, j))) [0..<slLen sl]"
    let ?s = "\<lparr>slBlock = b, slOffset = 0, slLen = slLen sl\<rparr>"
    have ys: "elems T h' ?s = Some ys"
      using c(3,4) m by (auto simp: elems_eq_Some ys_def elemPtr_def)
    moreover have "\<forall>j<slLen sl. val h' (ys ! j) = Some (vs ! j) \<and> foot h' (ys ! j) \<subseteq> {length h1..<length h'}"
      using c(4) by (fastforce simp: ys_def)
    ultimately have "sliceVal T val h' (Some ?s) = Some v" and "sliceFoot T foot h' (Some ?s) \<subseteq> {length h..<length h'}"
      using xs(2,3) m c(3) by (force simp: sliceValI sliceFoot_elems)+
    with \<open>prefix h h'\<close> c(1) mk Some show ?thesis by (simp add: copySlice_def)
  qed
qed

end

section \<open>Structs\<close>

text \<open>
  A struct is copied field by field: the fields that are not plain are a tuple of slots, and the rest
  is copied by \<open>*out = *in\<close>.
\<close>

definition pairInto :: "('s, 'c) copier \<Rightarrow> ('t, 'c) copier \<Rightarrow> ('s \<times> 't, 'c) copier" where
  "pairInto into1 into2 x h =
     do { (a, h1) \<leftarrow> into1 (fst x) h; (b, h2) \<leftarrow> into2 (snd x) h1; Some ((a, b), h2) }"

definition pairVal :: "('s, 'a, 'c) valuation \<Rightarrow> ('t, 'b, 'c) valuation \<Rightarrow> ('s \<times> 't, 'a \<times> 'b, 'c) valuation" where
  "pairVal val1 val2 h x = do { v \<leftarrow> val1 h (fst x); w \<leftarrow> val2 h (snd x); Some (v, w) }"

definition pairFoot :: "('s, 'c) footprint \<Rightarrow> ('t, 'c) footprint \<Rightarrow> ('s \<times> 't, 'c) footprint" where
  "pairFoot foot1 foot2 h x = foot1 h (fst x) \<union> foot2 h (snd x)"

lemma agree_Un: "agree (A \<union> B) h h' \<longleftrightarrow> agree A h h' \<and> agree B h h'"
  by (auto simp: agree_def)

lemma pairVal_eq_Some:
  "pairVal val1 val2 h (a, b) = Some v \<longleftrightarrow> val1 h a = Some (fst v) \<and> val2 h b = Some (snd v)"
  by (cases v; cases "val1 h a"; cases "val2 h b") (auto simp: pairVal_def)

lemma deep_copy_pair:
  assumes "deep_copy into1 val1 foot1" and "deep_copy into2 val2 foot2"
  shows "deep_copy (pairInto into1 into2) (pairVal val1 val2) (pairFoot foot1 foot2)"
proof
  note d1 = deep_copy.inside [OF assms(1)] deep_copy.frame [OF assms(1)]
  note d2 = deep_copy.inside [OF assms(2)] deep_copy.frame [OF assms(2)]
  fix h :: "'b memory" and x v
  assume "pairVal val1 val2 h x = Some v"
  then have v: "val1 h (fst x) = Some (fst v)" "val2 h (snd x) = Some (snd v)"
    by (cases x; simp add: pairVal_eq_Some)+
  show "pairFoot foot1 foot2 h x \<subseteq> {..<length h}"
    using d1(1) [OF v(1)] d2(1) [OF v(2)] by (simp add: pairFoot_def)
  show "pairVal val1 val2 h' x = Some v \<and> pairFoot foot1 foot2 h' x = pairFoot foot1 foot2 h x"
    if "agree (pairFoot foot1 foot2 h x) h h'" for h'
    using that d1(2) [OF v(1)] d2(2) [OF v(2)] by (cases x) (simp add: pairFoot_def agree_Un pairVal_eq_Some)
  obtain a h1 where c1: "into1 (fst x) h = Some (a, h1)" "prefix h h1" "val1 h1 a = Some (fst v)"
    "foot1 h1 a \<subseteq> {length h..<length h1}" using deep_copy.copies [OF assms(1) v(1)] by blast
  have "val2 h1 (snd x) = Some (snd v)" using deep_copy.frame_prefix [OF assms(2) v(2) c1(2)] by simp
  then obtain b h2 where c2: "into2 (snd x) h1 = Some (b, h2)" "prefix h1 h2" "val2 h2 b = Some (snd v)"
    "foot2 h2 b \<subseteq> {length h1..<length h2}" using deep_copy.copies [OF assms(2)] by blast
  have "val1 h2 a = Some (fst v)" "foot1 h2 a = foot1 h1 a"
    using deep_copy.frame_prefix [OF assms(1) c1(3) c2(2)] by auto
  moreover have "length h \<le> length h1" "length h1 \<le> length h2" "prefix h h2"
    using c1(2) c2(2) by (auto dest: prefix_length_le intro: prefix_order.trans)
  ultimately show "\<exists>y h'. pairInto into1 into2 x h = Some (y, h') \<and> prefix h h' \<and> pairVal val1 val2 h' y = Some v
      \<and> pairFoot foot1 foot2 h' y \<subseteq> {length h..<length h'}"
    using c1 c2 by (intro exI [of _ "(a, b)"] exI [of _ h2]) (auto simp: pairInto_def pairFoot_def pairVal_eq_Some)
qed

lemma deep_copy_struct:
  assumes "deep_copy into val foot"
    and into': "\<And>x h. into' x h = map_option (\<lambda>(t, h'). (put t x, h')) (into (get x) h)"
    and val': "\<And>h x. val' h x = map_option (mk x) (val h (get x))"
    and foot': "\<And>h x. foot' h x = foot h (get x)"
    and put: "\<And>t x. get (put t x) = t" "\<And>t x. mk (put t x) = mk x"
  shows "deep_copy into' val' foot'"
proof
  fix h :: "'b memory" and x v
  assume "val' h x = Some v"
  then obtain w where w: "val h (get x) = Some w" "v = mk x w" by (auto simp: val')
  show "foot' h x \<subseteq> {..<length h}" using deep_copy.inside [OF assms(1) w(1)] by (simp add: foot')
  show "val' h' x = Some v \<and> foot' h' x = foot' h x" if "agree (foot' h x) h h'" for h'
    using deep_copy.frame [OF assms(1) w(1)] that w(2) by (simp add: foot' val')
  show "\<exists>y h'. into' x h = Some (y, h') \<and> prefix h h' \<and> val' h' y = Some v \<and> foot' h' y \<subseteq> {length h..<length h'}"
    using deep_copy.copies [OF assms(1) w(1)] w(2) by (fastforce simp: into' val' foot' put)
qed

end
