(* ===== verification/Object_Memory.thy ===== *)
theory Object_Memory
  imports Deep_Copy
begin

text \<open>
  What the generated files \<open>zz_generated.deepcopy.go\<close> of all packages have in common: the methods of a
  type, Kubernetes objects with a spec and a status, and lists of them.
\<close>

section \<open>Structs of the libraries\<close>

text \<open>
  A struct that a library defines is a parameter: a type \<open>'l\<close> that means a \<open>'v\<close>, with the library's
  \<open>DeepCopyInto\<close>. What the methods rely on is that this is a deep copy.
\<close>

record ('l, 'v, 'c) libStruct =
  libInto :: "('l, 'c) copier"
  libVal :: "('l, 'v, 'c) valuation"
  libFoot :: "('l, 'c) footprint"

definition deepLib :: "('l, 'v, 'c) libStruct \<Rightarrow> bool" where
  "deepLib S \<longleftrightarrow> deep_copy (libInto S) (libVal S) (libFoot S)"

section \<open>Methods\<close>

text \<open>The two generated methods of a type: \<open>DeepCopy\<close> is a \<open>DeepCopyInto\<close> a new object, and nil for nil.\<close>

record ('t, 'c) methods =
  DeepCopyInto :: "('t, 'c) copier"
  DeepCopy :: "(pointer option, 'c) copier"

definition methods :: "('t, 'c) goType \<Rightarrow> ('t, 'c) copier \<Rightarrow> ('t, 'c) methods" where
  "methods T into = \<lparr>DeepCopyInto = into, DeepCopy = copyPointer T into\<rparr>"

text \<open>
  \<open>DeepCopyObject\<close> gives an interface: nil, or a pointer of a known type (that may itself be nil).
\<close>

definition deepCopyObject ::
  "('t, 'c) methods \<Rightarrow> pointer option \<Rightarrow> 'c memory \<Rightarrow> (pointer option option \<times> 'c memory) option" where
  "deepCopyObject M p h =
     do {
       (c, h1) \<leftarrow> DeepCopy M p h;
       Some (case c of Some q \<Rightarrow> Some (Some q) | None \<Rightarrow> None, h1)
     }"

section \<open>Objects and lists\<close>

text \<open>
  \<open>Release\<close>, \<open>ProviderConfig\<close> and \<open>ClusterProviderConfig\<close> have type and object meta, a spec and a status;
  a list of objects has type and list meta, and the items. The text of their \<open>DeepCopyInto\<close> is the same for all
  of them, up to the types.
\<close>

record TypeMeta =
  tmKind :: string
  tmAPIVersion :: string

record ('om, 'sp, 'st) mObject =
  mTypeMeta :: TypeMeta
  mObjectMeta :: 'om
  mSpec :: 'sp
  mStatus :: 'st

record ('lm, 'items) mObjectList =
  mlTypeMeta :: TypeMeta
  mListMeta :: 'lm
  mItems :: 'items

type_synonym 'l listObj = "('l, slice option) mObjectList"

definition objectInto where
  "objectInto meta spec status x h =
     do {
       (m, h) \<leftarrow> libInto meta (mObjectMeta x) h;
       (s, h) \<leftarrow> spec (mSpec x) h;
       (t, h) \<leftarrow> status (mStatus x) h;
       Some (x\<lparr>mTypeMeta := mTypeMeta x, mObjectMeta := m, mSpec := s, mStatus := t\<rparr>, h)
     }"

definition listInto where
  "listInto meta T item x h =
     do {
       (m, h) \<leftarrow> libInto meta (mListMeta x) h;
       (i, h) \<leftarrow> copySlice T item (mItems x) h;
       Some (x\<lparr>mlTypeMeta := mlTypeMeta x, mListMeta := m, mItems := i\<rparr>, h)
     }"

text \<open>\<open>GetItems\<close> gives pointers to the elements of the list itself, none for a nil slice.\<close>

definition getItems :: "'l listObj \<Rightarrow> pointer list" where
  "getItems x = (case mItems x of None \<Rightarrow> [] | Some s \<Rightarrow> map (elemPtr s) [0..<slLen s])"

definition objectVal where
  "objectVal meta spec status h x =
     do {
       m \<leftarrow> libVal meta h (mObjectMeta x);
       s \<leftarrow> spec h (mSpec x);
       t \<leftarrow> status h (mStatus x);
       Some \<lparr>mTypeMeta = mTypeMeta x, mObjectMeta = m, mSpec = s, mStatus = t\<rparr>
     }"

definition objectFoot where
  "objectFoot meta spec status h x = libFoot meta h (mObjectMeta x) \<union> (spec h (mSpec x) \<union> status h (mStatus x))"

definition listVal where
  "listVal meta T item h x =
     do {
       m \<leftarrow> libVal meta h (mListMeta x);
       i \<leftarrow> sliceVal T item h (mItems x);
       Some \<lparr>mlTypeMeta = mlTypeMeta x, mListMeta = m, mItems = i\<rparr>
     }"

definition listFoot where
  "listFoot meta T item h x = libFoot meta h (mListMeta x) \<union> sliceFoot T item h (mItems x)"

section \<open>Deep copies\<close>

lemma deep_pointer: "go_type T \<Longrightarrow> deep_copy into val foot \<Longrightarrow> deep_copy (copyPointer T into) (ptrVal T val) (ptrFoot T foot)"
  by (intro deep_copy_cells.pointer deep_copy_cells.intro)

lemma deep_slice: "go_type T \<Longrightarrow> deep_copy into val foot \<Longrightarrow> deep_copy (copySlice T into) (sliceVal T val) (sliceFoot T foot)"
  by (intro deep_copy_cells.slice deep_copy_cells.intro)

lemmas pair_defs = pairInto_def pairVal_def pairFoot_def methods_def

lemma deep_objectInto:
  assumes "deepLib meta" and "deep_copy spec specVal specFoot" and "deep_copy status statusVal statusFoot"
  shows "deep_copy (objectInto meta spec status) (objectVal meta specVal statusVal) (objectFoot meta specFoot statusFoot)"
  by (rule deep_copy_struct [OF deep_copy_pair [OF assms(1) [unfolded deepLib_def] deep_copy_pair [OF assms(2,3)]],
        where get = "\<lambda>x. (mObjectMeta x, mSpec x, mStatus x)"
        and put = "\<lambda>(m, s, t) x. x\<lparr>mObjectMeta := m, mSpec := s, mStatus := t\<rparr>"
        and mk = "\<lambda>x (m, s, t). \<lparr>mTypeMeta = mTypeMeta x, mObjectMeta = m, mSpec = s, mStatus = t\<rparr>"])
    (auto simp: objectInto_def objectVal_def objectFoot_def pair_defs split: Option.bind_split)

lemma deep_listInto:
  assumes "deepLib meta" and "go_type T" and "deep_copy item val foot"
  shows "deep_copy (listInto meta T item) (listVal meta T val) (listFoot meta T foot)"
  by (rule deep_copy_struct [OF deep_copy_pair [OF assms(1) [unfolded deepLib_def] deep_slice [OF assms(2,3)]],
        where get = "\<lambda>x. (mListMeta x, mItems x)"
        and put = "\<lambda>(m, i) x. x\<lparr>mListMeta := m, mItems := i\<rparr>"
        and mk = "\<lambda>x (m, i). \<lparr>mlTypeMeta = mlTypeMeta x, mListMeta = m, mItems = i\<rparr>"])
    (auto simp: listInto_def listVal_def listFoot_def pair_defs split: Option.bind_split)

section \<open>Copies are independent\<close>

lemma methods_simps [simp]: "DeepCopyInto (methods T into) = into" "DeepCopy (methods T into) = copyPointer T into"
  by (simp_all add: methods_def)

text \<open>
  \<open>DeepCopy\<close> of a pointer gives a pointer into new blocks that means the same; it keeps that meaning while
  the new blocks stay as they are, and the original keeps its own while the old ones do.
\<close>

definition generated :: "('t, 'c) goType \<Rightarrow> ('t, 'c) methods \<Rightarrow> bool" where
  "generated T M \<longleftrightarrow> M = methods T (DeepCopyInto M)"

lemma generated_methods: "generated T (methods T into)"
  by (simp add: generated_def)

lemma methods_independent:
  assumes "generated T M" and "go_type T" and "deep_copy (DeepCopyInto M) val foot" and "ptrVal T val h p = Some v"
  shows "\<exists>q h'. DeepCopy M p h = Some (q, h') \<and> prefix h h' \<and> ptrVal T val h' q = Some v
    \<and> (\<forall>h''. agree {length h..<length h'} h' h'' \<longrightarrow> ptrVal T val h'' q = Some v)
    \<and> (\<forall>h''. agree {..<length h} h h'' \<longrightarrow> ptrVal T val h'' p = Some v)"
proof -
  obtain q h' where "copyPointer T (DeepCopyInto M) p h = Some (q, h')" "prefix h h'" "ptrVal T val h' q = Some v"
    "\<And>h''. agree {length h..<length h'} h' h'' \<Longrightarrow> ptrVal T val h'' q = Some v"
    "\<And>h''. agree {..<length h} h h'' \<Longrightarrow> ptrVal T val h'' p = Some v"
    by (rule deep_copy.independent [OF deep_pointer [OF assms(2,3)] assms(4)]) blast
  moreover have "DeepCopy M = copyPointer T (DeepCopyInto M)"
    using assms(1) unfolding generated_def by (metis methods_simps(2))
  ultimately show ?thesis by auto
qed

lemma store_outside:
  assumes "prefix h h'" and "length h \<le> fst p" and "store T h' p x = Some h''"
  shows "agree {..<length h} h h''"
  using store_prefix [of T h' "fst p" "snd p" x h'' h] assms by (intro prefix_agree) auto

text \<open>A copied list: \<open>GetItems\<close> of the copy points to copies of the items, all of them in new blocks.\<close>

lemma listVal_items:
  assumes "listVal meta T val h x = Some v"
  shows "those (map (\<lambda>p. ptrVal T val h (Some p)) (getItems x)) =
    Some (map Some (case mItems v of None \<Rightarrow> [] | Some xs \<Rightarrow> xs))"
proof (cases "mItems x")
  case None
  with assms show ?thesis by (auto simp: listVal_def getItems_def sliceVal_def split: Option.bind_splits)
next
  case (Some s)
  with assms obtain i where i: "sliceVal T val h (Some s) = Some i" "mItems v = i"
    by (auto simp: listVal_def split: Option.bind_splits)
  obtain xs vs where xs: "elems T h s = Some xs" "i = Some vs" "length vs = slLen s" "\<forall>i<slLen s. val h (xs ! i) = Some (vs ! i)"
    using sliceValE [OF i(1)] by blast
  then show ?thesis
    using i(2) Some by (auto simp: getItems_def those_map_eq_Some elems_eq_Some ptrVal_def)
qed

lemma getItems_blocks:
  "p \<in> set (getItems x) \<Longrightarrow> fst p \<in> listFoot meta T foot h x"
  by (auto simp: getItems_def listFoot_def sliceFoot_def split: option.splits)

lemma copied_list:
  assumes "generated L M" and "go_type L"
    and "deep_copy (DeepCopyInto M) (listVal meta T val) (listFoot meta T foot)"
    and v: "ptrVal L (listVal meta T val) h (Some p) = Some (Some v)"
  shows "(\<exists>q h' l. deepCopyObject M (Some p) h = Some (Some (Some q), h') \<and> load L h' q = Some l
    \<and> those (map (\<lambda>i. ptrVal T val h' (Some i)) (getItems l)) = Some (map Some (case mItems v of None \<Rightarrow> [] | Some xs \<Rightarrow> xs))
    \<and> (\<forall>i\<in>set (getItems l). \<forall>r h''. store T h' i r = Some h'' \<longrightarrow>
          ptrVal L (listVal meta T val) h'' (Some p) = Some (Some v)))
    \<and> deepCopyObject M None h = Some (None, h)"
proof -
  note D = deep_pointer [OF assms(2,3)]
  have M: "DeepCopy M = copyPointer L (DeepCopyInto M)"
    using assms(1) unfolding generated_def by (metis methods_simps(2))
  obtain y h' where c: "copyPointer L (DeepCopyInto M) (Some p) h = Some (y, h')" "prefix h h'"
    "ptrVal L (listVal meta T val) h' y = Some (Some v)" "ptrFoot L (listFoot meta T foot) h' y \<subseteq> {length h..<length h'}"
    using deep_copy.copies [OF D v] by blast
  obtain q where y: "y = Some q" using c(3) by (cases y) (auto simp: ptrVal_def)
  obtain l where l: "load L h' q = Some l" "listVal meta T val h' l = Some v"
    using c(3) y by (cases "load L h' q"; cases "listVal meta T val h' (the (load L h' q))") (auto simp: ptrVal_def)
  have "ptrVal L (listVal meta T val) h'' (Some p) = Some (Some v)"
    if i: "i \<in> set (getItems l)" and st: "store T h' i r = Some h''" for i r h''
  proof -
    have "fst i \<in> ptrFoot L (listFoot meta T foot) h' y"
      using getItems_blocks [OF i, of meta T foot h'] l(1) y by (simp add: ptrFoot_def)
    with c(4) have "agree {..<length h} h h''" by (intro store_outside [OF c(2) _ st]) auto
    then show ?thesis using deep_copy.frame [OF D v] deep_copy.inside [OF D v] agree_mono by blast
  qed
  moreover have "deepCopyObject M (Some p) h = Some (Some (Some q), h')"
    using c(1) y M by (simp add: deepCopyObject_def)
  moreover have "deepCopyObject M None h = Some (None, h)" by (simp add: deepCopyObject_def M copyPointer_def)
  ultimately show ?thesis using listVal_items [OF l(2)] l(1) by blast
qed

end
