(* ===== verification/Release_Memory.thy ===== *)
theory Release_Memory
  imports Object_Memory Api_Types
begin

text \<open>
  Releases as Go objects in memory, and their generated methods
  (\<open>apis/*/release/v1beta1/zz_generated.deepcopy.go\<close>, \<open>zz_generated.managedlist.go\<close>). In memory the field of a
  struct that is a Go pointer is a pointer or nil, and one that is a slice is a slice or nil; what the
  object means has the value pointed to, or the list, in its place. The two packages have the same
  text but for \<open>DataKeySelector\<close> and the type of the embedded managed resource spec; they are two
  instances of the types here.
\<close>

section \<open>Objects\<close>

record ('l, 'v, 'c) libStructs =
  RawExtension :: "('l, 'v, 'c) libStruct"
  ManagedResourceSpec :: "('l, 'v, 'c) libStruct"
  ManagedResourceStatus :: "('l, 'v, 'c) libStruct"
  ObjectMeta :: "('l, 'v, 'c) libStruct"
  ListMeta :: "('l, 'v, 'c) libStruct"

text \<open>
  A struct with parameters for its pointers, slices and structs; the Go object and its meaning are two
  instances of the record. \<open>mValueFromSource\<close> and \<open>mSetVal\<close> mean the records of \<open>Api_Types\<close>.
\<close>

record mValueFromSource =
  mConfigMapKeyRef :: "pointer option"
  mSecretKeyRef :: "pointer option"

record mSetVal =
  msvName :: string
  msvValue :: string
  msvValueFrom :: "pointer option"

record ('raw, 'vf, 'set) mValuesSpec =
  mValues :: 'raw
  mValuesFrom :: 'vf
  mSet :: 'set

record ('cs, 'dur, 'pf, 'vs) mReleaseParameters =
  mChart :: 'cs
  mNamespace :: string
  mSkipCreateNamespace :: bool
  mWait :: bool
  mWaitTimeout :: 'dur
  mPatchesFrom :: 'pf
  mValuesSpec :: 'vs
  mSkipCRDs :: bool
  mInsecureSkipTLSVerify :: bool
  mPlainHTTP :: bool
  mTakeOwnership :: bool
  mMaxHistory :: int
  mSSAForceConflicts :: bool

record ('mrs, 'cd, 'fp, 'lim) mReleaseSpec =
  mManagedResourceSpec :: 'mrs
  mConnectionDetails :: 'cd
  mForProvider :: 'fp
  mRollbackRetriesLimit :: 'lim

record ('mrs, 'obs) mReleaseStatus =
  mManagedResourceStatus :: 'mrs
  mAtProvider :: 'obs
  mPatchesSha :: string
  mFailed :: "32 word"
  mSynced :: bool

type_synonym 'l valuesSpecObj = "('l, slice option, slice option) mValuesSpec"
type_synonym ('cs, 'l) parametersObj = "('cs, pointer option, slice option, 'l valuesSpecObj) mReleaseParameters"
type_synonym ('cs, 'l) specObj = "('l, slice option, ('cs, 'l) parametersObj, pointer option) mReleaseSpec"
type_synonym ('sp, 'obs, 'l) releaseObj = "('l, 'sp, ('l, 'obs) mReleaseStatus) mObject"

type_synonym ('sel, 'v) valuesSpecValue =
  "('v, 'sel ValueFromSource list option, 'sel SetVal list option) mValuesSpec"
type_synonym ('sel, 'cs, 'v) parametersValue =
  "('cs, Duration option, 'sel ValueFromSource list option, ('sel, 'v) valuesSpecValue) mReleaseParameters"
type_synonym ('sel, 'cs, 'v) specValue =
  "('v, ConnectionDetail list option, ('sel, 'cs, 'v) parametersValue, 32 word option) mReleaseSpec"
type_synonym ('spv, 'obs, 'v) releaseValue = "('v, 'spv, ('v, 'obs) mReleaseStatus) mObject"
type_synonym ('spv, 'obs, 'v) listValue = "('v, ('spv, 'obs, 'v) releaseValue list option) mObjectList"

text \<open>
  The cells of a memory: one constructor per type. The parameters are the types that differ between
  the packages, the library's structs, and the library's own cells.
\<close>

datatype ('sel, 'cs, 'obs, 'fp, 'sp, 'l, 'm) cell =
    CNamespacedName NamespacedName
  | CDataKeySelector 'sel
  | CValueFromSource mValueFromSource
  | CSetVal mSetVal
  | CValuesSpec "'l valuesSpecObj"
  | CChartSpec 'cs
  | CReleaseParameters 'fp
  | CReleaseObservation 'obs
  | CConnectionDetail ConnectionDetail
  | CReleaseSpec 'sp
  | CReleaseStatus "('l, 'obs) mReleaseStatus"
  | CRelease "('sp, 'obs, 'l) releaseObj"
  | CReleaseList "'l listObj"
  | CDuration Duration
  | CInt32 "32 word"
  | CLib 'm

type_synonym ('sel, 'ref, 'l, 'm) betaCell =
  "('sel, 'ref ChartSpec, ReleaseObservation, ('ref ChartSpec, 'l) parametersObj, ('ref ChartSpec, 'l) specObj, 'l, 'm) cell"

definition tNamespacedName where
  "tNamespacedName = \<lparr>gtInj = CNamespacedName, gtPrj = (\<lambda>c. case c of CNamespacedName x \<Rightarrow> Some x | _ \<Rightarrow> None)\<rparr>"
definition tDataKeySelector where
  "tDataKeySelector = \<lparr>gtInj = CDataKeySelector, gtPrj = (\<lambda>c. case c of CDataKeySelector x \<Rightarrow> Some x | _ \<Rightarrow> None)\<rparr>"
definition tValueFromSource where
  "tValueFromSource = \<lparr>gtInj = CValueFromSource, gtPrj = (\<lambda>c. case c of CValueFromSource x \<Rightarrow> Some x | _ \<Rightarrow> None)\<rparr>"
definition tSetVal where
  "tSetVal = \<lparr>gtInj = CSetVal, gtPrj = (\<lambda>c. case c of CSetVal x \<Rightarrow> Some x | _ \<Rightarrow> None)\<rparr>"
definition tValuesSpec where
  "tValuesSpec = \<lparr>gtInj = CValuesSpec, gtPrj = (\<lambda>c. case c of CValuesSpec x \<Rightarrow> Some x | _ \<Rightarrow> None)\<rparr>"
definition tChartSpec where
  "tChartSpec = \<lparr>gtInj = CChartSpec, gtPrj = (\<lambda>c. case c of CChartSpec x \<Rightarrow> Some x | _ \<Rightarrow> None)\<rparr>"
definition tReleaseParameters where
  "tReleaseParameters = \<lparr>gtInj = CReleaseParameters, gtPrj = (\<lambda>c. case c of CReleaseParameters x \<Rightarrow> Some x | _ \<Rightarrow> None)\<rparr>"
definition tReleaseObservation where
  "tReleaseObservation = \<lparr>gtInj = CReleaseObservation, gtPrj = (\<lambda>c. case c of CReleaseObservation x \<Rightarrow> Some x | _ \<Rightarrow> None)\<rparr>"
definition tConnectionDetail where
  "tConnectionDetail = \<lparr>gtInj = CConnectionDetail, gtPrj = (\<lambda>c. case c of CConnectionDetail x \<Rightarrow> Some x | _ \<Rightarrow> None)\<rparr>"
definition tReleaseSpec where
  "tReleaseSpec = \<lparr>gtInj = CReleaseSpec, gtPrj = (\<lambda>c. case c of CReleaseSpec x \<Rightarrow> Some x | _ \<Rightarrow> None)\<rparr>"
definition tReleaseStatus where
  "tReleaseStatus = \<lparr>gtInj = CReleaseStatus, gtPrj = (\<lambda>c. case c of CReleaseStatus x \<Rightarrow> Some x | _ \<Rightarrow> None)\<rparr>"
definition tRelease where
  "tRelease = \<lparr>gtInj = CRelease, gtPrj = (\<lambda>c. case c of CRelease x \<Rightarrow> Some x | _ \<Rightarrow> None)\<rparr>"
definition tReleaseList where
  "tReleaseList = \<lparr>gtInj = CReleaseList, gtPrj = (\<lambda>c. case c of CReleaseList x \<Rightarrow> Some x | _ \<Rightarrow> None)\<rparr>"
definition tDuration where
  "tDuration = \<lparr>gtInj = CDuration, gtPrj = (\<lambda>c. case c of CDuration x \<Rightarrow> Some x | _ \<Rightarrow> None)\<rparr>"
definition tInt32 where
  "tInt32 = \<lparr>gtInj = CInt32, gtPrj = (\<lambda>c. case c of CInt32 x \<Rightarrow> Some x | _ \<Rightarrow> None)\<rparr>"
definition tLib where
  "tLib = \<lparr>gtInj = CLib, gtPrj = (\<lambda>c. case c of CLib x \<Rightarrow> Some x | _ \<Rightarrow> None)\<rparr>"

lemmas goType_defs = tNamespacedName_def tDataKeySelector_def tValueFromSource_def tSetVal_def tValuesSpec_def
  tChartSpec_def tReleaseParameters_def tReleaseObservation_def tConnectionDetail_def tReleaseSpec_def
  tReleaseStatus_def tRelease_def tReleaseList_def tDuration_def tInt32_def tLib_def

lemma go_types:
  "go_type tNamespacedName" "go_type tDataKeySelector" "go_type tValueFromSource" "go_type tSetVal"
  "go_type tValuesSpec" "go_type tChartSpec" "go_type tReleaseParameters" "go_type tReleaseObservation"
  "go_type tConnectionDetail" "go_type tReleaseSpec" "go_type tReleaseStatus" "go_type tRelease"
  "go_type tReleaseList" "go_type tDuration" "go_type tInt32" "go_type tLib"
  by (unfold_locales, simp add: goType_defs)+

section \<open>The generated methods\<close>

definition chartSpecCopy where
  "chartSpecCopy = methods tChartSpec (\<lambda>x h. Some (x\<lparr>csPullSecretRef := csPullSecretRef x\<rparr>, h))"

definition connectionDetailCopy where
  "connectionDetailCopy =
     methods tConnectionDetail (\<lambda>x h. Some (x\<lparr>cdObjectReference := cdObjectReference x\<rparr>, h))"

definition dataKeySelectorCopy ::
  "(DataKeySelector, (DataKeySelector, 'cs, 'obs, 'fp, 'sp, 'l, 'm) cell) methods" where
  "dataKeySelectorCopy =
     methods tDataKeySelector (\<lambda>x h. Some (x\<lparr>nnNamespace := nnNamespace x, nnName := nnName x\<rparr>, h))"

definition namespacedNameCopy where
  "namespacedNameCopy = methods tNamespacedName copyFlat"

definition releaseObservationCopy where
  "releaseObservationCopy = methods tReleaseObservation copyFlat"

definition valueFromSourceCopy where
  "valueFromSourceCopy =
     methods tValueFromSource
       (\<lambda>x h. do {
          (c, h) \<leftarrow> copyPointer tDataKeySelector copyFlat (mConfigMapKeyRef x) h;
          (s, h) \<leftarrow> copyPointer tDataKeySelector copyFlat (mSecretKeyRef x) h;
          Some (x\<lparr>mConfigMapKeyRef := c, mSecretKeyRef := s\<rparr>, h)
        })"

definition setValCopy where
  "setValCopy =
     methods tSetVal
       (\<lambda>x h. do {
          (v, h) \<leftarrow> copyPointer tValueFromSource (DeepCopyInto valueFromSourceCopy) (msvValueFrom x) h;
          Some (x\<lparr>msvValueFrom := v\<rparr>, h)
        })"

definition valuesSpecCopy where
  "valuesSpecCopy X =
     methods tValuesSpec
       (\<lambda>x h. do {
          (v, h) \<leftarrow> libInto (RawExtension X) (mValues x) h;
          (f, h) \<leftarrow> copySlice tValueFromSource (DeepCopyInto valueFromSourceCopy) (mValuesFrom x) h;
          (s, h) \<leftarrow> copySlice tSetVal (DeepCopyInto setValCopy) (mSet x) h;
          Some (x\<lparr>mValues := v, mValuesFrom := f, mSet := s\<rparr>, h)
        })"

definition releaseParametersCopy where
  "releaseParametersCopy X =
     methods tReleaseParameters
       (\<lambda>x h. do {
          (w, h) \<leftarrow> copyPointer tDuration copyFlat (mWaitTimeout x) h;
          (p, h) \<leftarrow> copySlice tValueFromSource (DeepCopyInto valueFromSourceCopy) (mPatchesFrom x) h;
          (v, h) \<leftarrow> DeepCopyInto (valuesSpecCopy X) (mValuesSpec x) h;
          Some (x\<lparr>mChart := mChart x, mWaitTimeout := w, mPatchesFrom := p, mValuesSpec := v\<rparr>, h)
        })"

definition releaseSpecCopy where
  "releaseSpecCopy X =
     methods tReleaseSpec
       (\<lambda>x h. do {
          (m, h) \<leftarrow> libInto (ManagedResourceSpec X) (mManagedResourceSpec x) h;
          (c, h) \<leftarrow> copySlice tConnectionDetail copyFlat (mConnectionDetails x) h;
          (f, h) \<leftarrow> DeepCopyInto (releaseParametersCopy X) (mForProvider x) h;
          (r, h) \<leftarrow> copyPointer tInt32 copyFlat (mRollbackRetriesLimit x) h;
          Some (x\<lparr>mManagedResourceSpec := m, mConnectionDetails := c, mForProvider := f, mRollbackRetriesLimit := r\<rparr>, h)
        })"

definition releaseStatusCopy where
  "releaseStatusCopy X =
     methods tReleaseStatus
       (\<lambda>x h. do {
          (m, h) \<leftarrow> libInto (ManagedResourceStatus X) (mManagedResourceStatus x) h;
          Some (x\<lparr>mManagedResourceStatus := m, mAtProvider := mAtProvider x\<rparr>, h)
        })"

definition releaseCopy where
  "releaseCopy X = methods tRelease (objectInto (ObjectMeta X) (DeepCopyInto (releaseSpecCopy X)) (DeepCopyInto (releaseStatusCopy X)))"

definition releaseDeepCopyObject where
  "releaseDeepCopyObject X = deepCopyObject (releaseCopy X)"

definition releaseListCopy where
  "releaseListCopy X = methods tReleaseList (listInto (ListMeta X) tRelease (DeepCopyInto (releaseCopy X)))"

definition releaseListDeepCopyObject where
  "releaseListDeepCopyObject X = deepCopyObject (releaseListCopy X)"

section \<open>Meaning\<close>

definition valueFromSourceVal where
  "valueFromSourceVal h x =
     do {
       c \<leftarrow> ptrVal tDataKeySelector flatVal h (mConfigMapKeyRef x);
       s \<leftarrow> ptrVal tDataKeySelector flatVal h (mSecretKeyRef x);
       Some \<lparr>ConfigMapKeyRef = c, SecretKeyRef = s\<rparr>
     }"

definition valueFromSourceFoot where
  "valueFromSourceFoot h x =
     ptrFoot tDataKeySelector flatFoot h (mConfigMapKeyRef x) \<union> ptrFoot tDataKeySelector flatFoot h (mSecretKeyRef x)"

definition setValVal where
  "setValVal h x =
     do {
       v \<leftarrow> ptrVal tValueFromSource valueFromSourceVal h (msvValueFrom x);
       Some \<lparr>svName = msvName x, svValue = msvValue x, svValueFrom = v\<rparr>
     }"

definition setValFoot where
  "setValFoot h x = ptrFoot tValueFromSource valueFromSourceFoot h (msvValueFrom x)"

definition valuesSpecVal where
  "valuesSpecVal X h x =
     do {
       v \<leftarrow> libVal (RawExtension X) h (mValues x);
       f \<leftarrow> sliceVal tValueFromSource valueFromSourceVal h (mValuesFrom x);
       s \<leftarrow> sliceVal tSetVal setValVal h (mSet x);
       Some \<lparr>mValues = v, mValuesFrom = f, mSet = s\<rparr>
     }"

definition valuesSpecFoot where
  "valuesSpecFoot X h x =
     libFoot (RawExtension X) h (mValues x) \<union> (sliceFoot tValueFromSource valueFromSourceFoot h (mValuesFrom x)
       \<union> sliceFoot tSetVal setValFoot h (mSet x))"

definition releaseParametersVal where
  "releaseParametersVal X h x =
     do {
       w \<leftarrow> ptrVal tDuration flatVal h (mWaitTimeout x);
       p \<leftarrow> sliceVal tValueFromSource valueFromSourceVal h (mPatchesFrom x);
       v \<leftarrow> valuesSpecVal X h (mValuesSpec x);
       Some \<lparr>mChart = mChart x, mNamespace = mNamespace x, mSkipCreateNamespace = mSkipCreateNamespace x,
         mWait = mWait x, mWaitTimeout = w, mPatchesFrom = p, mValuesSpec = v, mSkipCRDs = mSkipCRDs x,
         mInsecureSkipTLSVerify = mInsecureSkipTLSVerify x, mPlainHTTP = mPlainHTTP x,
         mTakeOwnership = mTakeOwnership x, mMaxHistory = mMaxHistory x, mSSAForceConflicts = mSSAForceConflicts x\<rparr>
     }"

definition releaseParametersFoot where
  "releaseParametersFoot X h x =
     ptrFoot tDuration flatFoot h (mWaitTimeout x) \<union> (sliceFoot tValueFromSource valueFromSourceFoot h (mPatchesFrom x)
       \<union> valuesSpecFoot X h (mValuesSpec x))"

definition releaseSpecVal where
  "releaseSpecVal X h x =
     do {
       m \<leftarrow> libVal (ManagedResourceSpec X) h (mManagedResourceSpec x);
       c \<leftarrow> sliceVal tConnectionDetail flatVal h (mConnectionDetails x);
       f \<leftarrow> releaseParametersVal X h (mForProvider x);
       r \<leftarrow> ptrVal tInt32 flatVal h (mRollbackRetriesLimit x);
       Some \<lparr>mManagedResourceSpec = m, mConnectionDetails = c, mForProvider = f, mRollbackRetriesLimit = r\<rparr>
     }"

definition releaseSpecFoot where
  "releaseSpecFoot X h x =
     libFoot (ManagedResourceSpec X) h (mManagedResourceSpec x) \<union> (sliceFoot tConnectionDetail flatFoot h (mConnectionDetails x)
       \<union> (releaseParametersFoot X h (mForProvider x) \<union> ptrFoot tInt32 flatFoot h (mRollbackRetriesLimit x)))"

definition releaseStatusVal where
  "releaseStatusVal X h x =
     do {
       m \<leftarrow> libVal (ManagedResourceStatus X) h (mManagedResourceStatus x);
       Some \<lparr>mManagedResourceStatus = m, mAtProvider = mAtProvider x, mPatchesSha = mPatchesSha x,
         mFailed = mFailed x, mSynced = mSynced x\<rparr>
     }"

definition releaseStatusFoot where
  "releaseStatusFoot X h x = libFoot (ManagedResourceStatus X) h (mManagedResourceStatus x)"

definition releaseVal where
  "releaseVal X = objectVal (ObjectMeta X) (releaseSpecVal X) (releaseStatusVal X)"

definition releaseFoot where
  "releaseFoot X = objectFoot (ObjectMeta X) (releaseSpecFoot X) (releaseStatusFoot X)"

definition releaseListVal where
  "releaseListVal X = listVal (ListMeta X) tRelease (releaseVal X)"

definition releaseListFoot where
  "releaseListFoot X = listFoot (ListMeta X) tRelease (releaseFoot X)"

section \<open>The methods are deep copies\<close>

definition deepLibs :: "('l, 'v, 'c) libStructs \<Rightarrow> bool" where
  "deepLibs X \<longleftrightarrow> deepLib (RawExtension X) \<and> deepLib (ManagedResourceSpec X) \<and> deepLib (ManagedResourceStatus X)
     \<and> deepLib (ObjectMeta X) \<and> deepLib (ListMeta X)"

lemma deep_libs:
  assumes "deepLibs X"
  shows "deep_copy (libInto (RawExtension X)) (libVal (RawExtension X)) (libFoot (RawExtension X))"
    and "deep_copy (libInto (ManagedResourceSpec X)) (libVal (ManagedResourceSpec X)) (libFoot (ManagedResourceSpec X))"
    and "deep_copy (libInto (ManagedResourceStatus X)) (libVal (ManagedResourceStatus X)) (libFoot (ManagedResourceStatus X))"
    and "deep_copy (libInto (ObjectMeta X)) (libVal (ObjectMeta X)) (libFoot (ObjectMeta X))"
    and "deep_copy (libInto (ListMeta X)) (libVal (ListMeta X)) (libFoot (ListMeta X))"
  using assms by (simp_all add: deepLibs_def deepLib_def)

lemma deep_metas:
  assumes "deepLibs X"
  shows "deepLib (ObjectMeta X)" and "deepLib (ListMeta X)"
  using assms by (simp_all add: deepLibs_def)

lemma deep_valueFromSource: "deep_copy (DeepCopyInto valueFromSourceCopy) valueFromSourceVal valueFromSourceFoot"
  by (rule deep_copy_struct [OF deep_copy_pair [OF deep_pointer [OF go_types(2) deep_copy_flat] deep_pointer [OF go_types(2) deep_copy_flat]], where get = "\<lambda>x. (mConfigMapKeyRef x, mSecretKeyRef x)"
        and put = "\<lambda>(c, s) x. x\<lparr>mConfigMapKeyRef := c, mSecretKeyRef := s\<rparr>"
        and mk = "\<lambda>x (c, s). \<lparr>ConfigMapKeyRef = c, SecretKeyRef = s\<rparr>"])
    (auto simp: valueFromSourceCopy_def valueFromSourceVal_def valueFromSourceFoot_def pair_defs split: Option.bind_split)

lemma deep_setVal: "deep_copy (DeepCopyInto setValCopy) setValVal setValFoot"
  by (rule deep_copy_struct [OF deep_pointer [OF go_types(3) deep_valueFromSource], where get = msvValueFrom and put = "\<lambda>v x. x\<lparr>msvValueFrom := v\<rparr>"
        and mk = "\<lambda>x v. \<lparr>svName = msvName x, svValue = msvValue x, svValueFrom = v\<rparr>"])
    (auto simp: setValCopy_def setValVal_def setValFoot_def pair_defs split: Option.bind_split)

lemma deep_valuesSpec:
  assumes "deepLibs X"
  shows "deep_copy (DeepCopyInto (valuesSpecCopy X)) (valuesSpecVal X) (valuesSpecFoot X)"
  by (rule deep_copy_struct [OF deep_copy_pair [OF deep_libs(1) [OF assms] deep_copy_pair [OF deep_slice [OF go_types(3) deep_valueFromSource] deep_slice [OF go_types(4) deep_setVal]]], where get = "\<lambda>x. (mValues x, mValuesFrom x, mSet x)"
        and put = "\<lambda>(v, f, s) x. x\<lparr>mValues := v, mValuesFrom := f, mSet := s\<rparr>"
        and mk = "\<lambda>x (v, f, s). \<lparr>mValues = v, mValuesFrom = f, mSet = s\<rparr>"])
    (auto simp: valuesSpecCopy_def valuesSpecVal_def valuesSpecFoot_def pair_defs split: Option.bind_split)

lemma deep_releaseParameters:
  assumes "deepLibs X"
  shows "deep_copy (DeepCopyInto (releaseParametersCopy X)) (releaseParametersVal X) (releaseParametersFoot X)"
  by (rule deep_copy_struct [OF deep_copy_pair [OF deep_pointer [OF go_types(14) deep_copy_flat] deep_copy_pair [OF deep_slice [OF go_types(3) deep_valueFromSource] deep_valuesSpec [OF assms]]], where get = "\<lambda>x. (mWaitTimeout x, mPatchesFrom x, mValuesSpec x)"
        and put = "\<lambda>(w, p, v) x. x\<lparr>mWaitTimeout := w, mPatchesFrom := p, mValuesSpec := v\<rparr>"
        and mk = "\<lambda>x (w, p, v). \<lparr>mChart = mChart x, mNamespace = mNamespace x, mSkipCreateNamespace = mSkipCreateNamespace x,
          mWait = mWait x, mWaitTimeout = w, mPatchesFrom = p, mValuesSpec = v, mSkipCRDs = mSkipCRDs x,
          mInsecureSkipTLSVerify = mInsecureSkipTLSVerify x, mPlainHTTP = mPlainHTTP x,
          mTakeOwnership = mTakeOwnership x, mMaxHistory = mMaxHistory x, mSSAForceConflicts = mSSAForceConflicts x\<rparr>"])
    (auto simp: releaseParametersCopy_def releaseParametersVal_def releaseParametersFoot_def pair_defs split: Option.bind_split)

lemma deep_releaseSpec:
  assumes "deepLibs X"
  shows "deep_copy (DeepCopyInto (releaseSpecCopy X)) (releaseSpecVal X) (releaseSpecFoot X)"
  by (rule deep_copy_struct [OF deep_copy_pair [OF deep_libs(2) [OF assms] deep_copy_pair [OF deep_slice [OF go_types(9) deep_copy_flat] deep_copy_pair [OF deep_releaseParameters [OF assms] deep_pointer [OF go_types(15) deep_copy_flat]]]], where get = "\<lambda>x. (mManagedResourceSpec x, mConnectionDetails x, mForProvider x, mRollbackRetriesLimit x)"
        and put = "\<lambda>(m, c, f, r) x. x\<lparr>mManagedResourceSpec := m, mConnectionDetails := c, mForProvider := f, mRollbackRetriesLimit := r\<rparr>"
        and mk = "\<lambda>x (m, c, f, r). \<lparr>mManagedResourceSpec = m, mConnectionDetails = c, mForProvider = f, mRollbackRetriesLimit = r\<rparr>"])
    (auto simp: releaseSpecCopy_def releaseSpecVal_def releaseSpecFoot_def pair_defs split: Option.bind_split)

lemma deep_releaseStatus:
  assumes "deepLibs X"
  shows "deep_copy (DeepCopyInto (releaseStatusCopy X)) (releaseStatusVal X) (releaseStatusFoot X)"
  by (rule deep_copy_struct [OF deep_libs(3) [OF assms], where get = mManagedResourceStatus and put = "\<lambda>m x. x\<lparr>mManagedResourceStatus := m\<rparr>"
        and mk = "\<lambda>x m. \<lparr>mManagedResourceStatus = m, mAtProvider = mAtProvider x, mPatchesSha = mPatchesSha x,
          mFailed = mFailed x, mSynced = mSynced x\<rparr>"])
    (auto simp: releaseStatusCopy_def releaseStatusVal_def releaseStatusFoot_def pair_defs split: Option.bind_split)

lemma releaseCopy_generated: "generated tRelease (releaseCopy X)"
  and releaseListCopy_generated: "generated tReleaseList (releaseListCopy X)"
  by (simp_all add: releaseCopy_def releaseListCopy_def generated_methods)

lemma deep_release:
  assumes "deepLibs X"
  shows "deep_copy (DeepCopyInto (releaseCopy X)) (releaseVal X) (releaseFoot X)"
  using deep_objectInto [OF deep_metas(1) [OF assms] deep_releaseSpec [OF assms] deep_releaseStatus [OF assms]]
  by (simp add: releaseCopy_def releaseVal_def releaseFoot_def methods_def)

lemma deep_releaseList:
  assumes "deepLibs X"
  shows "deep_copy (DeepCopyInto (releaseListCopy X)) (releaseListVal X) (releaseListFoot X)"
  using deep_listInto [OF deep_metas(2) [OF assms] go_types(12) deep_release [OF assms]]
  by (simp add: releaseListCopy_def releaseListVal_def releaseListFoot_def methods_def)

interpretation release_cells: go_type tRelease
  by (rule go_types(12))

interpretation value_sources: deep_copy "DeepCopyInto valueFromSourceCopy" valueFromSourceVal valueFromSourceFoot
  by (rule deep_valueFromSource)

interpretation set_values: deep_copy_cells tSetVal "DeepCopyInto setValCopy" setValVal setValFoot
  by (intro deep_copy_cells.intro go_types(4) deep_setVal)

end
