(* ===== verification/Release_Packages.thy ===== *)
theory Release_Packages
  imports Release_Memory
begin

text \<open>
  The generated methods of the other two packages of releases, \<open>apis/namespaced/release/v1beta1\<close> and
  \<open>apis/cluster/release/v1alpha1\<close>. A method whose text is that of \<open>apis/cluster/release/v1beta1\<close> is the
  same definition at the types of the package; the others have their own.
\<close>

section \<open>The namespaced package\<close>

type_synonym ('l, 'm) nsCell = "(NsDataKeySelector, LocalSecretReference, 'l, 'm) betaCell"
type_synonym 'l nsParametersObj = "(NsChartSpec, 'l) parametersObj"
type_synonym 'l nsSpecObj = "(NsChartSpec, 'l) specObj"
type_synonym 'l nsReleaseObj = "('l nsSpecObj, ReleaseObservation, 'l) releaseObj"
type_synonym 'l nsReleaseStatusObj = "('l, ReleaseObservation) mReleaseStatus"
type_synonym 'l nsReleaseListObj = "'l listObj"
type_synonym nsReleaseObservation = ReleaseObservation
type_synonym nsConnectionDetail = ConnectionDetail
type_synonym ('l, 'v, 'm) nsLibs = "('l, 'v, ('l, 'm) nsCell) libStructs"

definition nsDataKeySelectorCopy :: "(NsDataKeySelector, ('l, 'm) nsCell) methods" where
  "nsDataKeySelectorCopy = methods tDataKeySelector copyFlat"

definition nsChartSpecCopy :: "(NsChartSpec, ('l, 'm) nsCell) methods" where
  "nsChartSpecCopy = chartSpecCopy"

definition nsConnectionDetailCopy :: "(nsConnectionDetail, ('l, 'm) nsCell) methods" where
  "nsConnectionDetailCopy = connectionDetailCopy"

definition nsReleaseObservationCopy :: "(nsReleaseObservation, ('l, 'm) nsCell) methods" where
  "nsReleaseObservationCopy = releaseObservationCopy"

definition nsValueFromSourceCopy :: "(mValueFromSource, ('l, 'm) nsCell) methods" where
  "nsValueFromSourceCopy = valueFromSourceCopy"

definition nsSetValCopy :: "(mSetVal, ('l, 'm) nsCell) methods" where
  "nsSetValCopy = setValCopy"

definition nsValuesSpecCopy :: "('l, 'v, 'm) nsLibs \<Rightarrow> ('l valuesSpecObj, ('l, 'm) nsCell) methods" where
  "nsValuesSpecCopy = valuesSpecCopy"

definition nsReleaseParametersCopy :: "('l, 'v, 'm) nsLibs \<Rightarrow> ('l nsParametersObj, ('l, 'm) nsCell) methods" where
  "nsReleaseParametersCopy = releaseParametersCopy"

definition nsReleaseSpecCopy :: "('l, 'v, 'm) nsLibs \<Rightarrow> ('l nsSpecObj, ('l, 'm) nsCell) methods" where
  "nsReleaseSpecCopy = releaseSpecCopy"

definition nsReleaseStatusCopy :: "('l, 'v, 'm) nsLibs \<Rightarrow> ('l nsReleaseStatusObj, ('l, 'm) nsCell) methods" where
  "nsReleaseStatusCopy = releaseStatusCopy"

definition nsReleaseCopy :: "('l, 'v, 'm) nsLibs \<Rightarrow> ('l nsReleaseObj, ('l, 'm) nsCell) methods" where
  "nsReleaseCopy = releaseCopy"

definition nsReleaseListCopy :: "('l, 'v, 'm) nsLibs \<Rightarrow> ('l nsReleaseListObj, ('l, 'm) nsCell) methods" where
  "nsReleaseListCopy = releaseListCopy"

definition nsReleaseDeepCopyObject where
  "nsReleaseDeepCopyObject X = deepCopyObject (nsReleaseCopy X)"

definition nsReleaseListDeepCopyObject where
  "nsReleaseListDeepCopyObject X = deepCopyObject (nsReleaseListCopy X)"

definition nsGetItems :: "'l nsReleaseListObj \<Rightarrow> pointer list" where
  "nsGetItems = getItems"

section \<open>The package v1alpha1\<close>

record alphaChartSpec =
  acsRepository :: string
  acsName :: string
  acsVersion :: string
  acsPullSecretRef :: SecretReference

record ('pf, 'vs) alphaReleaseParameters =
  apChart :: alphaChartSpec
  apNamespace :: string
  apWait :: bool
  apPatchesFrom :: 'pf
  apValuesSpec :: 'vs

record alphaReleaseObservation =
  aoState :: Status
  aoReleaseDescription :: string
  aoRevision :: int

record ('mrs, 'fp, 'lim) alphaReleaseSpec =
  asManagedResourceSpec :: 'mrs
  asForProvider :: 'fp
  asRollbackRetriesLimit :: 'lim

type_synonym 'l alphaParametersObj = "(slice option, 'l valuesSpecObj) alphaReleaseParameters"
type_synonym 'l alphaSpecObj = "('l, 'l alphaParametersObj, pointer option) alphaReleaseSpec"
type_synonym ('l, 'm) alphaCell =
  "(DataKeySelector, alphaChartSpec, alphaReleaseObservation, 'l alphaParametersObj, 'l alphaSpecObj, 'l, 'm) cell"
type_synonym 'l alphaReleaseObj = "('l alphaSpecObj, alphaReleaseObservation, 'l) releaseObj"
type_synonym alphaNamespacedName = NamespacedName
type_synonym alphaDataKeySelector = DataKeySelector
type_synonym alphaValueFromSourceObj = mValueFromSource
type_synonym alphaSetValObj = mSetVal
type_synonym 'l alphaValuesSpecObj = "'l valuesSpecObj"
type_synonym 'l alphaReleaseStatusObj = "('l, alphaReleaseObservation) mReleaseStatus"
type_synonym 'l alphaReleaseListObj = "'l listObj"
type_synonym ('l, 'v, 'm) alphaLibs = "('l, 'v, ('l, 'm) alphaCell) libStructs"
type_synonym 'v alphaParametersValue =
  "(DataKeySelector ValueFromSource list option, (DataKeySelector, 'v) valuesSpecValue) alphaReleaseParameters"
type_synonym 'v alphaSpecValue = "('v, 'v alphaParametersValue, 32 word option) alphaReleaseSpec"

definition alphaChartSpecCopy :: "(alphaChartSpec, ('l, 'm) alphaCell) methods" where
  "alphaChartSpecCopy = methods tChartSpec (\<lambda>x h. Some (x\<lparr>acsPullSecretRef := acsPullSecretRef x\<rparr>, h))"

definition alphaReleaseParametersCopy ::
  "('l, 'v, 'm) alphaLibs \<Rightarrow> ('l alphaParametersObj, ('l, 'm) alphaCell) methods" where
  "alphaReleaseParametersCopy X =
     methods tReleaseParameters
       (\<lambda>x h. do {
          (p, h) \<leftarrow> copySlice tValueFromSource (DeepCopyInto valueFromSourceCopy) (apPatchesFrom x) h;
          (v, h) \<leftarrow> DeepCopyInto (valuesSpecCopy X) (apValuesSpec x) h;
          Some (x\<lparr>apChart := apChart x, apPatchesFrom := p, apValuesSpec := v\<rparr>, h)
        })"

definition alphaReleaseSpecCopy ::
  "('l, 'v, 'm) alphaLibs \<Rightarrow> ('l alphaSpecObj, ('l, 'm) alphaCell) methods" where
  "alphaReleaseSpecCopy X =
     methods tReleaseSpec
       (\<lambda>x h. do {
          (m, h) \<leftarrow> libInto (ManagedResourceSpec X) (asManagedResourceSpec x) h;
          (f, h) \<leftarrow> DeepCopyInto (alphaReleaseParametersCopy X) (asForProvider x) h;
          (r, h) \<leftarrow> copyPointer tInt32 copyFlat (asRollbackRetriesLimit x) h;
          Some (x\<lparr>asManagedResourceSpec := m, asForProvider := f, asRollbackRetriesLimit := r\<rparr>, h)
        })"

definition alphaDataKeySelectorCopy :: "(alphaDataKeySelector, ('l, 'm) alphaCell) methods" where
  "alphaDataKeySelectorCopy = dataKeySelectorCopy"

definition alphaNamespacedNameCopy :: "(alphaNamespacedName, ('l, 'm) alphaCell) methods" where
  "alphaNamespacedNameCopy = namespacedNameCopy"

definition alphaReleaseObservationCopy :: "(alphaReleaseObservation, ('l, 'm) alphaCell) methods" where
  "alphaReleaseObservationCopy = releaseObservationCopy"

definition alphaValueFromSourceCopy :: "(alphaValueFromSourceObj, ('l, 'm) alphaCell) methods" where
  "alphaValueFromSourceCopy = valueFromSourceCopy"

definition alphaSetValCopy :: "(alphaSetValObj, ('l, 'm) alphaCell) methods" where
  "alphaSetValCopy = setValCopy"

definition alphaValuesSpecCopy :: "('l, 'v, 'm) alphaLibs \<Rightarrow> ('l alphaValuesSpecObj, ('l, 'm) alphaCell) methods" where
  "alphaValuesSpecCopy = valuesSpecCopy"

definition alphaReleaseStatusCopy :: "('l, 'v, 'm) alphaLibs \<Rightarrow> ('l alphaReleaseStatusObj, ('l, 'm) alphaCell) methods" where
  "alphaReleaseStatusCopy = releaseStatusCopy"

definition alphaReleaseCopy :: "('l, 'v, 'm) alphaLibs \<Rightarrow> ('l alphaReleaseObj, ('l, 'm) alphaCell) methods" where
  "alphaReleaseCopy X = methods tRelease (objectInto (ObjectMeta X) (DeepCopyInto (alphaReleaseSpecCopy X)) (DeepCopyInto (alphaReleaseStatusCopy X)))"

definition alphaReleaseListCopy :: "('l, 'v, 'm) alphaLibs \<Rightarrow> ('l alphaReleaseListObj, ('l, 'm) alphaCell) methods" where
  "alphaReleaseListCopy X = methods tReleaseList (listInto (ListMeta X) tRelease (DeepCopyInto (alphaReleaseCopy X)))"

definition alphaReleaseDeepCopyObject where
  "alphaReleaseDeepCopyObject X = deepCopyObject (alphaReleaseCopy X)"

definition alphaReleaseListDeepCopyObject where
  "alphaReleaseListDeepCopyObject X = deepCopyObject (alphaReleaseListCopy X)"

definition alphaGetItems :: "'l alphaReleaseListObj \<Rightarrow> pointer list" where
  "alphaGetItems = getItems"

definition alphaReleaseParametersVal ::
  "('l, 'v, 'm) alphaLibs \<Rightarrow> ('l alphaParametersObj, 'v alphaParametersValue, ('l, 'm) alphaCell) valuation" where
  "alphaReleaseParametersVal X h x =
     do {
       p \<leftarrow> sliceVal tValueFromSource valueFromSourceVal h (apPatchesFrom x);
       v \<leftarrow> valuesSpecVal X h (apValuesSpec x);
       Some \<lparr>apChart = apChart x, apNamespace = apNamespace x, apWait = apWait x, apPatchesFrom = p, apValuesSpec = v\<rparr>
     }"

definition alphaReleaseParametersFoot ::
  "('l, 'v, 'm) alphaLibs \<Rightarrow> ('l alphaParametersObj, ('l, 'm) alphaCell) footprint" where
  "alphaReleaseParametersFoot X h x =
     sliceFoot tValueFromSource valueFromSourceFoot h (apPatchesFrom x) \<union> valuesSpecFoot X h (apValuesSpec x)"

definition alphaReleaseSpecVal ::
  "('l, 'v, 'm) alphaLibs \<Rightarrow> ('l alphaSpecObj, 'v alphaSpecValue, ('l, 'm) alphaCell) valuation" where
  "alphaReleaseSpecVal X h x =
     do {
       m \<leftarrow> libVal (ManagedResourceSpec X) h (asManagedResourceSpec x);
       f \<leftarrow> alphaReleaseParametersVal X h (asForProvider x);
       r \<leftarrow> ptrVal tInt32 flatVal h (asRollbackRetriesLimit x);
       Some \<lparr>asManagedResourceSpec = m, asForProvider = f, asRollbackRetriesLimit = r\<rparr>
     }"

definition alphaReleaseSpecFoot :: "('l, 'v, 'm) alphaLibs \<Rightarrow> ('l alphaSpecObj, ('l, 'm) alphaCell) footprint" where
  "alphaReleaseSpecFoot X h x =
     libFoot (ManagedResourceSpec X) h (asManagedResourceSpec x) \<union> (alphaReleaseParametersFoot X h (asForProvider x)
       \<union> ptrFoot tInt32 flatFoot h (asRollbackRetriesLimit x))"

lemma deep_alphaReleaseParameters:
  assumes "deepLibs X"
  shows "deep_copy (DeepCopyInto (alphaReleaseParametersCopy X)) (alphaReleaseParametersVal X) (alphaReleaseParametersFoot X)"
  by (rule deep_copy_struct [OF deep_copy_pair [OF deep_slice [OF go_types(3) deep_valueFromSource] deep_valuesSpec [OF assms]],
        where get = "\<lambda>x. (apPatchesFrom x, apValuesSpec x)"
        and put = "\<lambda>(p, v) x. x\<lparr>apPatchesFrom := p, apValuesSpec := v\<rparr>"
        and mk = "\<lambda>x (p, v). \<lparr>apChart = apChart x, apNamespace = apNamespace x, apWait = apWait x,
          apPatchesFrom = p, apValuesSpec = v\<rparr>"])
    (auto simp: alphaReleaseParametersCopy_def alphaReleaseParametersVal_def alphaReleaseParametersFoot_def pair_defs
      split: Option.bind_split)

lemma deep_alphaReleaseSpec:
  assumes "deepLibs X"
  shows "deep_copy (DeepCopyInto (alphaReleaseSpecCopy X)) (alphaReleaseSpecVal X) (alphaReleaseSpecFoot X)"
  by (rule deep_copy_struct [OF deep_copy_pair [OF deep_libs(2) [OF assms]
          deep_copy_pair [OF deep_alphaReleaseParameters [OF assms] deep_pointer [OF go_types(15) deep_copy_flat]]],
        where get = "\<lambda>x. (asManagedResourceSpec x, asForProvider x, asRollbackRetriesLimit x)"
        and put = "\<lambda>(m, f, r) x. x\<lparr>asManagedResourceSpec := m, asForProvider := f, asRollbackRetriesLimit := r\<rparr>"
        and mk = "\<lambda>x (m, f, r). \<lparr>asManagedResourceSpec = m, asForProvider = f, asRollbackRetriesLimit = r\<rparr>"])
    (auto simp: alphaReleaseSpecCopy_def alphaReleaseSpecVal_def alphaReleaseSpecFoot_def pair_defs split: Option.bind_split)

definition alphaReleaseVal ::
  "('l, 'v, 'm) alphaLibs \<Rightarrow> ('l alphaReleaseObj, ('v alphaSpecValue, alphaReleaseObservation, 'v) releaseValue, ('l, 'm) alphaCell) valuation"
where
  "alphaReleaseVal X = objectVal (ObjectMeta X) (alphaReleaseSpecVal X) (releaseStatusVal X)"

definition alphaReleaseFoot where
  "alphaReleaseFoot X = objectFoot (ObjectMeta X) (alphaReleaseSpecFoot X) (releaseStatusFoot X)"

lemma deep_alphaRelease:
  assumes "deepLibs X"
  shows "deep_copy (DeepCopyInto (alphaReleaseCopy X)) (alphaReleaseVal X) (alphaReleaseFoot X)"
  using deep_objectInto [OF deep_metas(1) [OF assms] deep_alphaReleaseSpec [OF assms] deep_releaseStatus [OF assms]]
  by (simp add: alphaReleaseCopy_def alphaReleaseStatusCopy_def alphaReleaseVal_def alphaReleaseFoot_def methods_def)

lemma deep_alphaReleaseList:
  assumes "deepLibs X"
  shows "deep_copy (DeepCopyInto (alphaReleaseListCopy X)) (listVal (ListMeta X) tRelease (alphaReleaseVal X))
    (listFoot (ListMeta X) tRelease (alphaReleaseFoot X))"
  using deep_listInto [OF deep_metas(2) [OF assms] go_types(12) deep_alphaRelease [OF assms]]
  by (simp add: alphaReleaseListCopy_def methods_def)

end
