(* ===== verification/Config_Memory.thy ===== *)
theory Config_Memory
  imports Object_Memory
begin

text \<open>
  Provider configs and their usages as Go objects in memory, and their generated methods
  (\<open>zz_generated.deepcopy.go\<close> and \<open>zz_generated.pculist.go\<close> of \<open>apis/cluster/v1alpha1\<close>, \<open>apis/cluster/v1beta1\<close>
  and \<open>apis/namespaced/v1beta1\<close>).
\<close>

section \<open>Objects\<close>

text \<open>The structs of the libraries; \<open>KConfigSpec\<close> is \<open>kconfig.ProviderConfigSpec\<close> of provider-kubernetes.\<close>

record ('l, 'v, 'c) configLibs =
  CredentialSelectors :: "('l, 'v, 'c) libStruct"
  KConfigSpec :: "('l, 'v, 'c) libStruct"
  ConfigStatus :: "('l, 'v, 'c) libStruct"
  ConfigUsage :: "('l, 'v, 'c) libStruct"
  ConfigMeta :: "('l, 'v, 'c) libStruct"
  ConfigListMeta :: "('l, 'v, 'c) libStruct"

definition deepConfigLibs :: "('l, 'v, 'c) configLibs \<Rightarrow> bool" where
  "deepConfigLibs X \<longleftrightarrow> deepLib (CredentialSelectors X) \<and> deepLib (KConfigSpec X) \<and> deepLib (ConfigStatus X)
     \<and> deepLib (ConfigUsage X) \<and> deepLib (ConfigMeta X) \<and> deepLib (ConfigListMeta X)"

lemma deep_config_libs:
  assumes "deepConfigLibs X"
  shows "deep_copy (libInto (CredentialSelectors X)) (libVal (CredentialSelectors X)) (libFoot (CredentialSelectors X))"
    and "deep_copy (libInto (KConfigSpec X)) (libVal (KConfigSpec X)) (libFoot (KConfigSpec X))"
    and "deep_copy (libInto (ConfigStatus X)) (libVal (ConfigStatus X)) (libFoot (ConfigStatus X))"
    and "deep_copy (libInto (ConfigUsage X)) (libVal (ConfigUsage X)) (libFoot (ConfigUsage X))"
    and "deepLib (ConfigMeta X)" and "deepLib (ConfigListMeta X)"
  using assms by (simp_all add: deepConfigLibs_def deepLib_def)

record 'sel mProviderCredentials =
  mSource :: string
  mSelectors :: 'sel

record 'cr mIdentity =
  mIdentityType :: string
  mIdentityCredentials :: 'cr

record ('cr, 'id) mProviderConfigSpec =
  mCredentials :: 'cr
  mIdentityRef :: 'id

record 'st mProviderConfigStatus =
  mConfigStatus :: 'st

record ('om, 'u) mProviderConfigUsage =
  muTypeMeta :: TypeMeta
  muObjectMeta :: 'om
  muUsage :: 'u

text \<open>
  The specs \<open>'spec\<close> and the embedded usages \<open>'u\<close> differ: the spec of \<open>v1alpha1\<close> has its own type,
  that of \<open>v1beta1\<close> is \<open>KConfigSpec\<close>; the usage of the namespaced package has no pointers.
\<close>

datatype ('spec, 'u, 'l, 'm) configCell =
    CCredentials "'l mProviderCredentials"
  | CIdentity "'l mProviderCredentials mIdentity"
  | CConfigSpec 'spec
  | CConfigStatus "'l mProviderConfigStatus"
  | CConfig "('l, 'spec, 'l mProviderConfigStatus) mObject"
  | CConfigList "'l listObj"
  | CClusterConfig "('l, 'spec, 'l mProviderConfigStatus) mObject"
  | CClusterConfigList "'l listObj"
  | CUsage "('l, 'u) mProviderConfigUsage"
  | CUsageList "'l listObj"
  | CConfigLib 'm

definition tCredentials where
  "tCredentials = \<lparr>gtInj = CCredentials, gtPrj = (\<lambda>c. case c of CCredentials x \<Rightarrow> Some x | _ \<Rightarrow> None)\<rparr>"
definition tIdentity where
  "tIdentity = \<lparr>gtInj = CIdentity, gtPrj = (\<lambda>c. case c of CIdentity x \<Rightarrow> Some x | _ \<Rightarrow> None)\<rparr>"
definition tConfigSpec where
  "tConfigSpec = \<lparr>gtInj = CConfigSpec, gtPrj = (\<lambda>c. case c of CConfigSpec x \<Rightarrow> Some x | _ \<Rightarrow> None)\<rparr>"
definition tConfigStatus where
  "tConfigStatus = \<lparr>gtInj = CConfigStatus, gtPrj = (\<lambda>c. case c of CConfigStatus x \<Rightarrow> Some x | _ \<Rightarrow> None)\<rparr>"
definition tConfig where
  "tConfig = \<lparr>gtInj = CConfig, gtPrj = (\<lambda>c. case c of CConfig x \<Rightarrow> Some x | _ \<Rightarrow> None)\<rparr>"
definition tConfigList where
  "tConfigList = \<lparr>gtInj = CConfigList, gtPrj = (\<lambda>c. case c of CConfigList x \<Rightarrow> Some x | _ \<Rightarrow> None)\<rparr>"
definition tClusterConfig where
  "tClusterConfig = \<lparr>gtInj = CClusterConfig, gtPrj = (\<lambda>c. case c of CClusterConfig x \<Rightarrow> Some x | _ \<Rightarrow> None)\<rparr>"
definition tClusterConfigList where
  "tClusterConfigList = \<lparr>gtInj = CClusterConfigList, gtPrj = (\<lambda>c. case c of CClusterConfigList x \<Rightarrow> Some x | _ \<Rightarrow> None)\<rparr>"
definition tUsage where
  "tUsage = \<lparr>gtInj = CUsage, gtPrj = (\<lambda>c. case c of CUsage x \<Rightarrow> Some x | _ \<Rightarrow> None)\<rparr>"
definition tUsageList where
  "tUsageList = \<lparr>gtInj = CUsageList, gtPrj = (\<lambda>c. case c of CUsageList x \<Rightarrow> Some x | _ \<Rightarrow> None)\<rparr>"
definition tConfigLib where
  "tConfigLib = \<lparr>gtInj = CConfigLib, gtPrj = (\<lambda>c. case c of CConfigLib x \<Rightarrow> Some x | _ \<Rightarrow> None)\<rparr>"

lemma config_types:
  "go_type tCredentials" "go_type tIdentity" "go_type tConfigSpec" "go_type tConfigStatus" "go_type tConfig" "go_type tConfigList" "go_type tClusterConfig" "go_type tClusterConfigList" "go_type tUsage" "go_type tUsageList" "go_type tConfigLib"
  by (unfold_locales, simp add: tCredentials_def tIdentity_def tConfigSpec_def tConfigStatus_def tConfig_def tConfigList_def tClusterConfig_def tClusterConfigList_def tUsage_def tUsageList_def tConfigLib_def)+

type_synonym 'l alphaConfigSpecObj = "('l mProviderCredentials, pointer option) mProviderConfigSpec"
type_synonym 'v alphaConfigSpecValue = "('v mProviderCredentials, 'v mProviderCredentials mIdentity option) mProviderConfigSpec"
type_synonym ('l, 'm) alphaConfigCell = "('l alphaConfigSpecObj, 'l, 'l, 'm) configCell"
type_synonym ('l, 'v, 'm) alphaConfigLibs = "('l, 'v, ('l, 'm) alphaConfigCell) configLibs"
type_synonym ('l, 'm) betaConfigCell = "('l, 'l, 'l, 'm) configCell"
type_synonym ('l, 'v, 'm) betaConfigLibs = "('l, 'v, ('l, 'm) betaConfigCell) configLibs"
type_synonym ('u, 'l, 'm) nsConfigCell = "('l, 'u, 'l, 'm) configCell"
type_synonym ('u, 'l, 'v, 'm) nsConfigLibs = "('l, 'v, ('u, 'l, 'm) nsConfigCell) configLibs"

text \<open>The types of the packages.\<close>

type_synonym 'l alphaProviderConfigObj = "('l, 'l alphaConfigSpecObj, 'l mProviderConfigStatus) mObject"
type_synonym 'l alphaProviderConfigListObj = "'l listObj"
type_synonym 'l alphaUsageObj = "('l, 'l) mProviderConfigUsage"
type_synonym 'l alphaUsageListObj = "'l listObj"

type_synonym 'l betaProviderConfigStatusObj = "'l mProviderConfigStatus"
type_synonym 'l betaProviderConfigObj = "('l, 'l, 'l betaProviderConfigStatusObj) mObject"
type_synonym 'l betaProviderConfigListObj = "'l listObj"
type_synonym 'l betaUsageObj = "('l, 'l) mProviderConfigUsage"
type_synonym 'l betaUsageListObj = "'l listObj"

type_synonym 'l nsProviderConfigStatusObj = "'l mProviderConfigStatus"
type_synonym 'l nsProviderConfigObj = "('l, 'l, 'l nsProviderConfigStatusObj) mObject"
type_synonym 'l nsProviderConfigListObj = "'l listObj"
type_synonym ('u, 'l) nsUsageObj = "('l, 'u) mProviderConfigUsage"
type_synonym 'l nsUsageListObj = "'l listObj"
type_synonym 'l clusterProviderConfigObj = "('l, 'l, 'l nsProviderConfigStatusObj) mObject"
type_synonym 'l clusterProviderConfigListObj = "'l listObj"

section \<open>The package v1alpha1\<close>

definition providerCredentialsCopy where
  "providerCredentialsCopy X =
     methods tCredentials
       (\<lambda>x h. do {
          (s, h) \<leftarrow> libInto (CredentialSelectors X) (mSelectors x) h;
          Some (x\<lparr>mSelectors := s\<rparr>, h)
        })"

definition identityCopy where
  "identityCopy X =
     methods tIdentity
       (\<lambda>x h. do {
          (c, h) \<leftarrow> DeepCopyInto (providerCredentialsCopy X) (mIdentityCredentials x) h;
          Some (x\<lparr>mIdentityCredentials := c\<rparr>, h)
        })"

definition providerConfigSpecCopy ::
  "('l, 'v, 'm) alphaConfigLibs \<Rightarrow> ('l alphaConfigSpecObj, ('l, 'm) alphaConfigCell) methods" where
  "providerConfigSpecCopy X =
     methods tConfigSpec
       (\<lambda>x h. do {
          (c, h) \<leftarrow> DeepCopyInto (providerCredentialsCopy X) (mCredentials x) h;
          (i, h) \<leftarrow> copyPointer tIdentity (DeepCopyInto (identityCopy X)) (mIdentityRef x) h;
          Some (x\<lparr>mCredentials := c, mIdentityRef := i\<rparr>, h)
        })"

text \<open>The status and the usage have the same text in the packages \<open>v1alpha1\<close> and \<open>v1beta1\<close>.\<close>

definition providerConfigStatusCopy where
  "providerConfigStatusCopy X =
     methods tConfigStatus
       (\<lambda>x h. do {
          (s, h) \<leftarrow> libInto (ConfigStatus X) (mConfigStatus x) h;
          Some (x\<lparr>mConfigStatus := s\<rparr>, h)
        })"

definition providerConfigUsageCopy where
  "providerConfigUsageCopy X =
     methods tUsage
       (\<lambda>x h. do {
          (m, h) \<leftarrow> libInto (ConfigMeta X) (muObjectMeta x) h;
          (u, h) \<leftarrow> libInto (ConfigUsage X) (muUsage x) h;
          Some (x\<lparr>muTypeMeta := muTypeMeta x, muObjectMeta := m, muUsage := u\<rparr>, h)
        })"

definition providerConfigUsageListCopy where
  "providerConfigUsageListCopy X =
     methods tUsageList (listInto (ConfigListMeta X) tUsage (DeepCopyInto (providerConfigUsageCopy X)))"

definition providerConfigUsageDeepCopyObject where
  "providerConfigUsageDeepCopyObject X = deepCopyObject (providerConfigUsageCopy X)"

definition providerConfigUsageListDeepCopyObject where
  "providerConfigUsageListDeepCopyObject X = deepCopyObject (providerConfigUsageListCopy X)"

definition usageGetItems :: "'l alphaUsageListObj \<Rightarrow> pointer list" where
  "usageGetItems = getItems"

definition alphaProviderConfigCopy ::
  "('l, 'v, 'm) alphaConfigLibs \<Rightarrow> ('l alphaProviderConfigObj, ('l, 'm) alphaConfigCell) methods"
where
  "alphaProviderConfigCopy X =
     methods tConfig (objectInto (ConfigMeta X) (DeepCopyInto (providerConfigSpecCopy X)) (DeepCopyInto (providerConfigStatusCopy X)))"

definition alphaProviderConfigListCopy ::
  "('l, 'v, 'm) alphaConfigLibs \<Rightarrow> ('l alphaProviderConfigListObj, ('l, 'm) alphaConfigCell) methods" where
  "alphaProviderConfigListCopy X =
     methods tConfigList (listInto (ConfigListMeta X) tConfig (DeepCopyInto (alphaProviderConfigCopy X)))"

definition alphaProviderConfigDeepCopyObject where
  "alphaProviderConfigDeepCopyObject X = deepCopyObject (alphaProviderConfigCopy X)"

definition alphaProviderConfigListDeepCopyObject where
  "alphaProviderConfigListDeepCopyObject X = deepCopyObject (alphaProviderConfigListCopy X)"

section \<open>The package v1beta1\<close>

definition providerConfigCopy ::
  "('l, 'v, ('l, 'u, 'l, 'm) configCell) configLibs \<Rightarrow> ('l betaProviderConfigObj, ('l, 'u, 'l, 'm) configCell) methods" where
  "providerConfigCopy X =
     methods tConfig (objectInto (ConfigMeta X) (libInto (KConfigSpec X)) (DeepCopyInto (providerConfigStatusCopy X)))"

definition providerConfigListCopy ::
  "('l, 'v, ('l, 'u, 'l, 'm) configCell) configLibs \<Rightarrow> ('l betaProviderConfigListObj, ('l, 'u, 'l, 'm) configCell) methods" where
  "providerConfigListCopy X =
     methods tConfigList (listInto (ConfigListMeta X) tConfig (DeepCopyInto (providerConfigCopy X)))"

definition providerConfigDeepCopyObject where
  "providerConfigDeepCopyObject X = deepCopyObject (providerConfigCopy X)"

definition providerConfigListDeepCopyObject where
  "providerConfigListDeepCopyObject X = deepCopyObject (providerConfigListCopy X)"

definition betaProviderConfigStatusCopy :: "('l, 'v, 'm) betaConfigLibs \<Rightarrow> ('l betaProviderConfigStatusObj, ('l, 'm) betaConfigCell) methods" where
  "betaProviderConfigStatusCopy = providerConfigStatusCopy"

definition betaProviderConfigUsageCopy :: "('l, 'v, 'm) betaConfigLibs \<Rightarrow> ('l betaUsageObj, ('l, 'm) betaConfigCell) methods" where
  "betaProviderConfigUsageCopy = providerConfigUsageCopy"

definition betaProviderConfigUsageListCopy :: "('l, 'v, 'm) betaConfigLibs \<Rightarrow> ('l betaUsageListObj, ('l, 'm) betaConfigCell) methods" where
  "betaProviderConfigUsageListCopy = providerConfigUsageListCopy"

definition betaProviderConfigUsageDeepCopyObject where
  "betaProviderConfigUsageDeepCopyObject X = deepCopyObject (betaProviderConfigUsageCopy X)"

definition betaProviderConfigUsageListDeepCopyObject where
  "betaProviderConfigUsageListDeepCopyObject X = deepCopyObject (betaProviderConfigUsageListCopy X)"

definition betaUsageGetItems :: "'l betaUsageListObj \<Rightarrow> pointer list" where
  "betaUsageGetItems = getItems"

section \<open>The namespaced package\<close>

definition nsProviderConfigCopy :: "('u, 'l, 'v, 'm) nsConfigLibs \<Rightarrow> ('l nsProviderConfigObj, ('u, 'l, 'm) nsConfigCell) methods" where
  "nsProviderConfigCopy = providerConfigCopy"

definition nsProviderConfigListCopy :: "('u, 'l, 'v, 'm) nsConfigLibs \<Rightarrow> ('l nsProviderConfigListObj, ('u, 'l, 'm) nsConfigCell) methods" where
  "nsProviderConfigListCopy = providerConfigListCopy"

definition nsProviderConfigStatusCopy :: "('u, 'l, 'v, 'm) nsConfigLibs \<Rightarrow> ('l nsProviderConfigStatusObj, ('u, 'l, 'm) nsConfigCell) methods" where
  "nsProviderConfigStatusCopy = providerConfigStatusCopy"

definition clusterProviderConfigCopy ::
  "('u, 'l, 'v, 'm) nsConfigLibs \<Rightarrow> ('l clusterProviderConfigObj, ('u, 'l, 'm) nsConfigCell) methods" where
  "clusterProviderConfigCopy X =
     methods tClusterConfig (objectInto (ConfigMeta X) (libInto (KConfigSpec X)) (DeepCopyInto (nsProviderConfigStatusCopy X)))"

definition clusterProviderConfigListCopy where
  "clusterProviderConfigListCopy X =
     methods tClusterConfigList (listInto (ConfigListMeta X) tClusterConfig (DeepCopyInto (clusterProviderConfigCopy X)))"

text \<open>The embedded \<open>xpv2.TypedProviderConfigUsage\<close> is assigned, not copied in depth.\<close>

definition nsProviderConfigUsageCopy ::
  "('u, 'l, 'v, 'm) nsConfigLibs \<Rightarrow> (('u, 'l) nsUsageObj, ('u, 'l, 'm) nsConfigCell) methods" where
  "nsProviderConfigUsageCopy X =
     methods tUsage
       (\<lambda>x h. do {
          (m, h) \<leftarrow> libInto (ConfigMeta X) (muObjectMeta x) h;
          Some (x\<lparr>muTypeMeta := muTypeMeta x, muObjectMeta := m, muUsage := muUsage x\<rparr>, h)
        })"

definition nsProviderConfigUsageListCopy where
  "nsProviderConfigUsageListCopy X =
     methods tUsageList (listInto (ConfigListMeta X) tUsage (DeepCopyInto (nsProviderConfigUsageCopy X)))"

definition nsProviderConfigDeepCopyObject where
  "nsProviderConfigDeepCopyObject X = deepCopyObject (nsProviderConfigCopy X)"

definition nsProviderConfigListDeepCopyObject where
  "nsProviderConfigListDeepCopyObject X = deepCopyObject (nsProviderConfigListCopy X)"

definition clusterProviderConfigDeepCopyObject where
  "clusterProviderConfigDeepCopyObject X = deepCopyObject (clusterProviderConfigCopy X)"

definition clusterProviderConfigListDeepCopyObject where
  "clusterProviderConfigListDeepCopyObject X = deepCopyObject (clusterProviderConfigListCopy X)"

definition nsProviderConfigUsageDeepCopyObject where
  "nsProviderConfigUsageDeepCopyObject X = deepCopyObject (nsProviderConfigUsageCopy X)"

definition nsProviderConfigUsageListDeepCopyObject where
  "nsProviderConfigUsageListDeepCopyObject X = deepCopyObject (nsProviderConfigUsageListCopy X)"

definition nsUsageGetItems :: "'l nsUsageListObj \<Rightarrow> pointer list" where
  "nsUsageGetItems = getItems"

section \<open>Meaning\<close>

definition providerCredentialsVal where
  "providerCredentialsVal X h x =
     do { s \<leftarrow> libVal (CredentialSelectors X) h (mSelectors x); Some \<lparr>mSource = mSource x, mSelectors = s\<rparr> }"

definition providerCredentialsFoot where
  "providerCredentialsFoot X h x = libFoot (CredentialSelectors X) h (mSelectors x)"

definition identityVal where
  "identityVal X h x =
     do {
       c \<leftarrow> providerCredentialsVal X h (mIdentityCredentials x);
       Some \<lparr>mIdentityType = mIdentityType x, mIdentityCredentials = c\<rparr>
     }"

definition identityFoot where
  "identityFoot X h x = providerCredentialsFoot X h (mIdentityCredentials x)"

definition providerConfigSpecVal ::
  "('l, 'v, 'm) alphaConfigLibs \<Rightarrow> ('l alphaConfigSpecObj, 'v alphaConfigSpecValue, ('l, 'm) alphaConfigCell) valuation" where
  "providerConfigSpecVal X h x =
     do {
       c \<leftarrow> providerCredentialsVal X h (mCredentials x);
       i \<leftarrow> ptrVal tIdentity (identityVal X) h (mIdentityRef x);
       Some \<lparr>mCredentials = c, mIdentityRef = i\<rparr>
     }"

definition providerConfigSpecFoot :: "('l, 'v, 'm) alphaConfigLibs \<Rightarrow> ('l alphaConfigSpecObj, ('l, 'm) alphaConfigCell) footprint" where
  "providerConfigSpecFoot X h x =
     providerCredentialsFoot X h (mCredentials x) \<union> ptrFoot tIdentity (identityFoot X) h (mIdentityRef x)"

definition providerConfigStatusVal where
  "providerConfigStatusVal X h x = do { s \<leftarrow> libVal (ConfigStatus X) h (mConfigStatus x); Some \<lparr>mConfigStatus = s\<rparr> }"

definition providerConfigStatusFoot where
  "providerConfigStatusFoot X h x = libFoot (ConfigStatus X) h (mConfigStatus x)"

text \<open>The meaning of a usage, given the meaning of the embedded struct.\<close>

definition usageVal where
  "usageVal X val h x =
     do {
       m \<leftarrow> libVal (ConfigMeta X) h (muObjectMeta x);
       u \<leftarrow> val h (muUsage x);
       Some \<lparr>muTypeMeta = muTypeMeta x, muObjectMeta = m, muUsage = u\<rparr>
     }"

definition usageFoot where
  "usageFoot X foot h x = libFoot (ConfigMeta X) h (muObjectMeta x) \<union> foot h (muUsage x)"

section \<open>The methods are deep copies\<close>

lemma deep_providerCredentials:
  assumes "deepConfigLibs X"
  shows "deep_copy (DeepCopyInto (providerCredentialsCopy X)) (providerCredentialsVal X) (providerCredentialsFoot X)"
  by (rule deep_copy_struct [OF deep_config_libs(1) [OF assms], where get = mSelectors
        and put = "\<lambda>s x. x\<lparr>mSelectors := s\<rparr>" and mk = "\<lambda>x s. \<lparr>mSource = mSource x, mSelectors = s\<rparr>"])
    (auto simp: providerCredentialsCopy_def providerCredentialsVal_def providerCredentialsFoot_def pair_defs split: Option.bind_split)

lemma deep_identity:
  assumes "deepConfigLibs X"
  shows "deep_copy (DeepCopyInto (identityCopy X)) (identityVal X) (identityFoot X)"
  by (rule deep_copy_struct [OF deep_providerCredentials [OF assms], where get = mIdentityCredentials
        and put = "\<lambda>c x. x\<lparr>mIdentityCredentials := c\<rparr>"
        and mk = "\<lambda>x c. \<lparr>mIdentityType = mIdentityType x, mIdentityCredentials = c\<rparr>"])
    (auto simp: identityCopy_def identityVal_def identityFoot_def pair_defs split: Option.bind_split)

lemma deep_providerConfigSpec:
  assumes "deepConfigLibs X"
  shows "deep_copy (DeepCopyInto (providerConfigSpecCopy X)) (providerConfigSpecVal X) (providerConfigSpecFoot X)"
  by (rule deep_copy_struct [OF deep_copy_pair [OF deep_providerCredentials [OF assms]
          deep_pointer [OF config_types(2) deep_identity [OF assms]]],
        where get = "\<lambda>x. (mCredentials x, mIdentityRef x)"
        and put = "\<lambda>(c, i) x. x\<lparr>mCredentials := c, mIdentityRef := i\<rparr>"
        and mk = "\<lambda>x (c, i). \<lparr>mCredentials = c, mIdentityRef = i\<rparr>"])
    (auto simp: providerConfigSpecCopy_def providerConfigSpecVal_def providerConfigSpecFoot_def pair_defs split: Option.bind_split)

lemma deep_providerConfigStatus:
  assumes "deepConfigLibs X"
  shows "deep_copy (DeepCopyInto (providerConfigStatusCopy X)) (providerConfigStatusVal X) (providerConfigStatusFoot X)"
  by (rule deep_copy_struct [OF deep_config_libs(3) [OF assms], where get = mConfigStatus
        and put = "\<lambda>s x. x\<lparr>mConfigStatus := s\<rparr>" and mk = "\<lambda>x s. \<lparr>mConfigStatus = s\<rparr>"])
    (auto simp: providerConfigStatusCopy_def providerConfigStatusVal_def providerConfigStatusFoot_def pair_defs split: Option.bind_split)

lemma deep_providerConfigUsage:
  assumes "deepConfigLibs X"
  shows "deep_copy (DeepCopyInto (providerConfigUsageCopy X)) (usageVal X (libVal (ConfigUsage X))) (usageFoot X (libFoot (ConfigUsage X)))"
  by (rule deep_copy_struct [OF deep_copy_pair [OF deep_config_libs(5) [OF assms, unfolded deepLib_def] deep_config_libs(4) [OF assms]],
        where get = "\<lambda>x. (muObjectMeta x, muUsage x)" and put = "\<lambda>(m, u) x. x\<lparr>muObjectMeta := m, muUsage := u\<rparr>"
        and mk = "\<lambda>x (m, u). \<lparr>muTypeMeta = muTypeMeta x, muObjectMeta = m, muUsage = u\<rparr>"])
    (auto simp: providerConfigUsageCopy_def usageVal_def usageFoot_def pair_defs split: Option.bind_split)

lemma deep_nsProviderConfigUsage:
  assumes "deepConfigLibs X"
  shows "deep_copy (DeepCopyInto (nsProviderConfigUsageCopy X)) (usageVal X flatVal) (usageFoot X flatFoot)"
  by (rule deep_copy_struct [OF deep_copy_pair [OF deep_config_libs(5) [OF assms, unfolded deepLib_def] deep_copy_flat],
        where get = "\<lambda>x. (muObjectMeta x, muUsage x)" and put = "\<lambda>(m, u) x. x\<lparr>muObjectMeta := m, muUsage := u\<rparr>"
        and mk = "\<lambda>x (m, u). \<lparr>muTypeMeta = muTypeMeta x, muObjectMeta = m, muUsage = u\<rparr>"])
    (auto simp: nsProviderConfigUsageCopy_def usageVal_def usageFoot_def copyFlat_def pair_defs split: Option.bind_split)

lemma deep_alphaProviderConfig:
  assumes "deepConfigLibs X"
  shows "deep_copy (DeepCopyInto (alphaProviderConfigCopy X))
    (objectVal (ConfigMeta X) (providerConfigSpecVal X) (providerConfigStatusVal X))
    (objectFoot (ConfigMeta X) (providerConfigSpecFoot X) (providerConfigStatusFoot X))"
  using deep_objectInto [OF deep_config_libs(5) [OF assms] deep_providerConfigSpec [OF assms] deep_providerConfigStatus [OF assms]]
  by (simp add: alphaProviderConfigCopy_def methods_def)

lemma deep_providerConfig:
  assumes "deepConfigLibs X"
  shows "deep_copy (DeepCopyInto (providerConfigCopy X))
    (objectVal (ConfigMeta X) (libVal (KConfigSpec X)) (providerConfigStatusVal X))
    (objectFoot (ConfigMeta X) (libFoot (KConfigSpec X)) (providerConfigStatusFoot X))"
  using deep_objectInto [OF deep_config_libs(5) [OF assms] deep_config_libs(2) [OF assms] deep_providerConfigStatus [OF assms]]
  by (simp add: providerConfigCopy_def methods_def)

lemma deep_clusterProviderConfig:
  assumes "deepConfigLibs X"
  shows "deep_copy (DeepCopyInto (clusterProviderConfigCopy X))
    (objectVal (ConfigMeta X) (libVal (KConfigSpec X)) (providerConfigStatusVal X))
    (objectFoot (ConfigMeta X) (libFoot (KConfigSpec X)) (providerConfigStatusFoot X))"
  using deep_objectInto [OF deep_config_libs(5) [OF assms] deep_config_libs(2) [OF assms] deep_providerConfigStatus [OF assms]]
  by (simp add: clusterProviderConfigCopy_def nsProviderConfigStatusCopy_def methods_def)

lemma alphaProviderConfigCopy_generated: "generated tConfig (alphaProviderConfigCopy X)"
  by (simp add: alphaProviderConfigCopy_def generated_methods)

lemma providerConfigCopy_generated: "generated tConfig (providerConfigCopy X)"
  by (simp add: providerConfigCopy_def generated_methods)

lemma clusterProviderConfigCopy_generated: "generated tClusterConfig (clusterProviderConfigCopy X)"
  by (simp add: clusterProviderConfigCopy_def generated_methods)

end
