(* ===== verification/Object_Access.thy ===== *)
theory Object_Access
  imports Release_Packages Config_Memory
begin

text \<open>
  The generated accessors of releases, provider configs and their usages (\<open>zz_generated.managed.go\<close>,
  \<open>zz_generated.pc.go\<close> and \<open>zz_generated.pcu.go\<close>), on the objects in memory of \<open>Release_Packages\<close> and
  \<open>Config_Memory\<close>. The fields they read and write belong to structs that the library defines and the
  repository embeds; the methods that they call for conditions are the library's too.
\<close>

section \<open>Fields of structs\<close>

record ('s, 'f) field =
  fieldGet :: "'s \<Rightarrow> 'f"
  fieldPut :: "'f \<Rightarrow> 's \<Rightarrow> 's"

text \<open>\<open>x.F.G\<close>\<close>

definition subField :: "('s, 't) field \<Rightarrow> ('t, 'f) field \<Rightarrow> ('s, 'f) field" where
  "subField F G =
     \<lparr>fieldGet = (\<lambda>s. fieldGet G (fieldGet F s)), fieldPut = (\<lambda>r s. fieldPut F (fieldPut G r (fieldGet F s)) s)\<rparr>"

locale struct_field =
  fixes F :: "('s, 'f) field"
  assumes get_put [simp]: "fieldGet F (fieldPut F r s) = r"
    and put_put [simp]: "fieldPut F r (fieldPut F r' s) = fieldPut F r s"
    and put_get [simp]: "fieldPut F (fieldGet F s) s = s"

text \<open>Two different fields of a struct.\<close>

definition apart :: "('s, 'f) field \<Rightarrow> ('s, 'g) field \<Rightarrow> bool" where
  "apart F G \<longleftrightarrow> (\<forall>r s. fieldGet G (fieldPut F r s) = fieldGet G s) \<and> (\<forall>r s. fieldGet F (fieldPut G r s) = fieldGet F s)"

lemma apart_sym: "apart F G \<longleftrightarrow> apart G F"
  by (auto simp: apart_def)

locale embedded_field = outer: struct_field F + inner: struct_field G
  for F :: "('s, 't) field" and G :: "('t, 'f) field"

sublocale embedded_field \<subseteq> whole: struct_field "subField F G"
  by unfold_locales (simp_all add: subField_def)

lemma subField_struct:
  assumes "struct_field F" and "struct_field G"
  shows "struct_field (subField F G)"
  using assms by (simp add: struct_field_def subField_def)

lemma subField_get [simp]: "fieldGet (subField F G) s = fieldGet G (fieldGet F s)"
  by (simp add: subField_def)

lemma subField_apart:
  assumes "struct_field F" and "apart G H"
  shows "apart (subField F G) (subField F H)"
  using assms by (simp add: apart_def subField_def struct_field.get_put)

lemma subField_apart_outer: "apart F G \<Longrightarrow> apart (subField F H) (subField G K)"
  by (simp add: apart_def subField_def)

lemma subField_apart_left: "apart F G \<Longrightarrow> apart (subField F H) G"
  by (simp add: apart_def subField_def)

section \<open>Methods on a pointer\<close>

text \<open>A method with a pointer receiver dereferences it: it fails on nil.\<close>

definition getField :: "('o, 'c) goType \<Rightarrow> ('o, 'f) field \<Rightarrow> pointer option \<Rightarrow> 'c memory \<Rightarrow> 'f option" where
  "getField T F p h = do { q \<leftarrow> p; x \<leftarrow> load T h q; Some (fieldGet F x) }"

definition setField ::
  "('o, 'c) goType \<Rightarrow> ('o, 'f) field \<Rightarrow> 'f \<Rightarrow> pointer option \<Rightarrow> 'c memory \<Rightarrow> 'c memory option" where
  "setField T F r p h = do { q \<leftarrow> p; x \<leftarrow> load T h q; store T h q (fieldPut F r x) }"

text \<open>
  The library's conditions. \<open>SetConditions\<close> has a pointer receiver: it gives the struct's new contents and
  writes to the condition slice that the struct points to, or to a longer one that it makes.
\<close>

record ('l, 'ct, 'cond, 'c) conditionStruct =
  condType :: "'cond \<Rightarrow> 'ct"
  condSame :: "'cond \<Rightarrow> 'cond \<Rightarrow> bool"
  condGet :: "'ct \<Rightarrow> 'l \<Rightarrow> 'c memory \<Rightarrow> 'cond option"
  condSet :: "'cond list \<Rightarrow> ('l, 'c) copier"

definition getConditionIn where
  "getConditionIn T F C ct p h = do { q \<leftarrow> p; x \<leftarrow> load T h q; condGet C ct (fieldGet F x) h }"

definition setConditionsIn where
  "setConditionsIn T F C cs p h =
     do {
       q \<leftarrow> p;
       x \<leftarrow> load T h q;
       (s, h1) \<leftarrow> condSet C cs (fieldGet F x) h;
       y \<leftarrow> load T h1 q;
       store T h1 q (fieldPut F s y)
     }"

text \<open>
  What the library documents of \<open>SetConditions\<close>: it replaces the condition of the same type (or keeps it,
  when the two are the same but for the time of the last transition) or adds the new one, and leaves the
  conditions of other types; it writes only to the struct's own slice or to a new one.
\<close>

definition lawfulConditions :: "('l, 'v, 'c) libStruct \<Rightarrow> ('l, 'ct, 'cond, 'c) conditionStruct \<Rightarrow> bool" where
  "lawfulConditions S C \<longleftrightarrow>
     (\<forall>h x v. libVal S h x = Some v \<longrightarrow> (\<forall>ct. condGet C ct x h \<noteq> None) \<and>
        (\<forall>h'. agree (libFoot S h x) h h' \<longrightarrow> (\<forall>ct. condGet C ct x h' = condGet C ct x h)) \<and>
        (\<forall>cs. \<exists>y h' w. condSet C cs x h = Some (y, h') \<and> libVal S h' y = Some w \<and> length h \<le> length h'
           \<and> agree ({..<length h} - libFoot S h x) h h'
           \<and> libFoot S h' y \<subseteq> libFoot S h x \<union> {length h..<length h'}
           \<and> (\<forall>ct. case List.find (\<lambda>c. condType C c = ct) (rev cs) of
                 None \<Rightarrow> condGet C ct y h' = condGet C ct x h
               | Some c \<Rightarrow> \<exists>d. condGet C ct y h' = Some d \<and> condSame C d c)))"

locale accessor = go_type T + struct_field F
  for T :: "('o, 'c) goType" and F :: "('o, 'f) field"
begin

lemma set_field:
  assumes "load T h q = Some x"
  obtains h' where "setField T F r (Some q) h = Some h'" "load T h' q = Some (fieldPut F r x)"
    "length h' = length h" "agree ({..<length h} - {fst q}) h h'"
proof -
  obtain b i where q: "q = (b, i)" by (cases q)
  obtain h' where h': "store T h q (fieldPut F r x) = Some h'"
    using assms q by (auto simp: load_def store_def split: if_splits)
  show thesis
    using that [of h'] assms h' load_store [OF h'] store_lengths(1) [of T h b i] store_agree [of T h b i _ h' "{..<length h} - {b}"] q
    by (auto simp: setField_def)
qed

lemma set_loads:
  assumes "setField T F r p h = Some h'"
  obtains q x where "p = Some q" "load T h q = Some x" "load T h' q = Some (fieldPut F r x)"
  using assms load_store by (fastforce simp: setField_def split: Option.bind_splits)

lemma get_set: "setField T F r p h = Some h' \<Longrightarrow> getField T F p h' = Some r"
  by (erule set_loads) (simp add: getField_def)

lemma get_set_other: "apart F G \<Longrightarrow> setField T F r p h = Some h' \<Longrightarrow> getField T G p h' = getField T G p h"
  by (erule set_loads) (simp add: getField_def apart_def)

lemma set_set:
  assumes "setField T F r p h = Some h'"
  shows "setField T F r' p h' = setField T F r' p h"
proof -
  obtain q x where q: "p = Some q" "load T h q = Some x" "load T h' q = Some (fieldPut F r x)"
    using assms by (rule set_loads)
  moreover have "store T h q (fieldPut F r x) = Some h'" using assms q by (simp add: setField_def)
  ultimately show ?thesis by (cases q) (auto simp: setField_def store_def split: if_splits)
qed

lemma nil_receiver: "setField T F r None h = None" "getField T F None h = None"
  by (simp_all add: setField_def getField_def)

end

section \<open>Accessors of releases\<close>

text \<open>
  The fields that \<open>xpv2.ManagedResourceSpec\<close> gives to a release by embedding; \<open>xpv2.ClusterManagedResourceSpec\<close>
  has the deletion policy too.
\<close>

record ('l, 'mp, 'pr, 'ws) managedFields =
  ManagementPolicies :: "('l, 'mp) field"
  ProviderConfigReference :: "('l, 'pr) field"
  WriteConnectionSecretToReference :: "('l, 'ws) field"

record ('l, 'mp, 'pr, 'ws, 'dp) clusterManagedFields = "('l, 'mp, 'pr, 'ws) managedFields" +
  DeletionPolicy :: "('l, 'dp) field"

definition lawfulManaged :: "('l, 'mp, 'pr, 'ws, 'z) managedFields_scheme \<Rightarrow> bool" where
  "lawfulManaged L \<longleftrightarrow> struct_field (ManagementPolicies L) \<and> struct_field (ProviderConfigReference L)
     \<and> struct_field (WriteConnectionSecretToReference L) \<and> apart (ManagementPolicies L) (ProviderConfigReference L)
     \<and> apart (ManagementPolicies L) (WriteConnectionSecretToReference L)
     \<and> apart (ProviderConfigReference L) (WriteConnectionSecretToReference L)"

definition lawfulClusterManaged :: "('l, 'mp, 'pr, 'ws, 'dp) clusterManagedFields \<Rightarrow> bool" where
  "lawfulClusterManaged L \<longleftrightarrow> lawfulManaged L \<and> struct_field (DeletionPolicy L) \<and> apart (DeletionPolicy L) (ManagementPolicies L)
     \<and> apart (DeletionPolicy L) (ProviderConfigReference L) \<and> apart (DeletionPolicy L) (WriteConnectionSecretToReference L)"

text \<open>\<open>mg.Spec\<close> and \<open>mg.Status\<close> up to the embedded structs.\<close>

definition managedSpec :: "(('om, ('l, 'cd, 'fp, 'lim) mReleaseSpec, 'st) mObject, 'l) field" where
  "managedSpec = \<lparr>fieldGet = (\<lambda>x. mManagedResourceSpec (mSpec x)),
     fieldPut = (\<lambda>r x. x\<lparr>mSpec := (mSpec x)\<lparr>mManagedResourceSpec := r\<rparr>\<rparr>)\<rparr>"

definition alphaManagedSpec :: "(('om, ('l, 'fp, 'lim) alphaReleaseSpec, 'st) mObject, 'l) field" where
  "alphaManagedSpec = \<lparr>fieldGet = (\<lambda>x. asManagedResourceSpec (mSpec x)),
     fieldPut = (\<lambda>r x. x\<lparr>mSpec := (mSpec x)\<lparr>asManagedResourceSpec := r\<rparr>\<rparr>)\<rparr>"

definition managedStatus :: "(('om, 'sp, ('l, 'obs) mReleaseStatus) mObject, 'l) field" where
  "managedStatus = \<lparr>fieldGet = (\<lambda>x. mManagedResourceStatus (mStatus x)),
     fieldPut = (\<lambda>r x. x\<lparr>mStatus := (mStatus x)\<lparr>mManagedResourceStatus := r\<rparr>\<rparr>)\<rparr>"

text \<open>\<open>apis/cluster/release/v1beta1\<close>\<close>

definition releaseGetCondition where
  "releaseGetCondition = getConditionIn tRelease managedStatus"

definition releaseGetDeletionPolicy where
  "releaseGetDeletionPolicy L = getField tRelease (subField managedSpec (DeletionPolicy L))"

definition releaseGetManagementPolicies where
  "releaseGetManagementPolicies L = getField tRelease (subField managedSpec (ManagementPolicies L))"

definition releaseGetProviderConfigReference where
  "releaseGetProviderConfigReference L = getField tRelease (subField managedSpec (ProviderConfigReference L))"

definition releaseGetWriteConnectionSecretToReference where
  "releaseGetWriteConnectionSecretToReference L = getField tRelease (subField managedSpec (WriteConnectionSecretToReference L))"

definition releaseSetConditions where
  "releaseSetConditions = setConditionsIn tRelease managedStatus"

definition releaseSetDeletionPolicy where
  "releaseSetDeletionPolicy L = setField tRelease (subField managedSpec (DeletionPolicy L))"

definition releaseSetManagementPolicies where
  "releaseSetManagementPolicies L = setField tRelease (subField managedSpec (ManagementPolicies L))"

definition releaseSetProviderConfigReference where
  "releaseSetProviderConfigReference L = setField tRelease (subField managedSpec (ProviderConfigReference L))"

definition releaseSetWriteConnectionSecretToReference where
  "releaseSetWriteConnectionSecretToReference L = setField tRelease (subField managedSpec (WriteConnectionSecretToReference L))"

text \<open>\<open>apis/cluster/release/v1alpha1\<close>\<close>

definition alphaReleaseGetCondition where
  "alphaReleaseGetCondition = getConditionIn tRelease managedStatus"

definition alphaReleaseGetDeletionPolicy where
  "alphaReleaseGetDeletionPolicy L = getField tRelease (subField alphaManagedSpec (DeletionPolicy L))"

definition alphaReleaseGetManagementPolicies where
  "alphaReleaseGetManagementPolicies L = getField tRelease (subField alphaManagedSpec (ManagementPolicies L))"

definition alphaReleaseGetProviderConfigReference where
  "alphaReleaseGetProviderConfigReference L = getField tRelease (subField alphaManagedSpec (ProviderConfigReference L))"

definition alphaReleaseGetWriteConnectionSecretToReference where
  "alphaReleaseGetWriteConnectionSecretToReference L = getField tRelease (subField alphaManagedSpec (WriteConnectionSecretToReference L))"

definition alphaReleaseSetConditions where
  "alphaReleaseSetConditions = setConditionsIn tRelease managedStatus"

definition alphaReleaseSetDeletionPolicy where
  "alphaReleaseSetDeletionPolicy L = setField tRelease (subField alphaManagedSpec (DeletionPolicy L))"

definition alphaReleaseSetManagementPolicies where
  "alphaReleaseSetManagementPolicies L = setField tRelease (subField alphaManagedSpec (ManagementPolicies L))"

definition alphaReleaseSetProviderConfigReference where
  "alphaReleaseSetProviderConfigReference L = setField tRelease (subField alphaManagedSpec (ProviderConfigReference L))"

definition alphaReleaseSetWriteConnectionSecretToReference where
  "alphaReleaseSetWriteConnectionSecretToReference L = setField tRelease (subField alphaManagedSpec (WriteConnectionSecretToReference L))"

text \<open>\<open>apis/namespaced/release/v1beta1\<close>: no deletion policy.\<close>

definition nsReleaseGetCondition where
  "nsReleaseGetCondition = getConditionIn tRelease managedStatus"

definition nsReleaseGetManagementPolicies where
  "nsReleaseGetManagementPolicies L = getField tRelease (subField managedSpec (ManagementPolicies L))"

definition nsReleaseGetProviderConfigReference where
  "nsReleaseGetProviderConfigReference L = getField tRelease (subField managedSpec (ProviderConfigReference L))"

definition nsReleaseGetWriteConnectionSecretToReference where
  "nsReleaseGetWriteConnectionSecretToReference L = getField tRelease (subField managedSpec (WriteConnectionSecretToReference L))"

definition nsReleaseSetConditions where
  "nsReleaseSetConditions = setConditionsIn tRelease managedStatus"

definition nsReleaseSetManagementPolicies where
  "nsReleaseSetManagementPolicies L = setField tRelease (subField managedSpec (ManagementPolicies L))"

definition nsReleaseSetProviderConfigReference where
  "nsReleaseSetProviderConfigReference L = setField tRelease (subField managedSpec (ProviderConfigReference L))"

definition nsReleaseSetWriteConnectionSecretToReference where
  "nsReleaseSetWriteConnectionSecretToReference L = setField tRelease (subField managedSpec (WriteConnectionSecretToReference L))"

section \<open>Accessors of provider configs\<close>

text \<open>\<open>p.Status\<close> up to the embedded \<open>xpv2.ProviderConfigStatus\<close>; its \<open>Users\<close> is an int64.\<close>

definition configStatus :: "(('om, 'sp, 'l mProviderConfigStatus) mObject, 'l) field" where
  "configStatus = \<lparr>fieldGet = (\<lambda>x. mConfigStatus (mStatus x)),
     fieldPut = (\<lambda>r x. x\<lparr>mStatus := (mStatus x)\<lparr>mConfigStatus := r\<rparr>\<rparr>)\<rparr>"

text \<open>\<open>apis/cluster/v1alpha1\<close>\<close>

definition alphaConfigGetCondition where
  "alphaConfigGetCondition = getConditionIn tConfig configStatus"

definition alphaConfigGetUsers :: "('l, 64 word) field \<Rightarrow> _" where
  "alphaConfigGetUsers users = getField tConfig (subField configStatus users)"

definition alphaConfigSetConditions where
  "alphaConfigSetConditions = setConditionsIn tConfig configStatus"

definition alphaConfigSetUsers :: "('l, 64 word) field \<Rightarrow> _" where
  "alphaConfigSetUsers users = setField tConfig (subField configStatus users)"

text \<open>\<open>apis/cluster/v1beta1\<close>\<close>

definition betaConfigGetCondition where
  "betaConfigGetCondition = getConditionIn tConfig configStatus"

definition betaConfigGetUsers :: "('l, 64 word) field \<Rightarrow> _" where
  "betaConfigGetUsers users = getField tConfig (subField configStatus users)"

definition betaConfigSetConditions where
  "betaConfigSetConditions = setConditionsIn tConfig configStatus"

definition betaConfigSetUsers :: "('l, 64 word) field \<Rightarrow> _" where
  "betaConfigSetUsers users = setField tConfig (subField configStatus users)"

text \<open>\<open>apis/namespaced/v1beta1\<close>, \<open>ProviderConfig\<close> and \<open>ClusterProviderConfig\<close>\<close>

definition nsConfigGetCondition where
  "nsConfigGetCondition = getConditionIn tConfig configStatus"

definition nsConfigGetUsers :: "('l, 64 word) field \<Rightarrow> _" where
  "nsConfigGetUsers users = getField tConfig (subField configStatus users)"

definition nsConfigSetConditions where
  "nsConfigSetConditions = setConditionsIn tConfig configStatus"

definition nsConfigSetUsers :: "('l, 64 word) field \<Rightarrow> _" where
  "nsConfigSetUsers users = setField tConfig (subField configStatus users)"

definition clusterConfigGetCondition where
  "clusterConfigGetCondition = getConditionIn tClusterConfig configStatus"

definition clusterConfigGetUsers :: "('l, 64 word) field \<Rightarrow> _" where
  "clusterConfigGetUsers users = getField tClusterConfig (subField configStatus users)"

definition clusterConfigSetConditions where
  "clusterConfigSetConditions = setConditionsIn tClusterConfig configStatus"

definition clusterConfigSetUsers :: "('l, 64 word) field \<Rightarrow> _" where
  "clusterConfigSetUsers users = setField tClusterConfig (subField configStatus users)"

section \<open>Accessors of usages\<close>

text \<open>The references of the embedded usage; a usage of the namespaced package has references of other types.\<close>

record ('u, 'pr, 'tr) usageFields =
  UsageConfigReference :: "('u, 'pr) field"
  UsageResourceReference :: "('u, 'tr) field"

definition lawfulUsage :: "('u, 'pr, 'tr) usageFields \<Rightarrow> bool" where
  "lawfulUsage L \<longleftrightarrow> struct_field (UsageConfigReference L) \<and> struct_field (UsageResourceReference L)
     \<and> apart (UsageConfigReference L) (UsageResourceReference L)"

definition embeddedUsage :: "(('om, 'u) mProviderConfigUsage, 'u) field" where
  "embeddedUsage = \<lparr>fieldGet = muUsage, fieldPut = (\<lambda>r x. x\<lparr>muUsage := r\<rparr>)\<rparr>"

text \<open>\<open>apis/cluster/v1alpha1\<close>\<close>

definition alphaUsageGetProviderConfigReference where
  "alphaUsageGetProviderConfigReference L = getField tUsage (subField embeddedUsage (UsageConfigReference L))"

definition alphaUsageGetResourceReference where
  "alphaUsageGetResourceReference L = getField tUsage (subField embeddedUsage (UsageResourceReference L))"

definition alphaUsageSetProviderConfigReference where
  "alphaUsageSetProviderConfigReference L = setField tUsage (subField embeddedUsage (UsageConfigReference L))"

definition alphaUsageSetResourceReference where
  "alphaUsageSetResourceReference L = setField tUsage (subField embeddedUsage (UsageResourceReference L))"

text \<open>\<open>apis/cluster/v1beta1\<close>\<close>

definition betaUsageGetProviderConfigReference where
  "betaUsageGetProviderConfigReference L = getField tUsage (subField embeddedUsage (UsageConfigReference L))"

definition betaUsageGetResourceReference where
  "betaUsageGetResourceReference L = getField tUsage (subField embeddedUsage (UsageResourceReference L))"

definition betaUsageSetProviderConfigReference where
  "betaUsageSetProviderConfigReference L = setField tUsage (subField embeddedUsage (UsageConfigReference L))"

definition betaUsageSetResourceReference where
  "betaUsageSetResourceReference L = setField tUsage (subField embeddedUsage (UsageResourceReference L))"

text \<open>\<open>apis/namespaced/v1beta1\<close>\<close>

definition nsUsageGetProviderConfigReference where
  "nsUsageGetProviderConfigReference L = getField tUsage (subField embeddedUsage (UsageConfigReference L))"

definition nsUsageGetResourceReference where
  "nsUsageGetResourceReference L = getField tUsage (subField embeddedUsage (UsageResourceReference L))"

definition nsUsageSetProviderConfigReference where
  "nsUsageSetProviderConfigReference L = setField tUsage (subField embeddedUsage (UsageConfigReference L))"

definition nsUsageSetResourceReference where
  "nsUsageSetResourceReference L = setField tUsage (subField embeddedUsage (UsageResourceReference L))"

end
