(* ===== verification/Object_Calls.thy ===== *)
theory Object_Calls
  imports Object_Access
begin

text \<open>
  Sequences of setter calls on a managed resource: what they make of its embedded structs, and that they
  write to nothing but the object, its condition slice and new memory.
\<close>

section \<open>The parts of a managed resource\<close>

text \<open>
  A managed resource as the library sees it: an object type with an embedded spec and an embedded status.
  The objects of the three packages are one.
\<close>

locale managed_object = go_type T + spec: struct_field specF + status: struct_field statusF
  for T :: "('o, 'c) goType" and specF :: "('o, 'l) field" and statusF :: "('o, 'l) field" +
  assumes spec_status: "apart specF statusF"
    and spec_status_comm: "fieldPut statusF s (fieldPut specF m x) = fieldPut specF m (fieldPut statusF s x)"

sublocale managed_object \<subseteq> spec_access: accessor T specF
  by (rule accessor.intro [OF go_type_axioms spec.struct_field_axioms])

sublocale managed_object \<subseteq> status_access: accessor T statusF
  by (rule accessor.intro [OF go_type_axioms status.struct_field_axioms])

interpretation release_object: managed_object tRelease managedSpec managedStatus
  by unfold_locales (simp_all add: go_types [THEN go_type.prj_inj] managedSpec_def managedStatus_def apart_def)

interpretation alphaRelease_object: managed_object tRelease alphaManagedSpec managedStatus
  by unfold_locales (simp_all add: go_types [THEN go_type.prj_inj] alphaManagedSpec_def managedStatus_def apart_def)

interpretation config_users: accessor tConfig configStatus
  by unfold_locales (simp_all add: config_types [THEN go_type.prj_inj] configStatus_def)

interpretation cluster_config_users: accessor tClusterConfig configStatus
  by unfold_locales (simp_all add: config_types [THEN go_type.prj_inj] configStatus_def)

interpretation usage_references: accessor tUsage embeddedUsage
  by unfold_locales (simp_all add: config_types [THEN go_type.prj_inj] embeddedUsage_def)

section \<open>Calls\<close>

text \<open>One call, as it changes the embedded structs: a setter of the spec, or conditions for the status.\<close>

datatype ('l, 'cond) setterCall = PutSpec "'l \<Rightarrow> 'l" | PutConditions "'cond list"

fun runSetter where
  "runSetter T specF statusF C (PutSpec g) p h = do { q \<leftarrow> p; x \<leftarrow> load T h q; store T h q (fieldPut specF (g (fieldGet specF x)) x) }"
| "runSetter T specF statusF C (PutConditions cs) p h = setConditionsIn T statusF C cs p h"

fun runCalls :: "('a \<Rightarrow> 'p \<Rightarrow> 'h \<Rightarrow> 'h option) \<Rightarrow> 'a list \<Rightarrow> 'p \<Rightarrow> 'h \<Rightarrow> 'h option" where
  "runCalls step [] p h = Some h"
| "runCalls step (c # cs) p h = do { h1 \<leftarrow> step c p h; runCalls step cs p h1 }"

fun specCall :: "('l, 'cond) setterCall \<Rightarrow> 'l \<Rightarrow> 'l" where
  "specCall (PutSpec g) m = g m"
| "specCall (PutConditions _) m = m"

fun specAfter :: "('l, 'cond) setterCall list \<Rightarrow> 'l \<Rightarrow> 'l" where
  "specAfter [] m = m"
| "specAfter (c # cs) m = specAfter cs (specCall c m)"

fun conditionsOf :: "('l, 'cond) setterCall list \<Rightarrow> 'cond list" where
  "conditionsOf [] = []"
| "conditionsOf (PutSpec _ # cs) = conditionsOf cs"
| "conditionsOf (PutConditions ds # cs) = ds @ conditionsOf cs"

lemma runCalls_map: "runCalls step (map f cs) p h = runCalls (\<lambda>c. step (f c)) cs p h"
  by (induction cs arbitrary: h) (auto split: Option.bind_split)

text \<open>
  The object at \<open>q\<close> and all that its status points to lie in blocks from \<open>n\<close> on, as after a \<open>DeepCopy\<close>; the
  status does not point into the object itself.
\<close>

definition ownObject where
  "ownObject T statusF S n q x h \<longleftrightarrow> load T h q = Some x \<and> n \<le> fst q \<and> libVal S h (fieldGet statusF x) \<noteq> None
     \<and> libFoot S h (fieldGet statusF x) \<subseteq> {n..<length h} - {fst q}"

text \<open>What the condition of a type is, after conditions were set.\<close>

definition conditionAfter where
  "conditionAfter C cs ct old new \<longleftrightarrow>
     (case List.find (\<lambda>c. condType C c = ct) (rev cs) of
        None \<Rightarrow> new = old
      | Some c \<Rightarrow> \<exists>d. new = Some d \<and> condSame C d c)"

lemma conditionAfter_Nil: "conditionAfter C [] ct old old"
  by (simp add: conditionAfter_def)

lemma find_append: "List.find P (xs @ ys) = (case List.find P xs of None \<Rightarrow> List.find P ys | Some x \<Rightarrow> Some x)"
  by (induction xs) auto

lemma conditionAfter_append:
  assumes "conditionAfter C cs ct old mid" and "conditionAfter C ds ct mid new"
  shows "conditionAfter C (cs @ ds) ct old new"
  using assms by (auto simp: conditionAfter_def find_append split: option.splits)

lemma lawful_set:
  assumes "lawfulConditions S C" and "libVal S h x = Some v"
  obtains y h' w where "condSet C cs x h = Some (y, h')" "libVal S h' y = Some w" "length h \<le> length h'"
    "agree ({..<length h} - libFoot S h x) h h'" "libFoot S h' y \<subseteq> libFoot S h x \<union> {length h..<length h'}"
    "\<And>ct. conditionAfter C cs ct (condGet C ct x h) (condGet C ct y h')"
proof -
  have "\<exists>y h' w. condSet C cs x h = Some (y, h') \<and> libVal S h' y = Some w \<and> length h \<le> length h'
      \<and> agree ({..<length h} - libFoot S h x) h h' \<and> libFoot S h' y \<subseteq> libFoot S h x \<union> {length h..<length h'}
      \<and> (\<forall>ct. conditionAfter C cs ct (condGet C ct x h) (condGet C ct y h'))"
    using assms unfolding lawfulConditions_def conditionAfter_def by simp
  then show thesis using that by auto
qed

lemma lawful_get:
  assumes "lawfulConditions S C" and "libVal S h x = Some v" and "agree (libFoot S h x) h h'"
  shows "condGet C ct x h' = condGet C ct x h"
  using assms unfolding lawfulConditions_def by blast

context managed_object
begin

lemma status_of_putSpec [simp]: "fieldGet statusF (fieldPut specF m x) = fieldGet statusF x"
  and spec_of_putStatus [simp]: "fieldGet specF (fieldPut statusF s x) = fieldGet specF x"
  using spec_status by (simp_all add: apart_def)

lemma spec_call:
  assumes own: "ownObject T statusF S n q x h" and deep: "deepLib S" and cond: "lawfulConditions S C"
  obtains h' where "runSetter T specF statusF C (PutSpec g) (Some q) h = Some h'"
    "ownObject T statusF S n q (fieldPut specF (g (fieldGet specF x)) x) h'" "agree {..<n} h h'"
    "\<And>ct. condGet C ct (fieldGet statusF x) h' = condGet C ct (fieldGet statusF x) h"
proof -
  have x: "load T h q = Some x" and n: "n \<le> fst q" using own by (simp_all add: ownObject_def)
  obtain v where v: "libVal S h (fieldGet statusF x) = Some v" using own by (auto simp: ownObject_def)
  have foot: "libFoot S h (fieldGet statusF x) \<subseteq> {n..<length h} - {fst q}" using own by (simp add: ownObject_def)
  obtain h' where h': "setField T specF (g (fieldGet specF x)) (Some q) h = Some h'"
    "load T h' q = Some (fieldPut specF (g (fieldGet specF x)) x)" "length h' = length h" "agree ({..<length h} - {fst q}) h h'"
    using x by (rule spec_access.set_field)
  have agr: "agree (libFoot S h (fieldGet statusF x)) h h'" by (rule agree_mono [OF h'(4)]) (use foot in auto)
  show thesis
  proof (rule that [of h'])
    show "runSetter T specF statusF C (PutSpec g) (Some q) h = Some h'" using h'(1) x by (simp add: setField_def)
    show "ownObject T statusF S n q (fieldPut specF (g (fieldGet specF x)) x) h'"
      using h'(2,3) n foot v deep_copy.frame [OF deep [unfolded deepLib_def] v agr] by (simp add: ownObject_def)
    show "agree {..<n} h h'" using load_inside [OF x] n by (intro agree_mono [OF h'(4)]) auto
    show "condGet C ct (fieldGet statusF x) h' = condGet C ct (fieldGet statusF x) h" for ct
      by (rule lawful_get [OF cond v agr])
  qed
qed

lemma conditions_call:
  assumes own: "ownObject T statusF S n q x h" and deep: "deepLib S" and cond: "lawfulConditions S C"
  obtains h' s where "runSetter T specF statusF C (PutConditions cs) (Some q) h = Some h'"
    "ownObject T statusF S n q (fieldPut statusF s x) h'" "agree {..<n} h h'"
    "\<And>ct. conditionAfter C cs ct (condGet C ct (fieldGet statusF x) h) (condGet C ct s h')"
proof -
  have x: "load T h q = Some x" and n: "n \<le> fst q" using own by (simp_all add: ownObject_def)
  note q = load_inside [OF x]
  obtain v where v: "libVal S h (fieldGet statusF x) = Some v" using own by (auto simp: ownObject_def)
  have foot: "libFoot S h (fieldGet statusF x) \<subseteq> {n..<length h} - {fst q}" using own by (simp add: ownObject_def)
  obtain s h1 w where s: "condSet C cs (fieldGet statusF x) h = Some (s, h1)" "libVal S h1 s = Some w" "length h \<le> length h1"
    "agree ({..<length h} - libFoot S h (fieldGet statusF x)) h h1"
    "libFoot S h1 s \<subseteq> libFoot S h (fieldGet statusF x) \<union> {length h..<length h1}"
    "\<And>ct. conditionAfter C cs ct (condGet C ct (fieldGet statusF x) h) (condGet C ct s h1)"
    by (rule lawful_set [OF cond v, where cs = cs]) blast
  have keep: "agree (insert (fst q) {..<n}) h h1" by (rule agree_mono [OF s(4)]) (use q n foot in auto)
  have x1: "load T h1 q = Some x" using load_agree [OF agree_mono [OF keep]] x by (metis bot.extremum insert_mono)
  obtain h' where h': "setField T statusF s (Some q) h1 = Some h'" "load T h' q = Some (fieldPut statusF s x)"
    "length h' = length h1" "agree ({..<length h1} - {fst q}) h1 h'"
    using x1 by (rule status_access.set_field)
  have foot1: "libFoot S h1 s \<subseteq> {n..<length h1} - {fst q}"
    by (rule order_trans [OF s(5)]) (use s(3) foot q n in auto)
  have agr: "agree (libFoot S h1 s) h1 h'"
    by (rule agree_mono [OF h'(4)]) (use foot1 in auto)
  show thesis
  proof (rule that [of h' s])
    show "runSetter T specF statusF C (PutConditions cs) (Some q) h = Some h'"
      using h'(1) x x1 s(1) by (simp add: setConditionsIn_def setField_def)
    show "ownObject T statusF S n q (fieldPut statusF s x) h'"
      using h'(2,3) n foot1 deep_copy.frame [OF deep [unfolded deepLib_def] s(2) agr] by (simp add: ownObject_def)
    show "agree {..<n} h h'"
      by (rule agree_trans [OF agree_mono [OF keep] agree_mono [OF h'(4)]]) (use q n s(3) in auto)
    show "conditionAfter C cs ct (condGet C ct (fieldGet statusF x) h) (condGet C ct s h')" for ct
      using s(6) [of ct] lawful_get [OF cond s(2) agr] by simp
  qed
qed

lemma calls:
  assumes "ownObject T statusF S n q x h" and deep: "deepLib S" and cond: "lawfulConditions S C"
  shows "\<exists>h' s. runCalls (runSetter T specF statusF C) cs (Some q) h = Some h'
    \<and> ownObject T statusF S n q (fieldPut specF (specAfter cs (fieldGet specF x)) (fieldPut statusF s x)) h' \<and> agree {..<n} h h'
    \<and> (\<forall>ct. conditionAfter C (conditionsOf cs) ct (condGet C ct (fieldGet statusF x) h) (condGet C ct s h'))"
  using assms(1)
proof (induction cs arbitrary: x h)
  case Nil
  then show ?case
    by (intro exI [of _ h] exI [of _ "fieldGet statusF x"])
      (auto simp: conditionAfter_Nil agree_def ownObject_def dest: load_inside intro: status.put_get)
next
  case (Cons c cs)
  show ?case
  proof (cases c)
    case (PutSpec g)
    obtain h1 where h1: "runSetter T specF statusF C (PutSpec g) (Some q) h = Some h1"
      "ownObject T statusF S n q (fieldPut specF (g (fieldGet specF x)) x) h1" "agree {..<n} h h1"
      "\<And>ct. condGet C ct (fieldGet statusF x) h1 = condGet C ct (fieldGet statusF x) h"
      by (rule spec_call [OF Cons.prems deep cond, where g = g]) blast
    show ?thesis
      using Cons.IH [OF h1(2)] h1(1,3,4) PutSpec
      by (auto simp: spec_status_comm intro: agree_trans)
  next
    case (PutConditions ds)
    obtain h1 s where h1: "runSetter T specF statusF C (PutConditions ds) (Some q) h = Some h1"
      "ownObject T statusF S n q (fieldPut statusF s x) h1" "agree {..<n} h h1"
      "\<And>ct. conditionAfter C ds ct (condGet C ct (fieldGet statusF x) h) (condGet C ct s h1)"
      by (rule conditions_call [OF Cons.prems deep cond, where cs = ds]) blast
    obtain h' r where "runCalls (runSetter T specF statusF C) cs (Some q) h1 = Some h'"
      "ownObject T statusF S n q (fieldPut specF (specAfter cs (fieldGet specF x)) (fieldPut statusF r x)) h'" "agree {..<n} h1 h'"
      "\<And>ct. conditionAfter C (conditionsOf cs) ct (condGet C ct s h1) (condGet C ct r h')"
      using Cons.IH [OF h1(2)] by auto
    then show ?thesis
      using h1(1) agree_trans [OF h1(3)] conditionAfter_append [OF h1(4)] PutConditions
      by (intro exI [of _ h'] exI [of _ r]) simp
  qed
qed

end

section \<open>A deep copy is its holder's own\<close>

lemma copyPointer_some:
  assumes "makeBlock 1 h = (b, h1)" and "load T h1 q = Some x" and "into x h1 = Some (y, h2)" and "store T h2 (b, 0) y = Some h3"
  shows "copyPointer T into (Some q) h = Some (Some (b, 0), h3)"
  using assms by (simp add: copyPointer_def)

lemma copy_owned:
  assumes gen: "generated T M" and T: "go_type T" and deep: "deep_copy (DeepCopyInto M) val foot"
    and v: "ptrVal T val h (Some p) = Some (Some v)"
    and status: "\<And>h x w. val h x = Some w \<Longrightarrow> libVal S h (fieldGet statusF x) \<noteq> None"
      "\<And>h x w. val h x = Some w \<Longrightarrow> libFoot S h (fieldGet statusF x) \<subseteq> foot h x"
  obtains q h' x where "DeepCopy M (Some p) h = Some (Some q, h')" "prefix h h'" "ownObject T statusF S (length h) q x h'"
    "val h' x = Some v"
proof -
  obtain z where z: "load T h p = Some z" "val h z = Some v"
    by (rule deep_copy_cells.ptrValE [OF deep_copy_cells.intro [OF T deep] v]) simp
  define h1 where "h1 = h @ [replicate 1 None]"
  have mk: "makeBlock 1 h = (length h, h1)" and pre1: "prefix h h1" by (simp_all add: makeBlock_def h1_def)
  have z1: "load T h1 p = Some z" "val h1 z = Some v"
    using load_prefix [OF pre1 z(1)] deep_copy.frame_prefix [OF deep z(2) pre1] by auto
  obtain x h2 where x: "DeepCopyInto M z h1 = Some (x, h2)" "prefix h1 h2" "val h2 x = Some v" "foot h2 x \<subseteq> {length h1..<length h2}"
    using deep_copy.copies [OF deep z1(2)] by blast
  have room: "length h < length h2" "length (h2 ! length h) = 1"
    using x(2) by (auto simp: h1_def prefix_def nth_append)
  then obtain h' where h': "store T h2 (length h, 0) x = Some h'" by (simp add: store_def)
  have agr: "agree (foot h2 x) h2 h'" by (rule store_agree [OF h']) (use x(4) in \<open>auto simp: h1_def\<close>)
  note fr = deep_copy.frame [OF deep x(3) agr]
  have copy: "DeepCopy M (Some p) h = Some (Some (length h, 0), h')"
    using gen z1(1) x(1) h' mk unfolding generated_def by (metis (no_types, lifting) methods_simps(2) copyPointer_some)
  show thesis
  proof (rule that [OF copy _ _ conjunct1 [OF fr]])
    show "prefix h h'" by (rule store_prefix [OF h']) (use pre1 x(2) in \<open>auto intro: prefix_order.trans\<close>)
    show "ownObject T statusF S (length h) (length h, 0) x h'"
      using go_type.load_store [OF T h'] status [OF conjunct1 [OF fr]] x(4) store_lengths(1) [OF h'] fr
      by (force simp: ownObject_def h1_def)
  qed
qed

section \<open>Calls on a release\<close>

datatype ('mp, 'pr, 'ws, 'cond) managedCall =
    CallManagementPolicies 'mp
  | CallProviderConfigReference 'pr
  | CallWriteConnectionSecretToReference 'ws
  | CallConditions "'cond list"

datatype ('mp, 'pr, 'ws, 'cond, 'dp) clusterManagedCall =
    CallManaged "('mp, 'pr, 'ws, 'cond) managedCall"
  | CallDeletionPolicy 'dp

fun callRelease where
  "callRelease L C (CallManaged (CallManagementPolicies r)) p h = releaseSetManagementPolicies L r p h"
| "callRelease L C (CallManaged (CallProviderConfigReference r)) p h = releaseSetProviderConfigReference L r p h"
| "callRelease L C (CallManaged (CallWriteConnectionSecretToReference r)) p h = releaseSetWriteConnectionSecretToReference L r p h"
| "callRelease L C (CallManaged (CallConditions cs)) p h = releaseSetConditions C cs p h"
| "callRelease L C (CallDeletionPolicy r) p h = releaseSetDeletionPolicy L r p h"

fun callNsRelease where
  "callNsRelease L C (CallManagementPolicies r) p h = nsReleaseSetManagementPolicies L r p h"
| "callNsRelease L C (CallProviderConfigReference r) p h = nsReleaseSetProviderConfigReference L r p h"
| "callNsRelease L C (CallWriteConnectionSecretToReference r) p h = nsReleaseSetWriteConnectionSecretToReference L r p h"
| "callNsRelease L C (CallConditions cs) p h = nsReleaseSetConditions C cs p h"

fun managedSetter where
  "managedSetter L (CallManagementPolicies r) = PutSpec (fieldPut (ManagementPolicies L) r)"
| "managedSetter L (CallProviderConfigReference r) = PutSpec (fieldPut (ProviderConfigReference L) r)"
| "managedSetter L (CallWriteConnectionSecretToReference r) = PutSpec (fieldPut (WriteConnectionSecretToReference L) r)"
| "managedSetter L (CallConditions cs) = PutConditions cs"

fun clusterManagedSetter where
  "clusterManagedSetter L (CallManaged c) = managedSetter L c"
| "clusterManagedSetter L (CallDeletionPolicy r) = PutSpec (fieldPut (DeletionPolicy L) r)"

lemma setField_setter: "setField T (subField F G) r p h = runSetter T F statusF C (PutSpec (fieldPut G r)) p h"
  by (simp add: setField_def subField_def)

lemma callNsRelease_setter: "callNsRelease L C c p h = runSetter tRelease managedSpec managedStatus C (managedSetter L c) p h"
  by (cases c) (simp_all only: callNsRelease.simps managedSetter.simps nsReleaseSetManagementPolicies_def
      nsReleaseSetProviderConfigReference_def nsReleaseSetWriteConnectionSecretToReference_def nsReleaseSetConditions_def
      setField_setter runSetter.simps(2))

lemma callRelease_setter: "callRelease L C c p h = runSetter tRelease managedSpec managedStatus C (clusterManagedSetter L c) p h"
proof (cases c)
  case (CallManaged d)
  then show ?thesis
    by (cases d) (simp_all only: callRelease.simps clusterManagedSetter.simps managedSetter.simps releaseSetManagementPolicies_def
        releaseSetProviderConfigReference_def releaseSetWriteConnectionSecretToReference_def releaseSetConditions_def
        setField_setter runSetter.simps(2))
next
  case (CallDeletionPolicy r)
  then show ?thesis by (simp only: callRelease.simps clusterManagedSetter.simps releaseSetDeletionPolicy_def setField_setter)
qed

text \<open>What a field holds after the calls: the value of the last call that set it, or what it held before.\<close>

fun policiesAfter where
  "policiesAfter [] r = r"
| "policiesAfter (c # cs) r = policiesAfter cs (case c of CallManagementPolicies s \<Rightarrow> s | _ \<Rightarrow> r)"

fun configReferenceAfter where
  "configReferenceAfter [] r = r"
| "configReferenceAfter (c # cs) r = configReferenceAfter cs (case c of CallProviderConfigReference s \<Rightarrow> s | _ \<Rightarrow> r)"

fun secretReferenceAfter where
  "secretReferenceAfter [] r = r"
| "secretReferenceAfter (c # cs) r = secretReferenceAfter cs (case c of CallWriteConnectionSecretToReference s \<Rightarrow> s | _ \<Rightarrow> r)"

fun deletionPolicyAfter where
  "deletionPolicyAfter [] r = r"
| "deletionPolicyAfter (c # cs) r = deletionPolicyAfter cs (case c of CallDeletionPolicy s \<Rightarrow> s | CallManaged _ \<Rightarrow> r)"

fun managedCalls where
  "managedCalls [] = []"
| "managedCalls (CallManaged c # cs) = c # managedCalls cs"
| "managedCalls (CallDeletionPolicy _ # cs) = managedCalls cs"

fun setConditionsOf where
  "setConditionsOf [] = []"
| "setConditionsOf (CallConditions ds # cs) = ds @ setConditionsOf cs"
| "setConditionsOf (_ # cs) = setConditionsOf cs"

lemma managed_step:
  assumes "lawfulManaged L"
  shows "fieldGet (ManagementPolicies L) (specCall (managedSetter L c) m) = policiesAfter [c] (fieldGet (ManagementPolicies L) m)"
    and "fieldGet (ProviderConfigReference L) (specCall (managedSetter L c) m)
        = configReferenceAfter [c] (fieldGet (ProviderConfigReference L) m)"
    and "fieldGet (WriteConnectionSecretToReference L) (specCall (managedSetter L c) m)
        = secretReferenceAfter [c] (fieldGet (WriteConnectionSecretToReference L) m)"
  using assms by (cases c; simp add: lawfulManaged_def struct_field.get_put apart_def)+

lemma managed_specAfter:
  assumes "lawfulManaged L"
  shows "fieldGet (ManagementPolicies L) (specAfter (map (managedSetter L) cs) m)
        = policiesAfter cs (fieldGet (ManagementPolicies L) m)"
    and "fieldGet (ProviderConfigReference L) (specAfter (map (managedSetter L) cs) m)
        = configReferenceAfter cs (fieldGet (ProviderConfigReference L) m)"
    and "fieldGet (WriteConnectionSecretToReference L) (specAfter (map (managedSetter L) cs) m)
        = secretReferenceAfter cs (fieldGet (WriteConnectionSecretToReference L) m)"
  by (induction cs arbitrary: m) (simp_all add: managed_step [OF assms])

lemma managed_conditionsOf: "conditionsOf (map (managedSetter L) cs) = setConditionsOf cs"
  by (rule setConditionsOf.induct [where P = "\<lambda>cs. conditionsOf (map (managedSetter L) cs) = setConditionsOf cs"]) simp_all

lemma cluster_step:
  assumes "lawfulClusterManaged L"
  shows "fieldGet (ManagementPolicies L) (specCall (clusterManagedSetter L c) m)
        = policiesAfter (managedCalls [c]) (fieldGet (ManagementPolicies L) m)"
    and "fieldGet (ProviderConfigReference L) (specCall (clusterManagedSetter L c) m)
        = configReferenceAfter (managedCalls [c]) (fieldGet (ProviderConfigReference L) m)"
    and "fieldGet (WriteConnectionSecretToReference L) (specCall (clusterManagedSetter L c) m)
        = secretReferenceAfter (managedCalls [c]) (fieldGet (WriteConnectionSecretToReference L) m)"
    and "fieldGet (DeletionPolicy L) (specCall (clusterManagedSetter L c) m)
        = deletionPolicyAfter [c] (fieldGet (DeletionPolicy L) m)"
proof -
  have L: "lawfulManaged L" "struct_field (DeletionPolicy L)" "apart (DeletionPolicy L) (ManagementPolicies L)"
    "apart (DeletionPolicy L) (ProviderConfigReference L)" "apart (DeletionPolicy L) (WriteConnectionSecretToReference L)"
    using assms by (simp_all add: lawfulClusterManaged_def)
  have D: "fieldGet (DeletionPolicy L) (specCall (managedSetter L d) m) = fieldGet (DeletionPolicy L) m" for d
    using L by (cases d) (simp_all add: apart_def)
  show "fieldGet (ManagementPolicies L) (specCall (clusterManagedSetter L c) m)
        = policiesAfter (managedCalls [c]) (fieldGet (ManagementPolicies L) m)"
    and "fieldGet (ProviderConfigReference L) (specCall (clusterManagedSetter L c) m)
        = configReferenceAfter (managedCalls [c]) (fieldGet (ProviderConfigReference L) m)"
    and "fieldGet (WriteConnectionSecretToReference L) (specCall (clusterManagedSetter L c) m)
        = secretReferenceAfter (managedCalls [c]) (fieldGet (WriteConnectionSecretToReference L) m)"
    and "fieldGet (DeletionPolicy L) (specCall (clusterManagedSetter L c) m)
        = deletionPolicyAfter [c] (fieldGet (DeletionPolicy L) m)"
    using L by (cases c; simp add: D managed_step [OF L(1)] apart_def struct_field.get_put)+
qed

lemma cluster_specAfter:
  assumes "lawfulClusterManaged L"
  shows "fieldGet (ManagementPolicies L) (specAfter (map (clusterManagedSetter L) cs) m)
        = policiesAfter (managedCalls cs) (fieldGet (ManagementPolicies L) m)
    \<and> fieldGet (ProviderConfigReference L) (specAfter (map (clusterManagedSetter L) cs) m)
        = configReferenceAfter (managedCalls cs) (fieldGet (ProviderConfigReference L) m)
    \<and> fieldGet (WriteConnectionSecretToReference L) (specAfter (map (clusterManagedSetter L) cs) m)
        = secretReferenceAfter (managedCalls cs) (fieldGet (WriteConnectionSecretToReference L) m)
    \<and> fieldGet (DeletionPolicy L) (specAfter (map (clusterManagedSetter L) cs) m)
        = deletionPolicyAfter cs (fieldGet (DeletionPolicy L) m)"
proof (induction cs arbitrary: m)
  case (Cons c cs)
  show ?case
    using Cons [of "specCall (clusterManagedSetter L c) m"] cluster_step [OF assms, of c m] by (cases c) simp_all
qed simp

lemma cluster_conditionsOf: "conditionsOf (map (clusterManagedSetter L) cs) = setConditionsOf (managedCalls cs)"
proof (induction cs)
  case (Cons c cs)
  then show ?case
    using managed_conditionsOf [of L "managedCalls [c]"]
    by (cases c; cases "hd (managedCalls [c])") simp_all
qed simp

section \<open>Users and usages\<close>

lemma accessor_sub: "go_type T \<Longrightarrow> struct_field F \<Longrightarrow> struct_field G \<Longrightarrow> accessor T (subField F G)"
  by (intro accessor.intro subField_struct)

text \<open>
  The users set are the users read, and the spec of the provider config stays what it was.
\<close>

definition configSpecPart :: "(('om, 'sp, 'st) mObject, 'sp) field" where
  "configSpecPart = \<lparr>fieldGet = mSpec, fieldPut = (\<lambda>r x. x\<lparr>mSpec := r\<rparr>)\<rparr>"

lemma status_spec_apart: "apart (subField configStatus users) configSpecPart"
  by (simp add: apart_def subField_def configStatus_def configSpecPart_def)

lemma configStatus_field: "struct_field configStatus"
  by unfold_locales (simp_all add: configStatus_def)

lemma users_kept:
  assumes "go_type T" and "struct_field users" and "setField T (subField configStatus users) n p h = Some h'"
  shows "getField T (subField configStatus users) p h' = Some n \<and> getField T configSpecPart p h' = getField T configSpecPart p h"
  using accessor.get_set [OF accessor_sub [OF assms(1) configStatus_field assms(2)] assms(3)]
    accessor.get_set_other [OF accessor_sub [OF assms(1) configStatus_field assms(2)] status_spec_apart assms(3)]
  by simp

lemma set_users:
  assumes "struct_field users"
  shows "alphaConfigSetUsers users n p h = Some h' \<Longrightarrow> alphaConfigGetUsers users p h' = Some n"
    and "betaConfigSetUsers users n p h = Some h' \<Longrightarrow> betaConfigGetUsers users p h' = Some n"
    and "nsConfigSetUsers users n p h = Some h' \<Longrightarrow> nsConfigGetUsers users p h' = Some n"
    and "clusterConfigSetUsers users n p h = Some h' \<Longrightarrow> clusterConfigGetUsers users p h' = Some n"
  by (simp_all add: users_kept [OF config_types(5) assms] users_kept [OF config_types(7) assms] alphaConfigSetUsers_def alphaConfigGetUsers_def betaConfigSetUsers_def betaConfigGetUsers_def
      nsConfigSetUsers_def nsConfigGetUsers_def clusterConfigSetUsers_def clusterConfigGetUsers_def)

text \<open>A usage: each reference set is the one read, and the other one stays.\<close>

lemma set_usage_references:
  assumes L: "lawfulUsage L"
  shows "nsUsageSetProviderConfigReference L r p h = Some h' \<Longrightarrow>
      nsUsageGetProviderConfigReference L p h' = Some r \<and> nsUsageGetResourceReference L p h' = nsUsageGetResourceReference L p h"
    and "nsUsageSetResourceReference L t p h = Some h' \<Longrightarrow>
      nsUsageGetResourceReference L p h' = Some t \<and> nsUsageGetProviderConfigReference L p h' = nsUsageGetProviderConfigReference L p h"
proof -
  have f: "struct_field (UsageConfigReference L)" "struct_field (UsageResourceReference L)"
    "apart (UsageConfigReference L) (UsageResourceReference L)"
    using L by (simp_all add: lawfulUsage_def)
  note U = usage_references.struct_field_axioms
  note A = accessor_sub [OF config_types(9) U f(1)] and B = accessor_sub [OF config_types(9) U f(2)]
  note other = subField_apart [OF U f(3)]
  show "nsUsageSetProviderConfigReference L r p h = Some h' \<Longrightarrow>
      nsUsageGetProviderConfigReference L p h' = Some r \<and> nsUsageGetResourceReference L p h' = nsUsageGetResourceReference L p h"
    by (simp add: accessor.get_set [OF A] accessor.get_set_other [OF A other]
      nsUsageSetProviderConfigReference_def nsUsageGetProviderConfigReference_def nsUsageGetResourceReference_def)
  show "nsUsageSetResourceReference L t p h = Some h' \<Longrightarrow>
      nsUsageGetResourceReference L p h' = Some t \<and> nsUsageGetProviderConfigReference L p h' = nsUsageGetProviderConfigReference L p h"
    by (simp add: accessor.get_set [OF B] accessor.get_set_other [OF B apart_sym [THEN iffD1, OF other]]
      nsUsageSetResourceReference_def nsUsageGetProviderConfigReference_def nsUsageGetResourceReference_def)
qed

section \<open>Calls on the copy of a release\<close>

lemma release_copy_owned:
  fixes X :: "('l, 'v, ('sel, 'cs, 'obs, ('cs, 'l) parametersObj, ('cs, 'l) specObj, 'l, 'm) cell) libStructs"
  assumes "deepLibs X" and "ptrVal tRelease (releaseVal X) h (Some p) = Some (Some v)"
  obtains q h1 x where "DeepCopy (releaseCopy X) (Some p) h = Some (Some q, h1)" "prefix h h1"
    "ownObject tRelease managedStatus (ManagedResourceStatus X) (length h) q x h1"
proof (rule copy_owned [OF releaseCopy_generated go_types(12) deep_release [OF assms(1)] assms(2)])
  fix h w and x :: "(('cs, 'l) specObj, 'obs, 'l) releaseObj"
  assume w: "releaseVal X h x = Some w"
  show "libVal (ManagedResourceStatus X) h (fieldGet managedStatus x) \<noteq> None"
    using w by (auto simp: releaseVal_def objectVal_def releaseStatusVal_def managedStatus_def split: Option.bind_splits)
  show "libFoot (ManagedResourceStatus X) h (fieldGet managedStatus x) \<subseteq> releaseFoot X h x"
    by (auto simp: releaseFoot_def objectFoot_def releaseStatusFoot_def managedStatus_def)
qed blast

lemmas release_getters = releaseGetDeletionPolicy_def releaseGetManagementPolicies_def releaseGetProviderConfigReference_def
  releaseGetWriteConnectionSecretToReference_def releaseGetCondition_def getField_def getConditionIn_def

lemma release_calls:
  fixes X :: "('l, 'v, ('sel, 'cs, 'obs, ('cs, 'l) parametersObj, ('cs, 'l) specObj, 'l, 'm) cell) libStructs"
    and x :: "(('cs, 'l) specObj, 'obs, 'l) releaseObj"
  assumes X: "deepLibs X" and L: "lawfulClusterManaged L" and C: "lawfulConditions (ManagedResourceStatus X) C"
    and own: "ownObject tRelease managedStatus (ManagedResourceStatus X) n q x h"
  shows "\<exists>h2 m s. runCalls (callRelease L C) cs (Some q) h = Some h2 \<and> agree {..<n} h h2
     \<and> load tRelease h2 q = Some (x\<lparr>mSpec := (mSpec x)\<lparr>mManagedResourceSpec := m\<rparr>,
         mStatus := (mStatus x)\<lparr>mManagedResourceStatus := s\<rparr>\<rparr>)
     \<and> fieldGet (DeletionPolicy L) m = deletionPolicyAfter cs (fieldGet (DeletionPolicy L) (mManagedResourceSpec (mSpec x)))
     \<and> fieldGet (ManagementPolicies L) m
         = policiesAfter (managedCalls cs) (fieldGet (ManagementPolicies L) (mManagedResourceSpec (mSpec x)))
     \<and> fieldGet (ProviderConfigReference L) m
         = configReferenceAfter (managedCalls cs) (fieldGet (ProviderConfigReference L) (mManagedResourceSpec (mSpec x)))
     \<and> fieldGet (WriteConnectionSecretToReference L) m
         = secretReferenceAfter (managedCalls cs) (fieldGet (WriteConnectionSecretToReference L) (mManagedResourceSpec (mSpec x)))
     \<and> (\<forall>ct. conditionAfter C (setConditionsOf (managedCalls cs)) ct
           (condGet C ct (mManagedResourceStatus (mStatus x)) h) (condGet C ct s h2))"
proof -
  have deep: "deepLib (ManagedResourceStatus X)" using X by (simp add: deepLibs_def)
  have run: "runCalls (callRelease L C) cs (Some q) h
      = runCalls (runSetter tRelease managedSpec managedStatus C) (map (clusterManagedSetter L) cs) (Some q) h"
    unfolding runCalls_map by (intro arg_cong [where f = "\<lambda>step. runCalls step cs (Some q) h"] ext) (rule callRelease_setter)
  let ?m = "specAfter (map (clusterManagedSetter L) cs) (mManagedResourceSpec (mSpec x))"
  obtain h2 s where "runCalls (callRelease L C) cs (Some q) h = Some h2"
    "ownObject tRelease managedStatus (ManagedResourceStatus X) n q
       (x\<lparr>mStatus := (mStatus x)\<lparr>mManagedResourceStatus := s\<rparr>, mSpec := (mSpec x)\<lparr>mManagedResourceSpec := ?m\<rparr>\<rparr>) h2" "agree {..<n} h h2"
    "\<And>ct. conditionAfter C (setConditionsOf (managedCalls cs)) ct
       (condGet C ct (mManagedResourceStatus (mStatus x)) h) (condGet C ct s h2)"
    using release_object.calls [OF own deep C, of "map (clusterManagedSetter L) cs"] unfolding run [symmetric] cluster_conditionsOf
    by (auto simp: managedSpec_def managedStatus_def)
  then show ?thesis
    by (intro exI [of _ h2] exI [of _ ?m] exI [of _ s]) (simp add: ownObject_def cluster_specAfter [OF L])
qed

end
