(* ===== verification/Memory_Properties.thy ===== *)
theory Memory_Properties
  imports Object_Calls
begin

text \<open>
  The properties of the generated methods: deep copies of releases, of their lists and of provider
  configs, with a memory and library structs on which they are run.
\<close>

section \<open>A memory with releases\<close>

text \<open>Library structs that hold one byte slice each, copied as \<open>RawExtension\<close> copies its \<open>Raw\<close>.\<close>

definition byteStruct :: "('m, 'c) goType \<Rightarrow> (slice option, 'm list option, 'c) libStruct" where
  "byteStruct T = \<lparr>libInto = copySlice T copyFlat, libVal = sliceVal T flatVal, libFoot = sliceFoot T flatFoot\<rparr>"

definition byteLibs where
  "byteLibs = \<lparr>RawExtension = byteStruct tLib, ManagedResourceSpec = byteStruct tLib,
     ManagedResourceStatus = byteStruct tLib, ObjectMeta = byteStruct tLib, ListMeta = byteStruct tLib\<rparr>"

definition byteConfigLibs where
  "byteConfigLibs = \<lparr>CredentialSelectors = byteStruct tConfigLib, KConfigSpec = byteStruct tConfigLib,
     ConfigStatus = byteStruct tConfigLib, ConfigUsage = byteStruct tConfigLib, ConfigMeta = byteStruct tConfigLib,
     ConfigListMeta = byteStruct tConfigLib\<rparr>"

lemma deep_byteLibs: "deepLibs byteLibs" and deep_byteConfigLibs: "deepConfigLibs byteConfigLibs"
  by (simp_all add: deepLibs_def deepConfigLibs_def deepLib_def byteLibs_def byteConfigLibs_def byteStruct_def
      deep_slice go_types config_types deep_copy_flat)

definition wholeBlock :: "nat \<Rightarrow> nat \<Rightarrow> slice option" where
  "wholeBlock b n = Some \<lparr>slBlock = b, slOffset = 0, slLen = n\<rparr>"

definition memSelector :: NsDataKeySelector where
  "memSelector = \<lparr>ndksName = ''creds'', ndksKey = ''tag'', ndksOptional = False\<rparr>"

definition memChart :: NsChartSpec where
  "memChart = \<lparr>csRepository = ''oci://reg/charts'', csName = ''web'', csVersion = [], csURL = [], csDigest = [],
     csPullSecretRef = \<lparr>lsrName = ''pull''\<rparr>\<rparr>"

definition memParameters :: "slice option nsParametersObj" where
  "memParameters = \<lparr>mChart = memChart, mNamespace = ''prod'', mSkipCreateNamespace = False, mWait = True,
     mWaitTimeout = Some (6, 0), mPatchesFrom = None,
     mValuesSpec = \<lparr>mValues = wholeBlock 1 2, mValuesFrom = wholeBlock 4 1, mSet = wholeBlock 3 1\<rparr>,
     mSkipCRDs = False, mInsecureSkipTLSVerify = False, mPlainHTTP = False, mTakeOwnership = False,
     mMaxHistory = 20, mSSAForceConflicts = False\<rparr>"

definition memRelease :: "slice option nsReleaseObj" where
  "memRelease = \<lparr>mTypeMeta = \<lparr>tmKind = ''Release'', tmAPIVersion = ''helm.m.crossplane.io/v1beta1''\<rparr>,
     mObjectMeta = wholeBlock 0 1,
     mSpec = \<lparr>mManagedResourceSpec = None, mConnectionDetails = None, mForProvider = memParameters,
       mRollbackRetriesLimit = Some (5, 0)\<rparr>,
     mStatus = \<lparr>mManagedResourceStatus = None, mAtProvider = zeroObservation, mPatchesSha = [], mFailed = 1, mSynced = False\<rparr>\<rparr>"

text \<open>The selector in block 2 is shared by an element of \<open>ValuesFrom\<close> and by one of \<open>Set\<close>.\<close>

definition memBlocks :: "(slice option, nat) nsCell memory" where
  "memBlocks =
     [[Some (CLib 7)], [Some (CLib 8), Some (CLib 9)],
      [Some (CDataKeySelector memSelector)],
      [Some (CSetVal \<lparr>msvName = ''image.tag'', msvValue = [], msvValueFrom = Some (4, 0)\<rparr>)],
      [Some (CValueFromSource \<lparr>mConfigMapKeyRef = None, mSecretKeyRef = Some (2, 0)\<rparr>)],
      [Some (CInt32 3)], [Some (CDuration 300)],
      [Some (CRelease memRelease), Some (CRelease memRelease)],
      [Some (CReleaseList \<lparr>mlTypeMeta = \<lparr>tmKind = ''ReleaseList'', tmAPIVersion = ''helm.m.crossplane.io/v1beta1''\<rparr>,
         mListMeta = None, mItems = wholeBlock 7 2\<rparr>)]]"

text \<open>What the two items of the list mean.\<close>

definition memValue ::
  "((NsDataKeySelector, NsChartSpec, nat list option) specValue, ReleaseObservation, nat list option) releaseValue"
where
  "memValue =
     (let src = \<lparr>ConfigMapKeyRef = None, SecretKeyRef = Some memSelector\<rparr> in
      \<lparr>mTypeMeta = \<lparr>tmKind = ''Release'', tmAPIVersion = ''helm.m.crossplane.io/v1beta1''\<rparr>,
       mObjectMeta = Some [7],
       mSpec = \<lparr>mManagedResourceSpec = None, mConnectionDetails = None,
         mForProvider = \<lparr>mChart = memChart, mNamespace = ''prod'', mSkipCreateNamespace = False, mWait = True,
           mWaitTimeout = Some 300, mPatchesFrom = None,
           mValuesSpec = \<lparr>mValues = Some [8, 9], mValuesFrom = Some [src],
             mSet = Some [\<lparr>svName = ''image.tag'', svValue = [], svValueFrom = Some src\<rparr>]\<rparr>,
           mSkipCRDs = False, mInsecureSkipTLSVerify = False, mPlainHTTP = False, mTakeOwnership = False,
           mMaxHistory = 20, mSSAForceConflicts = False\<rparr>,
         mRollbackRetriesLimit = Some 3\<rparr>,
       mStatus = \<lparr>mManagedResourceStatus = None, mAtProvider = zeroObservation, mPatchesSha = [], mFailed = 1, mSynced = False\<rparr>\<rparr>)"

lemma memBlocks_release:
  "ptrVal tRelease (releaseVal byteLibs) memBlocks (Some (7, 1)) = Some (Some memValue)"
  by code_simp

lemma memBlocks_list:
  "ptrVal tReleaseList (releaseListVal byteLibs) memBlocks (Some (8, 0)) =
     Some (Some \<lparr>mlTypeMeta = \<lparr>tmKind = ''ReleaseList'', tmAPIVersion = ''helm.m.crossplane.io/v1beta1''\<rparr>,
       mListMeta = None, mItems = Some [memValue, memValue]\<rparr>)"
  by code_simp

section \<open>Releases\<close>

text \<open>C20: DeepCopy of a release gives a release that means the same and shares nothing with it. Whatever
  is in the selectors, value sources, patches, connection details, limits and raw values the release
  points to, the copy has the same, in blocks that were not there before, and no old block is changed;
  whatever is then written to the old blocks does not change the copy, and whatever is written to the
  new ones does not change the original.\<close>

theorem release_deep_copy_independent:
  assumes "deepLibs X" and "ptrVal tRelease (releaseVal X) h p = Some v"
  shows "\<exists>q h'. DeepCopy (releaseCopy X) p h = Some (q, h') \<and> prefix h h' \<and> ptrVal tRelease (releaseVal X) h' q = Some v
    \<and> (\<forall>h''. agree {length h..<length h'} h' h'' \<longrightarrow> ptrVal tRelease (releaseVal X) h'' q = Some v)
    \<and> (\<forall>h''. agree {..<length h} h h'' \<longrightarrow> ptrVal tRelease (releaseVal X) h'' p = Some v)"
  by (rule methods_independent [OF releaseCopy_generated go_types(12) deep_release [OF assms(1)] assms(2)])

theorem release_deep_copy_independent_witness:
  "\<exists>q h'. DeepCopy (releaseCopy byteLibs) (Some (7, 1)) memBlocks = Some (q, h')
    \<and> ptrVal tRelease (releaseVal byteLibs) h' q = Some (Some memValue)"
  using release_deep_copy_independent [OF deep_byteLibs memBlocks_release] by blast

text \<open>C28: Copying a list of releases. DeepCopyObject of a list, as a cache or a client calls it, gives a list
  whose GetItems points to copies of all the items in their order; a release written through any of
  these pointers leaves the original list as it was. For a nil list it gives the nil interface, not an
  interface that holds a nil pointer.\<close>

theorem copied_list_items_apart:
  assumes "deepLibs X" and "ptrVal tReleaseList (releaseListVal X) h (Some p) = Some (Some v)"
  shows "(\<exists>q h' l. nsReleaseListDeepCopyObject X (Some p) h = Some (Some (Some q), h') \<and> load tReleaseList h' q = Some l
    \<and> those (map (\<lambda>i. ptrVal tRelease (releaseVal X) h' (Some i)) (nsGetItems l)) =
        Some (map Some (case mItems v of None \<Rightarrow> [] | Some xs \<Rightarrow> xs))
    \<and> (\<forall>i\<in>set (nsGetItems l). \<forall>r h''. store tRelease h' i r = Some h'' \<longrightarrow>
          ptrVal tReleaseList (releaseListVal X) h'' (Some p) = Some (Some v)))
    \<and> nsReleaseListDeepCopyObject X None h = Some (None, h)"
  using copied_list [OF releaseListCopy_generated go_types(13) _ assms(2) [unfolded releaseListVal_def]] deep_releaseList [OF assms(1)]
  by (simp add: nsReleaseListDeepCopyObject_def nsReleaseListCopy_def nsGetItems_def releaseListVal_def releaseListFoot_def)

theorem copied_list_items_apart_witness:
  "\<exists>q h' l. nsReleaseListDeepCopyObject byteLibs (Some (8, 0)) memBlocks = Some (Some (Some q), h')
    \<and> load tReleaseList h' q = Some l
    \<and> those (map (\<lambda>i. ptrVal tRelease (releaseVal byteLibs) h' (Some i)) (nsGetItems l)) = Some [Some memValue, Some memValue]"
  using copied_list_items_apart [OF deep_byteLibs memBlocks_list] by auto

section \<open>Setters on a copy\<close>

text \<open>
  Library structs with four flat fields and a slice of conditions, and conditions that are numbers: the
  last digit is the type, and a condition of a type that is not set reads as the type itself.
\<close>

type_synonym sampleStruct = "(bool \<times> nat \<times> nat \<times> nat) \<times> slice option"
type_synonym sampleCell = "(DataKeySelector, SecretReference, sampleStruct, nat) betaCell"

definition sampleLib where
  "sampleLib = \<lparr>libInto = pairInto copyFlat (copySlice tLib copyFlat), libVal = pairVal flatVal (sliceVal tLib flatVal),
     libFoot = pairFoot flatFoot (sliceFoot tLib flatFoot)\<rparr>"

definition sampleLibs where
  "sampleLibs = \<lparr>RawExtension = sampleLib, ManagedResourceSpec = sampleLib, ManagedResourceStatus = sampleLib,
     ObjectMeta = sampleLib, ListMeta = sampleLib\<rparr>"

definition sampleFields :: "(sampleStruct, nat, nat, nat, bool) clusterManagedFields" where
  "sampleFields =
     \<lparr>ManagementPolicies = \<lparr>fieldGet = (\<lambda>((d, m, p, w), s). m), fieldPut = (\<lambda>r ((d, m, p, w), s). ((d, r, p, w), s))\<rparr>,
      ProviderConfigReference = \<lparr>fieldGet = (\<lambda>((d, m, p, w), s). p), fieldPut = (\<lambda>r ((d, m, p, w), s). ((d, m, r, w), s))\<rparr>,
      WriteConnectionSecretToReference = \<lparr>fieldGet = (\<lambda>((d, m, p, w), s). w), fieldPut = (\<lambda>r ((d, m, p, w), s). ((d, m, p, r), s))\<rparr>,
      DeletionPolicy = \<lparr>fieldGet = (\<lambda>((d, m, p, w), s). d), fieldPut = (\<lambda>r ((d, m, p, w), s). ((r, m, p, w), s))\<rparr>\<rparr>"

definition setOne :: "nat \<Rightarrow> nat list \<Rightarrow> nat list" where
  "setOne c xs =
     (if \<exists>d\<in>set xs. d mod 10 = c mod 10 then map (\<lambda>d. if d mod 10 = c mod 10 then c else d) xs else xs @ [c])"

definition sampleConditions :: "(sampleStruct, nat, nat, sampleCell) conditionStruct" where
  "sampleConditions =
     \<lparr>condType = (\<lambda>c. c mod 10), condSame = (=),
      condGet = (\<lambda>ct x h. do {
        xs \<leftarrow> sliceVal tLib flatVal h (snd x);
        Some (case List.find (\<lambda>c. c mod 10 = ct) (case xs of None \<Rightarrow> [] | Some ys \<Rightarrow> ys) of None \<Rightarrow> ct | Some c \<Rightarrow> c)
      }),
      condSet = (\<lambda>cs x h. do {
        xs \<leftarrow> sliceVal tLib flatVal h (snd x);
        let ys = fold setOne cs (case xs of None \<Rightarrow> [] | Some ys \<Rightarrow> ys);
        Some ((fst x, Some \<lparr>slBlock = length h, slOffset = 0, slLen = length ys\<rparr>), h @ [map (\<lambda>y. Some (gtInj tLib y)) ys])
      })\<rparr>"

lemma deep_sampleLibs: "deepLibs sampleLibs"
  by (simp add: deepLibs_def deepLib_def sampleLibs_def sampleLib_def deep_copy_pair deep_copy_flat deep_slice go_types)

lemma lawful_sampleFields: "lawfulClusterManaged sampleFields"
  by (simp add: lawfulClusterManaged_def lawfulManaged_def sampleFields_def apart_def struct_field_def split_beta)

lemma find_setOne: "List.find (\<lambda>d. d mod 10 = ct) (setOne c xs) =
    (if c mod 10 = ct then Some c else List.find (\<lambda>d. d mod 10 = ct) xs)"
proof -
  have hit: "List.find (\<lambda>d. d mod 10 = c mod 10) (map (\<lambda>d. if d mod 10 = c mod 10 then c else d) xs) = Some c"
    if "\<exists>d\<in>set xs. d mod 10 = c mod 10" using that by (induction xs) auto
  have miss: "List.find (\<lambda>d. d mod 10 = ct) (map (\<lambda>d. if d mod 10 = c mod 10 then c else d) xs)
      = List.find (\<lambda>d. d mod 10 = ct) xs" if "c mod 10 \<noteq> ct" using that by (induction xs) auto
  have none: "List.find (\<lambda>d. d mod 10 = c mod 10) xs = None" if "\<not> (\<exists>d\<in>set xs. d mod 10 = c mod 10)"
    using that by (induction xs) auto
  show ?thesis
  proof (cases "\<exists>d\<in>set xs. d mod 10 = c mod 10")
    case True
    then have "setOne c xs = map (\<lambda>d. if d mod 10 = c mod 10 then c else d) xs" by (simp add: setOne_def)
    then show ?thesis using hit [OF True] miss by (cases "c mod 10 = ct") auto
  next
    case False
    then have "setOne c xs = xs @ [c]" by (simp only: setOne_def if_False)
    then show ?thesis using none [OF False] by (auto simp: find_append split: option.split)
  qed
qed

lemma find_fold_setOne: "List.find (\<lambda>d. d mod 10 = ct) (fold setOne cs xs) =
    (case List.find (\<lambda>d. d mod 10 = ct) (rev cs) of None \<Rightarrow> List.find (\<lambda>d. d mod 10 = ct) xs | Some c \<Rightarrow> Some c)"
  by (induction cs arbitrary: xs) (simp_all add: find_setOne find_append split: option.split)

lemma new_slice: "sliceVal tLib flatVal (h @ [map (\<lambda>y. Some (gtInj tLib y)) ys])
    (Some \<lparr>slBlock = length h, slOffset = 0, slLen = length ys\<rparr>) = Some (Some ys)"
  by (rule sliceValI [where xs = ys])
    (simp_all add: elems_eq_Some load_def elemPtr_def flatVal_def go_type.prj_inj [OF go_types(16)])

lemma lawful_sampleConditions: "lawfulConditions sampleLib sampleConditions"
proof -
  have val: "libVal sampleLib h x = Some v \<Longrightarrow> \<exists>xs. sliceVal tLib flatVal h (snd x) = Some xs" for h x v
    by (auto simp: sampleLib_def pairVal_def flatVal_def split: Option.bind_splits)
  have frame: "sliceVal tLib flatVal h' s = sliceVal tLib flatVal h s"
    if "sliceVal tLib flatVal h s = Some xs" "agree (sliceFoot tLib flatFoot h s) h h'" for h h' s xs
    using deep_copy.frame [OF deep_slice [OF go_types(16) deep_copy_flat] that] that(1) by simp
  show ?thesis
    unfolding lawfulConditions_def
  proof (intro allI impI conjI)
    fix h :: "sampleCell memory" and x :: sampleStruct and v and ct :: nat
    assume "libVal sampleLib h x = Some v"
    from val [OF this] obtain xs where xs: "sliceVal tLib flatVal h (snd x) = Some xs" by blast
    show "condGet sampleConditions ct x h \<noteq> None" using xs by (simp add: sampleConditions_def)
    show "condGet sampleConditions ct x h' = condGet sampleConditions ct x h" if "agree (libFoot sampleLib h x) h h'" for h'
      using frame [OF xs] that by (simp add: sampleConditions_def sampleLib_def pairFoot_def flatFoot_def)
    fix cs
    let ?ys = "fold setOne cs (case xs of None \<Rightarrow> [] | Some ys \<Rightarrow> ys)"
    let ?h = "h @ [map (\<lambda>y. Some (gtInj tLib y)) ?ys]" and ?s = "Some \<lparr>slBlock = length h, slOffset = 0, slLen = length ?ys\<rparr>"
    have foot: "sliceFoot tLib flatFoot ?h ?s = {length h}"
      by (auto simp: sliceFoot_def flatFoot_def split: option.split)
    show "\<exists>y h' w. condSet sampleConditions cs x h = Some (y, h') \<and> libVal sampleLib h' y = Some w \<and> length h \<le> length h'
        \<and> agree ({..<length h} - libFoot sampleLib h x) h h' \<and> libFoot sampleLib h' y \<subseteq> libFoot sampleLib h x \<union> {length h..<length h'}
        \<and> (\<forall>ct. case List.find (\<lambda>c. condType sampleConditions c = ct) (rev cs) of
              None \<Rightarrow> condGet sampleConditions ct y h' = condGet sampleConditions ct x h
            | Some c \<Rightarrow> \<exists>d. condGet sampleConditions ct y h' = Some d \<and> condSame sampleConditions d c)"
      using xs new_slice [of h ?ys] foot
      by (intro exI [of _ "(fst x, ?s)"] exI [of _ ?h] exI [of _ "(fst x, Some ?ys)"])
        (auto simp: sampleConditions_def sampleLib_def pairVal_def pairFoot_def flatVal_def flatFoot_def find_fold_setOne Let_def
          agree_def nth_append split: option.splits)
  qed
qed

definition sampleBlocks where
  "sampleBlocks =
     [[Some (CLib 21), Some (CLib 43)],
      [Some (CRelease \<lparr>mTypeMeta = \<lparr>tmKind = ''Release'', tmAPIVersion = ''helm.crossplane.io/v1beta1''\<rparr>,
         mObjectMeta = ((False, 0, 0, 0), None),
         mSpec = \<lparr>mManagedResourceSpec = ((True, 1, 2, 3), None), mConnectionDetails = None,
           mForProvider = \<lparr>mChart = \<lparr>csRepository = [], csName = ''web'', csVersion = [], csURL = [], csDigest = [],
               csPullSecretRef = \<lparr>srName = [], srNamespace = []\<rparr>\<rparr>, mNamespace = ''prod'', mSkipCreateNamespace = False,
             mWait = True, mWaitTimeout = None, mPatchesFrom = None,
             mValuesSpec = \<lparr>mValues = ((False, 0, 0, 0), None), mValuesFrom = None, mSet = None\<rparr>,
             mSkipCRDs = False, mInsecureSkipTLSVerify = False, mPlainHTTP = False, mTakeOwnership = False,
             mMaxHistory = 20, mSSAForceConflicts = False\<rparr>,
           mRollbackRetriesLimit = None\<rparr>,
         mStatus = \<lparr>mManagedResourceStatus = ((False, 0, 0, 0), wholeBlock 0 2), mAtProvider = zeroObservation,
           mPatchesSha = [], mFailed = 0, mSynced = True\<rparr>\<rparr> :: sampleCell)]]"

lemma sampleBlocks_release: "\<exists>v. ptrVal tRelease (releaseVal sampleLibs) sampleBlocks (Some (1, 0)) = Some (Some v)"
  by (rule exI [of _ "the (the (ptrVal tRelease (releaseVal sampleLibs) sampleBlocks (Some (1, 0))))"]) code_simp

text \<open>C21: A reconciler that changes the copy of a release that a cache gave it: whatever setters of a managed resource it
  calls on a DeepCopy (deletion and management policies, the references of the provider config and of the
  connection secret, conditions), in any order and number, the calls all return, the original means what
  it meant, the getters of the copy give the value set last or, if none was set, the original one, the
  last condition set of each type is the one that the copy has, and the rest of the copy, what to deploy
  and what was observed, is as it was.\<close>

theorem setters_on_copy:
  fixes X :: "('l, 'v, (DataKeySelector, SecretReference, 'l, 'm) betaCell) libStructs"
  assumes "deepLibs X" and "lawfulClusterManaged L" and "lawfulConditions (ManagedResourceStatus X) C"
    and "ptrVal tRelease (releaseVal X) h (Some p) = Some (Some v)"
  shows "\<exists>q h1 x. DeepCopy (releaseCopy X) (Some p) h = Some (Some q, h1) \<and> load tRelease h1 q = Some x
    \<and> (\<forall>cs. \<exists>h2 m s. runCalls (callRelease L C) cs (Some q) h1 = Some h2
        \<and> ptrVal tRelease (releaseVal X) h2 (Some p) = Some (Some v)
        \<and> load tRelease h2 q = Some (x\<lparr>mSpec := (mSpec x)\<lparr>mManagedResourceSpec := m\<rparr>,
            mStatus := (mStatus x)\<lparr>mManagedResourceStatus := s\<rparr>\<rparr>)
        \<and> releaseGetDeletionPolicy L (Some q) h2
            = Some (deletionPolicyAfter cs (fieldGet (DeletionPolicy L) (mManagedResourceSpec (mSpec x))))
        \<and> releaseGetManagementPolicies L (Some q) h2
            = Some (policiesAfter (managedCalls cs) (fieldGet (ManagementPolicies L) (mManagedResourceSpec (mSpec x))))
        \<and> releaseGetProviderConfigReference L (Some q) h2
            = Some (configReferenceAfter (managedCalls cs) (fieldGet (ProviderConfigReference L) (mManagedResourceSpec (mSpec x))))
        \<and> releaseGetWriteConnectionSecretToReference L (Some q) h2
            = Some (secretReferenceAfter (managedCalls cs) (fieldGet (WriteConnectionSecretToReference L) (mManagedResourceSpec (mSpec x))))
        \<and> (\<forall>ct. conditionAfter C (setConditionsOf (managedCalls cs)) ct
              (releaseGetCondition C ct (Some q) h1) (releaseGetCondition C ct (Some q) h2)))"
proof -
  note D = deep_pointer [OF go_types(12) deep_release [OF assms(1)]]
  obtain q h1 x where c: "DeepCopy (releaseCopy X) (Some p) h = Some (Some q, h1)" "prefix h h1"
    "ownObject tRelease managedStatus (ManagedResourceStatus X) (length h) q x h1"
    by (rule release_copy_owned [OF assms(1,4)])
  have x: "load tRelease h1 q = Some x" using c(3) by (simp add: ownObject_def)
  have keep: "ptrVal tRelease (releaseVal X) h2 (Some p) = Some (Some v)" if "agree {..<length h} h1 h2" for h2
    using agree_trans [OF prefix_agree [OF c(2)] that] deep_copy.inside [OF D assms(4)] deep_copy.frame [OF D assms(4)]
    by (meson agree_mono order_refl)
  show ?thesis
    by (rule exI [of _ q], rule exI [of _ h1], rule exI [of _ x])
      (use c(1) x keep release_calls [OF assms(1-3) c(3)] in \<open>fastforce simp: release_getters managedSpec_def managedStatus_def\<close>)
qed

theorem setters_on_copy_witness:
  "\<exists>q h1 x h2 v. DeepCopy (releaseCopy sampleLibs) (Some (1, 0)) sampleBlocks = Some (Some q, h1)
    \<and> load tRelease h1 q = Some x
    \<and> runCalls (callRelease sampleFields sampleConditions)
        [CallDeletionPolicy False, CallManaged (CallConditions [31, 52]), CallManaged (CallProviderConfigReference 7),
         CallManaged (CallConditions [61])] (Some q) h1 = Some h2
    \<and> ptrVal tRelease (releaseVal sampleLibs) h2 (Some (1, 0)) = Some (Some v)
    \<and> releaseGetDeletionPolicy sampleFields (Some q) h2 = Some False
    \<and> releaseGetProviderConfigReference sampleFields (Some q) h2 = Some 7
    \<and> releaseGetCondition sampleConditions 1 (Some q) h2 = Some 61
    \<and> releaseGetCondition sampleConditions 2 (Some q) h2 = Some 52
    \<and> releaseGetCondition sampleConditions 3 (Some q) h2 = releaseGetCondition sampleConditions 3 (Some q) h1"
proof -
  let ?cs = "[CallDeletionPolicy False, CallManaged (CallConditions [31, 52]), CallManaged (CallProviderConfigReference 7),
    CallManaged (CallConditions [61])] :: (nat, nat, nat, nat, bool) clusterManagedCall list"
  have C: "lawfulConditions (ManagedResourceStatus sampleLibs) sampleConditions"
    using lawful_sampleConditions by (simp add: sampleLibs_def)
  obtain v where v: "ptrVal tRelease (releaseVal sampleLibs) sampleBlocks (Some (1, 0)) = Some (Some v)"
    using sampleBlocks_release by blast
  obtain q h1 x h2 where c: "DeepCopy (releaseCopy sampleLibs) (Some (1, 0)) sampleBlocks = Some (Some q, h1)"
    "load tRelease h1 q = Some x" "runCalls (callRelease sampleFields sampleConditions) ?cs (Some q) h1 = Some h2"
    "ptrVal tRelease (releaseVal sampleLibs) h2 (Some (1, 0)) = Some (Some v)"
    "releaseGetDeletionPolicy sampleFields (Some q) h2 = Some False"
    "releaseGetProviderConfigReference sampleFields (Some q) h2 = Some 7"
    and cond: "\<forall>ct. conditionAfter sampleConditions (setConditionsOf (managedCalls ?cs)) ct
      (releaseGetCondition sampleConditions ct (Some q) h1) (releaseGetCondition sampleConditions ct (Some q) h2)"
    using setters_on_copy [OF deep_sampleLibs lawful_sampleFields C v]
    apply (elim exE conjE)
    apply (drule spec [where x = ?cs])
    apply (elim exE conjE)
    by (rule that, assumption+) simp_all
  have "releaseGetCondition sampleConditions 1 (Some q) h2 = Some 61" "releaseGetCondition sampleConditions 2 (Some q) h2 = Some 52"
    "releaseGetCondition sampleConditions 3 (Some q) h2 = releaseGetCondition sampleConditions 3 (Some q) h1"
    using cond [rule_format, of 1] cond [rule_format, of 2] cond [rule_format, of 3] by (simp_all add: conditionAfter_def sampleConditions_def)
  with c show ?thesis by blast
qed

section \<open>Provider configs\<close>

text \<open>A provider config of \<open>v1alpha1\<close> with an identity, and what it means.\<close>

definition memConfigBlocks :: "(slice option, nat) alphaConfigCell memory" where
  "memConfigBlocks =
     [[Some (CConfigLib 4), Some (CConfigLib 2)],
      [Some (CIdentity \<lparr>mIdentityType = ''GoogleApplicationCredentials'',
         mIdentityCredentials = \<lparr>mSource = ''Secret'', mSelectors = wholeBlock 0 2\<rparr>\<rparr>)],
      [Some (CConfig \<lparr>mTypeMeta = \<lparr>tmKind = ''ProviderConfig'', tmAPIVersion = ''helm.crossplane.io/v1alpha1''\<rparr>,
         mObjectMeta = None,
         mSpec = \<lparr>mCredentials = \<lparr>mSource = ''Secret'', mSelectors = wholeBlock 0 1\<rparr>, mIdentityRef = Some (1, 0)\<rparr>,
         mStatus = \<lparr>mConfigStatus = None\<rparr>\<rparr>)]]"

definition alphaConfigVal where
  "alphaConfigVal X = objectVal (ConfigMeta X) (providerConfigSpecVal X) (providerConfigStatusVal X)"

lemma memConfigBlocks_config:
  "ptrVal tConfig (alphaConfigVal byteConfigLibs) memConfigBlocks (Some (2, 0)) =
     Some (Some \<lparr>mTypeMeta = \<lparr>tmKind = ''ProviderConfig'', tmAPIVersion = ''helm.crossplane.io/v1alpha1''\<rparr>,
       mObjectMeta = None,
       mSpec = \<lparr>mCredentials = \<lparr>mSource = ''Secret'', mSelectors = Some [4]\<rparr>,
         mIdentityRef = Some \<lparr>mIdentityType = ''GoogleApplicationCredentials'',
           mIdentityCredentials = \<lparr>mSource = ''Secret'', mSelectors = Some [4, 2]\<rparr>\<rparr>\<rparr>,
       mStatus = \<lparr>mConfigStatus = None\<rparr>\<rparr>)"
  by code_simp

text \<open>C40: DeepCopy of a provider config of v1alpha1 copies its credentials and its identity with the
  credentials in it: the copy means the same, lies in new blocks, and neither can be changed through the
  other.\<close>

theorem provider_config_deep_copy_independent:
  assumes "deepConfigLibs X" and "ptrVal tConfig (alphaConfigVal X) h p = Some v"
  shows "\<exists>q h'. DeepCopy (alphaProviderConfigCopy X) p h = Some (q, h') \<and> prefix h h'
    \<and> ptrVal tConfig (alphaConfigVal X) h' q = Some v
    \<and> (\<forall>h''. agree {length h..<length h'} h' h'' \<longrightarrow> ptrVal tConfig (alphaConfigVal X) h'' q = Some v)
    \<and> (\<forall>h''. agree {..<length h} h h'' \<longrightarrow> ptrVal tConfig (alphaConfigVal X) h'' p = Some v)"
  using methods_independent [OF alphaProviderConfigCopy_generated config_types(5) deep_alphaProviderConfig [OF assms(1)]] assms(2)
  by (simp only: alphaConfigVal_def)

theorem provider_config_deep_copy_independent_witness:
  "\<exists>q h'. DeepCopy (alphaProviderConfigCopy byteConfigLibs) (Some (2, 0)) memConfigBlocks = Some (q, h')
    \<and> ptrVal tConfig (alphaConfigVal byteConfigLibs) h' q =
        Some (Some \<lparr>mTypeMeta = \<lparr>tmKind = ''ProviderConfig'', tmAPIVersion = ''helm.crossplane.io/v1alpha1''\<rparr>,
          mObjectMeta = None,
          mSpec = \<lparr>mCredentials = \<lparr>mSource = ''Secret'', mSelectors = Some [4]\<rparr>,
            mIdentityRef = Some \<lparr>mIdentityType = ''GoogleApplicationCredentials'',
              mIdentityCredentials = \<lparr>mSource = ''Secret'', mSelectors = Some [4, 2]\<rparr>\<rparr>\<rparr>,
          mStatus = \<lparr>mConfigStatus = None\<rparr>\<rparr>)"
  using provider_config_deep_copy_independent [OF deep_byteConfigLibs memConfigBlocks_config] by blast

end
