(* ===== verification/Namespaced_Constants.thy ===== *)
theory Namespaced_Constants
  imports Release_Controllers
begin

text \<open>
  The constants of the package \<open>pkg/controller/namespaced/release\<close>, from its own files: names of
  annotations and labels, default keys, and the messages of its errors. They are those of the cluster
  package.
\<close>

section \<open>release.go\<close>

definition nsDefaultWaitTimeout :: Duration where
  "nsDefaultWaitTimeout = 5 * 60 * 1000000000"

definition nsHelmReleaseNameAnnotation :: string where
  "nsHelmReleaseNameAnnotation = ''meta.helm.sh/release-name''"

definition nsHelmReleaseNamespaceAnnotation :: string where
  "nsHelmReleaseNamespaceAnnotation = ''meta.helm.sh/release-namespace''"

definition nsHelmNamespaceLabel :: string where
  "nsHelmNamespaceLabel = ''app.kubernetes.io/managed-by''"

definition nsHelmProviderName :: string where
  "nsHelmProviderName = ''provider-helm''"

definition nsErrNotRelease :: string where
  "nsErrNotRelease = ''managed resource is not a Release custom resource''"

definition nsErrNewHelmClient :: string where
  "nsErrNewHelmClient = ''cannot create new Helm client''"

definition nsErrFailedToGetLastRelease :: string where
  "nsErrFailedToGetLastRelease = ''failed to get last helm release''"

definition nsErrLastReleaseIsNil :: string where
  "nsErrLastReleaseIsNil = ''last helm release is nil''"

definition nsErrFailedToCheckIfUpToDate :: string where
  "nsErrFailedToCheckIfUpToDate = ''failed to check if release is up to date''"

definition nsErrFailedToInstall :: string where
  "nsErrFailedToInstall = ''failed to install release''"

definition nsErrFailedToUpgrade :: string where
  "nsErrFailedToUpgrade = ''failed to upgrade release''"

definition nsErrFailedToUninstall :: string where
  "nsErrFailedToUninstall = ''failed to uninstall release''"

definition nsErrFailedToGetRepoCreds :: string where
  "nsErrFailedToGetRepoCreds = ''failed to get user name and password from secret reference''"

definition nsErrFailedToComposeValues :: string where
  "nsErrFailedToComposeValues = ''failed to compose values''"

definition nsErrBuildKubeForProviderConfig :: string where
  "nsErrBuildKubeForProviderConfig = ''cannot build kube client for provider config''"

definition nsErrFailedToLoadPatches :: string where
  "nsErrFailedToLoadPatches = ''failed to load patches''"

definition nsErrFailedToUpdatePatchSha :: string where
  "nsErrFailedToUpdatePatchSha = ''failed to update patch sha''"

definition nsErrFailedToLateInitialize :: string where
  "nsErrFailedToLateInitialize = ''failed to update chart spec with late-initialized values''"

definition nsErrFailedToCreateNamespace :: string where
  "nsErrFailedToCreateNamespace = ''failed to create namespace for release''"

section \<open>observe.go\<close>

definition nsErrReleaseInfoNilInObservedRelease :: string where
  "nsErrReleaseInfoNilInObservedRelease = ''release info is nil in observed helm release''"

definition nsErrChartNilInObservedRelease :: string where
  "nsErrChartNilInObservedRelease = ''chart field is nil in observed helm release''"

definition nsErrChartMetaNilInObservedRelease :: string where
  "nsErrChartMetaNilInObservedRelease = ''chart metadata field is nil in observed helm release''"

definition nsErrObjectNotPartOfRelease :: string where
  "nsErrObjectNotPartOfRelease = ''object is not part of release: ''"

definition nsDevel :: string where
  "nsDevel = ''>0.0.0-0''"

section \<open>data.go\<close>

definition nsErrFailedToGetSecret :: "string \<Rightarrow> string" where
  "nsErrFailedToGetSecret x = ''failed to get secret from namespace \"'' @ x @ ''\"''"

definition nsErrSecretDataIsNil :: string where
  "nsErrSecretDataIsNil = ''secret data is nil''"

definition nsErrFailedToGetConfigMap :: "string \<Rightarrow> string" where
  "nsErrFailedToGetConfigMap x = ''failed to get configmap from namespace \"'' @ x @ ''\"''"

definition nsErrConfigMapDataIsNil :: string where
  "nsErrConfigMapDataIsNil = ''configmap data is nil''"

definition nsErrSourceNotSetForValueFrom :: string where
  "nsErrSourceNotSetForValueFrom = ''source not set for value from''"

definition nsErrFailedToGetDataFromSecretRef :: string where
  "nsErrFailedToGetDataFromSecretRef = ''failed to get data from secret ref''"

definition nsErrFailedToGetDataFromConfigMapRef :: string where
  "nsErrFailedToGetDataFromConfigMapRef = ''failed to get data from configmap ref''"

definition nsErrMissingKeyForValuesFrom :: "string \<Rightarrow> string" where
  "nsErrMissingKeyForValuesFrom x = ''missing key \"'' @ x @ ''\" in values from source''"

section \<open>values.go\<close>

definition nsKeyDefaultValuesFrom :: string where
  "nsKeyDefaultValuesFrom = ''values.yaml''"

definition nsKeyDefaultSet :: string where
  "nsKeyDefaultSet = ''value''"

definition nsErrFailedToUnmarshalDesiredValues :: string where
  "nsErrFailedToUnmarshalDesiredValues = ''failed to unmarshal desired values''"

definition nsErrFailedParsingSetData :: string where
  "nsErrFailedParsingSetData = ''failed parsing --set data''"

definition nsErrFailedToGetValueFromSource :: string where
  "nsErrFailedToGetValueFromSource = ''failed to get value from source''"

definition nsErrMissingValueForSet :: string where
  "nsErrMissingValueForSet = ''missing value for --set''"

section \<open>patch.go\<close>

definition nsKeyDefaultPatchFrom :: string where
  "nsKeyDefaultPatchFrom = ''patch.yaml''"

definition nsErrFailedToUnmarshallPatch :: string where
  "nsErrFailedToUnmarshallPatch = ''failed to unmarshal patch''"

section \<open>chart.go\<close>

definition nsKeyRepoUsername :: string where
  "nsKeyRepoUsername = ''username''"

definition nsKeyRepoPassword :: string where
  "nsKeyRepoPassword = ''password''"

definition nsErrFailedToGetRepoPullSecret :: string where
  "nsErrFailedToGetRepoPullSecret = ''failed to get repo pull secret''"

definition nsErrChartPullSecretMissingUsername :: string where
  "nsErrChartPullSecretMissingUsername = ''username missing in chart pull secret''"

definition nsErrChartPullSecretMissingPassword :: string where
  "nsErrChartPullSecretMissingPassword = ''password missing in chart pull secret''"

section \<open>The constants of the cluster package\<close>

lemmas ns_constant_defs =
  nsDefaultWaitTimeout_def defaultWaitTimeout_def nsHelmReleaseNameAnnotation_def helmReleaseNameAnnotation_def
  nsHelmReleaseNamespaceAnnotation_def helmReleaseNamespaceAnnotation_def nsHelmNamespaceLabel_def helmNamespaceLabel_def
  nsHelmProviderName_def helmProviderName_def nsErrNotRelease_def errNotRelease_def
  nsErrNewHelmClient_def errNewHelmClient_def nsErrFailedToGetLastRelease_def errFailedToGetLastRelease_def
  nsErrLastReleaseIsNil_def errLastReleaseIsNil_def nsErrFailedToCheckIfUpToDate_def errFailedToCheckIfUpToDate_def
  nsErrFailedToInstall_def errFailedToInstall_def nsErrFailedToUpgrade_def errFailedToUpgrade_def
  nsErrFailedToUninstall_def errFailedToUninstall_def nsErrFailedToGetRepoCreds_def errFailedToGetRepoCreds_def
  nsErrFailedToComposeValues_def errFailedToComposeValues_def
  nsErrBuildKubeForProviderConfig_def errBuildKubeForProviderConfig_def
  nsErrFailedToLoadPatches_def errFailedToLoadPatches_def nsErrFailedToUpdatePatchSha_def errFailedToUpdatePatchSha_def
  nsErrFailedToLateInitialize_def errFailedToLateInitialize_def
  nsErrFailedToCreateNamespace_def errFailedToCreateNamespace_def
  nsErrReleaseInfoNilInObservedRelease_def errReleaseInfoNilInObservedRelease_def
  nsErrChartNilInObservedRelease_def errChartNilInObservedRelease_def
  nsErrChartMetaNilInObservedRelease_def errChartMetaNilInObservedRelease_def
  nsErrObjectNotPartOfRelease_def errObjectNotPartOfRelease_def nsDevel_def devel_def
  nsErrFailedToGetSecret_def errFailedToGetSecret_def nsErrSecretDataIsNil_def errSecretDataIsNil_def
  nsErrFailedToGetConfigMap_def errFailedToGetConfigMap_def nsErrConfigMapDataIsNil_def errConfigMapDataIsNil_def
  nsErrSourceNotSetForValueFrom_def errSourceNotSetForValueFrom_def
  nsErrFailedToGetDataFromSecretRef_def errFailedToGetDataFromSecretRef_def
  nsErrFailedToGetDataFromConfigMapRef_def errFailedToGetDataFromConfigMapRef_def
  nsErrMissingKeyForValuesFrom_def errMissingKeyForValuesFrom_def nsKeyDefaultValuesFrom_def keyDefaultValuesFrom_def
  nsKeyDefaultSet_def keyDefaultSet_def nsErrFailedToUnmarshalDesiredValues_def errFailedToUnmarshalDesiredValues_def
  nsErrFailedParsingSetData_def errFailedParsingSetData_def
  nsErrFailedToGetValueFromSource_def errFailedToGetValueFromSource_def
  nsErrMissingValueForSet_def errMissingValueForSet_def nsKeyDefaultPatchFrom_def keyDefaultPatchFrom_def
  nsErrFailedToUnmarshallPatch_def errFailedToUnmarshallPatch_def nsKeyRepoUsername_def keyRepoUsername_def
  nsKeyRepoPassword_def keyRepoPassword_def nsErrFailedToGetRepoPullSecret_def errFailedToGetRepoPullSecret_def
  nsErrChartPullSecretMissingUsername_def errChartPullSecretMissingUsername_def
  nsErrChartPullSecretMissingPassword_def errChartPullSecretMissingPassword_def

lemma ns_constants [simp]:
  "nsDefaultWaitTimeout = defaultWaitTimeout" "nsHelmReleaseNameAnnotation = helmReleaseNameAnnotation"
  "nsHelmReleaseNamespaceAnnotation = helmReleaseNamespaceAnnotation" "nsHelmNamespaceLabel = helmNamespaceLabel"
  "nsHelmProviderName = helmProviderName" "nsErrNotRelease = errNotRelease" "nsErrNewHelmClient = errNewHelmClient"
  "nsErrFailedToGetLastRelease = errFailedToGetLastRelease" "nsErrLastReleaseIsNil = errLastReleaseIsNil"
  "nsErrFailedToCheckIfUpToDate = errFailedToCheckIfUpToDate" "nsErrFailedToInstall = errFailedToInstall"
  "nsErrFailedToUpgrade = errFailedToUpgrade" "nsErrFailedToUninstall = errFailedToUninstall"
  "nsErrFailedToGetRepoCreds = errFailedToGetRepoCreds" "nsErrFailedToComposeValues = errFailedToComposeValues"
  "nsErrBuildKubeForProviderConfig = errBuildKubeForProviderConfig" "nsErrFailedToLoadPatches = errFailedToLoadPatches"
  "nsErrFailedToUpdatePatchSha = errFailedToUpdatePatchSha" "nsErrFailedToLateInitialize = errFailedToLateInitialize"
  "nsErrFailedToCreateNamespace = errFailedToCreateNamespace"
  "nsErrReleaseInfoNilInObservedRelease = errReleaseInfoNilInObservedRelease"
  "nsErrChartNilInObservedRelease = errChartNilInObservedRelease"
  "nsErrChartMetaNilInObservedRelease = errChartMetaNilInObservedRelease"
  "nsErrObjectNotPartOfRelease = errObjectNotPartOfRelease" "nsDevel = devel"
  "nsErrFailedToGetSecret = errFailedToGetSecret" "nsErrSecretDataIsNil = errSecretDataIsNil"
  "nsErrFailedToGetConfigMap = errFailedToGetConfigMap" "nsErrConfigMapDataIsNil = errConfigMapDataIsNil"
  "nsErrSourceNotSetForValueFrom = errSourceNotSetForValueFrom"
  "nsErrFailedToGetDataFromSecretRef = errFailedToGetDataFromSecretRef"
  "nsErrFailedToGetDataFromConfigMapRef = errFailedToGetDataFromConfigMapRef"
  "nsErrMissingKeyForValuesFrom = errMissingKeyForValuesFrom" "nsKeyDefaultValuesFrom = keyDefaultValuesFrom"
  "nsKeyDefaultSet = keyDefaultSet" "nsErrFailedToUnmarshalDesiredValues = errFailedToUnmarshalDesiredValues"
  "nsErrFailedParsingSetData = errFailedParsingSetData" "nsErrFailedToGetValueFromSource = errFailedToGetValueFromSource"
  "nsErrMissingValueForSet = errMissingValueForSet" "nsKeyDefaultPatchFrom = keyDefaultPatchFrom"
  "nsErrFailedToUnmarshallPatch = errFailedToUnmarshallPatch" "nsKeyRepoUsername = keyRepoUsername"
  "nsKeyRepoPassword = keyRepoPassword" "nsErrFailedToGetRepoPullSecret = errFailedToGetRepoPullSecret"
  "nsErrChartPullSecretMissingUsername = errChartPullSecretMissingUsername"
  "nsErrChartPullSecretMissingPassword = errChartPullSecretMissingPassword"
  by (simp_all add: ns_constant_defs fun_eq_iff)

end
