(* ===== verification/Namespaced_Code.thy ===== *)
theory Namespaced_Code
  imports Namespaced_Constants
begin

text \<open>
  The package \<open>pkg/controller/namespaced/release\<close> written out in full from its own files. It is a copy of the
  cluster package that has been edited, and nothing but the copying keeps the two alike; the handlers of
  the namespaced scope in \<open>Release_Controllers\<close> are instances of code that the two share in the model. Here
  every function has the text of the namespaced package and calls the functions of that package only;
  the lemmas show that the instances are this code. The messages are the constants of \<open>Namespaced_Constants\<close>.
\<close>

section \<open>data.go\<close>

definition nsGetSecretData :: "'r kube \<Rightarrow> NamespacedName \<Rightarrow> goerr + (string \<rightharpoonup> string)" where
  "nsGetSecretData kube nn =
     (case kSecret kube nn of
        Inl e \<Rightarrow> Inl (Wrap e (nsErrFailedToGetSecret (nnNamespace nn)))
      | Inr s \<Rightarrow> (if s = None then Inl (ErrNew nsErrSecretDataIsNil) else Inr (the s)))"

definition nsGetConfigMapData :: "'r kube \<Rightarrow> NamespacedName \<Rightarrow> goerr + (string \<rightharpoonup> string)" where
  "nsGetConfigMapData kube nn =
     (case kConfigMap kube nn of
        Inl e \<Rightarrow> Inl (Wrap e (nsErrFailedToGetConfigMap (nnNamespace nn)))
      | Inr cm \<Rightarrow> (if cm = None then Inl (ErrNew nsErrConfigMapDataIsNil) else Inr (the cm)))"

text \<open>The two branches one after the other; \<open>d\<close> is nil when there is an error that is tolerated.\<close>

definition nsDataValue :: "'r kube \<Rightarrow> NsValueFromSource \<Rightarrow> string \<Rightarrow> string \<Rightarrow> goerr + string" where
  "nsDataValue kube source defaultKey namespace =
     (case SecretKeyRef source of
        Some r \<Rightarrow>
          (let res = nsGetSecretData kube \<lparr>nnNamespace = namespace, nnName = ndksName r\<rparr>;
               err = (case res of Inl e \<Rightarrow> Some e | Inr _ \<Rightarrow> None);
               d = (case res of Inl _ \<Rightarrow> Map.empty | Inr d \<Rightarrow> d);
               notFound = (case err of None \<Rightarrow> False | Some e \<Rightarrow> IsNotFound (Cause e));
               k = (if ndksKey r \<noteq> [] then ndksKey r else defaultKey) in
           if notFound \<and> \<not> ndksOptional r then Inl (Wrap (the err) nsErrFailedToGetDataFromSecretRef)
           else if err \<noteq> None \<and> \<not> notFound then Inl (Wrap (the err) nsErrFailedToGetDataFromSecretRef)
           else if d k = None \<and> \<not> ndksOptional r then Inl (ErrNew (nsErrMissingKeyForValuesFrom k))
           else Inr (case d k of None \<Rightarrow> [] | Some valBytes \<Rightarrow> valBytes))
      | None \<Rightarrow>
     (case ConfigMapKeyRef source of
        Some r \<Rightarrow>
          (let res = nsGetConfigMapData kube \<lparr>nnNamespace = namespace, nnName = ndksName r\<rparr>;
               err = (case res of Inl e \<Rightarrow> Some e | Inr _ \<Rightarrow> None);
               d = (case res of Inl _ \<Rightarrow> Map.empty | Inr d \<Rightarrow> d);
               notFound = (case err of None \<Rightarrow> False | Some e \<Rightarrow> IsNotFound (Cause e));
               k = (if ndksKey r \<noteq> [] then ndksKey r else defaultKey) in
           if notFound \<and> \<not> ndksOptional r then Inl (Wrap (the err) nsErrFailedToGetDataFromConfigMapRef)
           else if err \<noteq> None \<and> \<not> notFound then Inl (Wrap (the err) nsErrFailedToGetDataFromConfigMapRef)
           else if d k = None \<and> \<not> ndksOptional r then Inl (ErrNew (nsErrMissingKeyForValuesFrom k))
           else Inr (case d k of None \<Rightarrow> [] | Some valString \<Rightarrow> valString))
      | None \<Rightarrow> Inl (ErrNew nsErrSourceNotSetForValueFrom)))"

lemma nsGetSecretData_eq: "nsGetSecretData = getSecretData"
  by (intro ext) (simp add: nsGetSecretData_def getSecretData_def split: sum.split option.split)

lemma nsGetConfigMapData_eq: "nsGetConfigMapData = getConfigMapData"
  by (intro ext) (simp add: nsGetConfigMapData_def getConfigMapData_def split: sum.split option.split)

lemma nsDataValue_eq: "nsDataValue = nsGetDataValueFromSource"
  by (intro ext) (auto simp: nsDataValue_def nsGetDataValueFromSource_def valueOfData_def nsGetSecretData_eq nsGetConfigMapData_eq
      Let_def split: sum.split option.split)

section \<open>values.go\<close>

fun nsMergeMaps :: "vals \<Rightarrow> vals \<Rightarrow> vals" where
  "nsMergeMaps out [] = out"
| "nsMergeMaps out ((k, v) # b) =
     (case (v, map_of out k) of
        (VMap vb, Some (VMap bv)) \<Rightarrow> nsMergeMaps (put out k (VMap (nsMergeMaps bv vb))) b
      | _ \<Rightarrow> nsMergeMaps (put out k v) b)"

fun nsMergeValuesFrom :: "lib \<Rightarrow> 'r kube \<Rightarrow> string \<Rightarrow> vals \<Rightarrow> NsValueFromSource list \<Rightarrow> goerr + vals" where
  "nsMergeValuesFrom L kube namespace base [] = Inr base"
| "nsMergeValuesFrom L kube namespace base (vf # vfs) =
     (case nsDataValue kube vf nsKeyDefaultValuesFrom namespace of
        Inl err \<Rightarrow> Inl (Wrap err nsErrFailedToGetValueFromSource)
      | Inr s \<Rightarrow>
     (case yamlValues L s of
        Inl err \<Rightarrow> Inl (Wrap err nsErrFailedToUnmarshalDesiredValues)
      | Inr currVals \<Rightarrow> nsMergeValuesFrom L kube namespace (nsMergeMaps base currVals) vfs))"

fun nsApplySets :: "lib \<Rightarrow> 'r kube \<Rightarrow> string \<Rightarrow> vals \<Rightarrow> NsDataKeySelector SetVal list \<Rightarrow> goerr + vals" where
  "nsApplySets L kube namespace base [] = Inr base"
| "nsApplySets L kube namespace base (s # ss) =
     (case (case svValueFrom s of
              None \<Rightarrow> Inr (svValue s)
            | Some src \<Rightarrow> nsDataValue kube src nsKeyDefaultSet namespace) of
        Inl err \<Rightarrow> Inl (Wrap err nsErrFailedToGetValueFromSource)
      | Inr v \<Rightarrow>
          if v = [] then Inl (ErrNew nsErrMissingValueForSet)
          else (case strvalsParseInto L (svName s @ ''='' @ v) base of
                  Inl err \<Rightarrow> Inl (Wrap err nsErrFailedParsingSetData)
                | Inr base' \<Rightarrow> nsApplySets L kube namespace base' ss))"

definition nsValues :: "lib \<Rightarrow> 'r kube \<Rightarrow> NsValuesSpec \<Rightarrow> string \<Rightarrow> goerr + vals" where
  "nsValues L kube spec namespace =
     (case nsMergeValuesFrom L kube namespace [] (ValuesFrom spec) of
        Inl err \<Rightarrow> Inl err
      | Inr base \<Rightarrow>
     (case yamlValues L (ValuesRaw spec) of
        Inl err \<Rightarrow> Inl (Wrap err nsErrFailedToUnmarshalDesiredValues)
      | Inr inlineVals \<Rightarrow> nsApplySets L kube namespace (nsMergeMaps base inlineVals) (SetVals spec)))"

lemma nsMergeMaps_eq: "nsMergeMaps a b = mergeMaps a b"
  by (induction a b rule: nsMergeMaps.induct) (auto simp: mergeMaps.simps(2) split: val.split option.split)

lemma nsMergeValuesFrom_eq:
  "nsMergeValuesFrom L kube ns base vfs = mergeValuesFrom L (\<lambda>src key. nsGetDataValueFromSource kube src key ns) base vfs"
  by (induction vfs arbitrary: base) (auto simp: nsDataValue_eq nsMergeMaps_eq bindE_def wrapE_def split: sum.split)

lemma nsApplySets_eq:
  "nsApplySets L kube ns base ss = applySets L (\<lambda>src key. nsGetDataValueFromSource kube src key ns) base ss"
  by (induction ss arbitrary: base)
    (auto simp: nsDataValue_eq setValueOf_def bindE_def wrapE_def Let_def split: sum.split option.split)

lemma nsValues_eq: "nsValues = nsComposeValuesFromSpec"
  by (intro ext) (simp add: nsValues_def nsComposeValuesFromSpec_def composeValues_def nsMergeValuesFrom_eq nsApplySets_eq
      nsMergeMaps_eq bindE_def wrapE_def split: sum.split)

section \<open>patch.go\<close>

fun nsLoadPatches :: "lib \<Rightarrow> 'r kube \<Rightarrow> string \<Rightarrow> Patch list \<Rightarrow> NsValueFromSource list \<Rightarrow> goerr + Patch list" where
  "nsLoadPatches L kube namespace base [] = Inr base"
| "nsLoadPatches L kube namespace base (vf # vfs) =
     (case nsDataValue kube vf nsKeyDefaultPatchFrom namespace of
        Inl err \<Rightarrow> Inl (Wrap err nsErrFailedToGetValueFromSource)
      | Inr s \<Rightarrow>
          if s = [] then nsLoadPatches L kube namespace base vfs
          else (case yamlPatches L s of
                  Inl err \<Rightarrow> Inl (Wrap err nsErrFailedToUnmarshallPatch)
                | Inr p \<Rightarrow> nsLoadPatches L kube namespace (base @ p) vfs))"

definition nsShaOf :: "lib \<Rightarrow> Patch list \<Rightarrow> goerr + string" where
  "nsShaOf L patches =
     (if length patches = 0 then Inr []
      else (case patchesJSON L patches of Inl err \<Rightarrow> Inl err | Inr jb \<Rightarrow> Inr (sha256Hex jb)))"

definition nsPatcher :: "lib \<Rightarrow> ('r kube \<times> string, NsValueFromSource) Patcher" where
  "nsPatcher L =
     \<lparr>paGetFromSpec = (\<lambda>(kube, namespace) vals. nsLoadPatches L kube namespace [] vals), paShaOf = nsShaOf L\<rparr>"

definition nsPatchesChanged ::
  "('r kube \<times> string, NsValueFromSource) Patcher \<Rightarrow> 'r kube \<Rightarrow> NsValueFromSource list \<Rightarrow> ReleaseStatus \<Rightarrow> string \<Rightarrow>
    goerr + bool" where
  "nsPatchesChanged p kube inp s namespace =
     (case paGetFromSpec p (kube, namespace) inp of
        Inl err \<Rightarrow> Inl err
      | Inr patches \<Rightarrow>
     (case paShaOf p patches of
        Inl err \<Rightarrow> Inl err
      | Inr digest \<Rightarrow> Inr (\<not> EqualFold digest (stPatchesSha s))))"

lemma nsLoadPatches_eq:
  "nsLoadPatches L kube ns base vfs = loadPatches L (\<lambda>src key. nsGetDataValueFromSource kube src key ns) base vfs"
proof -
  have "errFailedToGetValueFromSource = errPatchValueFromSource"
    by (simp add: errFailedToGetValueFromSource_def errPatchValueFromSource_def)
  then show ?thesis
    by (induction vfs arbitrary: base) (auto simp: nsDataValue_eq bindE_def wrapE_def split: sum.split)
qed

lemma nsPatcher_eq: "nsPatcher = nsNewPatcher"
  by (intro ext) (auto simp: nsPatcher_def nsNewPatcher_def nsLoadPatches_eq nsGetFromSpec_def nsShaOf_def shaOf_def
      bindE_def fun_eq_iff split: sum.split)

lemma nsPatchesChanged_eq: "nsPatchesChanged = nsHasUpdates"
  by (intro ext) (simp add: nsPatchesChanged_def nsHasUpdates_def bindE_def)

section \<open>chart.go\<close>

definition nsRepoCreds :: "'r kube \<Rightarrow> string \<Rightarrow> LocalSecretReference \<Rightarrow> goerr + RepoCreds" where
  "nsRepoCreds kube namespace secretRef =
     (if lsrName secretRef = [] then Inr \<lparr>rcUsername = [], rcPassword = []\<rparr>
      else (case nsGetSecretData kube \<lparr>nnNamespace = namespace, nnName = lsrName secretRef\<rparr> of
              Inl err \<Rightarrow> Inl (Wrap err nsErrFailedToGetRepoPullSecret)
            | Inr d \<Rightarrow>
                let repoUser = dataAt (Some d) nsKeyRepoUsername; repoPass = dataAt (Some d) nsKeyRepoPassword in
                if repoUser = [] then Inl (ErrNew nsErrChartPullSecretMissingUsername)
                else if repoPass = [] then Inl (ErrNew nsErrChartPullSecretMissingPassword)
                else Inr \<lparr>rcUsername = repoUser, rcPassword = repoPass\<rparr>))"

lemma nsRepoCreds_eq: "nsRepoCreds = nsRepoCredsFromSecret"
  by (intro ext) (simp add: nsRepoCreds_def nsRepoCredsFromSecret_def nsGetSecretData_eq bindE_def wrapE_def Let_def split: sum.split)

section \<open>observe.go\<close>

definition nsGenerateObservation :: "HelmRelease \<Rightarrow> ReleaseObservation" where
  "nsGenerateObservation inr =
     (let o1 = (case hrInfo inr of
                  None \<Rightarrow> zeroObservation
                | Some relInfo \<Rightarrow> zeroObservation\<lparr>obsState := riStatus relInfo,
                    obsReleaseDescription := riDescription relInfo, obsRevision := hrVersion inr\<rparr>)
      in case Option.bind (hrChart inr) chMetadata of None \<Rightarrow> o1 | Some m \<Rightarrow> o1\<lparr>obsVersion := cmVersion m\<rparr>)"

definition nsNormalizeConfig :: "vals option \<Rightarrow> vals option" where
  "nsNormalizeConfig cfg =
     (if cfg = None then None
      else (case jsonRoundTrip (VMap (the cfg)) of Some (VMap normalized) \<Rightarrow> Some normalized | _ \<Rightarrow> cfg))"

definition nsIsPending :: "Status \<Rightarrow> bool" where
  "nsIsPending s \<longleftrightarrow> s = StatusPendingInstall \<or> s = StatusPendingUpgrade \<or> s = StatusPendingRollback"

definition nsUpToDate ::
  "lib \<Rightarrow> 'r kube \<Rightarrow> NsReleaseSpec \<Rightarrow> HelmRelease \<Rightarrow> ReleaseStatus \<Rightarrow> string \<Rightarrow> goerr + bool" where
  "nsUpToDate L kube spec observed s namespace =
     (case hrInfo observed of
        None \<Rightarrow> Inl (ErrNew nsErrReleaseInfoNilInObservedRelease)
      | Some info \<Rightarrow>
     if nsIsPending (riStatus info) then Inr False
     else (case hrChart observed of
        None \<Rightarrow> Inl (ErrNew nsErrChartNilInObservedRelease)
      | Some oc \<Rightarrow>
     (case chMetadata oc of
        None \<Rightarrow> Inl (ErrNew nsErrChartMetaNilInObservedRelease)
      | Some ocm \<Rightarrow>
     let inp = spForProvider spec; chart = fpChart inp; mp = spManagementPolicies spec in
     if csName chart \<noteq> cmName ocm then Inr False
     else if set mp \<noteq> {} \<and> MAUpdate \<notin> set mp \<and> MAAll \<notin> set mp then Inr True
     else if csVersion chart \<noteq> [] \<and> csVersion chart \<noteq> cmVersion ocm \<and> csVersion chart \<noteq> nsDevel then Inr False
     else if csDigest chart \<noteq> [] \<and> obsDigest (stAtProvider s) \<noteq> [] \<and> csDigest chart \<noteq> obsDigest (stAtProvider s)
     then Inr False
     else (case nsValues L kube (fpValuesSpec inp) namespace of
        Inl err \<Rightarrow> Inl (Wrap err nsErrFailedToComposeValues)
      | Inr desiredConfig \<Rightarrow>
     let observedConfig = (case hrConfig observed of None \<Rightarrow> [] | Some m \<Rightarrow> m) in
     if \<not> semanticDeepEqual L (nsNormalizeConfig (Some desiredConfig)) (nsNormalizeConfig (Some observedConfig)) then Inr False
     else (case nsPatchesChanged (nsPatcher L) kube (fpPatchesFrom inp) s namespace of
        Inl err \<Rightarrow> Inl (Wrap err nsErrFailedToLoadPatches)
      | Inr changed \<Rightarrow> if changed then Inr False else Inr True)))))"

definition nsUnstructuredFromObjectRef :: "ObjectReference \<Rightarrow> Unstructured" where
  "nsUnstructuredFromObjectRef r =
     (let u = \<lparr>unAPIVersion = [], unKind = [], unName = [], unNamespace = [], unAnnotations = [], unObject = []\<rparr> in
      u\<lparr>unAPIVersion := orAPIVersion r, unKind := orKind r, unName := orName r, unNamespace := orNamespace r\<rparr>)"

definition nsPartOfRelease :: "Unstructured \<Rightarrow> string \<Rightarrow> string \<Rightarrow> bool" where
  "nsPartOfRelease u relName relNamespace \<longleftrightarrow>
     annotation u nsHelmReleaseNameAnnotation = relName \<and> annotation u nsHelmReleaseNamespaceAnnotation = relNamespace"

fun nsConnectionLoop ::
  "lib \<Rightarrow> 'r kube \<Rightarrow> string \<Rightarrow> string \<Rightarrow> (string \<times> string) list \<Rightarrow> ConnectionDetail list \<Rightarrow> goerr + (string \<times> string) list"
where
  "nsConnectionLoop L kube relName relNamespace mcd [] = Inr mcd"
| "nsConnectionLoop L kube relName relNamespace mcd (cd # cds) =
     (let r = cdObjectReference cd; ro0 = nsUnstructuredFromObjectRef r in
      case kObject kube ro0 \<lparr>nnNamespace = relNamespace, nnName = unName ro0\<rparr> of
        Inl err \<Rightarrow> Inl (Wrap err errCannotGetObject)
      | Inr ro \<Rightarrow>
     if \<not> cdSkipPartOfReleaseCheck cd \<and> \<not> nsPartOfRelease ro relName relNamespace
     then Inl (ErrNew (nsErrObjectNotPartOfRelease @ sprintObjectReference r))
     else (case pavedGetValue L (unObject ro) (orFieldPath r) of
        Inl err \<Rightarrow> Inl (Wrap err (errFieldPath (orFieldPath r)))
      | Inr v \<Rightarrow>
     let s = sprintV L v in
     case (if orKind r = ''Secret'' \<and> orAPIVersion r = ''v1'' \<and> HasPrefix (orFieldPath r) ''data''
           then base64Decode s else Inr s) of
        Inl err \<Rightarrow> Inl (Wrap err errDecodeSecretData)
      | Inr fv \<Rightarrow> nsConnectionLoop L kube relName relNamespace (put mcd (cdToConnectionSecretKey cd) fv) cds))"

lemma nsGenerateObservation_eq: "nsGenerateObservation = generateObservation"
  by (intro ext) (simp add: nsGenerateObservation_def generateObservation_def Let_def split: option.split)

lemma nsNormalizeConfig_eq: "nsNormalizeConfig = normalizeConfig"
  by (intro ext) (auto simp: nsNormalizeConfig_def normalizeConfig_def split: option.split val.split)

lemma nsIsPending_eq: "nsIsPending = isPending"
  by (intro ext) (simp add: nsIsPending_def isPending_def)

lemma nsUpToDate_eq: "nsUpToDate = nsIsUpToDate"
proof -
  have any: "set mp \<noteq> {} \<and> MAUpdate \<notin> set mp \<and> MAAll \<notin> set mp \<longleftrightarrow> mp \<noteq> [] \<and> \<not> hasAny mp [MAUpdate, MAAll]" for mp
    by (auto simp: hasAny_def)
  show ?thesis
    by (intro ext) (simp add: nsUpToDate_def nsIsUpToDate_def upToDate_def any nsIsPending_eq nsValues_eq nsNormalizeConfig_eq
        nsPatchesChanged_eq nsPatcher_eq bindE_def wrapE_def Let_def split: option.split sum.split del: set_empty)
qed

lemma nsConnectionLoop_eq:
  "nsConnectionLoop L kube relName relNamespace mcd cds =
     connectionLoop (\<lambda>cd. connectionValue L kube (\<lambda>ro. \<lparr>nnNamespace = relNamespace, nnName = unName ro\<rparr>) cd relName relNamespace)
       mcd cds"
proof -
  have ro: "nsUnstructuredFromObjectRef = unstructuredFromObjectRef"
    by (intro ext) (simp add: nsUnstructuredFromObjectRef_def unstructuredFromObjectRef_def Let_def)
  have part: "nsPartOfRelease = partOfRelease"
    by (intro ext) (simp add: nsPartOfRelease_def partOfRelease_def)
  show ?thesis
    by (induction cds arbitrary: mcd) (auto simp: connectionValue_def ro part bindE_def wrapE_def Let_def split: sum.split)
qed

section \<open>release.go\<close>

definition nsWaitTimeout :: "NsRelease \<Rightarrow> Duration" where
  "nsWaitTimeout cr = (case fpWaitTimeout (forProvider cr) of None \<Rightarrow> nsDefaultWaitTimeout | Some d \<Rightarrow> d)"

definition nsReleaseArgs :: "NsRelease \<Rightarrow> Args \<Rightarrow> Args" where
  "nsReleaseArgs cr config =
     (let config = config\<lparr>agNamespace := mdNamespace cr\<rparr>;
          config = (if fpNamespace (forProvider cr) \<noteq> [] then config\<lparr>agNamespace := fpNamespace (forProvider cr)\<rparr> else config)
      in config\<lparr>agWait := fpWait (forProvider cr),
           agTimeout := nsWaitTimeout cr,
           agSkipCRDs := fpSkipCRDs (forProvider cr),
           agInsecureSkipTLSVerify := fpInsecureSkipTLSVerify (forProvider cr),
           agPlainHTTP := fpPlainHTTP (forProvider cr),
           agTakeOwnership := (fpTakeOwnership (forProvider cr) \<and> \<not> obsOwnershipTaken (atProvider cr)),
           agMaxHistory := fpMaxHistory (forProvider cr),
           agSSAForceConflicts := fpSSAForceConflicts (forProvider cr)\<rparr>)"

definition nsRollBackEnabled :: "NsRelease \<Rightarrow> bool" where
  "nsRollBackEnabled cr \<longleftrightarrow> spRollbackRetriesLimit (rlSpec cr) \<noteq> None"

definition nsShouldRollBack :: "NsRelease \<Rightarrow> bool" where
  "nsShouldRollBack cr \<longleftrightarrow>
     nsRollBackEnabled cr
     \<and> (stSynced (rlStatus cr) \<and> obsState (atProvider cr) = StatusFailed
        \<or> obsState (atProvider cr) = StatusPendingInstall
        \<or> obsState (atProvider cr) = StatusPendingUpgrade)"

definition nsRollBackLimitReached :: "NsRelease \<Rightarrow> goerr + bool" where
  "nsRollBackLimitReached cr =
     (case spRollbackRetriesLimit (rlSpec cr) of
        None \<Rightarrow> Inl nilDereference
      | Some limit \<Rightarrow> Inr (sint limit \<le> sint (stFailed (rlStatus cr))))"

text \<open>The struct returned last; its up-to-date field is evaluated from left to right.\<close>

definition nsObserved ::
  "NsRelease \<Rightarrow> (string \<times> string) list \<Rightarrow> Managed \<times> (goerr + ExternalObservation)" where
  "nsObserved cr cd =
     (MgNamespaced cr,
      case (if \<not> stSynced (rlStatus cr) then Inr False
            else if \<not> nsShouldRollBack cr then Inr True
            else nsRollBackLimitReached cr) of
        Inl err \<Rightarrow> Inl err
      | Inr u \<Rightarrow> Inr \<lparr>eoResourceExists = True, eoResourceUpToDate = u, eoConnectionDetails = cd\<rparr>)"

definition nsObserveCode :: "NsExternal \<Rightarrow> Managed \<Rightarrow> Managed \<times> (goerr + ExternalObservation)" where
  "nsObserveCode E mg =
     (case mg of
        MgNamespaced cr \<Rightarrow>
     (case hcGetLastRelease (heHelm E) (mdExternalName cr) of
        Inl err \<Rightarrow>
          if IsReleaseNotFound err
          then (mg, Inr \<lparr>eoResourceExists = False, eoResourceUpToDate = False, eoConnectionDetails = []\<rparr>)
          else (mg, Inl (Wrap err nsErrFailedToGetLastRelease))
      | Inr None \<Rightarrow> (mg, Inl (ErrNew nsErrLastReleaseIsNil))
      | Inr (Some rel) \<Rightarrow>
     let lastDigest = obsDigest (atProvider cr);
         cr = mapObs (\<lambda>_. nsGenerateObservation rel) cr;
         cr = mapObs (\<lambda>o'. o'\<lparr>obsDigest := lastDigest\<rparr>) cr in
     if mdDeleted cr
     then (MgNamespaced cr, Inr \<lparr>eoResourceExists = True, eoResourceUpToDate = False, eoConnectionDetails = []\<rparr>)
     else (case nsUpToDate (heLib E) (heLocalKube E) (rlSpec cr) rel (rlStatus cr) (mdNamespace cr) of
        Inl err \<Rightarrow> (MgNamespaced cr, Inl (Wrap err nsErrFailedToCheckIfUpToDate))
      | Inr s \<Rightarrow>
     let cr = mapStatus (\<lambda>st. st\<lparr>stSynced := s\<rparr>) cr in
     if obsState (atProvider cr) = StatusDeployed \<and> s
     then (let cr = mapStatus (\<lambda>st. st\<lparr>stFailed := 0\<rparr>) cr in
           case nsConnectionLoop (heLib E) (heKube E) (hrName rel) (hrNamespace rel) [] (spConnectionDetails (rlSpec cr)) of
             Inl err \<Rightarrow> (MgNamespaced cr, Inl (Wrap err errCannotGetConnectionDetails))
           | Inr cd \<Rightarrow>
               let cr = (if obsDigest (atProvider cr) = []
                         then mapObs (\<lambda>o'. o'\<lparr>obsDigest := csDigest (chartOf cr)\<rparr>) cr else cr)
               in nsObserved (mapStatus (\<lambda>st. st\<lparr>stReady := Some Available\<rparr>) cr) cd)
     else nsObserved (mapStatus (\<lambda>st. st\<lparr>stReady := Some Unavailable\<rparr>) cr) []))
      | _ \<Rightarrow> (mg, Inl (ErrNew nsErrNotRelease)))"

text \<open>
  Late initialization, with \<open>needsUpdate\<close>: the name, then the version. The chart's metadata is dereferenced
  only when one of them is needed.
\<close>

definition nsLateInit :: "NsRelease \<Rightarrow> Chart \<Rightarrow> goerr + (NsRelease \<times> bool)" where
  "nsLateInit cr chart =
     (let mp = set (spManagementPolicies (rlSpec cr));
          version = (\<lambda>cr needsUpdate.
            if csVersion (chartOf cr) = [] \<and> csDigest (chartOf cr) = []
            then (case chMetadata chart of
                    None \<Rightarrow> Inl nilDereference
                  | Some m \<Rightarrow> Inr (mapChart (\<lambda>c. c\<lparr>csVersion := cmVersion m\<rparr>) cr, True))
            else Inr (cr, needsUpdate)) in
      if mp = {} \<or> MALateInitialize \<in> mp \<or> MAAll \<in> mp
      then (if csName (chartOf cr) = []
            then (case chMetadata chart of
                    None \<Rightarrow> Inl nilDereference
                  | Some m \<Rightarrow> version (mapChart (\<lambda>c. c\<lparr>csName := cmName m\<rparr>) cr) True)
            else version cr False)
      else Inr (cr, False))"

definition nsDeployCode ::
  "NsExternal \<Rightarrow> NsRelease \<Rightarrow> deployAction \<Rightarrow> NsRelease effect list \<times> NsRelease \<times> goerr option" where
  "nsDeployCode E cr action =
     (case nsValues (heLib E) (heLocalKube E) (fpValuesSpec (forProvider cr)) (mdNamespace cr) of
        Inl err \<Rightarrow> ([], cr, Some (Wrap err nsErrFailedToComposeValues))
      | Inr cv \<Rightarrow>
     (case ResolveNamespaced (heAuth E) (rsKube (NewResolver (heLocalKube E))) cr of
        Inl err \<Rightarrow> ([], cr, Some (Wrap err nsErrFailedToGetRepoCreds))
      | Inr creds \<Rightarrow>
     (case paGetFromSpec (hePatch E) (heLocalKube E, mdNamespace cr) (fpPatchesFrom (forProvider cr)) of
        Inl err \<Rightarrow> ([], cr, Some (Wrap err nsErrFailedToLoadPatches))
      | Inr p \<Rightarrow>
     (case hcPullAndLoadChart (heHelm E) (MgNamespaced cr) creds of
        Inl err \<Rightarrow> ([EPull creds], cr, Some err)
      | Inr chart \<Rightarrow>
     (case nsLateInit cr chart of
        Inl err \<Rightarrow> ([EPull creds], cr, Some err)
      | Inr (cr, needsUpdate) \<Rightarrow>
     (let es = (if needsUpdate then [EPull creds, EUpdateCR cr] else [EPull creds]) in
      case (if needsUpdate then kUpdate (heLocalKube E) cr else Inr cr) of
        Inl err \<Rightarrow> (es, cr, Some (Wrap err nsErrFailedToLateInitialize))
      | Inr cr \<Rightarrow>
     (let name = mdExternalName cr;
          es = es @ [case action of InstallAction \<Rightarrow> EInstall name chart cv p | UpgradeAction \<Rightarrow> EUpgrade name chart cv p] in
      case (case action of InstallAction \<Rightarrow> hcInstall (heHelm E) | UpgradeAction \<Rightarrow> hcUpgrade (heHelm E)) name chart cv p of
        Inl err \<Rightarrow> (es, cr, Some err)
      | Inr None \<Rightarrow> (es, cr, Some (ErrNew nsErrLastReleaseIsNil))
      | Inr (Some rel) \<Rightarrow>
     (case paShaOf (hePatch E) p of
        Inl err \<Rightarrow> (es, cr, Some (Wrap err nsErrFailedToUpdatePatchSha))
      | Inr sha \<Rightarrow>
     (let cr = mapStatus (\<lambda>st. st\<lparr>stPatchesSha := sha\<rparr>) cr;
          cr = mapObs (\<lambda>_. nsGenerateObservation rel) cr;
          cr = mapObs (\<lambda>o'. o'\<lparr>obsDigest := csDigest (chartOf cr)\<rparr>) cr in
      if fpTakeOwnership (forProvider cr) then (es, mapObs (\<lambda>o'. o'\<lparr>obsOwnershipTaken := True\<rparr>) cr, None)
      else (es, cr, None))))))))))"

definition nsMakeNamespace :: "'r kube \<Rightarrow> string \<Rightarrow> goerr option" where
  "nsMakeNamespace kube nm =
     (case kCreateNamespace kube nm [(nsHelmNamespaceLabel, nsHelmProviderName)] of
        Some err \<Rightarrow> if IsAlreadyExists err then None else Some err
      | None \<Rightarrow> None)"

definition nsCreateCode :: "NsExternal \<Rightarrow> Managed \<Rightarrow> NsRelease effect list \<times> Managed \<times> goerr option" where
  "nsCreateCode E mg =
     (case mg of
        MgNamespaced cr \<Rightarrow>
          let ns = fpNamespace (forProvider cr);
              made = [ECreateNamespace ns [(nsHelmNamespaceLabel, nsHelmProviderName)]] in
          if fpSkipCreateNamespace (forProvider cr)
          then (case nsDeployCode E cr InstallAction of
                  (es, cr, err) \<Rightarrow> (es, MgNamespaced cr, WrapNil err nsErrFailedToInstall))
          else (case nsMakeNamespace (heKube E) ns of
                  Some err \<Rightarrow> (made, mg, Some (Wrap err nsErrFailedToCreateNamespace))
                | None \<Rightarrow> (case nsDeployCode E cr InstallAction of
                    (es, cr, err) \<Rightarrow> (made @ es, MgNamespaced cr, WrapNil err nsErrFailedToInstall)))
      | _ \<Rightarrow> ([], mg, Some (ErrNew nsErrNotRelease)))"

definition nsUpdateCode :: "NsExternal \<Rightarrow> Managed \<Rightarrow> NsRelease effect list \<times> Managed \<times> goerr option" where
  "nsUpdateCode E mg =
     (case mg of
        MgNamespaced cr \<Rightarrow>
          if nsShouldRollBack cr then
            (case nsRollBackLimitReached cr of
               Inl err \<Rightarrow> ([], mg, Some err)
             | Inr reached \<Rightarrow>
                 if \<not> reached then
                   (let cr = mapStatus (\<lambda>st. st\<lparr>stFailed := stFailed st + 1\<rparr>) cr; name = mdExternalName cr in
                    if obsRevision (atProvider cr) = 1
                    then ([EUninstall name], MgNamespaced cr, hcUninstall (heHelm E) name)
                    else ([ERollback name], MgNamespaced cr, hcRollback (heHelm E) name))
                 else ([], mg, None))
          else (case nsDeployCode E cr UpgradeAction of
                  (es, cr, err) \<Rightarrow> (es, MgNamespaced cr, WrapNil err nsErrFailedToUpgrade))
      | _ \<Rightarrow> ([], mg, Some (ErrNew nsErrNotRelease)))"

definition nsDeleteCode :: "NsExternal \<Rightarrow> Managed \<Rightarrow> NsRelease effect list \<times> Managed \<times> goerr option" where
  "nsDeleteCode E mg =
     (case mg of
        MgNamespaced cr \<Rightarrow>
          ([EUninstall (mdExternalName cr)], mg, WrapNil (hcUninstall (heHelm E) (mdExternalName cr)) nsErrFailedToUninstall)
      | _ \<Rightarrow> ([], mg, Some (ErrNew nsErrNotRelease)))"

text \<open>\<open>Disconnect\<close> of both packages.\<close>

definition Disconnect :: "ClusterExternal \<Rightarrow> goerr option" where "Disconnect E = None"
definition nsDisconnect :: "NsExternal \<Rightarrow> goerr option" where "nsDisconnect E = None"

type_synonym 'cfg NsConnector = "(NsRelease, 'cfg) connector"

definition nsConnectCode :: "'cfg NsConnector \<Rightarrow> Managed \<Rightarrow> usage list \<times> (goerr + NsExternal)" where
  "nsConnectCode c mg =
     (case mg of
        MgNamespaced cr \<Rightarrow>
          (case ResolveProviderConfig (coConfig c) mg of
             (us, Inl err) \<Rightarrow> (us, Inl (Wrap err errResolveProviderConfig))
           | (us, Inr pcSpec) \<Rightarrow>
          (case coBuilder c pcSpec of
             Inl err \<Rightarrow> (us, Inl (Wrap err nsErrBuildKubeForProviderConfig))
           | Inr (k, rc) \<Rightarrow>
          (case coNewHelm c rc (nsReleaseArgs cr) of
             Inl err \<Rightarrow> (us, Inl (Wrap err nsErrNewHelmClient))
           | Inr h \<Rightarrow> (us, Inr \<lparr>heLib = coLib c, heAuth = coAuth c, heLocalKube = coClient c, heKube = k,
               heHelm = h, hePatch = nsPatcher (coLib c)\<rparr>))))
      | _ \<Rightarrow> ([], Inl (ErrNew nsErrNotRelease)))"

section \<open>The instances are this code\<close>

lemma nsWaitTimeout_eq: "nsWaitTimeout cr = waitTimeout cr"
  by (simp add: nsWaitTimeout_def waitTimeout_def split: option.split)

lemma nsReleaseArgs_eq: "nsReleaseArgs = nsWithRelease"
  by (intro ext) (simp add: nsReleaseArgs_def nsWithRelease_def nsWaitTimeout_eq Let_def)

lemma nsShouldRollBack_eq: "nsShouldRollBack cr = shouldRollBack cr"
  by (simp add: nsShouldRollBack_def shouldRollBack_def nsRollBackEnabled_def rollBackEnabled_def disj_assoc)

lemma nsRollBackLimitReached_eq: "nsRollBackLimitReached cr = rollBackLimitReached cr"
  by (simp add: nsRollBackLimitReached_def rollBackLimitReached_def split: option.split)

lemma nsObserved_eq: "nsObserved cr cd = (case finishObserve cr cd of (cr', r) \<Rightarrow> (MgNamespaced cr', r))"
  by (simp add: nsObserved_def finishObserve_def resourceUpToDate_def nsShouldRollBack_eq nsRollBackLimitReached_eq
      bindE_def split: sum.split)

lemma nsObserveCode_eq: "nsObserveCode E mg = nsObserve E mg"
  by (cases mg)
    (simp_all add: nsObserveCode_def nsObserve_def observeWith_def nsScope_def nsObserved_eq nsUpToDate_eq nsGenerateObservation_eq
      nsConnectionLoop_eq nsConnectionDetails_def Let_def split: sum.split option.split if_splits)

lemma nsLateInit_eq: "nsLateInit cr chart = lateInitialize cr chart"
proof -
  have mp: "set mp = {} \<or> MALateInitialize \<in> set mp \<or> MAAll \<in> set mp \<longleftrightarrow> mp = [] \<or> hasAny mp [MALateInitialize, MAAll]" for mp
    by (auto simp: hasAny_def)
  show ?thesis
    by (simp add: nsLateInit_def lateInitialize_def shouldLateInit_def mp bindE_def Let_def split: option.split del: set_empty)
qed

lemma nsDeployCode_eq: "nsDeployCode E cr action = nsDeploy E cr action"
  by (cases action)
    (simp_all add: nsDeployCode_def nsDeploy_def deployWith_def nsScope_def nsValues_eq nsLateInit_eq recordDeployment_def
      nsGenerateObservation_eq NewResolver_def Let_def split: sum.split option.split prod.split)

lemma nsMakeNamespace_eq: "nsMakeNamespace kube nm = nsCreateNamespace kube nm"
  by (simp add: nsMakeNamespace_def nsCreateNamespace_def split: option.split)

lemma nsCreateCode_eq: "nsCreateCode E mg = nsCreate E mg"
  by (cases mg) (simp_all add: nsMakeNamespace_eq nsCreateCode_def nsCreate_def nsDeployCode_eq Let_def split: option.split prod.split)

lemma nsUpdateCode_eq: "nsUpdateCode E mg = nsUpdateRelease E mg"
  by (cases mg)
    (simp_all add: nsUpdateCode_def nsUpdateRelease_def updateWith_def nsScope_def nsShouldRollBack_eq nsRollBackLimitReached_eq
      nsDeployCode_eq nsDeploy_def Let_def split: sum.split bool.split prod.split)

lemma nsDeleteCode_eq: "nsDeleteCode E mg = nsDelete E mg"
  by (cases mg) (simp_all add: nsDeleteCode_def nsDelete_def deleteWith_def)

lemma nsConnectCode_eq: "nsConnectCode c mg = nsConnect c mg"
  by (cases mg) (simp_all add: nsConnectCode_def nsConnect_def nsReleaseArgs_eq nsPatcher_eq bindE_def wrapE_def
      split: sum.split prod.split)

lemma nsShaOf_eq: "nsShaOf L ps = shaOf L ps"
  by (simp add: nsShaOf_def shaOf_def bindE_def)

text \<open>The edited copy has not drifted. Written out from its own files, the namespaced package merges values, hashes
  patches, normalizes configs, generates observations and decides on rollbacks like the cluster package,
  and its Observe, Create, Update, Delete and Connect are, on every managed resource, with every Helm client and
  API server and on every error path, the handlers of the namespaced scope that the other properties are about.\<close>

lemma namespaced_code_has_not_drifted:
  "nsMergeMaps a b = mergeMaps a b \<and> nsShaOf L ps = shaOf L ps \<and> nsRepoCreds kube ns ref = nsRepoCredsFromSecret kube ns ref
    \<and> nsNormalizeConfig cfg = normalizeConfig cfg
    \<and> nsGenerateObservation rel = generateObservation rel \<and> nsIsPending st = isPending st
    \<and> nsShouldRollBack cr = shouldRollBack cr \<and> nsRollBackLimitReached cr = rollBackLimitReached cr
    \<and> nsObserveCode E mg = nsObserve E mg \<and> nsCreateCode E mg = nsCreate E mg \<and> nsUpdateCode E mg = nsUpdateRelease E mg
    \<and> nsDeleteCode E mg = nsDelete E mg \<and> nsConnectCode c mg = nsConnect c mg"
  by (simp add: nsMergeMaps_eq nsShaOf_eq nsRepoCreds_eq nsNormalizeConfig_eq nsGenerateObservation_eq nsIsPending_eq nsShouldRollBack_eq
      nsRollBackLimitReached_eq nsObserveCode_eq nsCreateCode_eq nsUpdateCode_eq nsDeleteCode_eq nsConnectCode_eq)

end
