(* ===== verification/Spec2Isabelle.thy ===== *)
theory Spec2Isabelle
  imports Data_Properties Release_Properties Cache_Properties Setup_Properties Memory_Properties Namespaced_Code Provider_Start
begin

text \<open>
  A verification development for provider-helm, the Crossplane provider that deploys Helm charts.

  The program. A user writes a \<open>Release\<close> (a chart, values, patches); the managed reconciler of
  Crossplane calls, for every release and over and over, \<open>Connect\<close> and then \<open>Observe\<close>, and by what
  that reports \<open>Create\<close>, \<open>Update\<close> or \<open>Delete\<close> of the external client in
  \<open>src/pkg/controller/{cluster,namespaced}/release/release.go\<close>. These compose the values from the
  specification, secrets and config maps (\<open>values.go\<close>, \<open>data.go\<close>), load the Kustomize patches
  (\<open>patch.go\<close>), resolve credentials for the chart registry (\<open>src/pkg/clients/registryauth\<close>), pull
  the chart into a cache directory and run Helm's actions (\<open>src/pkg/clients/helm/client.go\<close>), and
  compare what Helm has stored with what is asked for (\<open>observe.go\<close>). The state lives in the
  status of the release (the observation, the digest of the patches, the retry counter, the synced
  flag), in Helm's storage, and in the cache directory.

  The theories and the code.

  \<^item> \<open>Prelude\<close>: Go's error values (\<open>goerr\<close>: sentinel errors, errors of the API server with their
    reason, wrapped errors, panics), the error monad (\<open>bindE\<close>, \<open>wrapE\<close>) and association lists.
  \<^item> \<open>Go_Strings\<close>, \<open>Go_Paths\<close>, \<open>Go_Url\<close>, \<open>Go_Encoding\<close>, \<open>Go_Sha256\<close>, \<open>Go_Values\<close>: what the code uses
    of Go's standard library, written out: \<open>strings\<close>, \<open>path\<close> and \<open>path/filepath\<close>, \<open>net/url\<close>,
    \<open>encoding/base64\<close> and \<open>%v\<close>, \<open>crypto/sha256\<close> on 32-bit words, and the values of
    \<open>map[string]interface{}\<close> with the round trip through \<open>encoding/json\<close>.
  \<^item> \<open>Api_Types\<close>: the API types of both scopes (\<open>src/apis/{cluster,namespaced}/release/v1beta1/types.go\<close>),
    the Kubernetes client and the libraries (\<open>kube\<close>, \<open>lib\<close>) as records of their answers.
  \<^item> \<open>Data_Source\<close> (\<open>data.go\<close>), \<open>Chart_Values\<close> (\<open>values.go\<close>), \<open>Patches\<close> (\<open>patch.go\<close>),
    \<open>Registry_Auth\<close> (\<open>auth.go\<close>, \<open>chart.go\<close>), \<open>Release_Observe\<close> (\<open>observe.go\<close>),
    \<open>Provider_Config\<close> (\<open>src/pkg/clients/helm/helm.go\<close>). The spec of a provider config is a type of
    provider-kubernetes; a record has the fields the schemas under \<open>src/package/crds\<close> document, and how it is
    written as JSON and read back is a parameter.
  \<^item> \<open>Release_Handlers\<close> and \<open>Release_Controllers\<close> (\<open>release.go\<close>): the handlers over a \<open>scope\<close>, the
    record of the lookups in which the two controllers differ, and the two controllers as its
    instances. A handler returns the effects it had (in order, the failing ones included), the
    release it mutated and its result or error. \<open>Namespaced_Code\<close> is the package of the namespaced
    controller once more, function by function from its own files, \<open>Namespaced_Constants\<close> its constants;
    it is a check of the model (the two transcriptions agree) and no property rests on it.
  \<^item> \<open>Helm_Cache\<close> and \<open>Helm_Client\<close> (\<open>client.go\<close>, \<open>args.go\<close>, \<open>repocreds.go\<close>): references, digests, the
    cache directory on a file system that is a finite map, pulling, and the methods of the client.
    A pull writes into the destination directory and into the content cache that the client is built with.
    Calls that leave the process are recorded in a trace. \<open>Cache_Steps\<close> cuts pulling, checking and
    loading into system calls and interleaves any number of workers (\<open>Interleaving\<close>), \<open>Client_Start\<close>
    does so for \<open>NewClient\<close>, and \<open>Reconcile_Steps\<close> puts the two together. \<open>Post_Render\<close> (\<open>kustomize.go\<close>) uses the same
    file system; \<open>Helm_Log\<close> and \<open>Rest_Getter\<close> are the adapters \<open>logger.go\<close> and \<open>restclientgetter.go\<close>,
    the latter on a store of shared configs.
  \<^item> \<open>Provider_Scheme\<close> (\<open>register.go\<close> and \<open>helm.go\<close> of \<open>src/apis\<close>) and \<open>Provider_Setup\<close> (\<open>Setup\<close> and
    \<open>SetupGated\<close> under \<open>src/pkg/controller\<close>) and \<open>Provider_Main\<close> (\<open>src/cmd/provider/main.go\<close>):
    registering the types and starting the controllers, as the sequence of calls on scheme, manager
    and gate, and \<open>main\<close> with the options it derives from its flags. A function that \<open>SetupGated\<close> registers
    is a value of \<open>gateTask\<close>, with the manager, the options and the timeout that it captures; \<open>runTask\<close> is
    what the gate runs later. \<open>Provider_Start\<close> is what comes before: the boot check
    (\<open>src/internal/bootcheck\<close>), the application with its flags as declared to kingpin, and the loggers.
  \<^item> \<open>Go_Memory\<close>, \<open>Deep_Copy\<close> and \<open>Object_Memory\<close>: Go's memory as blocks of cells with pointers and
    slices, what makes a method a deep copy, and what the generated files have in common;
    \<open>Release_Memory\<close>, \<open>Release_Packages\<close> and \<open>Config_Memory\<close> the methods of
    \<open>zz_generated.deepcopy.go\<close> and the lists of all six packages of \<open>src/apis\<close>. The objects are those of
    \<open>Api_Types\<close> with their pointers and slices. \<open>Object_Access\<close> has their accessors
    (\<open>zz_generated.managed.go\<close>, \<open>zz_generated.pc.go\<close>, \<open>zz_generated.pcu.go\<close>), \<open>Object_Calls\<close> sequences of them.

  What the lemmas show.

  \<^item> Data: the locale \<open>data_source\<close> collects what the two lookups promise (which objects they read,
    that they do not panic); composing values and loading patches are proved once over it and
    interpreted for both scopes. \<open>mergeMaps\<close> is characterised by the value at every path. The locale
    \<open>patch_hasher\<close> has the laws of the patch digest.
  \<^item> Handlers: \<open>Release_Facts\<close> has the case analysis of \<open>Observe\<close> and of a deployment that every other
    proof uses; \<open>Release_Retries\<close> the step relation of the handlers (\<open>handler_step\<close>) on the release in memory
    and the status stored on the server, reachability and the invariant of the retry counter; \<open>Release_Scope\<close> the contract between the check of \<open>Observe\<close>
    and a deployment (\<open>release_scope\<close>, an extension of \<open>patch_hasher\<close>), from which a deployment
    settles; \<open>Release_Stable\<close> that an observation is a fixed point of the next; \<open>Release_Refinement\<close> the simulation of two scopes (\<open>scope_view\<close>, extended
    by \<open>observe_view\<close> for Observe and \<open>deploy_view\<close> for deployments) and its instances: the namespaced
    controller is the cluster controller on the qualified release (\<open>qualifyRelease\<close>; for Observe
    \<open>qualifyReleaseIn\<close>, with the connection details in the namespace of the Helm release).
  \<^item> Client: \<open>Helm_Cache_Facts\<close> shows that nothing outside the chart cache and the content cache is changed
    and nothing outside the chart cache loaded, that no temporary file is left when directories can be
    removed, that a chart is pulled at most once, and how a registry reference is read. \<open>Cache_Steps\<close> shows that
    the sequential calls are runs of one worker, \<open>Cache_Safety\<close> the invariant of all workers: each owns
    its temporary directory, and a file gets its place in the cache only when it is complete. The
    locale \<open>workers\<close> is the rely/guarantee rule for this; it is interpreted on the cache, on \<open>NewClient\<close>
    and, with the contracts of these two, on whole reconciles.
  \<^item> Deep copies: the locale \<open>deep_copy\<close> says that a copy means the same, in new blocks, and that
    meaning depends on the blocks an object occupies only; from this, copy and original are
    independent. Pointers, slices and structs of deep copies are deep copies, so that each generated
    method is an instance.
  \<^item> Accessors: a field is a get/put pair with the laws of \<open>struct_field\<close>, that fields of embedded structs
    inherit (\<open>embedded_field\<close>); \<open>accessor\<close> gives the methods on a pointer their laws, and
    \<open>managed_object\<close> what sequences of setters do to an object that its holder owns, as after a deep copy.
  \<^item> \<open>Data_Properties\<close>, \<open>Release_Properties\<close>, \<open>Client_Properties\<close>, \<open>Cache_Properties\<close>, \<open>Setup_Properties\<close> and
    \<open>Memory_Properties\<close> state the properties of the program, numbered C1, C2 and so on in the order of
    importance, each with a witness when it has a hypothesis; \<open>Sample_World\<close> is the concrete world of
    the witnesses.

  Bounds. Every definition is total; there is no fuel. Loops over lists are structural recursions;
  \<open>trimLeading\<close> and \<open>coerceUTF8\<close> end because their argument gets shorter. The retry counter and its
  limit are 32-bit words compared as signed numbers. Numbers in values are integers or rationals,
  with the rounding of \<open>float64\<close> written out; nesting is bounded as in \<open>encoding/json\<close>.

  Parameters and what is relied on. Helm (its actions, \<open>registry.IsOCI\<close>, the chart loader,
  \<open>strvals\<close>), \<open>sigs.k8s.io/yaml\<close>, \<open>equality.Semantic.DeepEqual\<close>, Kustomize's patch type,
  \<open>fieldpath\<close>, \<open>go-containerregistry\<close> and the API server are not part of the repository and are
  arguments of the definitions. Properties that rely on them say so in named hypotheses:
  \<open>helmEchoes\<close> (Helm returns the chart and the values it was given), \<open>pullsAsked\<close> (a pulled chart
  is the one asked for), \<open>lawfulClusterManaged\<close> and \<open>lawfulConditions\<close> (different fields of a library's struct
  are independent; its \<open>SetConditions\<close> replaces conditions by type and writes only to its own slice), \<open>deepLibs\<close> and \<open>deepConfigLibs\<close> (the \<open>DeepCopyInto\<close> of the structs that
  libraries define is a deep copy), \<open>keepsObject\<close> (an update of the object stores and answers with the metadata
  and the specification it was sent; the status of the answer is not assumed, since the resource has a
  status subresource), \<open>answersStored\<close> (that status is the one stored on the server; part of
  \<open>handler_step\<close>), \<open>readsByKey\<close> (what is read depends on the key, not on the namespace of the object to be filled),
  \<open>wellBehaved\<close> (temporary names are new, files pulled into the destination directory have plain names, the
  other writes of a pull are in the content cache), \<open>libNoPanic\<close> and
  \<open>kubeNoPanic\<close>. Each is shown to hold of \<open>Sample_World\<close>, or of the structs of \<open>Memory_Properties\<close>.

  Not modelled. Logging and contexts have no effect on results and are left out. The parsing of the
  command line and of the environment variables is kingpin's; their names are documented by \<open>flagEnvar\<close>. A copied slice has no capacity beyond its length.
  The directives for code generation (\<open>src/generate\<close>) are not part of the program. Reads of
  one handler see one snapshot of the cluster; handlers of different releases share only the cache
  directory, and only there their interleaving is modelled.
\<close>

end
